(* ===== verification/Cpak_Prelude.thy ===== *)
theory Cpak_Prelude
  imports Main "HOL-Library.List_Lexorder" "HOL-Library.Char_ord" "HOL-Library.Sublist"
    "HOL-Library.Word"
begin

text \<open>
  The vocabulary every component shares: the fragment of Go's \<^verbatim>\<open>strings\<close> package the
  sources use, error results, validation loops that stop at the first failure, and
  insertion-ordered sets.  A Go string is a byte string and is modelled as \<^typ>\<open>string\<close>;
  Go compares strings bytewise, which is the lexicographic order of
  \<^verbatim>\<open>HOL-Library.List_Lexorder\<close> over \<^verbatim>\<open>HOL-Library.Char_ord\<close>.  A Go \<^verbatim>\<open>error\<close> that may be nil
  is an \<open>'e option\<close> (\<open>None\<close> is nil); a function that returns a value and an error is an
  \<open>'e + 'a\<close>.
\<close>

type_synonym u32 = "32 word"
type_synonym u64 = "64 word"

named_theorems go_strings \<open>facts about the modelled fragment of package strings\<close>
named_theorems validation \<open>characterisations of validation loops\<close>

section \<open>Error results\<close>

type_synonym 'e err = "'e option"

definition and_then :: "'e err \<Rightarrow> 'e err \<Rightarrow> 'e err" where
  "and_then a b = (case a of None \<Rightarrow> b | Some e \<Rightarrow> Some e)"

fun first_error :: "('a \<Rightarrow> 'e err) \<Rightarrow> 'a list \<Rightarrow> 'e err" where
  "first_error f [] = None"
| "first_error f (x # xs) = (case f x of None \<Rightarrow> first_error f xs | Some e \<Rightarrow> Some e)"

definition fail_if :: "bool \<Rightarrow> 'e \<Rightarrow> 'e err" where
  "fail_if b e = (if b then Some e else None)"

definition bind_result :: "'e + 'a \<Rightarrow> ('a \<Rightarrow> 'e + 'b) \<Rightarrow> 'e + 'b" where
  "bind_result r f = (case r of Inl e \<Rightarrow> Inl e | Inr a \<Rightarrow> f a)"

definition result_of :: "'e err \<Rightarrow> 'a \<Rightarrow> 'e + 'a" where
  "result_of e a = (case e of None \<Rightarrow> Inr a | Some x \<Rightarrow> Inl x)"

lemma and_then_None [validation]: "and_then a b = None \<longleftrightarrow> a = None \<and> b = None"
  by (simp add: and_then_def split: option.splits)

lemma first_error_None [validation]: "first_error f xs = None \<longleftrightarrow> (\<forall>x\<in>set xs. f x = None)"
  by (induction xs) (auto split: option.splits)

lemma fail_if_None [validation]: "fail_if b e = None \<longleftrightarrow> \<not> b"
  by (simp add: fail_if_def)

lemma bind_result_Inr [validation]:
  "bind_result r f = Inr b \<longleftrightarrow> (\<exists>a. r = Inr a \<and> f a = Inr b)"
  by (auto simp: bind_result_def split: sum.splits)

lemma result_of_Inr [validation]: "result_of e a = Inr b \<longleftrightarrow> e = None \<and> a = b"
  by (auto simp: result_of_def split: option.splits)

section \<open>Lists without repetition\<close>

text \<open>
  Go keeps a \<^verbatim>\<open>map[string]struct{}\<close> beside a loop to notice a repeated entry.  The
  model threads the entries already seen.
\<close>

fun first_repeat :: "'a list \<Rightarrow> 'a list \<Rightarrow> 'a option" where
  "first_repeat seen [] = None"
| "first_repeat seen (x # xs) = (if x \<in> set seen then Some x else first_repeat (x # seen) xs)"

lemma first_repeat_None [validation]:
  "first_repeat seen xs = None \<longleftrightarrow> distinct xs \<and> set xs \<inter> set seen = {}"
  by (induction xs arbitrary: seen) auto

text \<open>
  A validation loop with a running \<open>seen\<close> map: each entry is checked on its own, then
  against the keys of the entries before it, then recorded.
\<close>

fun check_unique :: "('a \<Rightarrow> 'e err) \<Rightarrow> ('a \<Rightarrow> 'k) \<Rightarrow> ('a \<Rightarrow> 'e) \<Rightarrow> 'k list \<Rightarrow> 'a list \<Rightarrow> 'e err" where
  "check_unique f k d seen [] = None"
| "check_unique f k d seen (x # xs) =
     (case f x of Some e \<Rightarrow> Some e
      | None \<Rightarrow> if k x \<in> set seen then Some (d x) else check_unique f k d (k x # seen) xs)"

lemma check_unique_None_aux:
  "check_unique f k d seen xs = None \<longleftrightarrow>
     (\<forall>x\<in>set xs. f x = None) \<and> distinct (map k xs) \<and> k ` set xs \<inter> set seen = {}"
  by (induction xs arbitrary: seen) (auto split: option.splits)

lemma check_unique_None [validation]:
  "check_unique f k d [] xs = None \<longleftrightarrow> (\<forall>x\<in>set xs. f x = None) \<and> distinct (map k xs)"
  by (simp add: check_unique_None_aux)

section \<open>Package strings\<close>

abbreviation HasPrefix :: "string \<Rightarrow> string \<Rightarrow> bool" where
  "HasPrefix s p \<equiv> prefix p s"

abbreviation HasSuffix :: "string \<Rightarrow> string \<Rightarrow> bool" where
  "HasSuffix s q \<equiv> suffix q s"

definition TrimPrefix :: "string \<Rightarrow> string \<Rightarrow> string" where
  "TrimPrefix s p = (if HasPrefix s p then drop (length p) s else s)"

definition TrimSuffix :: "string \<Rightarrow> string \<Rightarrow> string" where
  "TrimSuffix s q = (if HasSuffix s q then take (length s - length q) s else s)"

fun split_on :: "'a \<Rightarrow> 'a list \<Rightarrow> 'a list list" where
  "split_on c [] = [[]]"
| "split_on c (x # xs) =
     (if x = c then [] # split_on c xs
      else case split_on c xs of [] \<Rightarrow> [[x]] | p # ps \<Rightarrow> (x # p) # ps)"

fun join_with :: "'a \<Rightarrow> 'a list list \<Rightarrow> 'a list" where
  "join_with c [] = []"
| "join_with c [p] = p"
| "join_with c (p # q # ps) = p @ c # join_with c (q # ps)"

text \<open>\<open>strings.Cut\<close> on a one-byte separator: before, after, found.\<close>

fun cut_on :: "'a \<Rightarrow> 'a list \<Rightarrow> 'a list \<times> 'a list \<times> bool" where
  "cut_on c [] = ([], [], False)"
| "cut_on c (x # xs) =
     (if x = c then ([], xs, True) else case cut_on c xs of (b, a, f) \<Rightarrow> (x # b, a, f))"

lemma split_on_not_Nil [simp]: "split_on c xs \<noteq> []"
  by (induction xs) (auto split: list.splits)

lemma split_on_parts [go_strings]: "p \<in> set (split_on c xs) \<Longrightarrow> c \<notin> set p"
  by (induction xs arbitrary: p) (auto split: list.splits if_splits)

lemma split_on_set: "p \<in> set (split_on c xs) \<Longrightarrow> set p \<subseteq> set xs"
proof (induction xs arbitrary: p)
  case Nil
  then show ?case by simp
next
  case (Cons x xs)
  show ?case
  proof (cases "x = c")
    case True
    with Cons show ?thesis by auto
  next
    case False
    obtain q qs where q: "split_on c xs = q # qs" by (cases "split_on c xs") auto
    with Cons.IH have "set q \<subseteq> set xs" "\<And>p. p \<in> set qs \<Longrightarrow> set p \<subseteq> set xs" by auto
    with False q Cons.prems show ?thesis by auto
  qed
qed

lemma join_with_Cons:
  "ps \<noteq> [] \<Longrightarrow> join_with c (p # ps) = p @ c # join_with c ps"
  by (cases ps) auto

lemma join_append:
  "ps \<noteq> [] \<Longrightarrow> qs \<noteq> [] \<Longrightarrow> join_with c (ps @ qs) = join_with c ps @ c # join_with c qs"
proof (induction ps)
  case (Cons p ps)
  then show ?case by (cases ps) (auto simp: join_with_Cons)
qed simp

lemma join_split [simp]: "join_with c (split_on c xs) = xs"
proof (induction xs)
  case Nil
  then show ?case by simp
next
  case (Cons x xs)
  obtain p ps where p: "split_on c xs = p # ps" by (cases "split_on c xs") auto
  with Cons show ?case by (cases ps) auto
qed

lemma split_no_sep [simp]: "c \<notin> set xs \<Longrightarrow> split_on c xs = [xs]"
  by (induction xs) auto

lemma split_append_sep:
  "c \<notin> set p \<Longrightarrow> split_on c (p @ c # xs) = p # split_on c xs"
  by (induction p) auto

lemma split_append:
  "split_on c (p @ c # xs) = split_on c p @ split_on c xs"
proof (induction p)
  case Nil
  then show ?case by simp
next
  case (Cons x p)
  then show ?case by (cases "split_on c p") auto
qed

lemma split_join [simp]:
  "ps \<noteq> [] \<Longrightarrow> (\<forall>p\<in>set ps. c \<notin> set p) \<Longrightarrow> split_on c (join_with c ps) = ps"
proof (induction ps)
  case Nil
  then show ?case by simp
next
  case (Cons p ps)
  then show ?case by (cases ps) (auto simp: join_with_Cons split_append_sep)
qed

lemma TrimPrefix_append [simp]: "TrimPrefix (p @ s) p = s"
  by (simp add: TrimPrefix_def)

lemma TrimSuffix_append [simp]: "TrimSuffix (s @ q) q = s"
  by (simp add: TrimSuffix_def suffix_def)

lemma TrimPrefix_eq [go_strings]: "HasPrefix s p \<Longrightarrow> p @ TrimPrefix s p = s"
  by (auto simp: TrimPrefix_def prefix_def)

lemma TrimSuffix_eq [go_strings]: "HasSuffix s q \<Longrightarrow> TrimSuffix s q @ q = s"
  by (auto simp: TrimSuffix_def suffix_def)

section \<open>Case folding\<close>

text \<open>
  \<^verbatim>\<open>foldASCII\<close>: the ASCII capitals become small letters, every other byte stays what it
  is.  The Go function maps runes; a byte outside ASCII is left alone here, and where the
  input is not valid UTF-8 Go writes the replacement character instead, which every
  pattern of the sources refuses just as it refuses the byte it replaced.
\<close>

definition fold_char :: "char \<Rightarrow> char" where
  "fold_char c = (if CHR ''A'' \<le> c \<and> c \<le> CHR ''Z'' then char_of (of_char c + 32 :: nat) else c)"

definition foldASCII :: "string \<Rightarrow> string" where
  "foldASCII s = map fold_char s"

lemma fold_char_not_upper: "\<not> (CHR ''A'' \<le> fold_char c \<and> fold_char c \<le> CHR ''Z'')"
  by (auto simp: fold_char_def less_eq_char_def)

lemma fold_char_idem [simp]: "fold_char (fold_char c) = fold_char c"
  unfolding fold_char_def [of "fold_char c"] by (rule if_not_P) (rule fold_char_not_upper)

lemma foldASCII_idem [simp]: "foldASCII (foldASCII s) = foldASCII s"
  by (simp add: foldASCII_def)

section \<open>White space\<close>

text \<open>
  The runes \<^verbatim>\<open>unicode.IsSpace\<close> holds of, in UTF-8.
\<close>

definition space_runes :: "string list" where
  "space_runes = [[CHR 0x09], [CHR 0x0A], [CHR 0x0B], [CHR 0x0C], [CHR 0x0D], [CHR 0x20],
     [CHR 0xC2, CHR 0x85], [CHR 0xC2, CHR 0xA0], [CHR 0xE1, CHR 0x9A, CHR 0x80],
     [CHR 0xE2, CHR 0x80, CHR 0x80], [CHR 0xE2, CHR 0x80, CHR 0x81], [CHR 0xE2, CHR 0x80, CHR 0x82],
     [CHR 0xE2, CHR 0x80, CHR 0x83], [CHR 0xE2, CHR 0x80, CHR 0x84], [CHR 0xE2, CHR 0x80, CHR 0x85],
     [CHR 0xE2, CHR 0x80, CHR 0x86], [CHR 0xE2, CHR 0x80, CHR 0x87], [CHR 0xE2, CHR 0x80, CHR 0x88],
     [CHR 0xE2, CHR 0x80, CHR 0x89], [CHR 0xE2, CHR 0x80, CHR 0x8A], [CHR 0xE2, CHR 0x80, CHR 0xA8],
     [CHR 0xE2, CHR 0x80, CHR 0xA9], [CHR 0xE2, CHR 0x80, CHR 0xAF], [CHR 0xE2, CHR 0x81, CHR 0x9F],
     [CHR 0xE3, CHR 0x80, CHR 0x80]]"

text \<open>\<open>strings.TrimSpace\<close>: strip such runes from the left, then from the right.\<close>

function trim_runes :: "string list \<Rightarrow> string \<Rightarrow> string" where
  "trim_runes runes s =
     (case List.find (\<lambda>sp. sp \<noteq> [] \<and> prefix sp s) runes of
        None \<Rightarrow> s | Some sp \<Rightarrow> trim_runes runes (drop (length sp) s))"
  by pat_completeness auto
termination
  by (relation "measure (\<lambda>(runes, s). length s)") (auto simp: find_Some_iff prefix_def)

declare trim_runes.simps [simp del]

definition TrimSpace :: "string \<Rightarrow> string" where
  "TrimSpace s = rev (trim_runes (map rev space_runes) (rev (trim_runes space_runes s)))"

end
