(* ===== verification/Regex.thy ===== *)
theory Regex
  imports Cpak_Prelude
begin

text \<open>
  Regular expressions over bytes.  The sources hold their validation rules as anchored
  Go regular expressions (\<^verbatim>\<open>regexp.MustCompile\<close> with a leading caret and a trailing dollar);
  each of them is transcribed constructor for constructor into \<open>rx\<close>, and
  \<open>matches\<close> decides it by derivatives.  The language \<open>lang\<close> is the specification the
  matcher is proved against; the component proofs reason with \<open>lang\<close>.
\<close>

datatype rx =
    Nothing
  | Eps
  | Cls "(char \<times> char) list"
  | Cat rx rx
  | Alt rx rx
  | Star rx

definition in_cls :: "(char \<times> char) list \<Rightarrow> char \<Rightarrow> bool" where
  "in_cls k c \<longleftrightarrow> list_ex (\<lambda>(lo, hi). lo \<le> c \<and> c \<le> hi) k"

inductive_set iter :: "'a list set \<Rightarrow> 'a list set" for L where
  iter_Nil: "[] \<in> iter L"
| iter_step: "u \<in> L \<Longrightarrow> v \<in> iter L \<Longrightarrow> u @ v \<in> iter L"

primrec lang :: "rx \<Rightarrow> string set" where
  "lang Nothing = {}"
| "lang Eps = {[]}"
| "lang (Cls k) = {[c] | c. in_cls k c}"
| "lang (Cat r s) = {u @ v | u v. u \<in> lang r \<and> v \<in> lang s}"
| "lang (Alt r s) = lang r \<union> lang s"
| "lang (Star r) = iter (lang r)"

section \<open>Deciding the language\<close>

primrec accepts_empty :: "rx \<Rightarrow> bool" where
  "accepts_empty Nothing = False"
| "accepts_empty Eps = True"
| "accepts_empty (Cls k) = False"
| "accepts_empty (Cat r s) = (accepts_empty r \<and> accepts_empty s)"
| "accepts_empty (Alt r s) = (accepts_empty r \<or> accepts_empty s)"
| "accepts_empty (Star r) = True"

fun seq :: "rx \<Rightarrow> rx \<Rightarrow> rx" where
  "seq Nothing s = Nothing"
| "seq Eps s = s"
| "seq r s = Cat r s"

fun alt :: "rx \<Rightarrow> rx \<Rightarrow> rx" where
  "alt Nothing s = s"
| "alt r Nothing = r"
| "alt r s = Alt r s"

primrec after :: "char \<Rightarrow> rx \<Rightarrow> rx" where
  "after c Nothing = Nothing"
| "after c Eps = Nothing"
| "after c (Cls k) = (if in_cls k c then Eps else Nothing)"
| "after c (Cat r s) =
     (if accepts_empty r then alt (seq (after c r) s) (after c s) else seq (after c r) s)"
| "after c (Alt r s) = alt (after c r) (after c s)"
| "after c (Star r) = seq (after c r) (Star r)"

primrec matches :: "rx \<Rightarrow> string \<Rightarrow> bool" where
  "matches r [] = accepts_empty r"
| "matches r (c # cs) = matches (after c r) cs"

lemma accepts_empty_lang: "accepts_empty r \<longleftrightarrow> [] \<in> lang r"
  by (induction r) (auto intro: iter_Nil)

lemma lang_seq [simp]: "lang (seq r s) = lang (Cat r s)"
  by (cases r) auto

lemma lang_alt [simp]: "lang (alt r s) = lang (Alt r s)"
  by (cases r; cases s) auto

lemma iter_Cons_imp: "w \<in> iter L \<Longrightarrow> w = c # cs \<Longrightarrow> \<exists>u v. c # u \<in> L \<and> v \<in> iter L \<and> cs = u @ v"
proof (induction arbitrary: cs rule: iter.induct)
  case iter_Nil
  then show ?case by simp
next
  case (iter_step u v)
  show ?case
  proof (cases u)
    case Nil
    with iter_step show ?thesis by simp
  next
    case (Cons a u')
    with iter_step show ?thesis by auto
  qed
qed

lemma iter_Cons: "c # cs \<in> iter L \<longleftrightarrow> (\<exists>u v. c # u \<in> L \<and> v \<in> iter L \<and> cs = u @ v)"
proof
  assume "c # cs \<in> iter L"
  then show "\<exists>u v. c # u \<in> L \<and> v \<in> iter L \<and> cs = u @ v" by (blast dest: iter_Cons_imp)
next
  assume "\<exists>u v. c # u \<in> L \<and> v \<in> iter L \<and> cs = u @ v"
  then obtain u v where "c # u \<in> L" "v \<in> iter L" "cs = u @ v" by blast
  with iter_step [of "c # u" L v] show "c # cs \<in> iter L" by simp
qed

lemma cat_Cons:
  "c # cs \<in> lang (Cat r s) \<longleftrightarrow>
     (\<exists>u v. c # u \<in> lang r \<and> v \<in> lang s \<and> cs = u @ v) \<or> ([] \<in> lang r \<and> c # cs \<in> lang s)"
  by (auto simp: Cons_eq_append_conv)

lemma after_lang: "cs \<in> lang (after c r) \<longleftrightarrow> c # cs \<in> lang r"
proof (induction r arbitrary: cs)
  case (Cat r s)
  have "cs \<in> lang (Cat (after c r) s) \<longleftrightarrow> (\<exists>u v. c # u \<in> lang r \<and> v \<in> lang s \<and> cs = u @ v)"
    using Cat.IH(1) by auto
  then show ?case using Cat.IH(2) by (simp add: cat_Cons accepts_empty_lang del: lang.simps(4))
next
  case (Star r)
  then show ?case by (auto simp: iter_Cons)
qed (auto split: if_splits)

theorem matches_lang: "matches r s \<longleftrightarrow> s \<in> lang r"
  by (induction s arbitrary: r) (auto simp: accepts_empty_lang after_lang)

section \<open>Derived forms\<close>

definition one :: "char \<Rightarrow> rx" where
  "one c = Cls [(c, c)]"

fun lit :: "string \<Rightarrow> rx" where
  "lit [] = Eps"
| "lit (c # cs) = Cat (one c) (lit cs)"

fun rep :: "nat \<Rightarrow> rx \<Rightarrow> rx" where
  "rep 0 r = Eps"
| "rep (Suc n) r = Cat r (rep n r)"

fun rep_upto :: "nat \<Rightarrow> rx \<Rightarrow> rx" where
  "rep_upto 0 r = Eps"
| "rep_upto (Suc n) r = Alt Eps (Cat r (rep_upto n r))"

definition optional :: "rx \<Rightarrow> rx" where
  "optional r = Alt Eps r"

definition plus :: "rx \<Rightarrow> rx" where
  "plus r = Cat r (Star r)"

text \<open>The bytes a regular expression can consume at all.\<close>

primrec bytes_of :: "rx \<Rightarrow> char \<Rightarrow> bool" where
  "bytes_of Nothing = (\<lambda>_. False)"
| "bytes_of Eps = (\<lambda>_. False)"
| "bytes_of (Cls k) = in_cls k"
| "bytes_of (Cat r s) = (\<lambda>c. bytes_of r c \<or> bytes_of s c)"
| "bytes_of (Alt r s) = (\<lambda>c. bytes_of r c \<or> bytes_of s c)"
| "bytes_of (Star r) = bytes_of r"

lemma iter_bytes: "s \<in> iter L \<Longrightarrow> (\<And>u. u \<in> L \<Longrightarrow> \<forall>c\<in>set u. P c) \<Longrightarrow> \<forall>c\<in>set s. P c"
  by (induction rule: iter.induct) auto

lemma lang_bytes: "s \<in> lang r \<Longrightarrow> \<forall>c\<in>set s. bytes_of r c"
proof (induction r arbitrary: s)
  case (Cat r1 r2)
  then show ?case by fastforce
next
  case (Star r)
  then show ?case using iter_bytes [of s "lang r" "bytes_of r"] by simp
qed auto

lemma matches_bytes: "matches r s \<Longrightarrow> c \<in> set s \<Longrightarrow> bytes_of r c"
  by (auto simp: matches_lang dest: lang_bytes)

lemma lang_cls_Cat: "s \<in> lang (Cat (Cls k) r) \<longleftrightarrow> (\<exists>c t. s = c # t \<and> in_cls k c \<and> t \<in> lang r)"
proof (cases s)
  case Nil
  then show ?thesis by simp
next
  case (Cons a t)
  then show ?thesis by (simp add: cat_Cons del: lang.simps(4))
qed

lemma in_cls_single [simp]: "in_cls [(c, c)] d \<longleftrightarrow> d = c"
  by (auto simp: in_cls_def)

lemma lang_rep_cls: "s \<in> lang (rep n (Cls k)) \<longleftrightarrow> length s = n \<and> (\<forall>c\<in>set s. in_cls k c)"
proof (induction n arbitrary: s)
  case 0
  then show ?case by auto
next
  case (Suc n)
  then show ?case by (cases s) (auto simp: lang_cls_Cat simp del: lang.simps(4))
qed

lemma lang_rep_upto_length:
  "s \<in> lang (rep_upto n (Cls k)) \<longleftrightarrow> length s \<le> n \<and> (\<forall>c\<in>set s. in_cls k c)"
proof (induction n arbitrary: s)
  case 0
  then show ?case by auto
next
  case (Suc n)
  then show ?case by (cases s) (auto simp: lang_cls_Cat simp del: lang.simps(4))
qed

lemma lang_lit_iff [simp]: "t \<in> lang (lit s) \<longleftrightarrow> t = s"
proof (induction s arbitrary: t)
  case Nil
  then show ?case by simp
next
  case (Cons c s)
  then show ?case by (simp add: one_def lang_cls_Cat del: lang.simps(4))
qed

lemma lang_lit_Cat: "s \<in> lang (Cat (lit p) r) \<longleftrightarrow> (\<exists>t. s = p @ t \<and> t \<in> lang r)"
  by auto

lemma bytes_of_rep: "bytes_of (rep n r) c \<Longrightarrow> bytes_of r c"
  by (induction n) auto

lemma bytes_of_rep_upto: "bytes_of (rep_upto n r) c \<Longrightarrow> bytes_of r c"
  by (induction n) auto

lemma lang_star_cls: "s \<in> lang (Star (Cls k)) \<longleftrightarrow> (\<forall>c\<in>set s. in_cls k c)"
proof (induction s)
  case Nil
  then show ?case by (simp add: iter_Nil)
next
  case (Cons a s)
  then show ?case by (auto simp: iter_Cons)
qed

section \<open>Character classes used by the sources\<close>

abbreviation az09 :: "(char \<times> char) list" where
  "az09 \<equiv> [(CHR ''a'', CHR ''z''), (CHR ''0'', CHR ''9'')]"

abbreviation hex_cls :: "(char \<times> char) list" where
  "hex_cls \<equiv> [(CHR ''0'', CHR ''9''), (CHR ''a'', CHR ''f'')]"

abbreviation ident_cls :: "(char \<times> char) list" where
  "ident_cls \<equiv> [(CHR ''A'', CHR ''Z''), (CHR ''a'', CHR ''z''), (CHR ''_'', CHR ''_'')]"

abbreviation word_cls :: "(char \<times> char) list" where
  "word_cls \<equiv> (CHR ''0'', CHR ''9'') # ident_cls"

text \<open>\<^verbatim>\<open>[a-z0-9][a-z0-9._-]{0,63}\<close>: the bounded lowercase name of reputation and policy codes.\<close>

definition namePattern :: rx where
  "namePattern = Cat (Cls az09)
     (rep_upto 63 (Cls (az09 @ [(CHR ''.'', CHR ''.''), (CHR ''_'', CHR ''_''), (CHR ''-'', CHR ''-'')])))"

definition sha256Pattern :: rx where
  "sha256Pattern = rep 64 (Cls hex_cls)"

definition imageDigestPattern :: rx where
  "imageDigestPattern = Cat (lit ''sha256:'') (rep 64 (Cls hex_cls))"

lemma sha256Pattern_iff: "matches sha256Pattern s \<longleftrightarrow> length s = 64 \<and> (\<forall>c\<in>set s. in_cls hex_cls c)"
  by (simp add: matches_lang sha256Pattern_def lang_rep_cls)

lemma imageDigestPattern_iff:
  "matches imageDigestPattern s \<longleftrightarrow>
     (\<exists>t. s = ''sha256:'' @ t \<and> length t = 64 \<and> (\<forall>c\<in>set t. in_cls hex_cls c))"
  by (simp only: matches_lang imageDigestPattern_def lang_lit_Cat lang_rep_cls)

lemma namePattern_length: "matches namePattern s \<Longrightarrow> 0 < length s \<and> length s \<le> 64"
  by (auto simp: matches_lang namePattern_def lang_rep_upto_length)

declare matches.simps [simp del]

end
