(* ===== verification/Origins.thy ===== *)
theory Origins
  imports Regex
begin

text \<open>
  Package origins.  \<^verbatim>\<open>pkg/trustpolicy/origin.go\<close> and \<^verbatim>\<open>pkg/signature/state.go\<close> hold the same
  fold twice on purpose; the two are changed together, and this theory is both of them.
\<close>

definition labelPattern :: rx where
  "labelPattern = Cat (Cls az09)
     (optional (Cat (Star (Cls (az09 @ [(CHR ''-'', CHR ''-'')]))) (Cls az09)))"

definition hostPattern :: rx where
  "hostPattern = Cat labelPattern (plus (Cat (one CHR ''.'') labelPattern))"

definition segmentPattern :: rx where
  "segmentPattern = Cat (Cls az09)
     (Star (Cls (az09 @ [(CHR ''.'', CHR ''.''), (CHR ''_'', CHR ''_''), (CHR ''-'', CHR ''-'')])))"

definition canonicalOrigin :: "string \<Rightarrow> string option" where
  "canonicalOrigin value =
     (let folded = foldASCII value; parts = split_on CHR ''/'' folded
      in case parts of
           [host, owner, name] \<Rightarrow>
             (if \<not> matches hostPattern host then None
              else if \<not> matches segmentPattern owner \<or> \<not> matches segmentPattern name then None
              else Some folded)
         | _ \<Rightarrow> None)"

definition sameOrigin :: "string \<Rightarrow> string \<Rightarrow> bool" where
  "sameOrigin first second =
     (case canonicalOrigin first of
        None \<Rightarrow> False
      | Some left \<Rightarrow> canonicalOrigin second = Some left)"

lemma canonicalOrigin_Some:
  "canonicalOrigin v = Some w \<longleftrightarrow>
     w = foldASCII v \<and>
     (\<exists>h p n. split_on CHR ''/'' w = [h, p, n] \<and> matches hostPattern h \<and>
              matches segmentPattern p \<and> matches segmentPattern n)"
  by (auto simp: canonicalOrigin_def Let_def split: list.splits if_splits)

lemma canonicalOrigin_idem: "canonicalOrigin v = Some w \<Longrightarrow> canonicalOrigin w = Some w"
  by (auto simp: canonicalOrigin_Some)

lemma sameOrigin_iff: "sameOrigin a b \<longleftrightarrow> (\<exists>w. canonicalOrigin a = Some w \<and> canonicalOrigin b = Some w)"
  by (auto simp: sameOrigin_def split: option.splits)

lemma sameOrigin_sym: "sameOrigin a b \<Longrightarrow> sameOrigin b a"
  by (auto simp: sameOrigin_iff)

lemma sameOrigin_trans: "sameOrigin a b \<Longrightarrow> sameOrigin b c \<Longrightarrow> sameOrigin a c"
  by (auto simp: sameOrigin_iff)

lemma sameOrigin_canonical:
  "canonicalOrigin a = Some a \<Longrightarrow> canonicalOrigin b = Some b \<Longrightarrow> sameOrigin a b \<longleftrightarrow> a = b"
  by (auto simp: sameOrigin_iff)

text \<open>The bytes an origin can be made of, and that none of them separates anything.\<close>

definition origin_byte :: "char \<Rightarrow> bool" where
  "origin_byte = in_cls (az09 @ [(CHR ''.'', CHR ''.''), (CHR ''_'', CHR ''_''), (CHR ''-'', CHR ''-'')])"

lemma host_bytes: "matches hostPattern h \<Longrightarrow> c \<in> set h \<Longrightarrow> origin_byte c"
  by (drule (1) matches_bytes)
    (auto simp: hostPattern_def labelPattern_def optional_def plus_def one_def origin_byte_def in_cls_def)

lemma segment_bytes: "matches segmentPattern h \<Longrightarrow> c \<in> set h \<Longrightarrow> origin_byte c"
  by (drule (1) matches_bytes) (auto simp: segmentPattern_def origin_byte_def in_cls_def)

lemma canonicalOrigin_bytes:
  assumes "canonicalOrigin v = Some w" and "c \<in> set w"
  shows "c = CHR ''/'' \<or> origin_byte c"
proof -
  obtain h p n where parts: "split_on CHR ''/'' w = [h, p, n]"
    and m: "matches hostPattern h" "matches segmentPattern p" "matches segmentPattern n"
    using assms(1) by (auto simp: canonicalOrigin_Some)
  have "w = join_with CHR ''/'' [h, p, n]" by (simp flip: parts)
  with assms(2) m show ?thesis by (auto dest: host_bytes segment_bytes)
qed

lemma origin_byte_excludes:
  "\<not> origin_byte CHR ''/''" "\<not> origin_byte CHR '':''" "\<not> origin_byte CHR ''+''"
  "\<not> origin_byte CHR ''=''" "\<not> origin_byte (CHR 0x0A)" "\<not> origin_byte (CHR 0x00)"
  by (simp_all add: origin_byte_def in_cls_def less_eq_char_def)

end
