(* ===== verification/Go_Time.thy ===== *)
theory Go_Time
  imports Cpak_Prelude
begin

text \<open>
  Decimal numerals and the canonical timestamps of the sources.  An instant is a number
  of nanoseconds since the Unix epoch.  The sources accept a timestamp only in the form
  \<^verbatim>\<open>time.Parse\<close> reads and \<^verbatim>\<open>Format(time.RFC3339)\<close> writes back unchanged in UTC, which is
  \<^verbatim>\<open>YYYY-MM-DDTHH:MM:SSZ\<close> with a real calendar date; \<open>canonical_time\<close> is that reading.
\<close>

type_synonym instant = int

definition is_digit :: "char \<Rightarrow> bool" where
  "is_digit c \<longleftrightarrow> CHR ''0'' \<le> c \<and> c \<le> CHR ''9''"

definition digit_value :: "char \<Rightarrow> nat" where
  "digit_value c = of_char c - 48"

definition decimal :: "string \<Rightarrow> nat" where
  "decimal s = foldl (\<lambda>n c. 10 * n + digit_value c) 0 s"

definition is_decimal :: "string \<Rightarrow> bool" where
  "is_decimal s \<longleftrightarrow> s \<noteq> [] \<and> list_all is_digit s"

fun show_nat :: "nat \<Rightarrow> string" where
  "show_nat n = (if n < 10 then [char_of (48 + n)] else show_nat (n div 10) @ [char_of (48 + n mod 10)])"

declare show_nat.simps [simp del]

definition leap_year :: "int \<Rightarrow> bool" where
  "leap_year y \<longleftrightarrow> y mod 4 = 0 \<and> (y mod 100 \<noteq> 0 \<or> y mod 400 = 0)"

definition days_in :: "int \<Rightarrow> int \<Rightarrow> int" where
  "days_in y m = (if m = 2 then (if leap_year y then 29 else 28)
     else if m \<in> {4, 6, 9, 11} then 30 else 31)"

definition days_from_civil :: "int \<Rightarrow> int \<Rightarrow> int \<Rightarrow> int" where
  "days_from_civil y m d =
     (let y' = (if m \<le> 2 then y - 1 else y); era = y' div 400; yoe = y' mod 400;
          doy = (153 * (if m > 2 then m - 3 else m + 9) + 2) div 5 + d - 1;
          doe = yoe * 365 + yoe div 4 - yoe div 100 + doy
      in era * 146097 + doe - 719468)"

definition canonical_time :: "string \<Rightarrow> instant option" where
  "canonical_time s =
     (if length s = 20 \<and> s ! 4 = CHR ''-'' \<and> s ! 7 = CHR ''-'' \<and> s ! 10 = CHR ''T'' \<and>
         s ! 13 = CHR '':'' \<and> s ! 16 = CHR '':'' \<and> s ! 19 = CHR ''Z'' \<and>
         list_all (\<lambda>i. is_digit (s ! i)) [0, 1, 2, 3, 5, 6, 8, 9, 11, 12, 14, 15, 17, 18]
      then let y = int (decimal (take 4 s)); mo = int (decimal (take 2 (drop 5 s)));
               d = int (decimal (take 2 (drop 8 s))); h = int (decimal (take 2 (drop 11 s)));
               mi = int (decimal (take 2 (drop 14 s))); sec = int (decimal (take 2 (drop 17 s)))
           in if 1 \<le> mo \<and> mo \<le> 12 \<and> 1 \<le> d \<and> d \<le> days_in y mo \<and> h < 24 \<and> mi < 60 \<and> sec < 60
              then Some ((days_from_civil y mo d * 86400 + h * 3600 + mi * 60 + sec) * 1000000000)
              else None
      else None)"

text \<open>The zero \<^verbatim>\<open>time.Time\<close>: the first instant of year one.\<close>

definition zero_time :: instant where
  "zero_time = - 62135596800 * 1000000000"

section \<open>Numerals round-trip\<close>

lemma digit_value_char_of: "(k::nat) < 10 \<Longrightarrow> digit_value (char_of (48 + k)) = k"
  by (simp add: digit_value_def)

lemma is_digit_char_of: "(k::nat) < 10 \<Longrightarrow> is_digit (char_of (48 + k))"
  by (simp add: is_digit_def less_eq_char_def)

lemma decimal_append_one: "decimal (s @ [c]) = 10 * decimal s + digit_value c"
  by (simp add: decimal_def)

lemma decimal_show_nat [simp]: "decimal (show_nat n) = n"
proof (induction n rule: show_nat.induct)
  case (1 n)
  show ?case
  proof (cases "n < 10")
    case True
    then show ?thesis
      by (subst show_nat.simps) (simp add: decimal_def digit_value_char_of)
  next
    case False
    with 1 show ?thesis
      by (subst show_nat.simps) (simp add: decimal_append_one digit_value_char_of)
  qed
qed

lemma is_decimal_show_nat [simp]: "is_decimal (show_nat n)"
proof (induction n rule: show_nat.induct)
  case (1 n)
  show ?case
  proof (cases "n < 10")
    case True
    then show ?thesis by (subst show_nat.simps) (simp add: is_decimal_def is_digit_char_of)
  next
    case False
    with 1 show ?thesis by (subst show_nat.simps) (simp add: is_decimal_def is_digit_char_of)
  qed
qed

lemma show_nat_inj: "show_nat m = show_nat n \<longleftrightarrow> m = n"
  by (metis decimal_show_nat)

lemma show_nat_digits: "c \<in> set (show_nat n) \<Longrightarrow> is_digit c"
  using is_decimal_show_nat [of n] by (auto simp: is_decimal_def list_all_iff)

end
