(* ===== verification/Signed_State.thy ===== *)
theory Signed_State
  imports Origins Go_Time
begin

text \<open>
  \<^verbatim>\<open>pkg/signature/state.go\<close> and the origin check of \<^verbatim>\<open>identity.go\<close>: the tuple a publisher signs, the
  exact bytes it is signed as, the parser that reads those bytes back and refuses every other
  spelling, and which identity may speak for an origin.
\<close>

section \<open>Data\<close>

record State =
  st_ABI :: int
  st_Origin :: string
  st_ManifestSHA256 :: string
  st_ImageDigest :: string
  st_LockSHA256 :: string
  st_Generation :: u64

record Identity =
  id_Issuer :: string
  id_Subject :: string
  id_Repo :: string

datatype state_error =
  Unsupported_state_abi int
| Origin_not_canonical string
| Manifest_not_sha256 string
| Image_not_digest string
| Lock_not_sha256 string
| Generation_zero
| Not_one_state
| Field_is_not nat string
| Invalid_abi
| Invalid_generation
| Non_canonical_encoding

abbreviation newline :: char where "newline \<equiv> CHR 0x0A"

definition canonicalPrefix :: string where "canonicalPrefix = ''cpak.signature.state.v1''"

section \<open>Operations\<close>

definition State_Validate :: "State \<Rightarrow> state_error err" where
  "State_Validate s =
     (if st_ABI s \<noteq> 1 then Some (Unsupported_state_abi (st_ABI s))
      else if canonicalOrigin (st_Origin s) \<noteq> Some (st_Origin s) then Some (Origin_not_canonical (st_Origin s))
      else if \<not> matches sha256Pattern (st_ManifestSHA256 s) then Some (Manifest_not_sha256 (st_ManifestSHA256 s))
      else if \<not> matches imageDigestPattern (st_ImageDigest s) then Some (Image_not_digest (st_ImageDigest s))
      else if st_LockSHA256 s \<noteq> [] \<and> \<not> matches sha256Pattern (st_LockSHA256 s) then Some (Lock_not_sha256 (st_LockSHA256 s))
      else if st_Generation s = 0 then Some Generation_zero
      else None)"

definition show_int :: "int \<Rightarrow> string" where
  "show_int i = (if i < 0 then ''-'' @ show_nat (nat (- i)) else show_nat (nat i))"

definition canonical_lines :: "State \<Rightarrow> string list" where
  "canonical_lines s =
     [canonicalPrefix,
      ''abi='' @ show_int (st_ABI s),
      ''origin='' @ st_Origin s,
      ''manifest_sha256='' @ st_ManifestSHA256 s,
      ''image_digest='' @ st_ImageDigest s,
      ''lock_sha256='' @ st_LockSHA256 s,
      ''generation='' @ show_nat (unat (st_Generation s))]"

definition Canonical :: "State \<Rightarrow> state_error + string" where
  "Canonical s = result_of (State_Validate s) (concat (map (\<lambda>line. line @ [newline]) (canonical_lines s)))"

definition Digest :: "(string \<Rightarrow> 'h) \<Rightarrow> State \<Rightarrow> state_error + 'h" where
  "Digest sha256 s = bind_result (Canonical s) (\<lambda>canonical. Inr (sha256 canonical))"

text \<open>\<^verbatim>\<open>strconv.Atoi\<close> on a 64-bit host and \<^verbatim>\<open>strconv.ParseUint(_, 10, 64)\<close>.\<close>

definition Atoi :: "string \<Rightarrow> int option" where
  "Atoi s =
     (let (negative, digits) = (case s of c # cs \<Rightarrow> if c = CHR ''-'' then (True, cs)
            else if c = CHR ''+'' then (False, cs) else (False, s) | [] \<Rightarrow> (False, []));
          v = (if negative then - int (decimal digits) else int (decimal digits))
      in if is_decimal digits \<and> - (2 ^ 63) \<le> v \<and> v < 2 ^ 63 then Some v else None)"

definition ParseUint :: "string \<Rightarrow> u64 option" where
  "ParseUint s = (if is_decimal s \<and> decimal s < 2 ^ 64 then Some (of_nat (decimal s)) else None)"

definition field_names :: "string list" where
  "field_names = [''abi'', ''origin'', ''manifest_sha256'', ''image_digest'', ''lock_sha256'', ''generation'']"

fun read_fields :: "nat \<Rightarrow> string list \<Rightarrow> string list \<Rightarrow> state_error + string list" where
  "read_fields index (name # names) (line # lines) =
     (if \<not> HasPrefix line (name @ ''='') then Inl (Field_is_not index name)
      else bind_result (read_fields (Suc index) names lines) (\<lambda>rest. Inr (TrimPrefix line (name @ ''='') # rest)))"
| "read_fields index names lines = Inr []"

definition ParseCanonicalState :: "string \<Rightarrow> state_error + State" where
  "ParseCanonicalState document =
     (let lines = split_on newline document in
      if length lines \<noteq> 8 \<or> lines ! 0 \<noteq> canonicalPrefix \<or> lines ! 7 \<noteq> [] then Inl Not_one_state
      else bind_result (read_fields 1 field_names (tl lines)) (\<lambda>values.
        case Atoi (values ! 0) of None \<Rightarrow> Inl Invalid_abi | Some abi \<Rightarrow>
        case ParseUint (values ! 5) of None \<Rightarrow> Inl Invalid_generation | Some generation \<Rightarrow>
          let state = \<lparr>st_ABI = abi, st_Origin = values ! 1, st_ManifestSHA256 = values ! 2,
                       st_ImageDigest = values ! 3, st_LockSHA256 = values ! 4, st_Generation = generation\<rparr>
          in bind_result (Canonical state) (\<lambda>canonical.
               if canonical \<noteq> document then Inl Non_canonical_encoding else Inr state)))"

definition githubHost :: string where "githubHost = ''github.com''"

definition githubActionsIssuer :: string where
  "githubActionsIssuer = ''https://token.actions.githubusercontent.com''"

definition MatchesOrigin :: "Identity \<Rightarrow> string \<Rightarrow> bool" where
  "MatchesOrigin i origin =
     (case canonicalOrigin origin of None \<Rightarrow> False | Some want \<Rightarrow>
        if fst (cut_on CHR ''/'' want) \<noteq> githubHost then False
        else if id_Issuer i \<noteq> githubActionsIssuer then False
        else (case canonicalOrigin (id_Repo i) of None \<Rightarrow> False | Some repo \<Rightarrow> repo = want))"

section \<open>Lines\<close>

lemma State_Validate_None [validation]:
  "State_Validate s = None \<longleftrightarrow> st_ABI s = 1 \<and> canonicalOrigin (st_Origin s) = Some (st_Origin s) \<and>
     matches sha256Pattern (st_ManifestSHA256 s) \<and> matches imageDigestPattern (st_ImageDigest s) \<and>
     (st_LockSHA256 s = [] \<or> matches sha256Pattern (st_LockSHA256 s)) \<and> st_Generation s \<noteq> 0"
  by (auto simp: State_Validate_def)

lemma closed_lines:
  "concat (map (\<lambda>l. l @ [c]) ls) = join_with c (ls @ [[]])"
proof (induction ls)
  case (Cons l ls)
  then show ?case by (cases ls) auto
qed simp

lemma hex_no_newline: "\<not> in_cls hex_cls newline"
  by (simp add: in_cls_def less_eq_char_def)

lemma digit_no_newline: "is_digit c \<Longrightarrow> c \<noteq> newline"
  by (auto simp: is_digit_def less_eq_char_def)

lemma canonical_lines_closed:
  assumes "State_Validate s = None" "l \<in> set (canonical_lines s)"
  shows "newline \<notin> set l"
proof -
  have origin: "newline \<notin> set (st_Origin s)"
    using assms(1) canonicalOrigin_bytes [of "st_Origin s" "st_Origin s" newline] origin_byte_excludes(5)
    by (auto simp: State_Validate_None)
  have hex: "newline \<notin> set (st_ManifestSHA256 s)" "newline \<notin> set (st_ImageDigest s)" "newline \<notin> set (st_LockSHA256 s)"
    using assms(1) hex_no_newline
    by (auto simp: State_Validate_None sha256Pattern_iff imageDigestPattern_iff)
  have digits: "newline \<notin> set (show_nat n)" for n using show_nat_digits digit_no_newline by blast
  show ?thesis
    using assms(2) origin hex digits by (auto simp: canonical_lines_def canonicalPrefix_def show_int_def split: if_splits)
qed

lemma split_Canonical:
  "Canonical s = Inr document \<Longrightarrow> split_on newline document = canonical_lines s @ [[]]"
  using canonical_lines_closed [of s]
  by (auto simp: Canonical_def result_of_Inr closed_lines intro!: split_join)

lemma Atoi_one: "Atoi (show_int 1) = Some 1"
  by code_simp

lemma ParseUint_show [simp]: "ParseUint (show_nat (unat g)) = Some g"
proof -
  have "unat g < 2 ^ LENGTH(64)" by (rule unsigned_less)
  then show ?thesis by (simp add: ParseUint_def)
qed

lemma parse_of_canonical:
  assumes "Canonical s = Inr document"
  shows "ParseCanonicalState document = Inr s"
proof -
  have valid: "State_Validate s = None" using assms by (simp add: Canonical_def result_of_Inr)
  note lines = split_Canonical [OF assms]
  have fields: "read_fields 1 field_names (tl (canonical_lines s @ [[]])) =
      Inr [show_int (st_ABI s), st_Origin s, st_ManifestSHA256 s, st_ImageDigest s, st_LockSHA256 s,
           show_nat (unat (st_Generation s))]"
    by (simp add: canonical_lines_def field_names_def bind_result_def TrimPrefix_def)
  have "st_ABI s = 1" using valid by (simp add: State_Validate_None)
  then show ?thesis
    unfolding ParseCanonicalState_def Let_def lines fields
    using assms Atoi_one by (cases s) (simp add: canonical_lines_def bind_result_def)
qed

lemma canonical_of_parse:
  "ParseCanonicalState document = Inr s \<Longrightarrow> Canonical s = Inr document"
  by (auto simp: ParseCanonicalState_def Let_def bind_result_Inr split: if_splits option.splits)

section \<open>Properties\<close>

text \<open>C8: The signed encoding and its parser are inverse to each other: a document parses to a
  state exactly when it is that state's canonical encoding, so one state has one spelling,
  one document names one state, and every alternative spelling is refused.\<close>

theorem canonical_state_round_trip:
  "ParseCanonicalState document = Inr s \<longleftrightarrow> Canonical s = Inr document"
  using parse_of_canonical canonical_of_parse by blast

text \<open>The message a signature is made over pins the whole tuple: where the hash does not
  collide on their encodings, two states with one digest are one state.\<close>

theorem signed_digest_pins_state:
  assumes "inj_on sha256 {document. Canonical s = Inr document \<or> Canonical t = Inr document}"
    and "Digest sha256 s = Inr d" and "Digest sha256 t = Inr d"
  shows "s = t"
proof -
  from assms obtain document where "Canonical s = Inr document" "Canonical t = Inr document"
    by (auto simp: Digest_def bind_result_Inr inj_on_def)
  then show ?thesis using parse_of_canonical by (metis sum.inject(2))
qed

text \<open>An identity speaks for an origin exactly when the origin is on the one host this
  version can read certificates for, the issuer is that host's and the certified repository is
  the origin itself after case folding, whole value against whole value.\<close>

theorem matches_origin_exact:
  "MatchesOrigin i origin \<longleftrightarrow>
     id_Issuer i = githubActionsIssuer \<and> sameOrigin (id_Repo i) origin \<and>
     (\<exists>owner name. canonicalOrigin origin = Some (githubHost @ ''/'' @ owner @ ''/'' @ name))"
proof (cases "canonicalOrigin origin")
  case None
  then show ?thesis by (simp add: MatchesOrigin_def sameOrigin_iff)
next
  case (Some want)
  then obtain h p n where parts: "split_on CHR ''/'' want = [h, p, n]" by (auto simp: canonicalOrigin_Some)
  have want: "want = h @ CHR ''/'' # p @ CHR ''/'' # n"
    using join_split [of "CHR ''/''" want] parts by simp
  have slash: "CHR ''/'' \<notin> set h" "CHR ''/'' \<notin> set p" "CHR ''/'' \<notin> set n"
    using parts split_on_parts [of _ "CHR ''/''" want] by auto
  then have "fst (cut_on CHR ''/'' want) = h"
    unfolding want by (induction h) (auto split: prod.splits)
  moreover have "h = githubHost" if "want = githubHost @ ''/'' @ owner @ ''/'' @ name" for owner name
  proof -
    have "split_on CHR ''/'' want = githubHost # split_on CHR ''/'' (owner @ ''/'' @ name)"
      using that by (simp add: githubHost_def)
    with parts show ?thesis by simp
  qed
  then have "(\<exists>owner name. want = githubHost @ ''/'' @ owner @ ''/'' @ name) \<longleftrightarrow> h = githubHost"
    using want by fastforce
  ultimately show ?thesis
    by (simp add: Some MatchesOrigin_def sameOrigin_iff split: option.splits)
qed

end
