(* ===== verification/Safe_Text.thy ===== *)
theory Safe_Text
  imports Cpak_Prelude
begin

text \<open>
  UTF-8 as package \<^verbatim>\<open>unicode/utf8\<close> decodes it, and the two routines of the sources that bound a text
  for presentation: \<^verbatim>\<open>SanitizeText\<close> and \<^verbatim>\<open>safeText\<close> of \<^verbatim>\<open>pkg/applicationtrust/decision.go\<close> and
  \<^verbatim>\<open>safeDiagnostic\<close> of \<^verbatim>\<open>pkg/signature/evidence.go\<close>.  A string is its bytes; \<open>runes\<close> cuts it the way a
  range loop does, one well-formed rune or one ill-formed byte at a time.
\<close>

section \<open>Runes\<close>

definition in_range :: "nat \<Rightarrow> nat \<Rightarrow> char \<Rightarrow> bool" where
  "in_range lo hi c \<longleftrightarrow> lo \<le> of_char c \<and> of_char c \<le> hi"

text \<open>How many bytes a rune has by its first byte, and which second byte may follow, as the tables of
  \<^verbatim>\<open>utf8\<close> have it.\<close>

definition lead_width :: "char \<Rightarrow> nat" where
  "lead_width a =
     (if in_range 0 0x7F a then 1 else if in_range 0xC2 0xDF a then 2
      else if in_range 0xE0 0xEF a then 3 else if in_range 0xF0 0xF4 a then 4 else 0)"

definition accepts_second :: "char \<Rightarrow> char \<Rightarrow> bool" where
  "accepts_second a =
     in_range (if a = CHR 0xE0 then 0xA0 else if a = CHR 0xF0 then 0x90 else 0x80)
              (if a = CHR 0xED then 0x9F else if a = CHR 0xF4 then 0x8F else 0xBF)"

fun accepts_rest :: "char \<Rightarrow> string \<Rightarrow> bool" where
  "accepts_rest a [] = True"
| "accepts_rest a (b # s) \<longleftrightarrow> accepts_second a b \<and> list_all (in_range 0x80 0xBF) s"

text \<open>The length of the rune a byte sequence starts with, and 0 where it starts with none.\<close>

fun rune_width :: "string \<Rightarrow> nat" where
  "rune_width [] = 0"
| "rune_width (a # s) =
     (let n = lead_width a
      in if n \<le> Suc (length s) \<and> accepts_rest a (take (n - 1) s) then n else 0)"

definition valid_rune :: "string \<Rightarrow> bool" where
  "valid_rune r \<longleftrightarrow> r \<noteq> [] \<and> rune_width r = length r"

function runes :: "string \<Rightarrow> string list" where
  "runes [] = []"
| "runes (a # s) =
     (let w = max 1 (rune_width (a # s)) in take w (a # s) # runes (drop w (a # s)))"
  by pat_completeness auto
termination by (relation "measure length") (auto simp: less_max_iff_disj)

definition utf8_valid :: "string \<Rightarrow> bool" where
  "utf8_valid s \<longleftrightarrow> list_all valid_rune (runes s)"

lemma lead_width_4: "lead_width a \<le> 4"
  by (simp add: lead_width_def)

lemma rune_width_le: "rune_width s \<le> length s"
  by (cases s) (auto simp: Let_def)

lemma rune_width_4: "rune_width s \<le> 4"
  by (cases s) (auto simp: Let_def lead_width_4)

lemma rune_width_append: "0 < rune_width r \<Longrightarrow> rune_width (r @ s) = rune_width r"
  by (cases r) (auto simp: Let_def split: if_splits)

lemma rune_width_take: "rune_width (take (rune_width s) s) = rune_width s"
  by (cases s) (auto simp: Let_def take_Cons' min_def)

lemma valid_rune_take: "0 < rune_width s \<Longrightarrow> valid_rune (take (rune_width s) s)"
  using rune_width_le [of s] by (auto simp: valid_rune_def rune_width_take min_def)

lemma valid_rune_length: "valid_rune r \<Longrightarrow> 0 < length r \<and> length r \<le> 4"
  using rune_width_4 [of r] by (auto simp: valid_rune_def)

lemma concat_runes [simp]: "concat (runes s) = s"
  by (induction s rule: runes.induct) (simp_all add: Let_def)

lemma runes_rune: "valid_rune r \<Longrightarrow> runes (r @ s) = r # runes s"
proof -
  assume r: "valid_rune r"
  then obtain a t where ra: "r = a # t" by (cases r) (auto simp: valid_rune_def)
  have "rune_width (r @ s) = length r"
    using r rune_width_append [of r s] by (auto simp: valid_rune_def)
  then show ?thesis using r by (simp add: ra Let_def)
qed

text \<open>A sequence of well-formed runes is cut back into itself.\<close>

lemma runes_concat: "list_all valid_rune rs \<Longrightarrow> runes (concat rs) = rs"
  by (induction rs) (auto simp: runes_rune)

lemma utf8_valid_Nil [simp]: "utf8_valid []"
  by (simp add: utf8_valid_def)

lemma utf8_valid_concat: "list_all valid_rune rs \<Longrightarrow> utf8_valid (concat rs)"
  by (simp add: utf8_valid_def runes_concat)

lemma utf8_valid_iff: "utf8_valid s \<longleftrightarrow> (\<exists>rs. list_all valid_rune rs \<and> s = concat rs)"
  by (metis concat_runes utf8_valid_concat utf8_valid_def)

section \<open>Bounded text\<close>

definition control_rune :: "string \<Rightarrow> bool" where
  "control_rune r \<longleftrightarrow> (case r of [c] \<Rightarrow> of_char c < (0x20::nat) \<or> c = CHR 0x7F | _ \<Rightarrow> False)"

text \<open>\<^verbatim>\<open>strings.ToValidUTF8\<close> with an empty replacement, and \<^verbatim>\<open>strings.Map\<close> with the function both
  routines give it: control runes are dropped and an ill-formed byte becomes the replacement
  character.\<close>

definition ToValidUTF8 :: "string \<Rightarrow> string" where
  "ToValidUTF8 s = concat (filter valid_rune (runes s))"

definition replacement :: string where
  "replacement = [CHR 0xEF, CHR 0xBF, CHR 0xBD]"

definition drop_controls :: "string \<Rightarrow> string" where
  "drop_controls s =
     concat (map (\<lambda>r. if \<not> valid_rune r then replacement else if control_rune r then [] else r) (runes s))"

text \<open>The loop both routines cut a text with: bytes are dropped from the end until what is left is
  UTF-8.  The empty text is, so it ends.\<close>

function trim_invalid :: "string \<Rightarrow> string" where
  "trim_invalid encoded = (if utf8_valid encoded then encoded else trim_invalid (butlast encoded))"
  by pat_completeness auto
termination
proof (relation "measure length")
  fix encoded assume "\<not> utf8_valid encoded"
  then have "encoded \<noteq> []" by auto
  then show "(butlast encoded, encoded) \<in> measure length" by (cases encoded) auto
qed simp

declare trim_invalid.simps [simp del]

definition SanitizeText :: "string \<Rightarrow> nat \<Rightarrow> string" where
  "SanitizeText v limit =
     (if limit = 0 then []
      else let text' = drop_controls (ToValidUTF8 v)
           in if length text' \<le> limit then text' else trim_invalid (take limit text'))"

definition safeDiagnostic :: "string \<Rightarrow> string" where
  "safeDiagnostic v =
     (let encoded = drop_controls v in if 512 < length encoded then trim_invalid (take 512 encoded) else encoded)"

datatype text_error = Not_utf8 | Empty_text | Over_limit | Control_character

definition safeText :: "string \<Rightarrow> nat \<Rightarrow> bool \<Rightarrow> text_error err" where
  "safeText v limit may_be_empty =
     (if \<not> utf8_valid v then Some Not_utf8
      else if \<not> may_be_empty \<and> v = [] then Some Empty_text
      else if limit < length v then Some Over_limit
      else if list_ex control_rune (runes v) then Some Control_character
      else None)"

definition presentable :: "string \<Rightarrow> bool" where
  "presentable s \<longleftrightarrow> list_all (\<lambda>r. valid_rune r \<and> \<not> control_rune r) (runes s)"

lemma safeText_None: "safeText v limit e = None \<longleftrightarrow> presentable v \<and> (e \<or> v \<noteq> []) \<and> length v \<le> limit"
  by (auto simp: safeText_def presentable_def utf8_valid_def list_all_iff list_ex_iff)

lemma valid_replacement: "valid_rune replacement \<and> \<not> control_rune replacement"
  by (simp add: valid_rune_def replacement_def lead_width_def accepts_second_def in_range_def control_rune_def)

lemma presentable_concat:
  "list_all (\<lambda>r. valid_rune r \<and> \<not> control_rune r) rs \<Longrightarrow> presentable (concat rs)"
  by (simp add: presentable_def runes_concat list_all_iff)

lemma concat_nonempty: "concat (filter (\<lambda>r. r \<noteq> []) rs) = concat rs"
  by (induction rs) auto

lemma drop_controls_presentable: "presentable (drop_controls s)"
proof -
  have eq: "drop_controls s = concat (filter (\<lambda>r. r \<noteq> [])
      (map (\<lambda>r. if \<not> valid_rune r then replacement else if control_rune r then [] else r) (runes s)))"
    by (simp add: drop_controls_def concat_nonempty)
  show ?thesis unfolding eq
    by (rule presentable_concat) (auto simp: list_all_iff valid_replacement)
qed

lemma drop_controls_id: "presentable s \<Longrightarrow> drop_controls s = s"
proof -
  assume s: "presentable s"
  have "map (\<lambda>r. if \<not> valid_rune r then replacement else if control_rune r then [] else r) (runes s) = runes s"
    by (rule map_idI) (use s in \<open>auto simp: presentable_def list_all_iff\<close>)
  then show ?thesis by (simp add: drop_controls_def)
qed

lemma ToValidUTF8_id: "utf8_valid s \<Longrightarrow> ToValidUTF8 s = s"
  by (simp add: ToValidUTF8_def utf8_valid_def filter_id_conv list_all_iff)

text \<open>A cut through a valid text is at most three bytes behind a place between two runes.\<close>

lemma cut_near_boundary:
  assumes "list_all valid_rune rs" and "n \<le> length (concat rs)"
  shows "\<exists>k j. k \<le> 3 \<and> k \<le> n \<and> take (n - k) (concat rs) = concat (take j rs)"
  using assms
proof (induction rs arbitrary: n)
  case (Cons r rs)
  have r: "0 < length r" "length r \<le> 4" using Cons.prems(1) valid_rune_length [of r] by auto
  show ?case
  proof (cases "n < length r")
    case True
    then show ?thesis using r by (intro exI [of _ n] exI [of _ 0]) auto
  next
    case False
    then obtain k j where "k \<le> 3" "k \<le> n - length r" "take (n - length r - k) (concat rs) = concat (take j rs)"
      using Cons.IH [of "n - length r"] Cons.prems by (fastforce simp: le_diff_conv)
    then have "take (n - k) (concat (r # rs)) = concat (take (Suc j) (r # rs))"
      using False by (auto simp: add.commute)
    then show ?thesis using \<open>k \<le> 3\<close> \<open>k \<le> n - length r\<close> by (meson diff_le_self order_trans)
  qed
qed simp

lemma trim_invalid_prefix:
  "utf8_valid (take m e) \<Longrightarrow> m \<le> length e \<Longrightarrow>
   \<exists>j. m \<le> j \<and> j \<le> length e \<and> trim_invalid e = take j e \<and> utf8_valid (trim_invalid e)"
proof (induction e rule: trim_invalid.induct)
  case (1 e)
  show ?case
  proof (cases "utf8_valid e")
    case True
    then show ?thesis using 1 by (intro exI [of _ "length e"]) (simp add: trim_invalid.simps)
  next
    case False
    then have m: "m < length e" using 1 by (metis le_neq_implies_less take_all_iff order_refl)
    then have "take m (butlast e) = take m e" by (simp add: take_butlast)
    then obtain j where "m \<le> j" "j \<le> length e - 1" "trim_invalid (butlast e) = take j (butlast e)"
        "utf8_valid (trim_invalid (butlast e))"
      using 1(1) [OF False] 1(2) m by fastforce
    moreover from this m have "take j (butlast e) = take j e" by (simp add: take_butlast)
    moreover have "trim_invalid e = trim_invalid (butlast e)" using False by (subst trim_invalid.simps) simp
    ultimately show ?thesis by (intro exI [of _ j]) auto
  qed
qed

text \<open>A valid prefix of a presentable text is presentable.\<close>

lemma valid_prefix_presentable:
  assumes s: "presentable s" and p: "utf8_valid (take j s)"
  shows "presentable (take j s)"
proof -
  have rs: "list_all valid_rune (runes (take j s))" using p by (simp add: utf8_valid_def)
  have "s = concat (runes (take j s)) @ drop j s" by simp
  have app: "runes (concat ps @ t) = ps @ runes t" if "list_all valid_rune ps" for ps t
    using that by (induction ps) (auto simp: runes_rune)
  have "runes s = runes (take j s) @ runes (drop j s)"
    using app [OF rs, of "drop j s"] by simp
  then show ?thesis using s by (simp add: presentable_def)
qed

lemma trimmed:
  assumes s: "presentable s" and n: "n < length s"
  shows "presentable (trim_invalid (take n s)) \<and> (\<exists>k \<le> 3. trim_invalid (take n s) = take (n - k) s \<and> k \<le> n)"
proof -
  have rs: "list_all valid_rune (runes s)" using s by (simp add: presentable_def list_all_iff)
  obtain k j where k: "k \<le> 3" "k \<le> n" "take (n - k) s = concat (take j (runes s))"
    using cut_near_boundary [OF rs, of n] n by auto
  have "utf8_valid (take (n - k) (take n s))"
    using k(3) rs utf8_valid_concat [of "take j (runes s)"] by (auto simp: list_all_iff dest: in_set_takeD)
  from trim_invalid_prefix [OF this] n obtain i where
    i: "n - k \<le> i" "i \<le> n" "trim_invalid (take n s) = take i (take n s)" "utf8_valid (trim_invalid (take n s))"
    by auto
  have eq: "trim_invalid (take n s) = take i s" using i by simp
  moreover have "presentable (take i s)" using valid_prefix_presentable [OF s] i(4) eq by simp
  ultimately show ?thesis using i k by (intro conjI exI [of _ "n - i"]) auto
qed

lemma SanitizeText_cut:
  "presentable (SanitizeText v limit) \<and> length (SanitizeText v limit) \<le> limit \<and>
   (\<exists>k \<le> 3. length (SanitizeText v limit) = min (limit - k) (length (drop_controls (ToValidUTF8 v))))"
proof (cases "length (drop_controls (ToValidUTF8 v)) \<le> limit")
  case True
  then show ?thesis using drop_controls_presentable [of "ToValidUTF8 v"]
    by (auto simp: SanitizeText_def presentable_def intro: exI [of _ "0::nat"])
next
  case False
  then show ?thesis using trimmed [OF drop_controls_presentable [of "ToValidUTF8 v"], of limit]
    by (auto simp: SanitizeText_def presentable_def)
qed

lemma SanitizeText_safe:
  "limit \<le> bound \<Longrightarrow> e \<or> SanitizeText v limit \<noteq> [] \<Longrightarrow> safeText (SanitizeText v limit) bound e = None"
  using SanitizeText_cut [of v limit] by (auto simp: safeText_None)

text \<open>C36: Presentation text is bounded and safe whatever it is made from: it is UTF-8 within the limit and
  without control characters, a text that is so already is kept as it is, and the loop that cuts an
  over-long text to whole runes ends after at most three bytes.\<close>

theorem sanitized_text_is_safe:
  "safeText (SanitizeText v limit) limit True = None \<and>
   (safeText v limit True = None \<longrightarrow> SanitizeText v limit = v) \<and>
   (\<exists>k \<le> 3. length (SanitizeText v limit) = min (limit - k) (length (drop_controls (ToValidUTF8 v))))"
proof -
  have "SanitizeText v limit = v" if "safeText v limit True = None"
    using that drop_controls_id [of v] ToValidUTF8_id [of v]
    by (auto simp: safeText_None SanitizeText_def presentable_def utf8_valid_def list_all_iff)
  then show ?thesis using SanitizeText_cut [of v limit] by (auto simp: safeText_None)
qed

end
