(* ===== verification/Evidence.thy ===== *)
theory Evidence
  imports Signed_State Safe_Text
begin

text \<open>
  \<^verbatim>\<open>pkg/signature/evidence.go\<close>: the evidence envelope, the dispatch to a verifier, the
  projection of a verification result, and the normalized publisher identity.  The verifiers
  themselves, which check certificates and bundles, are arguments.
\<close>

section \<open>Data\<close>

abbreviation EvidenceSigstoreBundle :: string where "EvidenceSigstoreBundle \<equiv> ''sigstore-bundle-v1''"
abbreviation EvidenceX509CMS :: string where "EvidenceX509CMS \<equiv> ''x509-cms-v1''"

definition SigstoreBundleMediaType :: string where
  "SigstoreBundleMediaType = ''application/vnd.dev.sigstore.bundle.v0.3+json''"

definition X509CMSMediaType :: string where
  "X509CMSMediaType = ''application/pkcs7-signature''"

record SignatureEvidence =
  ve_ABI :: int
  ve_Kind :: string
  ve_State :: State
  ve_MediaType :: string
  ve_Payload :: string

record PublisherIdentity =
  pi_Kind :: string
  pi_ID :: string
  pi_DisplayName :: string
  pi_Issuer :: string
  pi_Repository :: string
  pi_Assurance :: string
  pi_Subject :: string

record VerificationResult =
  vr_EvidenceKind :: string
  vr_StateDigest :: string
  vr_Cryptographic :: string
  vr_Chain :: string
  vr_SigningTime :: string
  vr_Revocation :: string
  vr_Publisher :: "PublisherIdentity option"
  vr_RootSource :: string
  vr_OriginAuthorization :: string
  vr_ReasonCode :: string
  vr_Diagnostic :: string
  vr_legacyIdentity :: "Identity option"

record Verified =
  vf_State :: State
  vf_Identity :: Identity
  vf_Publisher :: "PublisherIdentity option"

datatype evidence_error =
  Unsupported_evidence_abi int
| Evidence_state state_error
| Unsupported_kind
| Unsupported_media_type
| Payload_not_text
| Payload_empty
| Not_verified string
| No_usable_identity

section \<open>The envelope\<close>

definition evidenceProfiles :: "(string \<times> string \<times> bool) list" where
  "evidenceProfiles = [(EvidenceSigstoreBundle, SigstoreBundleMediaType, True), (EvidenceX509CMS, X509CMSMediaType, False)]"

definition NewSigstoreEvidence :: "State \<Rightarrow> string \<Rightarrow> SignatureEvidence" where
  "NewSigstoreEvidence state bundle =
     \<lparr>ve_ABI = 1, ve_Kind = EvidenceSigstoreBundle, ve_State = state,
      ve_MediaType = SigstoreBundleMediaType, ve_Payload = bundle\<rparr>"

definition ValidateEnvelope :: "SignatureEvidence \<Rightarrow> evidence_error err" where
  "ValidateEnvelope e =
     (if ve_ABI e \<noteq> 1 then Some (Unsupported_evidence_abi (ve_ABI e))
      else case State_Validate (ve_State e) of Some x \<Rightarrow> Some (Evidence_state x) | None \<Rightarrow>
      case map_of evidenceProfiles (ve_Kind e) of None \<Rightarrow> Some Unsupported_kind | Some (mediaType, is_text) \<Rightarrow>
        if ve_MediaType e \<noteq> mediaType then Some Unsupported_media_type
        else if is_text \<and> \<not> utf8_valid (ve_Payload e) then Some Payload_not_text
        else if ve_Payload e = [] then Some Payload_empty
        else None)"

text \<open>
  The reason an envelope is refused for, as it is printed.  \<open>quoted\<close> is the \<^verbatim>\<open>%q\<close> form of a string, which
  depends on the printable runes of Unicode and is an argument.
\<close>

fun state_error_text :: "(string \<Rightarrow> string) \<Rightarrow> state_error \<Rightarrow> string" where
  "state_error_text quoted (Unsupported_state_abi n) = ''unsupported state abi '' @ show_int n"
| "state_error_text quoted (Origin_not_canonical s) = ''origin is not a lowercase host/owner/repository: '' @ quoted s"
| "state_error_text quoted (Manifest_not_sha256 s) = ''manifest hash is not a sha256: '' @ quoted s"
| "state_error_text quoted (Image_not_digest s) = ''image reference is not a digest: '' @ quoted s"
| "state_error_text quoted (Lock_not_sha256 s) = ''lock hash is not a sha256: '' @ quoted s"
| "state_error_text quoted Generation_zero = ''generation 0 names no state''"
| "state_error_text quoted Not_one_state = ''payload is not one canonical state''"
| "state_error_text quoted (Field_is_not n s) = ''canonical field '' @ show_nat n @ '' is not '' @ s"
| "state_error_text quoted Invalid_abi = ''invalid abi''"
| "state_error_text quoted Invalid_generation = ''invalid generation''"
| "state_error_text quoted Non_canonical_encoding = ''payload uses a non-canonical field encoding''"

fun invalid_reason :: "(string \<Rightarrow> string) \<Rightarrow> evidence_error \<Rightarrow> string option" where
  "invalid_reason quoted (Unsupported_evidence_abi n) = Some (''unsupported abi '' @ show_int n)"
| "invalid_reason quoted (Evidence_state e) = Some (''signature: state is not well formed: '' @ state_error_text quoted e)"
| "invalid_reason quoted Unsupported_kind = Some ''unsupported evidence kind''"
| "invalid_reason quoted Unsupported_media_type = Some ''unsupported media type for evidence kind''"
| "invalid_reason quoted Payload_not_text = Some ''evidence payload is not text''"
| "invalid_reason quoted Payload_empty = Some ''payload is empty''"
| "invalid_reason quoted _ = None"

definition evidenceReason :: "(string \<Rightarrow> string) \<Rightarrow> evidence_error \<Rightarrow> string" where
  "evidenceReason quoted e =
     (case invalid_reason quoted e of None \<Rightarrow> ''invalid-evidence-envelope''
      | Some reason \<Rightarrow>
          if sublist ''abi'' reason then ''unsupported-evidence-abi''
          else if sublist ''kind'' reason then ''unsupported-evidence-kind''
          else if sublist ''media type'' reason then ''unsupported-evidence-media-type''
          else if sublist ''empty'' reason then ''empty-evidence-payload''
          else ''invalid-evidence-envelope'')"

text \<open>
  \<^verbatim>\<open>VerifyEvidence\<close>: an envelope that does not validate is an invalid result and never an
  operational error.  \<open>sha256\<close> is the hexadecimal SHA-256; \<open>verifiers\<close> are the adapters by kind.
\<close>

definition VerifyEvidence ::
  "(string \<Rightarrow> string) \<Rightarrow> (string \<Rightarrow> string) \<Rightarrow>
   (string \<rightharpoonup> (SignatureEvidence \<Rightarrow> instant \<Rightarrow> evidence_error + VerificationResult)) \<Rightarrow>
   SignatureEvidence \<Rightarrow> instant \<Rightarrow> evidence_error + VerificationResult" where
  "VerifyEvidence sha256 quoted verifiers evidence now =
     (let base = \<lparr>vr_EvidenceKind = ve_Kind evidence,
            vr_StateDigest = (case Digest sha256 (ve_State evidence) of Inl _ \<Rightarrow> [] | Inr d \<Rightarrow> d),
            vr_Cryptographic = ''invalid'', vr_Chain = ''not-applicable'', vr_SigningTime = ''invalid'',
            vr_Revocation = ''unknown'', vr_Publisher = None, vr_RootSource = [],
            vr_OriginAuthorization = ''unsupported'', vr_ReasonCode = [], vr_Diagnostic = [],
            vr_legacyIdentity = None\<rparr>
      in case ValidateEnvelope evidence of
        Some e \<Rightarrow> Inr (base\<lparr>vr_ReasonCode := evidenceReason quoted e,
            vr_Diagnostic := safeDiagnostic (case invalid_reason quoted e of
              Some reason \<Rightarrow> ''signature: invalid evidence: '' @ reason | None \<Rightarrow> [])\<rparr>)
      | None \<Rightarrow>
        (case verifiers (ve_Kind evidence) of
           None \<Rightarrow> Inr (base\<lparr>vr_Cryptographic := ''unsupported'', vr_ReasonCode := ''unsupported-evidence-kind'',
             vr_Diagnostic := ''this cpak build has no verifier for the evidence kind''\<rparr>)
         | Some verify \<Rightarrow> verify evidence now))"

text \<open>The reason code of another media type is never given: its text names the evidence kind, which is looked
  for first.\<close>

lemma media_type_is_reported_as_kind:
  "evidenceReason quoted Unsupported_media_type = ''unsupported-evidence-kind''"
  unfolding evidenceReason_def invalid_reason.simps option.case by code_simp

definition LegacyVerified :: "VerificationResult \<Rightarrow> State \<Rightarrow> evidence_error + Verified" where
  "LegacyVerified result state =
     (let refused = Inl (Not_verified (vr_ReasonCode result)) in
      if vr_Cryptographic result \<noteq> ''verified'' then refused
      else if vr_Chain result = ''untrusted'' \<or> vr_Chain result = ''invalid'' then refused
      else if vr_SigningTime result \<in> {''missing'', ''expired'', ''not-yet-valid'', ''invalid''} then refused
      else if vr_Revocation result = ''revoked'' \<or> vr_Revocation result = ''stale'' then refused
      else case vr_legacyIdentity result of
        Some i \<Rightarrow> Inr \<lparr>vf_State = state, vf_Identity = i, vf_Publisher = vr_Publisher result\<rparr>
      | None \<Rightarrow> (case vr_Publisher result of
            None \<Rightarrow> Inl No_usable_identity
          | Some p \<Rightarrow> Inr \<lparr>vf_State = state, vf_Identity =
                (if pi_Kind p = ''sigstore-oidc-v1''
                 then \<lparr>id_Issuer = pi_Issuer p, id_Subject = pi_Subject p, id_Repo = pi_Repository p\<rparr>
                 else \<lparr>id_Issuer = [], id_Subject = [], id_Repo = []\<rparr>), vf_Publisher = Some p\<rparr>))"

section \<open>Publisher identities\<close>

definition oidc_preimage :: "string \<Rightarrow> string \<Rightarrow> string" where
  "oidc_preimage issuer repo =
     ''cpak.publisher.oidc.v1'' @ [newline] @ ''issuer='' @ issuer @ [newline] @ ''repository='' @ repo @ [newline]"

definition NormalizeOIDCIdentity :: "(string \<Rightarrow> string) \<Rightarrow> Identity \<Rightarrow> PublisherIdentity option" where
  "NormalizeOIDCIdentity sha256 i =
     (case canonicalOrigin (id_Repo i) of None \<Rightarrow> None
      | Some repo \<Rightarrow> Some \<lparr>pi_Kind = ''sigstore-oidc-v1'',
          pi_ID = ''oidc-v1-sha256:'' @ sha256 (oidc_preimage (id_Issuer i) repo),
          pi_DisplayName = repo, pi_Issuer = id_Issuer i, pi_Repository = repo,
          pi_Assurance = ''keyless-oidc'', pi_Subject = id_Subject i\<rparr>)"

datatype OriginAuthorizationStatus = OriginAuthorized | OriginForeign | OriginUnsupported

definition AuthorizeOIDCOrigin :: "PublisherIdentity option \<Rightarrow> string \<Rightarrow> OriginAuthorizationStatus" where
  "AuthorizeOIDCOrigin publisher origin =
     (case publisher of None \<Rightarrow> OriginUnsupported
      | Some p \<Rightarrow>
          if pi_Kind p \<noteq> ''sigstore-oidc-v1'' \<or> pi_Issuer p \<noteq> githubActionsIssuer then OriginUnsupported
          else if canonicalOrigin origin \<noteq> Some origin then OriginUnsupported
          else if pi_Repository p \<noteq> origin then OriginForeign
          else OriginAuthorized)"

section \<open>Laws\<close>

text \<open>
  The preimage of an identity can be read back from its end: the repository holds no line
  break, so its line is the last one whatever the issuer holds.
\<close>

lemma last_line:
  assumes "a @ newline # x = b @ newline # y" "newline \<notin> set x" "newline \<notin> set y"
  shows "a = b \<and> x = y"
proof -
  have r: "rev x @ newline # rev a = rev y @ newline # rev b" using arg_cong [OF assms(1), of rev] by simp
  have "rev x # split_on newline (rev a) = rev y # split_on newline (rev b)"
    using arg_cong [OF r, of "split_on newline"] assms(2,3) by (simp add: split_append_sep)
  with r show ?thesis by simp
qed

lemma oidc_preimage_inj:
  assumes "oidc_preimage issuer repo = oidc_preimage issuer' repo'" "newline \<notin> set repo" "newline \<notin> set repo'"
  shows "issuer = issuer' \<and> repo = repo'"
  using last_line [of issuer "''repository='' @ repo" issuer' "''repository='' @ repo'"] assms
  by (simp add: oidc_preimage_def)

lemma canonical_no_newline: "canonicalOrigin v = Some w \<Longrightarrow> newline \<notin> set w"
  using canonicalOrigin_bytes [of v w newline] origin_byte_excludes(5) by auto

section \<open>Properties\<close>

text \<open>A normalized publisher ID names one issuer and one repository: where the hash does not
  collide on them, two certified identities share an ID exactly when they share the issuer and the
  repository after case folding, whatever bytes an issuer holds.\<close>

theorem publisher_id_names_identity:
  assumes "NormalizeOIDCIdentity sha256 i = Some p" and "NormalizeOIDCIdentity sha256 j = Some q"
    and "inj_on sha256 {oidc_preimage (pi_Issuer p) (pi_Repository p), oidc_preimage (pi_Issuer q) (pi_Repository q)}"
  shows "pi_ID p = pi_ID q \<longleftrightarrow> id_Issuer i = id_Issuer j \<and> sameOrigin (id_Repo i) (id_Repo j)"
proof -
  from assms(1,2) obtain r s where rs: "canonicalOrigin (id_Repo i) = Some r" "canonicalOrigin (id_Repo j) = Some s"
    and ids: "pi_ID p = ''oidc-v1-sha256:'' @ sha256 (oidc_preimage (id_Issuer i) r)"
      "pi_ID q = ''oidc-v1-sha256:'' @ sha256 (oidc_preimage (id_Issuer j) s)"
    and fields: "pi_Issuer p = id_Issuer i" "pi_Repository p = r" "pi_Issuer q = id_Issuer j" "pi_Repository q = s"
    by (auto simp: NormalizeOIDCIdentity_def split: option.splits)
  have "sha256 (oidc_preimage (id_Issuer i) r) = sha256 (oidc_preimage (id_Issuer j) s) \<longleftrightarrow>
      id_Issuer i = id_Issuer j \<and> r = s"
    using inj_on_eq_iff [OF assms(3) [unfolded fields], of "oidc_preimage (id_Issuer i) r" "oidc_preimage (id_Issuer j) s"]
      oidc_preimage_inj [of "id_Issuer i" r "id_Issuer j" s] canonical_no_newline rs by simp metis
  then show ?thesis by (auto simp: ids rs sameOrigin_iff)
qed

text \<open>Origin authorization and the older check agree where both can answer: for an origin in
  canonical form on the supported host, the normalized identity of a certificate is authorized
  exactly when \<^verbatim>\<open>MatchesOrigin\<close> holds of the certificate.\<close>

theorem authorization_agrees_with_matches_origin:
  assumes "canonicalOrigin origin = Some origin" and "origin = githubHost @ ''/'' @ owner @ ''/'' @ name"
  shows "AuthorizeOIDCOrigin (NormalizeOIDCIdentity sha256 i) origin = OriginAuthorized \<longleftrightarrow> MatchesOrigin i origin"
proof -
  have "fst (cut_on CHR ''/'' origin) = githubHost" by (simp add: assms(2) githubHost_def)
  with assms(1) show ?thesis
    by (auto simp: AuthorizeOIDCOrigin_def NormalizeOIDCIdentity_def MatchesOrigin_def split: option.splits)
qed

end
