(* ===== verification/Go_Path.thy ===== *)
theory Go_Path
  imports Cpak_Prelude
begin

text \<open>
  The fragment of Go's \<^verbatim>\<open>path/filepath\<close> the sources use, on a Unix host:
  \<open>Clean\<close>, \<open>IsAbs\<close>, \<open>Base\<close>, \<open>Dir\<close> and \<open>Join\<close>.  \<open>Clean\<close> keeps a stack of
  components, innermost first, exactly as the library's loop keeps its output buffer: an
  empty component and a single dot are skipped, a double dot removes the component before
  it when there is one to remove, is dropped at a root, and is kept otherwise.
\<close>

abbreviation slash :: char where
  "slash \<equiv> CHR ''/''"

definition IsAbs :: "string \<Rightarrow> bool" where
  "IsAbs p \<longleftrightarrow> HasPrefix p ''/''"

fun clean_step :: "bool \<Rightarrow> string list \<Rightarrow> string \<Rightarrow> string list" where
  "clean_step rooted stack c =
     (if c = '''' \<or> c = ''.'' then stack
      else if c = ''..'' then
        (case stack of
           [] \<Rightarrow> (if rooted then [] else [''..''])
         | t # rest \<Rightarrow> (if t = ''..'' then ''..'' # stack else rest))
      else c # stack)"

definition clean_stack :: "bool \<Rightarrow> string list \<Rightarrow> string list" where
  "clean_stack rooted cs = foldl (clean_step rooted) [] cs"

definition render :: "bool \<Rightarrow> string list \<Rightarrow> string" where
  "render rooted stack =
     (if rooted then slash # join_with slash (rev stack)
      else if stack = [] then ''.'' else join_with slash (rev stack))"

definition Clean :: "string \<Rightarrow> string" where
  "Clean p = (if p = '''' then ''.'' else render (IsAbs p) (clean_stack (IsAbs p) (split_on slash p)))"

definition Base :: "string \<Rightarrow> string" where
  "Base p = (if p = '''' then ''.''
     else let q = rev (dropWhile (\<lambda>c. c = slash) (rev p))
          in if q = '''' then ''/'' else last (split_on slash q))"

definition Dir :: "string \<Rightarrow> string" where
  "Dir p = Clean (rev (dropWhile (\<lambda>c. c \<noteq> slash) (rev p)))"

fun Join :: "string list \<Rightarrow> string" where
  "Join [] = ''''"
| "Join (e # es) = (if e = '''' then Join es else Clean (join_with slash (e # es)))"

section \<open>Normal forms\<close>

text \<open>
  The stacks \<open>Clean\<close> can build: proper names, over double dots that only a relative path
  may keep at the bottom.
\<close>

definition proper :: "string \<Rightarrow> bool" where
  "proper c \<longleftrightarrow> c \<noteq> '''' \<and> c \<noteq> ''.'' \<and> c \<noteq> ''..'' \<and> slash \<notin> set c"

definition normal_stack :: "bool \<Rightarrow> string list \<Rightarrow> bool" where
  "normal_stack rooted st \<longleftrightarrow>
     (\<exists>names k. st = names @ replicate k ''..'' \<and> (\<forall>c\<in>set names. proper c) \<and> (rooted \<longrightarrow> k = 0))"

lemma normal_stack_Nil [simp]: "normal_stack r []"
  by (force simp: normal_stack_def)

lemma normal_stackI:
  "(\<forall>c\<in>set names. proper c) \<Longrightarrow> (r \<longrightarrow> k = 0) \<Longrightarrow> normal_stack r (names @ replicate k ''..'')"
  by (auto simp: normal_stack_def)

lemma normal_stack_rooted: "normal_stack True st \<longleftrightarrow> (\<forall>c\<in>set st. proper c)"
  by (auto simp: normal_stack_def)

lemma normal_stack_step:
  assumes "normal_stack r st" and "slash \<notin> set c"
  shows "normal_stack r (clean_step r st c)"
proof -
  obtain names k where st: "st = names @ replicate k ''..''"
    and names: "\<forall>c\<in>set names. proper c" and k: "r \<longrightarrow> k = 0"
    using assms(1) by (auto simp: normal_stack_def)
  consider "c = '''' \<or> c = ''.''" | "c = ''..''" | "proper c"
    using assms(2) by (auto simp: proper_def)
  then show ?thesis
  proof cases
    case 1
    with assms(1) show ?thesis by auto
  next
    case 2
    show ?thesis
    proof (cases names)
      case Nil
      show ?thesis
      proof (cases k)
        case 0
        then show ?thesis using 2 st Nil normal_stackI [of "[]" r 1] by (cases r) auto
      next
        case (Suc j)
        then have "clean_step r st c = [] @ replicate (Suc k) ''..''" using 2 st Nil by simp
        moreover have "\<not> r" using k Suc by simp
        ultimately show ?thesis using normal_stackI [of "[]" r "Suc k"] by simp
      qed
    next
      case (Cons a as)
      then have "clean_step r st c = as @ replicate k ''..''" using 2 st names by (auto simp: proper_def)
      with Cons names k show ?thesis using normal_stackI [of as r k] by simp
    qed
  next
    case 3
    then have "clean_step r st c = (c # names) @ replicate k ''..''" using st by (auto simp: proper_def)
    with 3 names k show ?thesis using normal_stackI [of "c # names" r k] by simp
  qed
qed

lemma normal_stack_foldl:
  "normal_stack r st \<Longrightarrow> (\<forall>c\<in>set cs. slash \<notin> set c) \<Longrightarrow> normal_stack r (foldl (clean_step r) st cs)"
  by (induction cs arbitrary: st) (simp_all add: normal_stack_step del: clean_step.simps)

lemma normal_clean_stack: "normal_stack r (clean_stack r (split_on slash p))"
  unfolding clean_stack_def
  by (rule normal_stack_foldl) (auto dest: split_on_parts)

lemma clean_step_proper: "proper c \<Longrightarrow> clean_step r st c = c # st"
  by (auto simp: proper_def)

lemma foldl_proper: "(\<forall>c\<in>set cs. proper c) \<Longrightarrow> foldl (clean_step r) st cs = rev cs @ st"
  by (induction cs arbitrary: st) (simp_all add: clean_step_proper del: clean_step.simps)

lemma foldl_dotdot: "foldl (clean_step False) (replicate j ''..'') (replicate k ''..'') = replicate (j + k) ''..''"
proof (induction k arbitrary: j)
  case 0
  then show ?case by simp
next
  case (Suc k)
  have step: "clean_step False (replicate j ''..'') ''..'' = replicate (Suc j) ''..''" by (cases j) auto
  have "foldl (clean_step False) (replicate j ''..'') (replicate (Suc k) ''..'') =
    foldl (clean_step False) (clean_step False (replicate j ''..'') ''..'') (replicate k ''..'')"
    by (simp del: clean_step.simps)
  then show ?case using Suc [of "Suc j"] by (simp only: step add_Suc_shift)
qed

lemma clean_stack_normal: "normal_stack r st \<Longrightarrow> clean_stack r (rev st) = st"
proof -
  assume "normal_stack r st"
  then obtain names k where st: "st = names @ replicate k ''..''"
    and names: "\<forall>c\<in>set names. proper c" and k: "r \<longrightarrow> k = 0"
    by (auto simp: normal_stack_def)
  have "foldl (clean_step r) [] (replicate k ''..'') = replicate k ''..''"
    using foldl_dotdot [of 0 k] k by (cases r) auto
  moreover have "rev st = replicate k ''..'' @ rev names" by (simp add: st)
  ultimately show ?thesis using names by (simp add: clean_stack_def st foldl_proper del: clean_step.simps)
qed

lemma normal_stack_part: "normal_stack r st \<Longrightarrow> c \<in> set st \<Longrightarrow> c \<noteq> '''' \<and> c \<noteq> ''.'' \<and> slash \<notin> set c"
  unfolding normal_stack_def proper_def by (elim exE conjE) (simp, elim disjE, auto)

lemma join_head: "ps \<noteq> [] \<Longrightarrow> hd ps \<noteq> [] \<Longrightarrow> join_with c ps \<noteq> [] \<and> hd (join_with c ps) = hd (hd ps)"
  by (cases ps; cases "tl ps") auto

lemma hd_in_first: "normal_stack r st \<Longrightarrow> st \<noteq> [] \<Longrightarrow>
   join_with slash (rev st) \<noteq> [] \<and> hd (join_with slash (rev st)) \<noteq> slash"
proof -
  assume n: "normal_stack r st" and st: "st \<noteq> []"
  then have last: "last st \<noteq> []" "slash \<notin> set (last st)"
    using normal_stack_part [OF n, of "last st"] by auto
  then have "hd (rev st) \<noteq> []" "hd (hd (rev st)) \<noteq> slash"
    using st by (auto simp: hd_rev dest: hd_in_set)
  with st show ?thesis using join_head [of "rev st" slash] by simp
qed

lemma render_not_empty: "normal_stack r st \<Longrightarrow> render r st \<noteq> ''''"
  using hd_in_first by (auto simp: render_def)

lemma render_abs: "normal_stack r st \<Longrightarrow> IsAbs (render r st) \<longleftrightarrow> r"
proof -
  assume n: "normal_stack r st"
  show ?thesis
  proof (cases "r \<or> st = []")
    case True
    then show ?thesis by (auto simp: render_def IsAbs_def)
  next
    case False
    with hd_in_first [OF n] obtain x xs
      where "join_with slash (rev st) = x # xs" "x \<noteq> slash"
      by (cases "join_with slash (rev st)") auto
    with False show ?thesis by (simp add: render_def IsAbs_def)
  qed
qed

lemma split_render:
  "normal_stack r st \<Longrightarrow> clean_stack r (split_on slash (render r st)) = st"
proof -
  assume n: "normal_stack r st"
  have parts: "\<forall>c\<in>set (rev st). slash \<notin> set c" using normal_stack_part [OF n] by auto
  show ?thesis
  proof (cases "st = []")
    case True
    then show ?thesis by (cases r) (auto simp: render_def clean_stack_def)
  next
    case False
    then have s: "split_on slash (join_with slash (rev st)) = rev st" using parts by simp
    have "foldl (clean_step r) [] ('''' # rev st) = foldl (clean_step r) [] (rev st)" by simp
    then show ?thesis using False s clean_stack_normal [OF n]
      by (cases r) (auto simp: render_def clean_stack_def simp del: clean_step.simps)
  qed
qed

theorem Clean_idem [simp]: "Clean (Clean p) = Clean p"
proof (cases "p = ''''")
  case True
  then show ?thesis by (simp add: Clean_def IsAbs_def render_def clean_stack_def)
next
  case False
  let ?st = "clean_stack (IsAbs p) (split_on slash p)"
  have n: "normal_stack (IsAbs p) ?st" by (rule normal_clean_stack)
  with False show ?thesis
    by (simp add: Clean_def render_not_empty render_abs split_render)
qed

lemma Clean_abs [simp]: "IsAbs (Clean p) \<longleftrightarrow> IsAbs p"
proof (cases "p = ''''")
  case True
  then show ?thesis by (simp add: Clean_def IsAbs_def)
next
  case False
  then show ?thesis by (simp add: Clean_def render_abs normal_clean_stack)
qed

text \<open>A clean absolute path is a slash and a list of proper names.\<close>

definition components :: "string \<Rightarrow> string list" where
  "components p = rev (clean_stack (IsAbs p) (split_on slash p))"

lemma components_proper: "IsAbs p \<Longrightarrow> c \<in> set (components p) \<Longrightarrow> proper c"
  using normal_clean_stack [of "IsAbs p" p] by (simp add: components_def normal_stack_rooted)

lemma Clean_components: "IsAbs p \<Longrightarrow> Clean p = slash # join_with slash (components p)"
  by (auto simp: Clean_def render_def components_def IsAbs_def)

lemma clean_abs_split:
  assumes "IsAbs p" and "Clean p = p" and "p \<noteq> ''/''"
  shows "split_on slash p = '''' # components p"
proof -
  have ne: "components p \<noteq> []"
  proof
    assume "components p = []"
    with Clean_components [OF assms(1)] assms(2,3) show False by simp
  qed
  have p: "p = slash # join_with slash (components p)" using Clean_components [OF assms(1)] assms(2) by simp
  have "split_on slash p = '''' # split_on slash (join_with slash (components p))"
    by (subst p) simp
  also have "\<dots> = '''' # components p"
    using ne components_proper [OF assms(1)] by (simp add: proper_def)
  finally show ?thesis .
qed

lemma clean_abs_no_dotdot:
  assumes "IsAbs p" and "Clean p = p"
  shows "''..'' \<notin> set (split_on slash p)"
proof (cases "p = ''/''")
  case True
  then show ?thesis by simp
next
  case False
  with assms components_proper [OF assms(1)] show ?thesis by (auto simp: clean_abs_split proper_def)
qed

text \<open>
  A clean relative path that does not begin by going up is a list of proper names, and
  joining it to a clean absolute directory appends it.
\<close>

lemma clean_rel_split:
  assumes "\<not> IsAbs p" "Clean p = p" "p \<noteq> ''''" "p \<noteq> ''.''" "p \<noteq> ''..''" "\<not> HasPrefix p ''../''"
  shows "\<forall>c\<in>set (split_on slash p). proper c"
proof -
  define st where "st = clean_stack False (split_on slash p)"
  have n: "normal_stack False st" unfolding st_def by (rule normal_clean_stack)
  have p: "p = render False st" using assms(1-3) by (simp add: Clean_def st_def)
  with assms(4) have ne: "st \<noteq> []" by (auto simp: render_def)
  with p have join: "p = join_with slash (rev st)" by (simp add: render_def)
  obtain names k where st: "st = names @ replicate k ''..''" and names: "\<forall>c\<in>set names. proper c"
    using n by (auto simp: normal_stack_def)
  have "k = 0"
  proof (rule ccontr)
    assume "k \<noteq> 0"
    then obtain j where "k = Suc j" by (cases k) auto
    then have "rev st = ''..'' # (replicate j ''..'' @ rev names)" by (simp add: st replicate_append_same)
    with join assms(5,6) show False by (cases "replicate j ''..'' @ rev names") (auto simp: join_with_Cons)
  qed
  then have proper: "\<forall>c\<in>set st. proper c" using names st by simp
  then have "split_on slash p = rev st"
    using ne by (subst join, intro split_join) (auto simp: proper_def)
  with proper show ?thesis by simp
qed

lemma Join_under:
  assumes h: "IsAbs h" "Clean h = h" "h \<noteq> ''/''" and r: "\<forall>c\<in>set (split_on slash r). proper c"
  shows "Join [h, r] = h @ slash # r"
proof -
  have parts: "split_on slash (h @ slash # r) = '''' # components h @ split_on slash r"
    by (simp add: split_append clean_abs_split [OF h])
  have "\<forall>c\<in>set (components h @ split_on slash r). proper c"
    using components_proper [OF h(1)] r by auto
  then have stack: "clean_stack True (split_on slash (h @ slash # r)) = rev (components h @ split_on slash r)"
    using foldl_proper [of "components h @ split_on slash r" True "[]"]
    by (simp add: clean_stack_def parts del: foldl_append)
  have "Clean (h @ slash # r) = slash # join_with slash (components h @ split_on slash r)"
    using h(1) stack by (auto simp: Clean_def render_def IsAbs_def prefix_def)
  also have "\<dots> = join_with slash (split_on slash (h @ slash # r))"
    unfolding parts by (simp add: join_with_Cons)
  finally show ?thesis using h(1) by (auto simp: IsAbs_def)
qed

text \<open>Being inside a directory is a matter of components.\<close>

lemma clean_abs_components:
  assumes "IsAbs p" "Clean p = p" "p \<noteq> ''/''"
  shows "components p \<noteq> []" "p = slash # join_with slash (components p)"
  using Clean_components [OF assms(1)] assms by auto

lemma under_components:
  assumes d: "IsAbs d" "Clean d = d" "d \<noteq> ''/''" and p: "IsAbs p" "Clean p = p"
  shows "p = d \<or> HasPrefix p (d @ ''/'') \<longleftrightarrow> prefix (components d) (components p)"
proof
  assume "p = d \<or> HasPrefix p (d @ ''/'')"
  then show "prefix (components d) (components p)"
  proof
    assume "HasPrefix p (d @ ''/'')"
    then obtain r where r: "p = d @ slash # r" by (auto simp: prefix_def)
    with d(1) have "p \<noteq> ''/''" by (cases d) (auto simp: IsAbs_def)
    then have "'''' # components p = '''' # components d @ split_on slash r"
      using r clean_abs_split [OF d] clean_abs_split [OF p] by (simp add: split_append)
    then show ?thesis by simp
  qed simp
next
  assume "prefix (components d) (components p)"
  then obtain xs where xs: "components p = components d @ xs" by (auto simp: prefix_def)
  have pc: "p = slash # join_with slash (components p)" using Clean_components [OF p(1)] p(2) by simp
  show "p = d \<or> HasPrefix p (d @ ''/'')"
  proof (cases "xs = []")
    case True
    with xs pc clean_abs_components [OF d] show ?thesis by simp
  next
    case False
    then have "p = d @ slash # join_with slash xs"
      using xs pc clean_abs_components [OF d] by (simp add: join_append)
    then show ?thesis by (auto simp: prefix_def)
  qed
qed

lemma clean_abs_no_trailing:
  assumes "IsAbs d" "Clean d = d" "d \<noteq> ''/''"
  shows "TrimSuffix d ''/'' = d"
proof -
  have "\<not> HasSuffix d ''/''"
  proof
    assume "HasSuffix d ''/''"
    then obtain e where "d = e @ slash # []" by (auto simp: suffix_def)
    then have "[] \<in> set (tl (split_on slash d))"
      by (cases "split_on slash e") (auto simp: split_append)
    with clean_abs_split [OF assms] components_proper [OF assms(1)] show False
      by (auto simp: proper_def)
  qed
  then show ?thesis by (simp add: TrimSuffix_def)
qed

lemma Clean_under:
  assumes d: "IsAbs d" and cs: "\<forall>c\<in>set cs. proper c" "cs \<noteq> []"
  shows "Clean (join_with slash (d # cs)) = slash # join_with slash (components d @ cs)"
proof -
  have parts: "split_on slash (join_with slash cs) = cs" using cs by (intro split_join) (auto simp: proper_def)
  have path: "join_with slash (d # cs) = d @ slash # join_with slash cs" using cs(2) by (rule join_with_Cons)
  have abs: "IsAbs (join_with slash (d # cs))" using d by (auto simp: path IsAbs_def prefix_def)
  have "clean_stack True (split_on slash (join_with slash (d # cs))) =
      rev cs @ clean_stack True (split_on slash d)"
    using foldl_proper [OF cs(1), of True "clean_stack True (split_on slash d)"]
    by (simp add: path split_append parts clean_stack_def)
  then show ?thesis
    using abs d by (simp add: Clean_def render_def components_def) (auto simp: IsAbs_def)
qed

lemma join_components_inj:
  assumes "slash # join_with slash ps = slash # join_with slash qs"
    and "\<forall>c\<in>set ps. proper c" "\<forall>c\<in>set qs. proper c" "ps \<noteq> []" "qs \<noteq> []"
  shows "ps = qs"
proof -
  have "split_on slash (join_with slash ps) = ps" "split_on slash (join_with slash qs) = qs"
    using assms(2-) by (auto simp: proper_def intro!: split_join)
  with assms(1) show ?thesis by (metis list.inject)
qed

end
