(* ===== verification/Restriction.thy ===== *)
theory Restriction
  imports Cpak_Prelude
begin

text \<open>
  The contract between every component that compares permissions and every component that
  narrows them.  \<open>restricts current candidate\<close> says that moving from \<open>current\<close> to \<open>candidate\<close>
  grants nothing new; the enforcement code relies on it being a preorder when it compares
  each step of an installation only with the step before it.  A component that also computes
  what two parties both grant promises a greatest lower bound, and nested launches rely on
  that.
\<close>

locale restriction =
  fixes restricts :: "'p \<Rightarrow> 'p \<Rightarrow> bool"
  assumes restricts_refl: "restricts p p"
    and restricts_trans: "restricts p q \<Longrightarrow> restricts q r \<Longrightarrow> restricts p r"
begin

definition equivalent :: "'p \<Rightarrow> 'p \<Rightarrow> bool" where
  "equivalent p q \<longleftrightarrow> restricts p q \<and> restricts q p"

lemma equivalent_sym: "equivalent p q \<Longrightarrow> equivalent q p"
  by (simp add: equivalent_def)

lemma equivalent_trans: "equivalent p q \<Longrightarrow> equivalent q r \<Longrightarrow> equivalent p r"
  by (auto simp: equivalent_def intro: restricts_trans)

lemma narrowing_steps: "restricts\<^sup>*\<^sup>* p q \<Longrightarrow> restricts p q"
  by (induction rule: rtranclp_induct) (auto intro: restricts_refl restricts_trans)

text \<open>
  A history in which every policy restricts the one before it never grants more at its end
  than at its beginning.
\<close>

lemma narrowing_history:
  assumes "successively restricts (p # ps)"
  shows "restricts p (last (p # ps))"
  using assms
proof (induction ps arbitrary: p)
  case Nil
  then show ?case by (simp add: restricts_refl)
next
  case (Cons q ps)
  then show ?case using restricts_trans [of p q] by auto
qed

end

locale restriction_lower = restriction restricts for restricts :: "'p \<Rightarrow> 'p \<Rightarrow> bool" +
  fixes meet :: "'p \<Rightarrow> 'p \<Rightarrow> 'p"
  assumes meet_left: "restricts p (meet p q)"
    and meet_right: "restricts q (meet p q)"
begin

text \<open>A policy folded under any number of ceilings stays under each of them, and under itself.\<close>

lemma fold_under_ceilings:
  "restricts p (fold meet ceilings p) \<and> (\<forall>c\<in>set ceilings. restricts c (fold meet ceilings p))"
proof (induction ceilings arbitrary: p)
  case Nil
  then show ?case by (simp add: restricts_refl)
next
  case (Cons c cs)
  from Cons.IH [of "meet c p"] show ?case
    by (auto intro: restricts_trans [OF meet_left] restricts_trans [OF meet_right])
qed

end

locale restriction_meet = restriction_lower restricts meet
  for restricts :: "'p \<Rightarrow> 'p \<Rightarrow> bool" and meet +
  assumes meet_greatest: "restricts p r \<Longrightarrow> restricts q r \<Longrightarrow> restricts (meet p q) r"
begin

lemma meet_commutes: "equivalent (meet p q) (meet q p)"
  by (simp add: equivalent_def meet_greatest meet_left meet_right)

lemma meet_absorbs: "restricts p q \<Longrightarrow> equivalent (meet p q) q"
  by (simp add: equivalent_def meet_greatest meet_right restricts_refl)

lemma meet_mono: "restricts p p' \<Longrightarrow> restricts q q' \<Longrightarrow> restricts (meet p q) (meet p' q')"
  by (blast intro: meet_greatest meet_left meet_right restricts_trans)

end

end
