(* ===== verification/Dbus_Policy.thy ===== *)
theory Dbus_Policy
  imports Regex Restriction
begin

text \<open>
  \<^verbatim>\<open>pkg/types/dbus.go\<close>: the calls an application may make on the session bus and the names it
  may own there.
\<close>

section \<open>Data\<close>

record DBusCallGrant =
  Name :: string
  Path :: string
  Interface :: string
  Members :: "string list"

record DBusPolicy =
  Talk :: "DBusCallGrant list"
  Own :: "string list"

datatype dbus_error =
  Policy_too_large
| Invalid_bus_name string
| Duplicate_bus_name string
| Invalid_destination string
| Invalid_object_path string
| Invalid_interface string
| Invalid_member_count string
| Invalid_member string
| Duplicate_member string
| Duplicate_rule string string string

definition alpha_cls :: "(char \<times> char) list" where
  "alpha_cls = [(CHR ''A'', CHR ''Z''), (CHR ''a'', CHR ''z''), (CHR ''_'', CHR ''_'')]"

definition alnum_cls :: "(char \<times> char) list" where
  "alnum_cls = (CHR ''0'', CHR ''9'') # alpha_cls"

definition dbusElement :: "(char \<times> char) list \<Rightarrow> rx" where
  "dbusElement k = Cat (Cls alpha_cls) (Star (Cls k))"

definition dbusNamePattern :: rx where
  "dbusNamePattern = (let e = dbusElement ((CHR ''-'', CHR ''-'') # alnum_cls)
     in Cat e (plus (Cat (one CHR ''.'') e)))"

definition dbusInterfacePattern :: rx where
  "dbusInterfacePattern = (let e = dbusElement alnum_cls in Cat e (plus (Cat (one CHR ''.'') e)))"

definition dbusMemberPattern :: rx where
  "dbusMemberPattern = dbusElement alnum_cls"

definition dbusPathPattern :: rx where
  "dbusPathPattern = Cat (one CHR ''/'')
     (optional (Cat (plus (Cls alnum_cls)) (Star (Cat (one CHR ''/'') (plus (Cls alnum_cls))))))"

section \<open>Operations\<close>

definition DBus_Enabled :: "DBusPolicy \<Rightarrow> bool" where
  "DBus_Enabled p \<longleftrightarrow> length (Talk p) > 0 \<or> length (Own p) > 0"

definition validDBusName :: "string \<Rightarrow> bool" where
  "validDBusName name \<longleftrightarrow> length name \<le> 255 \<and> matches dbusNamePattern name"

definition rule_key :: "DBusCallGrant \<Rightarrow> string" where
  "rule_key rule = Name rule @ [CHR 0x00] @ Path rule @ [CHR 0x00] @ Interface rule"

definition validateRule :: "DBusCallGrant \<Rightarrow> dbus_error err" where
  "validateRule rule =
     (if \<not> validDBusName (Name rule) then Some (Invalid_destination (Name rule))
      else if length (Path rule) > 255 \<or> \<not> matches dbusPathPattern (Path rule) then Some (Invalid_object_path (Path rule))
      else if length (Interface rule) > 255 \<or> \<not> matches dbusInterfacePattern (Interface rule)
        then Some (Invalid_interface (Interface rule))
      else if length (Members rule) = 0 \<or> length (Members rule) > 64 then Some (Invalid_member_count (Name rule))
      else check_unique (\<lambda>member. if length member > 255 \<or> \<not> matches dbusMemberPattern member
                           then Some (Invalid_member member) else None)
             id Duplicate_member [] (Members rule))"

definition ValidateDBusPolicy :: "DBusPolicy \<Rightarrow> dbus_error err" where
  "ValidateDBusPolicy policy =
     (if length (Talk policy) > 64 \<or> length (Own policy) > 32 then Some Policy_too_large
      else and_then
        (check_unique (\<lambda>name. if \<not> validDBusName name then Some (Invalid_bus_name name) else None)
           id Duplicate_bus_name [] (Own policy))
        (check_unique validateRule rule_key
           (\<lambda>rule. Duplicate_rule (Name rule) (Path rule) (Interface rule)) [] (Talk policy)))"

definition AllowsCall :: "DBusPolicy \<Rightarrow> string \<Rightarrow> string \<Rightarrow> string \<Rightarrow> string \<Rightarrow> bool" where
  "AllowsCall p name path interfaceName member =
     list_ex (\<lambda>rule. Name rule = name \<and> Path rule = path \<and> Interface rule = interfaceName \<and>
                     list_ex (\<lambda>allowed. allowed = member) (Members rule)) (Talk p)"

definition AllowsOwn :: "DBusPolicy \<Rightarrow> string \<Rightarrow> bool" where
  "AllowsOwn p name = list_ex (\<lambda>allowed. allowed = name) (Own p)"

definition DBusPolicyRestricts :: "DBusPolicy \<Rightarrow> DBusPolicy \<Rightarrow> bool" where
  "DBusPolicyRestricts current candidate \<longleftrightarrow>
     list_all (AllowsOwn current) (Own candidate) \<and>
     list_all (\<lambda>rule. list_all (AllowsCall current (Name rule) (Path rule) (Interface rule)) (Members rule))
       (Talk candidate)"

definition CanonicalDBusPolicy :: "DBusPolicy \<Rightarrow> DBusPolicy" where
  "CanonicalDBusPolicy policy =
     \<lparr>Talk = sort_key rule_key (map (\<lambda>rule. rule\<lparr>Members := sort (Members rule)\<rparr>) (Talk policy)),
      Own = sort (Own policy)\<rparr>"

definition IntersectDBusPolicies :: "DBusPolicy \<Rightarrow> DBusPolicy \<Rightarrow> DBusPolicy" where
  "IntersectDBusPolicies left right =
     CanonicalDBusPolicy
       \<lparr>Talk = filter (\<lambda>rule. length (Members rule) > 0)
          (map (\<lambda>rule. rule\<lparr>Members := filter (AllowsCall right (Name rule) (Path rule) (Interface rule)) (Members rule)\<rparr>)
               (Talk left)),
        Own = filter (AllowsOwn right) (Own left)\<rparr>"

section \<open>What a policy allows\<close>

lemma AllowsOwn_iff: "AllowsOwn p n \<longleftrightarrow> n \<in> set (Own p)"
  by (auto simp: AllowsOwn_def list_ex_iff)

lemma AllowsCall_iff:
  "AllowsCall p n q i m \<longleftrightarrow> (\<exists>r\<in>set (Talk p). Name r = n \<and> Path r = q \<and> Interface r = i \<and> m \<in> set (Members r))"
  by (auto simp: AllowsCall_def list_ex_iff)

lemma DBusPolicyRestricts_iff:
  "DBusPolicyRestricts p q \<longleftrightarrow> (\<forall>n. AllowsOwn q n \<longrightarrow> AllowsOwn p n) \<and>
     (\<forall>n o' i m. AllowsCall q n o' i m \<longrightarrow> AllowsCall p n o' i m)"
  by (fastforce simp: DBusPolicyRestricts_def AllowsOwn_iff [of q] AllowsCall_iff [of q] list_all_iff)

lemma Canonical_AllowsOwn [simp]: "AllowsOwn (CanonicalDBusPolicy p) n \<longleftrightarrow> AllowsOwn p n"
  by (simp add: AllowsOwn_iff CanonicalDBusPolicy_def)

lemma Canonical_AllowsCall [simp]: "AllowsCall (CanonicalDBusPolicy p) n q i m \<longleftrightarrow> AllowsCall p n q i m"
  by (simp add: AllowsCall_iff CanonicalDBusPolicy_def)

lemma Intersect_AllowsOwn:
  "AllowsOwn (IntersectDBusPolicies p q) n \<longleftrightarrow> AllowsOwn p n \<and> AllowsOwn q n"
  unfolding IntersectDBusPolicies_def Canonical_AllowsOwn by (auto simp: AllowsOwn_iff)

lemma Intersect_AllowsCall:
  "AllowsCall (IntersectDBusPolicies p q) n o' i m \<longleftrightarrow> AllowsCall p n o' i m \<and> AllowsCall q n o' i m"
  unfolding IntersectDBusPolicies_def Canonical_AllowsCall
  by (simp add: AllowsCall_iff [of p] AllowsCall_iff [of "\<lparr>Talk = _, Own = _\<rparr>"])
    (fastforce simp: filter_empty_conv)

lemmas intersect_dbus = Intersect_AllowsOwn Intersect_AllowsCall

interpretation dbus: restriction_meet DBusPolicyRestricts IntersectDBusPolicies
  by unfold_locales (auto simp: DBusPolicyRestricts_iff intersect_dbus)

section \<open>Canonical form\<close>

text \<open>What canonicalisation sorts by tells rules of a validated policy apart.\<close>

lemma Canonical_sorted:
  "sorted (Own (CanonicalDBusPolicy p)) \<and> sorted (map rule_key (Talk (CanonicalDBusPolicy p))) \<and>
   (\<forall>r\<in>set (Talk (CanonicalDBusPolicy p)). sorted (Members r))"
  by (auto simp: CanonicalDBusPolicy_def)

lemma rule_key_Members [simp]: "rule_key (r\<lparr>Members := ms\<rparr>) = rule_key r"
  by (simp add: rule_key_def)

lemma Canonical_idem: "CanonicalDBusPolicy (CanonicalDBusPolicy p) = CanonicalDBusPolicy p"
proof -
  have "map (\<lambda>rule. rule\<lparr>Members := sort (Members rule)\<rparr>) (Talk (CanonicalDBusPolicy p)) = Talk (CanonicalDBusPolicy p)"
    by (rule map_idI) (auto simp: CanonicalDBusPolicy_def sorted_sort_id)
  then show ?thesis
    using Canonical_sorted [of p]
    unfolding CanonicalDBusPolicy_def [of "CanonicalDBusPolicy p"]
    by (simp add: sorted_sort_id sort_key_id_if_sorted)
qed

end
