(* ===== verification/Host_Actions.thy ===== *)
theory Host_Actions
  imports Restriction
begin

text \<open>
  \<^verbatim>\<open>pkg/types/host_action.go\<close> and \<^verbatim>\<open>actionsCovered\<close> of \<^verbatim>\<open>pkg/integrity/policy.go\<close>: the typed host
  services an application may use.
\<close>

record HostActionGrant =
  Provider :: string
  Capabilities :: "string list"

datatype action_error =
  Unsupported_provider string
| Duplicate_provider string
| No_capabilities string
| Unsupported_capability string string
| Duplicate_capability string string

definition validContainerCapability :: "string \<Rightarrow> bool" where
  "validContainerCapability capability \<longleftrightarrow> capability \<in> {''read'', ''manage-owned'', ''exec-owned''}"

text \<open>
  The loop of \<^verbatim>\<open>ValidateHostActions\<close>: the provider is checked and recorded before its
  capabilities are looked at.
\<close>

fun validate_grants :: "string list \<Rightarrow> HostActionGrant list \<Rightarrow> action_error err" where
  "validate_grants providers [] = None"
| "validate_grants providers (grant # rest) =
     (if Provider grant \<noteq> ''containers'' then Some (Unsupported_provider (Provider grant))
      else if Provider grant \<in> set providers then Some (Duplicate_provider (Provider grant))
      else if length (Capabilities grant) = 0 then Some (No_capabilities (Provider grant))
      else and_then
        (check_unique (\<lambda>capability. if validContainerCapability capability then None
                         else Some (Unsupported_capability (Provider grant) capability))
           id (Duplicate_capability (Provider grant)) [] (Capabilities grant))
        (validate_grants (Provider grant # providers) rest))"

definition ValidateHostActions :: "HostActionGrant list \<Rightarrow> action_error err" where
  "ValidateHostActions grants = validate_grants [] grants"

text \<open>
  The capabilities of the first grant that names the provider; a nil map holds none.
\<close>

definition HostActionCapabilities :: "HostActionGrant list \<Rightarrow> string \<Rightarrow> string set" where
  "HostActionCapabilities grants provider =
     (case List.find (\<lambda>grant. Provider grant = provider) grants of
        None \<Rightarrow> {} | Some grant \<Rightarrow> set (Capabilities grant))"

definition IntersectHostActions :: "HostActionGrant list \<Rightarrow> HostActionGrant list \<Rightarrow> HostActionGrant list" where
  "IntersectHostActions parent child =
     map (\<lambda>g. g\<lparr>Capabilities := sort (Capabilities g)\<rparr>)
       (filter (\<lambda>g. length (Capabilities g) \<noteq> 0)
         (map (\<lambda>requested. \<lparr>Provider = Provider requested, Capabilities =
                 filter (\<lambda>c. c \<in> HostActionCapabilities parent (Provider requested)) (Capabilities requested)\<rparr>) child))"

text \<open>
  \<^verbatim>\<open>actionsCovered\<close> unites the grants of one provider before it compares; a provider nobody
  holds is refused even when nothing is asked of it.
\<close>

definition heldCapabilities :: "HostActionGrant list \<Rightarrow> string \<Rightarrow> string set option" where
  "heldCapabilities current provider =
     (if list_ex (\<lambda>action. Provider action = provider) current
      then Some (\<Union>action\<in>{a \<in> set current. Provider a = provider}. set (Capabilities action)) else None)"

definition actionsCovered :: "HostActionGrant list \<Rightarrow> HostActionGrant list \<Rightarrow> bool" where
  "actionsCovered current candidate =
     list_all (\<lambda>action. case heldCapabilities current (Provider action) of
        None \<Rightarrow> False | Some held \<Rightarrow> list_all (\<lambda>c. c \<in> held) (Capabilities action)) candidate"

section \<open>Laws\<close>

lemma heldCapabilities_Some:
  "heldCapabilities gs p = Some h \<longleftrightarrow> (\<exists>g\<in>set gs. Provider g = p) \<and>
     h = {c. \<exists>g\<in>set gs. Provider g = p \<and> c \<in> set (Capabilities g)}"
  by (auto simp: heldCapabilities_def list_ex_iff)

lemma actionsCovered_iff:
  "actionsCovered current candidate \<longleftrightarrow>
     (\<forall>a\<in>set candidate. (\<exists>g\<in>set current. Provider g = Provider a) \<and>
        (\<forall>c\<in>set (Capabilities a). \<exists>g\<in>set current. Provider g = Provider a \<and> c \<in> set (Capabilities g)))"
  by (auto simp: actionsCovered_def list_all_iff heldCapabilities_def list_ex_iff)

lemma Intersect_actions_member:
  assumes "g \<in> set (IntersectHostActions parent child)"
  obtains r where "r \<in> set child" "Provider g = Provider r" "set (Capabilities g) \<noteq> {}"
    "set (Capabilities g) = set (Capabilities r) \<inter> HostActionCapabilities parent (Provider r)"
proof -
  from assms obtain r where "r \<in> set child"
    "g = \<lparr>Provider = Provider r, Capabilities =
       sort (filter (\<lambda>c. c \<in> HostActionCapabilities parent (Provider r)) (Capabilities r))\<rparr>"
    "filter (\<lambda>c. c \<in> HostActionCapabilities parent (Provider r)) (Capabilities r) \<noteq> []"
    by (auto simp: IntersectHostActions_def)
  then show ?thesis by (intro that [of r]) (auto simp: filter_empty_conv)
qed

lemma HostActionCapabilities_held:
  "c \<in> HostActionCapabilities gs p \<Longrightarrow> \<exists>g\<in>set gs. Provider g = p \<and> c \<in> set (Capabilities g)"
  by (auto simp: HostActionCapabilities_def find_Some_iff split: option.splits)

lemma actionsCovered_trans: "actionsCovered p q \<Longrightarrow> actionsCovered q r \<Longrightarrow> actionsCovered p r"
  unfolding actionsCovered_iff by metis

lemma Intersect_actions_parent: "actionsCovered parent (IntersectHostActions parent child)"
  unfolding actionsCovered_iff
proof
  fix a assume "a \<in> set (IntersectHostActions parent child)"
  then obtain r where r: "r \<in> set child" "Provider a = Provider r" "set (Capabilities a) \<noteq> {}"
    "set (Capabilities a) = set (Capabilities r) \<inter> HostActionCapabilities parent (Provider r)"
    by (rule Intersect_actions_member)
  then have "\<forall>c\<in>set (Capabilities a). \<exists>g\<in>set parent. Provider g = Provider a \<and> c \<in> set (Capabilities g)"
    using HostActionCapabilities_held by fastforce
  then show "(\<exists>g\<in>set parent. Provider g = Provider a) \<and>
      (\<forall>c\<in>set (Capabilities a). \<exists>g\<in>set parent. Provider g = Provider a \<and> c \<in> set (Capabilities g))"
    using r(3) by (metis all_not_in_conv)
qed

lemma Intersect_actions_child: "actionsCovered child (IntersectHostActions parent child)"
  unfolding actionsCovered_iff by (auto elim!: Intersect_actions_member)

interpretation actions: restriction_lower actionsCovered IntersectHostActions
  by unfold_locales
    (auto simp: Intersect_actions_parent Intersect_actions_child intro: actionsCovered_trans, auto simp: actionsCovered_iff)

end
