(* ===== verification/Permissions.thy ===== *)
theory Permissions
  imports Go_Path Dbus_Policy Host_Actions
begin

text \<open>
  \<^verbatim>\<open>pkg/types/override.go\<close> and \<^verbatim>\<open>pkg/types/filesystem.go\<close>: everything an application may be
  allowed to do, the paths it may be granted and where they resolve, and the reading of the
  legacy filesystem fields as typed grants.  The environment of the process is a record of
  the answers of the operating system; \<^verbatim>\<open>strconv.Unquote\<close> is one of its fields.
\<close>

section \<open>Data\<close>

record FilesystemPermission =
  fp_Path :: string
  fp_Access :: string

record FilePickerGrant =
  OpenFile :: bool
  OpenFolder :: bool
  SaveFile :: bool
  Persistent :: bool
  ContainingFolder :: bool

record Override =
  SocketX11 :: bool
  DisplayX11 :: bool
  SocketWayland :: bool
  SocketPulseAudio :: bool
  SocketSessionBus :: bool
  SocketSystemBus :: bool
  SocketSshAgent :: bool
  SocketCups :: bool
  SocketGpgAgent :: bool
  SocketAtSpiBus :: bool
  SocketBluetooth :: bool
  Bluetooth :: bool
  DeviceDri :: bool
  DeviceKvm :: bool
  DeviceShm :: bool
  DeviceAlsa :: bool
  DeviceVideo :: bool
  DeviceFuse :: bool
  DeviceTun :: bool
  DeviceUsb :: bool
  DeviceSerial :: bool
  DeviceInput :: bool
  DeviceTTY :: bool
  DeviceAll :: bool
  Notification :: bool
  OpenURI :: bool
  HostApplications :: bool
  HostActions :: "HostActionGrant list"
  FilePicker :: FilePickerGrant
  SessionBus :: DBusPolicy
  Filesystem :: "FilesystemPermission list"
  FsHost :: bool
  FsHostEtc :: bool
  FsHostHome :: bool
  FsExtra :: "string list"
  Env :: "string list"
  Network :: bool
  Process :: bool
  UserNamespaces :: bool
  MemoryMaxMB :: int
  CPUQuota :: int
  PidsMax :: int
  AsRoot :: bool
  AllowedHostCommands :: "string list"

text \<open>\<^verbatim>\<open>NewOverride\<close>: what a manifest gets for every permission it does not mention.\<close>

definition NewOverride :: Override where
  "NewOverride =
     \<lparr>SocketX11 = False, DisplayX11 = False, SocketWayland = False, SocketPulseAudio = False,
      SocketSessionBus = False, SocketSystemBus = False, SocketSshAgent = False, SocketCups = False,
      SocketGpgAgent = False, SocketAtSpiBus = False, SocketBluetooth = False, Bluetooth = False,
      DeviceDri = False, DeviceKvm = False, DeviceShm = False, DeviceAlsa = False, DeviceVideo = False,
      DeviceFuse = False, DeviceTun = False, DeviceUsb = False, DeviceSerial = False, DeviceInput = False,
      DeviceTTY = False, DeviceAll = False, Notification = False, OpenURI = False, HostApplications = False,
      HostActions = [],
      FilePicker = \<lparr>OpenFile = False, OpenFolder = False, SaveFile = False, Persistent = False, ContainingFolder = False\<rparr>,
      SessionBus = \<lparr>Talk = [], Own = []\<rparr>, Filesystem = [], FsHost = False, FsHostEtc = False,
      FsHostHome = False, FsExtra = [], Env = [], Network = False, Process = False, UserNamespaces = False,
      MemoryMaxMB = 0, CPUQuota = 0, PidsMax = 0, AsRoot = False, AllowedHostCommands = []\<rparr>"

abbreviation read_only :: string where "read_only \<equiv> ''read-only''"
abbreviation read_write :: string where "read_write \<equiv> ''read-write''"

datatype file_error = File_missing | File_unreadable

record environment =
  UserHomeDir :: "string option"
  XDG_CONFIG_HOME :: string
  ReadFile :: "string \<Rightarrow> file_error + string"
  Unquote :: "string \<Rightarrow> string option"

datatype fs_error =
  Invalid_filesystem_path string
| Invalid_filesystem_access string
| Host_scope_writable
| Duplicate_filesystem_path string
| Home_unavailable
| Unknown_xdg_directory string
| Xdg_unreadable
| Xdg_unavailable string
| Resolves_inside_state string

section \<open>Paths a grant may name\<close>

definition xdgDirectoryKeys :: "(string \<times> string) list" where
  "xdgDirectoryKeys =
     [(''xdg-desktop'', ''DESKTOP''), (''xdg-documents'', ''DOCUMENTS''), (''xdg-download'', ''DOWNLOAD''),
      (''xdg-music'', ''MUSIC''), (''xdg-pictures'', ''PICTURES''), (''xdg-public-share'', ''PUBLICSHARE''),
      (''xdg-templates'', ''TEMPLATES''), (''xdg-videos'', ''VIDEOS'')]"

definition xdgDirectoryDefaults :: "(string \<times> string) list" where
  "xdgDirectoryDefaults =
     [(''DESKTOP'', ''Desktop''), (''DOCUMENTS'', ''Documents''), (''DOWNLOAD'', ''Downloads''),
      (''MUSIC'', ''Music''), (''PICTURES'', ''Pictures''), (''PUBLICSHARE'', ''Public''),
      (''TEMPLATES'', ''Templates''), (''VIDEOS'', ''Videos'')]"

definition homeFilesystemSubpath :: "string \<Rightarrow> string option" where
  "homeFilesystemSubpath path =
     (if path = ''home'' then Some ''.''
      else if \<not> HasPrefix path ''home/'' then None
      else let relative = TrimPrefix path ''home/'' in
        if relative = [] \<or> IsAbs relative \<or> Clean relative \<noteq> relative \<or> relative = ''.'' \<or>
           relative = ''..'' \<or> HasPrefix relative ''../''
        then None else Some relative)"

definition validFilesystemPath :: "string \<Rightarrow> bool" where
  "validFilesystemPath path =
     (if path = ''host'' then True
      else if homeFilesystemSubpath path \<noteq> None then True
      else if map_of xdgDirectoryKeys path \<noteq> None then True
      else path \<noteq> ''/'' \<and> IsAbs path \<and> Clean path = path)"

definition validatePermission :: "FilesystemPermission \<Rightarrow> fs_error err" where
  "validatePermission p =
     (if \<not> validFilesystemPath (fp_Path p) then Some (Invalid_filesystem_path (fp_Path p))
      else if fp_Access p \<noteq> read_only \<and> fp_Access p \<noteq> read_write then Some (Invalid_filesystem_access (fp_Access p))
      else if fp_Path p = ''host'' \<and> fp_Access p \<noteq> read_only then Some Host_scope_writable
      else None)"

definition ValidateFilesystemPermissions :: "FilesystemPermission list \<Rightarrow> fs_error err" where
  "ValidateFilesystemPermissions permissions =
     check_unique validatePermission fp_Path (\<lambda>p. Duplicate_filesystem_path (fp_Path p)) [] permissions"

section \<open>Where a grant resolves\<close>

definition usable_home :: "environment \<Rightarrow> string option" where
  "usable_home env =
     (case UserHomeDir env of None \<Rightarrow> None
      | Some home \<Rightarrow> if home = [] \<or> \<not> IsAbs home \<or> Clean home \<noteq> home \<or> home = ''/'' then None else Some home)"

fun parse_xdg_lines :: "environment \<Rightarrow> string \<Rightarrow> string \<Rightarrow> string list \<Rightarrow> string option" where
  "parse_xdg_lines env start home [] = None"
| "parse_xdg_lines env start home (l # ls) =
     (let line = TrimSpace l in
      if \<not> HasPrefix line start then parse_xdg_lines env start home ls
      else case Unquote env (TrimSpace (TrimPrefix line start)) of
          None \<Rightarrow> None
        | Some value \<Rightarrow>
            if value = ''$HOME'' then Some home
            else if HasPrefix value ''$HOME/'' then Some (Join [home, TrimPrefix value ''$HOME/''])
            else Some value)"

definition parseXDGUserDirectory :: "environment \<Rightarrow> string \<Rightarrow> string \<Rightarrow> string \<Rightarrow> string option" where
  "parseXDGUserDirectory env data key home =
     parse_xdg_lines env (''XDG_'' @ key @ ''_DIR='') home (split_on (CHR 0x0A) data)"

definition resolveXDGUserDirectory :: "environment \<Rightarrow> string \<Rightarrow> fs_error + string" where
  "resolveXDGUserDirectory env scope =
     (case usable_home env of None \<Rightarrow> Inl Home_unavailable | Some home \<Rightarrow>
      case map_of xdgDirectoryKeys scope of None \<Rightarrow> Inl (Unknown_xdg_directory scope) | Some key \<Rightarrow>
        let configHome = (if XDG_CONFIG_HOME env = [] then Join [home, ''.config''] else XDG_CONFIG_HOME env);
            fallback = Join [home, the (map_of xdgDirectoryDefaults key)];
            finish = (\<lambda>path. let path = Clean path in
               if path = home \<or> path = ''/'' \<or> \<not> IsAbs path then Inl (Xdg_unavailable scope) else Inr path)
        in case ReadFile env (Join [configHome, ''user-dirs.dirs'']) of
             Inr data \<Rightarrow> (case parseXDGUserDirectory env data key home of
                 Some configured \<Rightarrow> finish configured | None \<Rightarrow> finish fallback)
           | Inl File_missing \<Rightarrow> finish fallback
           | Inl File_unreadable \<Rightarrow> Inl Xdg_unreadable)"

definition ResolveFilesystemPermission ::
  "environment \<Rightarrow> FilesystemPermission \<Rightarrow> fs_error + (string \<times> string)" where
  "ResolveFilesystemPermission env p =
     (case ValidateFilesystemPermissions [p] of Some e \<Rightarrow> Inl e | None \<Rightarrow>
        if fp_Path p = ''host'' then Inr (''/'', ''/run/host'')
        else case homeFilesystemSubpath (fp_Path p) of
          Some relative \<Rightarrow>
            (case usable_home env of None \<Rightarrow> Inl Home_unavailable
             | Some home \<Rightarrow> if relative = ''.'' then Inr (home, home)
                            else let path = Join [home, relative] in Inr (path, path))
        | None \<Rightarrow>
            if map_of xdgDirectoryKeys (fp_Path p) \<noteq> None
            then bind_result (resolveXDGUserDirectory env (fp_Path p)) (\<lambda>path. Inr (path, path))
            else Inr (fp_Path p, fp_Path p))"

section \<open>The state of cpak itself\<close>

definition usableAbsolutePath :: "string \<Rightarrow> bool" where
  "usableAbsolutePath path \<longleftrightarrow> path \<noteq> [] \<and> IsAbs path \<and> Clean path \<noteq> ''/''"

definition appendStateDirectory :: "string list \<Rightarrow> string \<Rightarrow> string list" where
  "appendStateDirectory directories path =
     (if \<not> usableAbsolutePath path then directories
      else let path = Clean path in if path \<in> set directories then directories else directories @ [path])"

definition CpakStateDirectories :: "string \<Rightarrow> string list \<Rightarrow> string list" where
  "CpakStateDirectories home roots =
     (let directories = foldl appendStateDirectory [] roots in
      if usableAbsolutePath home
      then appendStateDirectory (appendStateDirectory directories (Join [home, ''.config'', ''cpak'']))
             (Join [home, ''.local'', ''share'', ''applications''])
      else directories)"

definition PathIsCpakState :: "string \<Rightarrow> string list \<Rightarrow> bool" where
  "PathIsCpakState path directories =
     (if path = [] then False
      else let path = Clean path in
        list_ex (\<lambda>directory. path = directory \<or> HasPrefix path (TrimSuffix directory ''/'' @ ''/'')) directories)"

definition RefuseCpakStateGrants ::
  "environment \<Rightarrow> FilesystemPermission list \<Rightarrow> string list \<Rightarrow> fs_error err" where
  "RefuseCpakStateGrants env permissions directories =
     first_error (\<lambda>p. case ResolveFilesystemPermission env p of Inl _ \<Rightarrow> None
        | Inr (source, _) \<Rightarrow> if PathIsCpakState source directories then Some (Resolves_inside_state (fp_Path p)) else None)
       permissions"

section \<open>Legacy filesystem fields\<close>

definition LegacyFilesystemGrant :: "string \<Rightarrow> FilesystemPermission option" where
  "LegacyFilesystemGrant path =
     (let cleaned = Clean path in
      if \<not> IsAbs cleaned \<or> cleaned = ''/'' \<or> \<not> validFilesystemPath cleaned then None
      else Some \<lparr>fp_Path = cleaned, fp_Access = read_write\<rparr>)"

text \<open>
  \<^verbatim>\<open>widestPerPath\<close> keeps one grant per path at the place the path was first named and widens
  it in place.
\<close>

definition fold_grant :: "FilesystemPermission list \<Rightarrow> FilesystemPermission \<Rightarrow> FilesystemPermission list" where
  "fold_grant folded p =
     (if fp_Path p \<notin> fp_Path ` set folded then folded @ [p]
      else if fp_Access p = read_write
        then map (\<lambda>q. if fp_Path q = fp_Path p then q\<lparr>fp_Access := read_write\<rparr> else q) folded
      else folded)"

definition widestPerPath :: "FilesystemPermission list \<Rightarrow> FilesystemPermission list" where
  "widestPerPath permissions = foldl fold_grant [] permissions"

definition legacy_grants :: "Override \<Rightarrow> FilesystemPermission list" where
  "legacy_grants p =
     (if FsHost p then [\<lparr>fp_Path = ''host'', fp_Access = read_only\<rparr>] else []) @
     (if FsHostEtc p then [\<lparr>fp_Path = ''/etc'', fp_Access = read_only\<rparr>] else []) @
     (if FsHostHome p then [\<lparr>fp_Path = ''home'', fp_Access = read_write\<rparr>] else []) @
     List.map_filter LegacyFilesystemGrant (FsExtra p)"

definition WithMigratedFilesystem :: "Override \<Rightarrow> Override" where
  "WithMigratedFilesystem p =
     (if \<not> FsHost p \<and> \<not> FsHostEtc p \<and> \<not> FsHostHome p \<and> FsExtra p = [] then p
      else p\<lparr>Filesystem := widestPerPath (Filesystem p @ legacy_grants p),
             FsHost := False, FsHostEtc := False, FsHostHome := False, FsExtra := []\<rparr>)"

section \<open>Laws of the readings\<close>

lemma validatePermission_None [validation]:
  "validatePermission p = None \<longleftrightarrow> validFilesystemPath (fp_Path p) \<and> fp_Access p \<in> {read_only, read_write} \<and>
     (fp_Path p = ''host'' \<longrightarrow> fp_Access p = read_only)"
  by (auto simp: validatePermission_def)

lemma Validate_fs_None [validation]:
  "ValidateFilesystemPermissions ps = None \<longleftrightarrow>
     (\<forall>p\<in>set ps. validatePermission p = None) \<and> distinct (map fp_Path ps)"
  by (simp add: ValidateFilesystemPermissions_def check_unique_None)

lemma fold_grant_paths: "map fp_Path (fold_grant acc p) =
    (if fp_Path p \<in> fp_Path ` set acc then map fp_Path acc else map fp_Path acc @ [fp_Path p])"
  by (auto simp: fold_grant_def)

lemma fold_grant_member:
  "q \<in> set (fold_grant acc p) \<Longrightarrow>
     (q \<in> set acc \<and> \<not> (fp_Path q = fp_Path p \<and> fp_Access p = read_write)) \<or>
     (fp_Path q = fp_Path p \<and> fp_Access q = fp_Access p)"
  by (auto simp: fold_grant_def image_iff split: if_splits)

text \<open>
  \<open>wide acc ps\<close>: the table \<open>acc\<close> holds exactly the paths of \<open>ps\<close>, once each, and one of them
  is writable exactly when some grant of \<open>ps\<close> on it is.
\<close>

definition wide :: "FilesystemPermission list \<Rightarrow> FilesystemPermission list \<Rightarrow> bool" where
  "wide acc ps \<longleftrightarrow> distinct (map fp_Path acc) \<and> fp_Path ` set acc = fp_Path ` set ps \<and>
     (\<forall>q\<in>set acc. \<exists>p\<in>set ps. fp_Path p = fp_Path q \<and> fp_Access p = fp_Access q) \<and>
     (\<forall>q\<in>set acc. (\<exists>p\<in>set ps. fp_Path p = fp_Path q \<and> fp_Access p = read_write) \<longrightarrow> fp_Access q = read_write)"

lemma wide_step: "wide acc ps \<Longrightarrow> wide (fold_grant acc p) (ps @ [p])"
proof -
  assume w: "wide acc ps"
  have "distinct (map fp_Path (fold_grant acc p))"
    using w by (auto simp: wide_def fold_grant_paths)
  moreover have "fp_Path ` set (fold_grant acc p) = fp_Path ` set (ps @ [p])"
    using w arg_cong [OF fold_grant_paths [of acc p], of set] by (auto simp: wide_def split: if_splits)
  moreover have "\<exists>p'\<in>set (ps @ [p]). fp_Path p' = fp_Path q \<and> fp_Access p' = fp_Access q"
    if "q \<in> set (fold_grant acc p)" for q
    using fold_grant_member [OF that] w by (auto simp: wide_def)
  moreover have "fp_Access q = read_write"
    if "q \<in> set (fold_grant acc p)" "p' \<in> set (ps @ [p])" "fp_Path p' = fp_Path q" "fp_Access p' = read_write" for q p'
  proof (cases "fp_Path q = fp_Path p \<and> fp_Access q = fp_Access p")
    case True
    show ?thesis
    proof (cases "p' = p")
      case False
      with that True w have "fp_Path p \<in> fp_Path ` set acc" by (auto simp: wide_def intro: rev_image_eqI)
      with that False True w show ?thesis by (auto simp: wide_def fold_grant_def split: if_splits)
    qed (use that True in simp)
  next
    case False
    with fold_grant_member [OF that(1)] have "q \<in> set acc" "\<not> (fp_Path q = fp_Path p \<and> fp_Access p = read_write)" by auto
    with that w show ?thesis by (auto simp: wide_def)
  qed
  ultimately show ?thesis unfolding wide_def by blast
qed

lemma wide_foldl: "wide acc ps \<Longrightarrow> wide (foldl fold_grant acc qs) (ps @ qs)"
proof (induction qs arbitrary: acc ps)
  case (Cons q qs)
  from Cons.IH [OF wide_step [OF Cons.prems, of q]] show ?case by simp
qed simp

lemma widest_wide: "wide (widestPerPath ps) ps"
  using wide_foldl [of "[]" "[]" ps] by (simp add: wide_def widestPerPath_def)

lemma LegacyFilesystemGrant_valid:
  "LegacyFilesystemGrant path = Some g \<Longrightarrow> validatePermission g = None"
  by (auto simp: LegacyFilesystemGrant_def Let_def validation IsAbs_def split: if_splits)

lemma valid_literals: "validFilesystemPath ''host''" "validFilesystemPath ''/etc''" "validFilesystemPath ''home''"
  by code_simp+

lemma literal_grants_valid:
  "validatePermission \<lparr>fp_Path = ''host'', fp_Access = read_only\<rparr> = None"
  "validatePermission \<lparr>fp_Path = ''/etc'', fp_Access = read_only\<rparr> = None"
  "validatePermission \<lparr>fp_Path = ''home'', fp_Access = read_write\<rparr> = None"
  by (simp_all add: validation valid_literals)

lemma legacy_grants_valid: "g \<in> set (legacy_grants ov) \<Longrightarrow> validatePermission g = None"
  by (auto simp: legacy_grants_def literal_grants_valid map_filter_def
      intro: LegacyFilesystemGrant_valid split: if_splits)

lemma wide_valid:
  assumes "wide acc ps" "\<And>p. p \<in> set ps \<Longrightarrow> validatePermission p = None"
  shows "ValidateFilesystemPermissions acc = None"
  using assms by (fastforce simp: wide_def validation)

lemma wide_covers:
  assumes "wide acc ps" "p \<in> set ps"
  shows "\<exists>q\<in>set acc. fp_Path q = fp_Path p \<and> (fp_Access p = read_write \<longrightarrow> fp_Access q = read_write)"
proof -
  have "fp_Path p \<in> fp_Path ` set acc" using assms by (simp add: wide_def)
  then obtain q where q: "q \<in> set acc" "fp_Path q = fp_Path p" by (metis imageE)
  moreover have "fp_Access q = read_write" if "fp_Access p = read_write"
    using that assms q unfolding wide_def by metis
  ultimately show ?thesis by blast
qed

lemma usable_home_Some:
  "usable_home env = Some home \<longleftrightarrow> UserHomeDir env = Some home \<and> IsAbs home \<and> Clean home = home \<and> home \<noteq> ''/''"
  by (auto simp: usable_home_def IsAbs_def split: option.splits)

lemma homeFilesystemSubpath_proper:
  "homeFilesystemSubpath path = Some relative \<Longrightarrow> relative \<noteq> ''.'' \<Longrightarrow> \<forall>c\<in>set (split_on slash relative). proper c"
  by (rule clean_rel_split) (auto simp: homeFilesystemSubpath_def Let_def split: if_splits)

lemma resolveXDG_clean:
  "resolveXDGUserDirectory env scope = Inr path \<Longrightarrow> IsAbs path \<and> Clean path = path \<and> path \<noteq> ''/''"
  by (auto simp: resolveXDGUserDirectory_def Let_def split: option.splits sum.splits file_error.splits if_splits)

lemma CpakState_clean:
  "d \<in> set (CpakStateDirectories home roots) \<Longrightarrow> IsAbs d \<and> Clean d = d \<and> d \<noteq> ''/''"
proof -
  define good where "good ds \<longleftrightarrow> (\<forall>d\<in>set ds. IsAbs d \<and> Clean d = d \<and> d \<noteq> ''/'')" for ds
  have step: "good ds \<Longrightarrow> good (appendStateDirectory ds p)" for ds p
    by (auto simp: good_def appendStateDirectory_def usableAbsolutePath_def Let_def)
  have "good ds \<Longrightarrow> good (foldl appendStateDirectory ds roots)" for ds
    by (induction roots arbitrary: ds) (auto intro: step)
  from this [of "[]"] have "good (CpakStateDirectories home roots)"
    unfolding CpakStateDirectories_def Let_def by (auto intro!: step) (simp_all add: good_def)
  then show "d \<in> set (CpakStateDirectories home roots) \<Longrightarrow> ?thesis" by (simp add: good_def)
qed

lemma resolve_contained:
  assumes "ResolveFilesystemPermission env p = Inr (source, target)"
  shows "IsAbs source \<and> Clean source = source \<and> IsAbs target \<and> Clean target = target \<and>
    (source = ''/'' \<longrightarrow> fp_Path p = ''host'' \<and> fp_Access p = read_only \<and> target = ''/run/host'') \<and>
    (homeFilesystemSubpath (fp_Path p) \<noteq> None \<longrightarrow>
       (\<exists>home. UserHomeDir env = Some home \<and> target = source \<and> prefix (components home) (components source)))"
proof -
  have valid: "validatePermission p = None"
    using assms by (auto simp: ResolveFilesystemPermission_def Validate_fs_None split: option.splits)
  then have v: "ValidateFilesystemPermissions [p] = None" by (simp add: Validate_fs_None)
  note resolve = assms [unfolded ResolveFilesystemPermission_def v option.case]
  show ?thesis
  proof (cases "fp_Path p = ''host''")
    case True
    with resolve have "source = ''/''" "target = ''/run/host''" by auto
    moreover have "fp_Access p = read_only" using valid True by (simp add: validatePermission_None)
    moreover have "homeFilesystemSubpath ''host'' = None" "Clean ''/'' = ''/''" "Clean ''/run/host'' = ''/run/host''"
      by code_simp+
    ultimately show ?thesis using True by (simp add: IsAbs_def)
  next
    case host: False
    show ?thesis
    proof (cases "homeFilesystemSubpath (fp_Path p)")
      case (Some relative)
      with resolve host valid obtain home where home: "usable_home env = Some home"
        and src: "source = (if relative = ''.'' then home else Join [home, relative])" "target = source"
        by (auto simp: Let_def split: option.splits if_splits)
      note h = home [unfolded usable_home_Some]
      have "source = home \<or> source = home @ slash # relative"
        using src Join_under [of home relative] homeFilesystemSubpath_proper [OF Some] h by auto
      moreover have "Clean source = source"
        using src h by (auto simp: IsAbs_def)
      moreover have "IsAbs source" using calculation(1) h by (auto simp: IsAbs_def prefix_def)
      ultimately show ?thesis
        using h src(2) under_components [of home source] by (auto simp: IsAbs_def prefix_def)
    next
      case None
      show ?thesis
      proof (cases "map_of xdgDirectoryKeys (fp_Path p)")
        case None
        with \<open>homeFilesystemSubpath (fp_Path p) = None\<close> host valid resolve show ?thesis
          by (auto simp: validation validFilesystemPath_def)
      next
        case (Some key)
        with \<open>homeFilesystemSubpath (fp_Path p) = None\<close> host valid resolve resolveXDG_clean show ?thesis
          by (auto simp: bind_result_Inr)
      qed
    qed
  qed
qed

section \<open>Properties\<close>

text \<open>Reading the legacy filesystem fields as typed grants loses nothing and invents no
  invalid policy: a policy whose typed grants validate still does after the reading, every
  grant it held, typed or legacy, is still held on the same path and is writable if it was,
  no legacy field is left, and reading twice is reading once.\<close>

theorem migrated_filesystem:
  assumes "ValidateFilesystemPermissions (Filesystem ov) = None"
  shows "ValidateFilesystemPermissions (Filesystem (WithMigratedFilesystem ov)) = None \<and>
    (\<forall>g\<in>set (Filesystem ov @ legacy_grants ov). \<exists>q\<in>set (Filesystem (WithMigratedFilesystem ov)).
       fp_Path q = fp_Path g \<and> (fp_Access g = read_write \<longrightarrow> fp_Access q = read_write)) \<and>
    legacy_grants (WithMigratedFilesystem ov) = [] \<and>
    WithMigratedFilesystem (WithMigratedFilesystem ov) = WithMigratedFilesystem ov"
proof (cases "FsHost ov \<or> FsHostEtc ov \<or> FsHostHome ov \<or> FsExtra ov \<noteq> []")
  case True
  define fs where "fs = Filesystem ov @ legacy_grants ov"
  have m: "WithMigratedFilesystem ov =
      ov\<lparr>Filesystem := widestPerPath fs, FsHost := False, FsHostEtc := False, FsHostHome := False, FsExtra := []\<rparr>"
    using True by (auto simp: WithMigratedFilesystem_def fs_def)
  have "validatePermission p = None" if "p \<in> set fs" for p
    using that assms legacy_grants_valid by (auto simp: fs_def Validate_fs_None)
  then have "ValidateFilesystemPermissions (widestPerPath fs) = None"
    by (rule wide_valid [OF widest_wide])
  with wide_covers [OF widest_wide, of _ fs] show ?thesis
    by (simp add: m fs_def legacy_grants_def) (simp add: WithMigratedFilesystem_def)
next
  case False
  then have "WithMigratedFilesystem ov = ov" "legacy_grants ov = []"
    by (auto simp: WithMigratedFilesystem_def legacy_grants_def map_filter_def)
  with assms show ?thesis by auto
qed

text \<open>Where a grant resolves: the source and the target are clean absolute paths, only the
  host scope reaches the root of the host, and a home scope stays inside the home directory.\<close>

theorem resolution_is_contained:
  assumes "ResolveFilesystemPermission env p = Inr (source, target)"
  shows "IsAbs source \<and> Clean source = source \<and> IsAbs target \<and> Clean target = target \<and>
    (source = ''/'' \<longrightarrow> fp_Path p = ''host'' \<and> fp_Access p = read_only \<and> target = ''/run/host'') \<and>
    (homeFilesystemSubpath (fp_Path p) \<noteq> None \<longrightarrow>
       (\<exists>home. UserHomeDir env = Some home \<and> target = source \<and> prefix (components home) (components source)))"
  using assms by (rule resolve_contained)


end
