(* ===== verification/Policy_Order.thy ===== *)
theory Policy_Order
  imports Permissions
begin

text \<open>
  \<^verbatim>\<open>pkg/integrity/policy.go\<close> and \<^verbatim>\<open>root.go\<close>: when one policy grants no more than another, and the
  roots an installed application is recognised by.  A policy is hashed as its JSON members;
  a member Go omits is \<open>None\<close> in the table.  The hash is the argument \<open>digest\<close>.
\<close>

section \<open>The order on policies\<close>

definition policy_flags :: "Override \<Rightarrow> bool list" where
  "policy_flags p =
     [SocketX11 p, DisplayX11 p, SocketWayland p, SocketPulseAudio p, SocketSessionBus p, SocketSystemBus p,
      SocketSshAgent p, SocketCups p, SocketGpgAgent p, SocketAtSpiBus p, SocketBluetooth p, Bluetooth p,
      DeviceDri p, DeviceKvm p, DeviceShm p, DeviceAlsa p, DeviceVideo p, DeviceFuse p, DeviceTun p,
      DeviceUsb p, DeviceSerial p, DeviceInput p, DeviceTTY p, DeviceAll p, Notification p, OpenURI p,
      HostApplications p, Network p, Process p, UserNamespaces p, AsRoot p, OpenFile (FilePicker p),
      OpenFolder (FilePicker p), SaveFile (FilePicker p), Persistent (FilePicker p),
      ContainingFolder (FilePicker p)]"

definition policy_limits :: "Override \<Rightarrow> int list" where
  "policy_limits p = [MemoryMaxMB p, CPUQuota p, PidsMax p]"

text \<open>A limit of zero means no limit.\<close>

definition limit_covers :: "int \<Rightarrow> int \<Rightarrow> bool" where
  "limit_covers held wanted = (if held = 0 then True else if wanted = 0 \<or> wanted > held then False else True)"

definition pathCovers :: "string \<Rightarrow> string \<Rightarrow> bool" where
  "pathCovers held wanted =
     (if held = wanted \<or> held = ''host'' then True else HasPrefix wanted (TrimSuffix held ''/'' @ ''/''))"

definition accessCovers :: "string \<Rightarrow> string \<Rightarrow> bool" where
  "accessCovers held wanted = (if held = wanted then True else held = read_write \<and> wanted = read_only)"

definition permissionsCovered :: "FilesystemPermission list \<Rightarrow> FilesystemPermission list \<Rightarrow> bool" where
  "permissionsCovered current candidate =
     list_all (\<lambda>wanted. list_ex (\<lambda>held. pathCovers (fp_Path held) (fp_Path wanted) \<and>
        accessCovers (fp_Access held) (fp_Access wanted)) current) candidate"

definition subset_of :: "string list \<Rightarrow> string list \<Rightarrow> bool" where
  "subset_of candidate current = list_all (\<lambda>v. v \<in> set current) candidate"

definition Restricts :: "Override \<Rightarrow> Override \<Rightarrow> bool" where
  "Restricts current candidate =
     (let current = WithMigratedFilesystem current; candidate = WithMigratedFilesystem candidate in
      list_all2 (\<lambda>wanted held. wanted \<longrightarrow> held) (policy_flags candidate) (policy_flags current) \<and>
      list_all2 (\<lambda>wanted held. limit_covers held wanted) (policy_limits candidate) (policy_limits current) \<and>
      subset_of (AllowedHostCommands candidate) (AllowedHostCommands current) \<and>
      actionsCovered (HostActions current) (HostActions candidate) \<and>
      DBusPolicyRestricts (SessionBus current) (SessionBus candidate) \<and>
      permissionsCovered (Filesystem current) (Filesystem candidate) \<and>
      Env current = Env candidate)"

section \<open>Roots\<close>

definition sortedPermissions :: "FilesystemPermission list \<Rightarrow> FilesystemPermission list" where
  "sortedPermissions values = sort_key fp_Path (sort_key fp_Access values)"

definition actionKey :: "HostActionGrant \<Rightarrow> string" where
  "actionKey action = Provider action @ [CHR 0x00] @ join_with CHR '','' (sort (Capabilities action))"

definition sortedActions :: "HostActionGrant list \<Rightarrow> HostActionGrant list" where
  "sortedActions values = sort_key actionKey (map (\<lambda>a. a\<lparr>Capabilities := sort (Capabilities a)\<rparr>) values)"

definition canonicalPolicy :: "Override \<Rightarrow> Override" where
  "canonicalPolicy p = p\<lparr>Filesystem := sortedPermissions (Filesystem p), HostActions := sortedActions (HostActions p),
     SessionBus := CanonicalDBusPolicy (SessionBus p), FsExtra := sort (FsExtra p),
     AllowedHostCommands := sort (AllowedHostCommands p)\<rparr>"

datatype member =
  MBool bool | MInt int | MStrings "string list" | MActions "HostActionGrant list"
| MPicker FilePickerGrant | MBus DBusPolicy | MGrants "FilesystemPermission list"

text \<open>The \<^verbatim>\<open>omitempty\<close> option: false and the empty list are left out.\<close>

definition omit_false :: "bool \<Rightarrow> member option" where
  "omit_false b = (if b then Some (MBool b) else None)"

definition omit_empty :: "('a list \<Rightarrow> member) \<Rightarrow> 'a list \<Rightarrow> member option" where
  "omit_empty c xs = (if xs = [] then None else Some (c xs))"

definition policy_keys :: "string list" where
  "policy_keys =
     [''socketX11'', ''displayX11'', ''socketWayland'', ''socketPulseAudio'', ''socketSessionBus'',
      ''socketSystemBus'', ''socketSshAgent'', ''socketCups'', ''socketGpgAgent'', ''socketAtSpiBus'',
      ''socketBluetooth'', ''bluetooth'', ''deviceDri'', ''deviceKvm'', ''deviceShm'', ''deviceAlsa'',
      ''deviceVideo'', ''deviceFuse'', ''deviceTun'', ''deviceUsb'', ''deviceSerial'', ''deviceInput'',
      ''deviceTTY'', ''deviceAll'', ''notification'', ''openURI'', ''hostApplications'', ''hostActions'',
      ''filePicker'', ''sessionBus'', ''filesystem'', ''fsHost'', ''fsHostEtc'', ''fsHostHome'', ''fsExtra'',
      ''env'', ''network'', ''process'', ''userNamespaces'', ''memoryMaxMB'', ''cpuQuota'', ''pidsMax'',
      ''asRoot'', ''allowedHostCommands'']"

definition policy_values :: "Override \<Rightarrow> member option list" where
  "policy_values p =
     [Some (MBool (SocketX11 p)), Some (MBool (DisplayX11 p)), Some (MBool (SocketWayland p)),
      Some (MBool (SocketPulseAudio p)), Some (MBool (SocketSessionBus p)), Some (MBool (SocketSystemBus p)),
      Some (MBool (SocketSshAgent p)), Some (MBool (SocketCups p)), Some (MBool (SocketGpgAgent p)),
      Some (MBool (SocketAtSpiBus p)), Some (MBool (SocketBluetooth p)), Some (MBool (Bluetooth p)),
      Some (MBool (DeviceDri p)), Some (MBool (DeviceKvm p)), Some (MBool (DeviceShm p)),
      Some (MBool (DeviceAlsa p)), Some (MBool (DeviceVideo p)), Some (MBool (DeviceFuse p)),
      Some (MBool (DeviceTun p)), Some (MBool (DeviceUsb p)), Some (MBool (DeviceSerial p)),
      Some (MBool (DeviceInput p)), Some (MBool (DeviceTTY p)), Some (MBool (DeviceAll p)),
      Some (MBool (Notification p)), Some (MBool (OpenURI p)), Some (MBool (HostApplications p)),
      omit_empty MActions (HostActions p), Some (MPicker (FilePicker p)), Some (MBus (SessionBus p)),
      omit_empty MGrants (Filesystem p), omit_false (FsHost p), omit_false (FsHostEtc p),
      omit_false (FsHostHome p), omit_empty MStrings (FsExtra p), omit_empty MStrings (Env p),
      Some (MBool (Network p)), Some (MBool (Process p)), Some (MBool (UserNamespaces p)),
      Some (MInt (MemoryMaxMB p)), Some (MInt (CPUQuota p)), Some (MInt (PidsMax p)),
      Some (MBool (AsRoot p)), omit_empty MStrings (AllowedHostCommands p)]"

type_synonym table = "(string \<times> member option) list"

definition json_members :: "table \<Rightarrow> (string \<times> member) list" where
  "json_members t = List.map_filter (\<lambda>(k, v). map_option (Pair k) v) t"

datatype schema_error =
  Serial_not_in_schema | Bus_not_in_schema | Desktop_not_in_schema
| Member_missing string | Unsupported_schema int

text \<open>
  Removing the bytes of one member from the encoding, which is possible exactly when the
  member has the value that is looked for.
\<close>

definition remove_member :: "string \<Rightarrow> member \<Rightarrow> table \<Rightarrow> schema_error + table" where
  "remove_member key v t =
     (if (key, Some v) \<in> set t then Inr (map (\<lambda>(k, w). if k = key then (k, None) else (k, w)) t)
      else Inl (Member_missing key))"

definition empty_bus :: DBusPolicy where
  "empty_bus = \<lparr>Talk = [], Own = []\<rparr>"

definition removeDesktopCapabilityFields :: "table \<Rightarrow> schema_error + table" where
  "removeDesktopCapabilityFields t =
     bind_result (remove_member ''displayX11'' (MBool False) t) (remove_member ''bluetooth'' (MBool False))"

definition schema_table :: "Override \<Rightarrow> int \<Rightarrow> schema_error + table" where
  "schema_table p schema =
     (let canonical = canonicalPolicy p; encoded = zip policy_keys (policy_values canonical) in
      if schema = 1 then
        (if DeviceSerial canonical then Inl Serial_not_in_schema
         else if DBus_Enabled (SessionBus canonical) then Inl Bus_not_in_schema
         else bind_result (remove_member ''deviceSerial'' (MBool False) encoded) (\<lambda>t.
              bind_result (remove_member ''sessionBus'' (MBus empty_bus) t) removeDesktopCapabilityFields))
      else if schema = 2 then
        (if DBus_Enabled (SessionBus canonical) then Inl Bus_not_in_schema
         else bind_result (remove_member ''sessionBus'' (MBus empty_bus) encoded) removeDesktopCapabilityFields)
      else if schema = 3 then
        (if DisplayX11 canonical \<or> Bluetooth canonical then Inl Desktop_not_in_schema
         else removeDesktopCapabilityFields encoded)
      else if schema = 4 then Inr encoded
      else Inl (Unsupported_schema schema))"

definition PolicyRootForSchema ::
  "(string \<Rightarrow> (string \<times> member) list \<Rightarrow> 'h) \<Rightarrow> Override \<Rightarrow> int \<Rightarrow> schema_error + 'h" where
  "PolicyRootForSchema digest p schema =
     bind_result (schema_table p schema) (\<lambda>t. Inr (digest ''policy'' (json_members t)))"

definition PolicyRoot :: "(string \<Rightarrow> (string \<times> member) list \<Rightarrow> 'h) \<Rightarrow> Override \<Rightarrow> schema_error + 'h" where
  "PolicyRoot digest p = PolicyRootForSchema digest p 4"

text \<open>The bytes a policy root and a launch root are the hash of.\<close>

definition policy_messages :: "Override \<Rightarrow> int \<Rightarrow> (string \<times> member) list set" where
  "policy_messages p schema = (case schema_table p schema of Inl _ \<Rightarrow> {} | Inr t \<Rightarrow> {json_members t})"

definition launch_message :: "string \<Rightarrow> string \<Rightarrow> string" where
  "launch_message packageRoot policyRoot =
     ''cpak.launch.v1'' @ [CHR 0x0A] @ packageRoot @ [CHR 0x0A] @ policyRoot @ [CHR 0x0A]"

definition LaunchRoot :: "(string \<Rightarrow> 'h) \<Rightarrow> string \<Rightarrow> string \<Rightarrow> 'h" where
  "LaunchRoot sha256 packageRoot policyRoot = sha256 (launch_message packageRoot policyRoot)"

record LayerBinding =
  OCIDigest :: string
  StateID :: string
  StateRoot :: string

record Package =
  pk_Origin :: string
  pk_Selector :: string
  pk_Version :: string
  pk_ManifestDigest :: string
  pk_ImageDigest :: string
  pk_ConfigDigest :: string
  pk_Layers :: "LayerBinding list"
  pk_Dependencies :: "string list"
  pk_Addons :: "string list"
  pk_Binaries :: "string list"
  pk_DesktopEntries :: "string list"
  pk_Sessions :: "string list"

datatype package_error = Identity_incomplete | Unbound_layer string

definition canonicalPackage :: "Package \<Rightarrow> Package" where
  "canonicalPackage p = p\<lparr>pk_Dependencies := sort (pk_Dependencies p), pk_Addons := sort (pk_Addons p),
     pk_Binaries := sort (pk_Binaries p), pk_DesktopEntries := sort (pk_DesktopEntries p),
     pk_Sessions := sort (pk_Sessions p)\<rparr>"

definition PackageRoot :: "(string \<Rightarrow> Package \<Rightarrow> 'h) \<Rightarrow> Package \<Rightarrow> package_error + 'h" where
  "PackageRoot digest p =
     (if pk_Origin p = [] \<or> pk_ImageDigest p = [] then Inl Identity_incomplete
      else case List.find (\<lambda>l. OCIDigest l = [] \<or> StateID l = [] \<or> StateRoot l = []) (pk_Layers p) of
        Some l \<Rightarrow> Inl (Unbound_layer (OCIDigest l))
      | None \<Rightarrow> Inr (digest ''package'' (canonicalPackage p)))"

section \<open>The order is a preorder\<close>

lemma limit_covers_iff: "limit_covers held wanted \<longleftrightarrow> held = 0 \<or> (wanted \<noteq> 0 \<and> wanted \<le> held)"
  by (auto simp: limit_covers_def)

lemma limit_covers_trans: "limit_covers a b \<Longrightarrow> limit_covers b c \<Longrightarrow> limit_covers a c"
  by (auto simp: limit_covers_iff)

lemma path_below_itself: "prefix p (TrimSuffix p ''/'' @ ''/'')"
proof (cases "HasSuffix p ''/''")
  case True
  then show ?thesis using TrimSuffix_eq [OF True] by simp
next
  case False
  then show ?thesis by (simp add: TrimSuffix_def)
qed

lemma pathCovers_refl [simp]: "pathCovers p p"
  by (simp add: pathCovers_def)

lemma pathCovers_trans: "pathCovers a b \<Longrightarrow> pathCovers b c \<Longrightarrow> pathCovers a c"
proof -
  assume ab: "pathCovers a b" and bc: "pathCovers b c"
  show "pathCovers a c"
  proof (cases "a = ''host'' \<or> a = b \<or> b = c")
    case True
    with ab bc show ?thesis by (auto simp: pathCovers_def)
  next
    case False
    with ab have below: "prefix (TrimSuffix a ''/'' @ ''/'') b" by (simp add: pathCovers_def)
    have "slash \<in> set b" using set_mono_prefix [OF below] by auto
    then have "b \<noteq> ''host''" by auto
    with bc False have "prefix (TrimSuffix b ''/'' @ ''/'') c" by (simp add: pathCovers_def)
    with below path_below_itself [of b] have "prefix (TrimSuffix a ''/'' @ ''/'') c"
      by (meson prefix_order.order_trans)
    then show ?thesis by (simp add: pathCovers_def)
  qed
qed

lemma accessCovers_refl [simp]: "accessCovers a a"
  by (simp add: accessCovers_def)

lemma accessCovers_trans: "accessCovers a b \<Longrightarrow> accessCovers b c \<Longrightarrow> accessCovers a c"
  by (auto simp: accessCovers_def split: if_splits)

lemma permissionsCovered_iff:
  "permissionsCovered p q \<longleftrightarrow> (\<forall>w\<in>set q. \<exists>h\<in>set p. pathCovers (fp_Path h) (fp_Path w) \<and> accessCovers (fp_Access h) (fp_Access w))"
  by (simp add: permissionsCovered_def list_all_iff list_ex_iff)

lemma permissionsCovered_refl: "permissionsCovered p p"
  unfolding permissionsCovered_iff by (blast intro: pathCovers_refl accessCovers_refl)

lemma permissionsCovered_trans: "permissionsCovered p q \<Longrightarrow> permissionsCovered q r \<Longrightarrow> permissionsCovered p r"
  unfolding permissionsCovered_iff by (meson pathCovers_trans accessCovers_trans)

lemma subset_of_iff: "subset_of p q \<longleftrightarrow> set p \<subseteq> set q"
  by (auto simp: subset_of_def list_all_iff)

lemma flags_trans:
  "list_all2 (\<longrightarrow>) xs ys \<Longrightarrow> list_all2 (\<longrightarrow>) ys zs \<Longrightarrow> list_all2 (\<longrightarrow>) xs (zs :: bool list)"
  by (rule list_all2_trans [of "(\<longrightarrow>)" "(\<longrightarrow>)" "(\<longrightarrow>)"]) auto

lemma limits_trans:
  "list_all2 (\<lambda>w h. limit_covers h w) xs ys \<Longrightarrow> list_all2 (\<lambda>w h. limit_covers h w) ys zs \<Longrightarrow>
     list_all2 (\<lambda>w h. limit_covers h w) xs zs"
  by (rule list_all2_trans [of "\<lambda>w h. limit_covers h w" "\<lambda>w h. limit_covers h w" "\<lambda>w h. limit_covers h w"])
    (auto intro: limit_covers_trans)

lemma Restricts_refl: "Restricts p p"
  unfolding Restricts_def Let_def
  by (auto simp: permissionsCovered_refl subset_of_iff limit_covers_iff actions.restricts_refl dbus.restricts_refl
      intro: list.rel_refl)

lemma Restricts_trans: "Restricts p q \<Longrightarrow> Restricts q r \<Longrightarrow> Restricts p r"
  unfolding Restricts_def Let_def subset_of_iff
  by (elim conjE, intro conjI)
    (auto intro: flags_trans limits_trans actions.restricts_trans dbus.restricts_trans permissionsCovered_trans)

interpretation policies: restriction Restricts
  by unfold_locales (auto intro: Restricts_refl Restricts_trans)

section \<open>What a root pins down\<close>

text \<open>A table of distinct keys can be read back from the members it leaves.\<close>

lemma json_members_Cons:
  "json_members ((k, v) # t) = (case v of None \<Rightarrow> json_members t | Some m \<Rightarrow> (k, m) # json_members t)"
  by (simp add: json_members_def map_filter_def split: option.splits)

lemma json_members_keys: "(k, m) \<in> set (json_members t) \<Longrightarrow> k \<in> fst ` set t"
  by (force simp: json_members_def map_filter_def)

lemma json_members_inj:
  assumes "distinct ks" "length vs = length ks" "length ws = length ks"
    and "json_members (zip ks vs) = json_members (zip ks ws)"
  shows "vs = ws"
  using assms
proof (induction ks arbitrary: vs ws)
  case Nil
  then show ?case by simp
next
  case (Cons k ks)
  then obtain v vs' w ws' where vw: "vs = v # vs'" "ws = w # ws'" by (cases vs; cases ws) auto
  have fresh: "(k, m) \<notin> set (json_members (zip ks xs))" for m xs
    using Cons.prems(1) json_members_keys [of k m "zip ks xs"] by (force dest: set_zip_leftD)
  have "v = w \<and> json_members (zip ks vs') = json_members (zip ks ws')"
    using Cons.prems(4) unfolding vw
    by (cases v; cases w) (simp_all add: json_members_Cons, (metis fresh list.set_intros(1))+)
  with Cons vw show ?case by simp
qed

lemma distinct_policy_keys: "distinct policy_keys"
  by code_simp

lemma omit_false_inj: "omit_false a = omit_false b \<longleftrightarrow> a = b"
  by (simp add: omit_false_def)

lemma omit_empty_inj:
  "(\<And>x y. c x = c y \<longleftrightarrow> x = y) \<Longrightarrow> omit_empty c xs = omit_empty c ys \<longleftrightarrow> xs = ys"
  by (auto simp: omit_empty_def)

definition has_member :: "table \<Rightarrow> string \<Rightarrow> bool" where
  "has_member t k \<longleftrightarrow> (\<exists>m. (k, Some m) \<in> set t)"

lemma has_member_json: "has_member t k \<longleftrightarrow> k \<in> fst ` set (json_members t)"
  by (force simp: has_member_def json_members_def map_filter_def)

lemma remove_member_Inr:
  "remove_member key v t = Inr u \<longleftrightarrow>
     (key, Some v) \<in> set t \<and> u = map (\<lambda>(k, w). if k = key then (k, None) else (k, w)) t"
  by (auto simp: remove_member_def)

lemma remove_member_has:
  "remove_member key v t = Inr u \<Longrightarrow> has_member u k \<longleftrightarrow> k \<noteq> key \<and> has_member t k"
  by (force simp: remove_member_Inr has_member_def split: prod.splits if_splits)

text \<open>Tables over the same distinct keys: removal keeps the keys and loses no information.\<close>

definition over :: "string list \<Rightarrow> table \<Rightarrow> bool" where
  "over ks t \<longleftrightarrow> map fst t = ks \<and> distinct ks"

lemma remove_member_over: "over ks t \<Longrightarrow> remove_member key v t = Inr u \<Longrightarrow> over ks u"
  by (auto simp: over_def remove_member_Inr)

lemma map_eq_member: "map f xs = map f ys \<Longrightarrow> x \<in> set xs \<Longrightarrow> f x \<in> f ` set ys"
  by (metis image_eqI image_set)

lemma remove_member_inj:
  assumes "over ks t" "over ks t'" "remove_member key v t = Inr u" "remove_member key v t' = Inr u"
  shows "t = t'"
proof (rule nth_equalityI)
  show len: "length t = length t'" using assms(1,2) by (metis over_def length_map)
  fix i assume i: "i < length t"
  have fst: "fst (t ! i) = fst (t' ! i)" using assms(1,2) i len by (metis over_def nth_map)
  define f :: "string \<times> member option \<Rightarrow> string \<times> member option"
    where "f = (\<lambda>(k, w). if k = key then (k, None) else (k, w))"
  have "map f t = map f t'" using assms(3,4) by (simp add: remove_member_Inr f_def)
  then have upd: "f (t ! i) = f (t' ! i)" using i len by (metis nth_map)
  have val: "snd (x ! i) = Some v" if "over ks x" "(key, Some v) \<in> set x" "fst (x ! i) = key" "i < length x" for x
    using that unfolding over_def by (metis eq_key_imp_eq_value nth_mem prod.collapse)
  show "t ! i = t' ! i"
  proof (cases "fst (t ! i) = key")
    case True
    then have "snd (t ! i) = snd (t' ! i)"
      using val [of t] val [of t'] assms i len fst unfolding remove_member_Inr by metis
    with fst show ?thesis by (rule prod_eqI)
  next
    case False
    with upd fst show ?thesis by (auto simp: f_def split: prod.splits)
  qed
qed

lemma json_members_over_inj:
  assumes "over ks t" "over ks u" "json_members t = json_members u"
  shows "t = u"
proof -
  have "t = zip ks (map snd t)" "u = zip ks (map snd u)"
    using assms(1,2) by (metis over_def zip_map_fst_snd)+
  moreover have "length (map snd t) = length ks" "length (map snd u) = length ks"
    using assms(1,2) by (metis over_def length_map)+
  ultimately have "map snd t = map snd u"
    using json_members_inj [of ks "map snd t" "map snd u"] assms by (simp add: over_def)
  then show ?thesis using assms(1,2) by (metis over_def zip_map_fst_snd)
qed

section \<open>Schemas\<close>

abbreviation encoded_policy :: "Override \<Rightarrow> table" where
  "encoded_policy p \<equiv> zip policy_keys (policy_values (canonicalPolicy p))"

lemma encoded_over: "over policy_keys (encoded_policy p)"
  by (simp add: over_def distinct_policy_keys) (simp add: policy_keys_def policy_values_def)

lemma encoded_values: "map snd (encoded_policy p) = policy_values (canonicalPolicy p)"
  by (rule map_snd_zip) (simp add: policy_keys_def policy_values_def)

lemma encoded_has:
  "has_member (encoded_policy p) ''displayX11''" "has_member (encoded_policy p) ''sessionBus''"
  "has_member (encoded_policy p) ''deviceSerial''"
  by (simp_all add: has_member_def policy_keys_def policy_values_def)

text \<open>
  The members a schema removes, in the order the code removes them; every schema is the
  current encoding with those gone.
\<close>

fun remove_all :: "(string \<times> member) list \<Rightarrow> table \<Rightarrow> schema_error + table" where
  "remove_all [] t = Inr t"
| "remove_all ((k, v) # rest) t = bind_result (remove_member k v t) (remove_all rest)"

definition removed_by :: "int \<Rightarrow> (string \<times> member) list" where
  "removed_by s =
     (if s = 1 then [(''deviceSerial'', MBool False)] else []) @
     (if s \<le> 2 then [(''sessionBus'', MBus empty_bus)] else []) @
     (if s \<le> 3 then [(''displayX11'', MBool False), (''bluetooth'', MBool False)] else [])"

lemma bind_result_Inr_id: "bind_result r Inr = r"
  by (simp add: bind_result_def split: sum.splits)

lemma schema_table_removed:
  "schema_table p s = Inr t \<Longrightarrow> s \<in> {1, 2, 3, 4} \<and> remove_all (removed_by s) (encoded_policy p) = Inr t"
  by (auto simp: schema_table_def Let_def removed_by_def removeDesktopCapabilityFields_def
      bind_result_Inr_id bind_result_Inr split: if_splits)

lemma remove_all_over: "over ks t \<Longrightarrow> remove_all rs t = Inr u \<Longrightarrow> over ks u"
proof (induction rs arbitrary: t)
  case (Cons r rs)
  then obtain k v a where "r = (k, v)" "remove_member k v t = Inr a" "remove_all rs a = Inr u"
    by (cases r) (auto simp: bind_result_Inr)
  with Cons show ?case using remove_member_over by blast
qed simp

lemma remove_all_inj:
  "over ks t \<Longrightarrow> over ks t' \<Longrightarrow> remove_all rs t = Inr u \<Longrightarrow> remove_all rs t' = Inr u \<Longrightarrow> t = t'"
proof (induction rs arbitrary: t t')
  case (Cons r rs)
  obtain k v where r: "r = (k, v)" by (cases r)
  from Cons.prems(3,4) obtain a b where
    ab: "remove_member k v t = Inr a" "remove_member k v t' = Inr b" "remove_all rs a = Inr u" "remove_all rs b = Inr u"
    by (auto simp: r bind_result_Inr)
  with Cons have "a = b" by (blast intro: remove_member_over)
  with ab Cons.prems(1,2) show ?case by (blast intro: remove_member_inj)
qed simp

lemma remove_all_has: "remove_all rs t = Inr u \<Longrightarrow> has_member u k \<longleftrightarrow> k \<notin> fst ` set rs \<and> has_member t k"
proof (induction rs arbitrary: t)
  case (Cons r rs)
  then obtain k' v a where r: "r = (k', v)" "remove_member k' v t = Inr a" "remove_all rs a = Inr u"
    by (cases r) (auto simp: bind_result_Inr)
  with Cons.IH [of a] remove_member_has [of k' v t a k] show ?case by auto
qed simp

lemma schema_marks:
  assumes "schema_table p s = Inr t"
  shows "(has_member t ''displayX11'' \<longleftrightarrow> s = 4) \<and> (has_member t ''sessionBus'' \<longleftrightarrow> s \<ge> 3) \<and>
         (has_member t ''deviceSerial'' \<longleftrightarrow> s \<ge> 2)"
proof -
  from schema_table_removed [OF assms] have s: "s \<in> {1, 2, 3, 4}"
    and removed: "remove_all (removed_by s) (encoded_policy p) = Inr t" by auto
  show ?thesis using s unfolding remove_all_has [OF removed]
    by (elim insertE) (simp_all add: encoded_has removed_by_def)
qed

lemma policy_values_inj: "policy_values p = policy_values q \<Longrightarrow> p = q"
  by (rule Override.equality) (simp_all add: policy_values_def omit_false_inj omit_empty_inj)

section \<open>Canonical policies mean the same\<close>

lemma set_sortedPermissions [simp]: "set (sortedPermissions fs) = set fs"
  by (simp add: sortedPermissions_def)

lemma Canonical_equivalent: "DBusPolicyRestricts p (CanonicalDBusPolicy p) \<and> DBusPolicyRestricts (CanonicalDBusPolicy p) p"
  by (simp add: DBusPolicyRestricts_iff)

lemma sortedActions_equivalent: "actionsCovered gs (sortedActions gs) \<and> actionsCovered (sortedActions gs) gs"
  by (auto simp: actionsCovered_iff sortedActions_def)

text \<open>Two spellings of the same valid grants fold to tables that cover each other.\<close>

lemma wide_same:
  assumes "wide acc ps" "wide acc' qs" "set ps = set qs"
    and "\<And>p. p \<in> set ps \<Longrightarrow> fp_Access p \<in> {read_only, read_write}"
  shows "permissionsCovered acc acc'"
  unfolding permissionsCovered_iff
proof
  fix w assume "w \<in> set acc'"
  with assms(2,3) obtain p where p: "p \<in> set ps" "fp_Path p = fp_Path w" "fp_Access p = fp_Access w"
    unfolding wide_def by metis
  from wide_covers [OF assms(1) p(1)] obtain q where
    q: "q \<in> set acc" "fp_Path q = fp_Path p" "fp_Access p = read_write \<longrightarrow> fp_Access q = read_write" by blast
  from q(1) assms(1) obtain p' where "p' \<in> set ps" "fp_Access p' = fp_Access q" unfolding wide_def by metis
  with assms(4) have "fp_Access q \<in> {read_only, read_write}" by metis
  with q p assms(4) [OF p(1)] show "\<exists>h\<in>set acc. pathCovers (fp_Path h) (fp_Path w) \<and> accessCovers (fp_Access h) (fp_Access w)"
    by (intro bexI [of _ q]) (auto simp: accessCovers_def)
qed

lemma wide_self: "distinct (map fp_Path ps) \<Longrightarrow> wide ps ps"
  by (auto simp: wide_def distinct_map dest: inj_onD)

lemma migrated_wide:
  assumes "ValidateFilesystemPermissions (Filesystem ov) = None"
  shows "wide (Filesystem (WithMigratedFilesystem ov)) (Filesystem ov @ legacy_grants ov)"
proof (cases "FsHost ov \<or> FsHostEtc ov \<or> FsHostHome ov \<or> FsExtra ov \<noteq> []")
  case True
  then show ?thesis using widest_wide by (auto simp: WithMigratedFilesystem_def)
next
  case False
  with assms show ?thesis
    by (auto simp: WithMigratedFilesystem_def legacy_grants_def map_filter_def Validate_fs_None intro: wide_self)
qed

lemma set_legacy_grants:
  "FsHost p = FsHost q \<Longrightarrow> FsHostEtc p = FsHostEtc q \<Longrightarrow> FsHostHome p = FsHostHome q \<Longrightarrow>
     set (FsExtra p) = set (FsExtra q) \<Longrightarrow> set (legacy_grants p) = set (legacy_grants q)"
  by (auto simp: legacy_grants_def map_filter_def)

lemma migrated_fields:
  "policy_flags (WithMigratedFilesystem p) = policy_flags p"
  "policy_limits (WithMigratedFilesystem p) = policy_limits p"
  "AllowedHostCommands (WithMigratedFilesystem p) = AllowedHostCommands p"
  "HostActions (WithMigratedFilesystem p) = HostActions p"
  "SessionBus (WithMigratedFilesystem p) = SessionBus p" "Env (WithMigratedFilesystem p) = Env p"
  by (simp_all add: WithMigratedFilesystem_def policy_flags_def policy_limits_def)

lemma canonical_fields:
  "policy_flags (canonicalPolicy p) = policy_flags p" "policy_limits (canonicalPolicy p) = policy_limits p"
  "set (AllowedHostCommands (canonicalPolicy p)) = set (AllowedHostCommands p)"
  "HostActions (canonicalPolicy p) = sortedActions (HostActions p)"
  "SessionBus (canonicalPolicy p) = CanonicalDBusPolicy (SessionBus p)" "Env (canonicalPolicy p) = Env p"
  "set (Filesystem (canonicalPolicy p)) = set (Filesystem p)"
  by (simp_all add: canonicalPolicy_def policy_flags_def policy_limits_def)

lemma canonical_valid:
  "ValidateFilesystemPermissions (Filesystem p) = None \<Longrightarrow>
     ValidateFilesystemPermissions (Filesystem (canonicalPolicy p)) = None"
  by (simp add: Validate_fs_None canonicalPolicy_def distinct_map) (simp add: sortedPermissions_def)

lemma canonical_restricts:
  assumes "ValidateFilesystemPermissions (Filesystem p) = None"
  shows "Restricts p (canonicalPolicy p) \<and> Restricts (canonicalPolicy p) p"
proof -
  let ?fs = "\<lambda>p. Filesystem p @ legacy_grants p"
  have same: "set (?fs p) = set (?fs (canonicalPolicy p))"
    using set_legacy_grants [of p "canonicalPolicy p"] by (simp add: canonicalPolicy_def)
  have access: "fp_Access g \<in> {read_only, read_write}" if "g \<in> set (?fs p)" for g
    using that assms legacy_grants_valid by (auto simp: Validate_fs_None validatePermission_None)
  note w = migrated_wide [OF assms] migrated_wide [OF canonical_valid [OF assms]]
  have "permissionsCovered (Filesystem (WithMigratedFilesystem p)) (Filesystem (WithMigratedFilesystem (canonicalPolicy p)))"
    by (rule wide_same [OF w same access])
  moreover have "permissionsCovered (Filesystem (WithMigratedFilesystem (canonicalPolicy p))) (Filesystem (WithMigratedFilesystem p))"
    using wide_same [OF w(2,1) same [symmetric]] access same by blast
  ultimately show ?thesis
    by (simp add: Restricts_def Let_def migrated_fields canonical_fields subset_of_iff Canonical_equivalent
        sortedActions_equivalent list.rel_refl limit_covers_iff)
qed

lemma root_names_policy:
  assumes "inj_on (digest ''policy'') (policy_messages p s \<union> policy_messages q s')"
    and "PolicyRootForSchema digest p s = Inr root" "PolicyRootForSchema digest q s' = Inr root"
  shows "s = s' \<and> canonicalPolicy p = canonicalPolicy q"
proof -
  from assms(2,3) obtain t u where t: "schema_table p s = Inr t" "schema_table q s' = Inr u"
    and same: "digest ''policy'' (json_members t) = digest ''policy'' (json_members u)"
    by (auto simp: PolicyRootForSchema_def bind_result_Inr)
  have "json_members t \<in> policy_messages p s" "json_members u \<in> policy_messages q s'"
    unfolding policy_messages_def t sum.case by (rule singletonI)+
  then have members: "json_members t = json_members u"
    using inj_onD [where f = "digest ''policy''" and x = "json_members t" and y = "json_members u", OF assms(1)] same
    by blast
  note rt = schema_table_removed [OF t(1)] and ru = schema_table_removed [OF t(2)]
  have "s = s'"
    using schema_marks [OF t(1)] schema_marks [OF t(2)] rt ru members by (auto simp: has_member_json)
  moreover have "over policy_keys t" "over policy_keys u"
    using rt ru remove_all_over [OF encoded_over] by blast+
  with members have "t = u" by (blast intro: json_members_over_inj)
  ultimately have "encoded_policy p = encoded_policy q"
    using rt ru by (metis remove_all_inj encoded_over)
  then have "policy_values (canonicalPolicy p) = policy_values (canonicalPolicy q)"
    by (metis encoded_values)
  with \<open>s = s'\<close> show ?thesis using policy_values_inj by blast
qed

section \<open>Properties\<close>


text \<open>Equal policy roots are equal policies: where the digest does not collide on their
  encodings, two policies
  recorded under one root were recorded under the same schema and differ at most in the order
  of lists whose order means nothing, so each restricts the other and nobody is ever asked to
  approve a change between them.\<close>

theorem equal_roots_equal_policies:
  assumes "inj_on (digest ''policy'') (policy_messages p s \<union> policy_messages q s')"
    and "PolicyRootForSchema digest p s = Inr root" and "PolicyRootForSchema digest q s' = Inr root"
    and "ValidateFilesystemPermissions (Filesystem p) = None"
    and "ValidateFilesystemPermissions (Filesystem q) = None"
  shows "s = s' \<and> canonicalPolicy p = canonicalPolicy q \<and> Restricts p q \<and> Restricts q p"
proof -
  have same: "s = s'" "canonicalPolicy p = canonicalPolicy q"
    using root_names_policy [OF assms(1-3)] by auto
  with canonical_restricts [OF assms(4)] canonical_restricts [OF assms(5)] show ?thesis
    by (metis Restricts_trans)
qed

text \<open>A launch root names one package root and one policy root: where the hash does not
  collide on the two messages, and for roots that hold no line break, as hexadecimal digests do not, equal launch roots have
  equal halves.\<close>

theorem launch_root_injective:
  assumes "inj_on sha256 {launch_message a b, launch_message c d}"
    and "LaunchRoot sha256 a b = LaunchRoot sha256 c d"
    and "CHR 0x0A \<notin> set a" and "CHR 0x0A \<notin> set b" and "CHR 0x0A \<notin> set c" and "CHR 0x0A \<notin> set d"
  shows "a = c \<and> b = d"
proof -
  have "a @ CHR 0x0A # b @ CHR 0x0A # [] = c @ CHR 0x0A # d @ CHR 0x0A # []"
    using inj_onD [where f = sha256 and x = "launch_message a b" and y = "launch_message c d", OF assms(1)] assms(2)
    by (simp add: LaunchRoot_def) (simp add: launch_message_def)
  then have "split_on (CHR 0x0A) (a @ CHR 0x0A # b @ CHR 0x0A # []) =
      split_on (CHR 0x0A) (c @ CHR 0x0A # d @ CHR 0x0A # [])" by (rule arg_cong)
  with assms(3-) show ?thesis by (simp add: split_append)
qed

end
