(* ===== verification/Reputation.thy ===== *)
theory Reputation
  imports Regex Go_Time
begin

text \<open>
  \<^verbatim>\<open>pkg/reputation\<close>: authenticated publisher-reputation snapshots, from the wire document to
  the answer \<^verbatim>\<open>Lookup\<close> gives about one publisher.  The JSON library, the canonicalizer, the
  hash and the signature scheme are the fields of \<open>snapshot_lib\<close>; every theorem holds for
  all of them.  A \<^verbatim>\<open>time.Time\<close> is an \<^typ>\<open>instant\<close>.
\<close>

section \<open>Data\<close>

type_synonym Status = string

abbreviation Unknown :: Status where "Unknown \<equiv> ''unknown''"
abbreviation Established :: Status where "Established \<equiv> ''established''"
abbreviation Caution :: Status where "Caution \<equiv> ''caution''"
abbreviation Blocked :: Status where "Blocked \<equiv> ''blocked''"
abbreviation Unavailable :: Status where "Unavailable \<equiv> ''unavailable''"

definition SnapshotABIVersion :: int where "SnapshotABIVersion = 1"
definition MaxSnapshotSize :: nat where "MaxSnapshotSize = 16777216"
definition MaxEntries :: nat where "MaxEntries = 100000"
definition MaxSequence :: u64 where "MaxSequence = 9007199254740991"
definition MaxReasonCode :: nat where "MaxReasonCode = 64"
definition PublicKeySize :: nat where "PublicKeySize = 32"
definition SignatureSize :: nat where "SignatureSize = 64"

definition publisherPattern :: rx where
  "publisherPattern = Cat (Alt (lit ''oidc-v1-sha256'') (lit ''x509-spki-sha256''))
     (Cat (one CHR '':'') (rep 64 (Cls hex_cls)))"

record Authority =
  au_ProviderID :: string
  au_KeyID :: string
  au_PublicKey :: string

record Entry =
  en_PublisherID :: string
  en_Status :: Status
  en_ReasonCode :: string

record Signed =
  sg_Sequence :: u64
  sg_IssuedAt :: string
  sg_ExpiresAt :: string
  sg_Entries :: "Entry list"

record envelope =
  ev_ABI :: int
  ev_ProviderID :: string
  ev_KeyID :: string
  ev_Signed :: string
  ev_Signature :: string

record Snapshot =
  sn_ProviderID :: string
  sn_KeyID :: string
  sn_Sequence :: u64
  sn_IssuedAt :: instant
  sn_ExpiresAt :: instant
  sn_entries :: "Entry list"

record Result =
  rr_ProviderID :: string
  rr_PublisherID :: string
  rr_Status :: Status
  rr_IssuedAt :: instant
  rr_ExpiresAt :: instant
  rr_Sequence :: u64
  rr_ReasonCode :: string

text \<open>The syntax of a JSON value; an object keeps its members in document order.\<close>

datatype json = JScalar | JArray "json list" | JObject "(string \<times> json) list"

record snapshot_lib =
  json_tree :: "string \<Rightarrow> json option"
  decode_envelope :: "string \<Rightarrow> envelope option"
  decode_signed :: "string \<Rightarrow> Signed option"
  canonicalize :: "string \<Rightarrow> string option"
  sha256_sum :: "string \<Rightarrow> string"
  ed25519_verify :: "string \<Rightarrow> string \<Rightarrow> string \<Rightarrow> bool"

datatype rep_error =
  Bad_provider_id | Not_Ed25519 | Key_id_mismatch
| Malformed_json | Duplicate_key string
| Bad_document_size | Decode_envelope | Signed_missing | Bad_signed_size | Decode_signed | Canonicalize
| Configure_authority rep_error
| Unsupported_abi int | Provider_mismatch | Key_mismatch | Bad_signature
| Bad_sequence | Bad_timestamp string | Not_after_issue | Too_many_entries
| Entry_publisher nat | Entry_status nat | Entry_reason nat | Not_sorted
| Issued_in_future | Snapshot_expired

datatype result_error =
  Result_provider | Result_publisher | Result_status | Result_reason
| Result_claims_metadata | Result_lacks_metadata

section \<open>Authorities\<close>

definition hex_digit :: "nat \<Rightarrow> char" where
  "hex_digit n = (if n < 10 then char_of (48 + n) else char_of (87 + n))"

definition hex_encode :: "string \<Rightarrow> string" where
  "hex_encode s = concat (map (\<lambda>c. [hex_digit (of_char c div 16), hex_digit (of_char c mod 16)]) s)"

definition KeyID :: "snapshot_lib \<Rightarrow> string \<Rightarrow> string" where
  "KeyID lib publicKey = ''ed25519-sha256:'' @ hex_encode (sha256_sum lib publicKey)"

definition Authority_Validate :: "snapshot_lib \<Rightarrow> Authority \<Rightarrow> rep_error err" where
  "Authority_Validate lib a =
     (if \<not> matches namePattern (au_ProviderID a) then Some Bad_provider_id
      else if length (au_PublicKey a) \<noteq> PublicKeySize then Some Not_Ed25519
      else if au_KeyID a \<noteq> KeyID lib (au_PublicKey a) then Some Key_id_mismatch
      else None)"

definition NewAuthority :: "snapshot_lib \<Rightarrow> string \<Rightarrow> string \<Rightarrow> rep_error + Authority" where
  "NewAuthority lib providerID publicKey =
     (let authority = \<lparr>au_ProviderID = providerID, au_KeyID = KeyID lib publicKey,
                       au_PublicKey = publicKey\<rparr>
      in result_of (Authority_Validate lib authority) authority)"

section \<open>The signed payload\<close>

definition validEntryStatus :: "Status \<Rightarrow> bool" where
  "validEntryStatus status \<longleftrightarrow> status \<in> {Unknown, Established, Caution, Blocked}"

definition ValidPublisherID :: "string \<Rightarrow> bool" where
  "ValidPublisherID value = matches publisherPattern value"

definition parseTimestamp :: "string \<Rightarrow> string \<Rightarrow> rep_error + instant" where
  "parseTimestamp field value =
     (case canonical_time value of None \<Rightarrow> Inl (Bad_timestamp field) | Some t \<Rightarrow> Inr t)"

fun check_entries :: "nat \<Rightarrow> string \<Rightarrow> Entry list \<Rightarrow> rep_error err" where
  "check_entries index previous [] = None"
| "check_entries index previous (entry # rest) =
     (if \<not> matches publisherPattern (en_PublisherID entry) then Some (Entry_publisher index)
      else if \<not> validEntryStatus (en_Status entry) then Some (Entry_status index)
      else if \<not> matches namePattern (en_ReasonCode entry) \<or> length (en_ReasonCode entry) > MaxReasonCode
        then Some (Entry_reason index)
      else if previous \<noteq> [] \<and> en_PublisherID entry \<le> previous then Some Not_sorted
      else check_entries (Suc index) (en_PublisherID entry) rest)"

definition validateSigned :: "Signed \<Rightarrow> rep_error + (instant \<times> instant)" where
  "validateSigned payload =
     (if sg_Sequence payload = 0 \<or> sg_Sequence payload > MaxSequence then Inl Bad_sequence
      else bind_result (parseTimestamp ''issued_at'' (sg_IssuedAt payload)) (\<lambda>issued.
           bind_result (parseTimestamp ''expires_at'' (sg_ExpiresAt payload)) (\<lambda>expires.
             if \<not> expires > issued then Inl Not_after_issue
             else if length (sg_Entries payload) > MaxEntries then Inl Too_many_entries
             else result_of (check_entries 0 [] (sg_Entries payload)) (issued, expires))))"

section \<open>The envelope\<close>

text \<open>
  \<^verbatim>\<open>rejectDuplicateKeys\<close> walks the token stream of a document.  A key is checked against the
  keys already seen in its own object before the value behind it is walked.
\<close>

fun dup_walk :: "json \<Rightarrow> rep_error err"
  and dup_members :: "string list \<Rightarrow> (string \<times> json) list \<Rightarrow> rep_error err"
  and dup_items :: "json list \<Rightarrow> rep_error err" where
  "dup_walk JScalar = None"
| "dup_walk (JArray items) = dup_items items"
| "dup_walk (JObject members) = dup_members [] members"
| "dup_members seen [] = None"
| "dup_members seen ((key, v) # rest) =
     (if key \<in> set seen then Some (Duplicate_key key)
      else case dup_walk v of Some e \<Rightarrow> Some e | None \<Rightarrow> dup_members (key # seen) rest)"
| "dup_items [] = None"
| "dup_items (v # rest) = (case dup_walk v of Some e \<Rightarrow> Some e | None \<Rightarrow> dup_items rest)"

definition rejectDuplicateKeys :: "snapshot_lib \<Rightarrow> string \<Rightarrow> rep_error err" where
  "rejectDuplicateKeys lib document =
     (case json_tree lib document of None \<Rightarrow> Some Malformed_json | Some v \<Rightarrow> dup_walk v)"

definition ParseSigned :: "snapshot_lib \<Rightarrow> string \<Rightarrow> rep_error + Signed" where
  "ParseSigned lib document =
     (if document = [] \<or> length document > MaxSnapshotSize then Inl Bad_signed_size
      else case rejectDuplicateKeys lib document of Some e \<Rightarrow> Inl e
      | None \<Rightarrow> (case decode_signed lib document of None \<Rightarrow> Inl Decode_signed
        | Some payload \<Rightarrow> bind_result (validateSigned payload) (\<lambda>_. Inr payload)))"

definition parseEnvelope :: "snapshot_lib \<Rightarrow> string \<Rightarrow> rep_error + (envelope \<times> Signed \<times> string)" where
  "parseEnvelope lib document =
     (case rejectDuplicateKeys lib document of Some e \<Rightarrow> Inl e
      | None \<Rightarrow> (case decode_envelope lib document of None \<Rightarrow> Inl Decode_envelope
        | Some parsed \<Rightarrow>
            if ev_Signed parsed = [] \<or> ev_Signed parsed = ''null'' then Inl Signed_missing
            else bind_result (ParseSigned lib (ev_Signed parsed)) (\<lambda>payload.
              case canonicalize lib (ev_Signed parsed) of None \<Rightarrow> Inl Canonicalize
              | Some canonical \<Rightarrow> Inr (parsed, payload, canonical))))"

definition Authenticate :: "snapshot_lib \<Rightarrow> string \<Rightarrow> Authority \<Rightarrow> rep_error + Snapshot" where
  "Authenticate lib document authority =
     (if document = [] \<or> length document > MaxSnapshotSize then Inl Bad_document_size
      else case Authority_Validate lib authority of Some e \<Rightarrow> Inl (Configure_authority e)
      | None \<Rightarrow> bind_result (parseEnvelope lib document) (\<lambda>(parsed, payload, canonical).
          if ev_ABI parsed \<noteq> SnapshotABIVersion then Inl (Unsupported_abi (ev_ABI parsed))
          else if ev_ProviderID parsed \<noteq> au_ProviderID authority then Inl Provider_mismatch
          else if ev_KeyID parsed \<noteq> au_KeyID authority then Inl Key_mismatch
          else if length (ev_Signature parsed) \<noteq> SignatureSize \<or>
                  \<not> ed25519_verify lib (au_PublicKey authority) canonical (ev_Signature parsed)
            then Inl Bad_signature
          else bind_result (validateSigned payload) (\<lambda>(issued, expires).
            Inr \<lparr>sn_ProviderID = ev_ProviderID parsed, sn_KeyID = ev_KeyID parsed,
                 sn_Sequence = sg_Sequence payload, sn_IssuedAt = issued, sn_ExpiresAt = expires,
                 sn_entries = sg_Entries payload\<rparr>)))"

definition Verify :: "snapshot_lib \<Rightarrow> string \<Rightarrow> Authority \<Rightarrow> instant \<Rightarrow> rep_error + Snapshot" where
  "Verify lib document authority now =
     bind_result (Authenticate lib document authority) (\<lambda>snapshot.
       if sn_IssuedAt snapshot > now then Inl Issued_in_future
       else if \<not> now < sn_ExpiresAt snapshot then Inl Snapshot_expired
       else Inr snapshot)"

section \<open>Lookup\<close>

text \<open>\<open>sort.Search\<close>: the binary search of the standard library.\<close>

function search_between :: "(nat \<Rightarrow> bool) \<Rightarrow> nat \<Rightarrow> nat \<Rightarrow> nat" where
  "search_between f i j =
     (if i < j then let h = (i + j) div 2 in
        if f h then search_between f i h else search_between f (Suc h) j
      else i)"
  by pat_completeness auto
termination by (relation "measure (\<lambda>(f, i, j). j - i)") auto

declare search_between.simps [simp del]

definition sort_Search :: "nat \<Rightarrow> (nat \<Rightarrow> bool) \<Rightarrow> nat" where
  "sort_Search n f = search_between f 0 n"

definition Lookup :: "Snapshot \<Rightarrow> string \<Rightarrow> Result" where
  "Lookup snapshot publisherID =
     (let result = \<lparr>rr_ProviderID = sn_ProviderID snapshot, rr_PublisherID = publisherID,
                    rr_Status = Unknown, rr_IssuedAt = sn_IssuedAt snapshot,
                    rr_ExpiresAt = sn_ExpiresAt snapshot, rr_Sequence = sn_Sequence snapshot,
                    rr_ReasonCode = ''publisher-not-listed''\<rparr>;
          entries = sn_entries snapshot;
          index = sort_Search (length entries) (\<lambda>index. en_PublisherID (entries ! index) \<ge> publisherID)
      in if index < length entries \<and> en_PublisherID (entries ! index) = publisherID
         then result\<lparr>rr_Status := en_Status (entries ! index), rr_ReasonCode := en_ReasonCode (entries ! index)\<rparr>
         else result)"

definition UnavailableResult :: "string \<Rightarrow> string \<Rightarrow> string \<Rightarrow> Result" where
  "UnavailableResult providerID publisherID reasonCode =
     \<lparr>rr_ProviderID = providerID, rr_PublisherID = publisherID, rr_Status = Unavailable,
      rr_IssuedAt = zero_time, rr_ExpiresAt = zero_time, rr_Sequence = 0, rr_ReasonCode = reasonCode\<rparr>"

definition Result_Validate :: "Result \<Rightarrow> result_error err" where
  "Result_Validate r =
     (if rr_ProviderID r \<noteq> [] \<and> \<not> matches namePattern (rr_ProviderID r) then Some Result_provider
      else if \<not> ValidPublisherID (rr_PublisherID r) then Some Result_publisher
      else if rr_Status r \<noteq> Unavailable \<and> \<not> validEntryStatus (rr_Status r) then Some Result_status
      else if \<not> matches namePattern (rr_ReasonCode r) then Some Result_reason
      else if rr_Status r = Unavailable then
        (if rr_IssuedAt r \<noteq> zero_time \<or> rr_ExpiresAt r \<noteq> zero_time \<or> rr_Sequence r \<noteq> 0
         then Some Result_claims_metadata else None)
      else if rr_ProviderID r = [] \<or> rr_Sequence r = 0 \<or> rr_Sequence r > MaxSequence \<or>
              rr_IssuedAt r = zero_time \<or> \<not> rr_ExpiresAt r > rr_IssuedAt r
        then Some Result_lacks_metadata
      else None)"

section \<open>Binary search\<close>

text \<open>
  On a predicate that never turns false again, \<open>sort.Search\<close> returns the first index that
  satisfies it, or the length when none does.
\<close>

lemma search_between_spec:
  assumes mono: "\<And>a b. a \<le> b \<Longrightarrow> b < n \<Longrightarrow> f a \<Longrightarrow> f b"
    and "i \<le> j" "j \<le> n" "\<forall>k. k < i \<longrightarrow> \<not> f k" "j < n \<longrightarrow> f j"
  shows "(\<forall>k. k < search_between f i j \<longrightarrow> \<not> f k) \<and>
         (search_between f i j = n \<or> search_between f i j < n \<and> f (search_between f i j))"
  using assms(2-)
proof (induction "j - i" arbitrary: i j rule: less_induct)
  case less
  show ?case
  proof (cases "i < j")
    case False
    then have "search_between f i j = i" by (subst search_between.simps) simp
    with False less.prems show ?thesis by auto
  next
    case True
    define h where "h = (i + j) div 2"
    have h: "i \<le> h" "h < j" "h < n" using True less.prems by (auto simp: h_def)
    have step: "search_between f i j = (if f h then search_between f i h else search_between f (Suc h) j)"
      using True by (subst search_between.simps) (simp add: Let_def h_def)
    show ?thesis
    proof (cases "f h")
      case True
      then have "search_between f i j = search_between f i h" by (simp add: step)
      moreover have "h - i < j - i" using h by linarith
      ultimately show ?thesis using less.hyps [of h i] less.prems(3) h True by simp
    next
      case False
      then have "\<forall>k. k < Suc h \<longrightarrow> \<not> f k" using mono [OF _ h(3)] by (auto simp: less_Suc_eq_le)
      moreover from False have "search_between f i j = search_between f (Suc h) j" by (simp add: step)
      moreover have "j - Suc h < j - i" "Suc h \<le> j" using h by linarith+
      ultimately show ?thesis using less.hyps [of j "Suc h"] less.prems(2,4) by metis
    qed
  qed
qed

lemma sort_Search_spec:
  assumes mono: "\<And>a b. a \<le> b \<Longrightarrow> b < n \<Longrightarrow> f a \<Longrightarrow> f b"
  shows "(\<forall>k. k < sort_Search n f \<longrightarrow> \<not> f k) \<and>
         (sort_Search n f = n \<or> sort_Search n f < n \<and> f (sort_Search n f))"
  unfolding sort_Search_def
proof (rule search_between_spec)
  show "f b" if "a \<le> b" "b < n" "f a" for a b using that by (rule mono)
qed simp_all

section \<open>Validated payloads\<close>

lemma matches_Nil_publisher: "\<not> matches publisherPattern []"
  by code_simp

lemma check_entries_None:
  "check_entries i p es = None \<longleftrightarrow>
     (\<forall>e\<in>set es. ValidPublisherID (en_PublisherID e) \<and> validEntryStatus (en_Status e) \<and>
        matches namePattern (en_ReasonCode e)) \<and>
     sorted_wrt (<) (map en_PublisherID es) \<and> (p = [] \<or> (\<forall>e\<in>set es. p < en_PublisherID e))"
proof (induction es arbitrary: i p)
  case Nil
  then show ?case by simp
next
  case (Cons e es)
  have nonempty: "en_PublisherID e \<noteq> []" if "ValidPublisherID (en_PublisherID e)"
    using that matches_Nil_publisher by (auto simp: ValidPublisherID_def)
  have bound: "matches namePattern (en_ReasonCode e) \<Longrightarrow> \<not> MaxReasonCode < length (en_ReasonCode e)"
    using namePattern_length [of "en_ReasonCode e"] by (simp add: MaxReasonCode_def)
  show ?case
    using Cons.IH [of "Suc i" "en_PublisherID e"] nonempty bound
    by (auto simp: ValidPublisherID_def not_le dest: less_trans)
qed

lemma validateSigned_Inr:
  "validateSigned payload = Inr (issued, expires) \<longleftrightarrow>
     sg_Sequence payload \<noteq> 0 \<and> sg_Sequence payload \<le> MaxSequence \<and>
     canonical_time (sg_IssuedAt payload) = Some issued \<and>
     canonical_time (sg_ExpiresAt payload) = Some expires \<and> issued < expires \<and>
     length (sg_Entries payload) \<le> MaxEntries \<and> check_entries 0 [] (sg_Entries payload) = None"
  by (cases "canonical_time (sg_IssuedAt payload)"; cases "canonical_time (sg_ExpiresAt payload)")
    (auto simp: validateSigned_def parseTimestamp_def bind_result_def result_of_Inr not_less)

text \<open>What holds of every snapshot \<^verbatim>\<open>Authenticate\<close> returns.\<close>

definition wf_snapshot :: "Snapshot \<Rightarrow> bool" where
  "wf_snapshot s \<longleftrightarrow> matches namePattern (sn_ProviderID s) \<and> sn_Sequence s \<noteq> 0 \<and> sn_Sequence s \<le> MaxSequence \<and>
     sn_IssuedAt s < sn_ExpiresAt s \<and> length (sn_entries s) \<le> MaxEntries \<and>
     (\<forall>e\<in>set (sn_entries s). ValidPublisherID (en_PublisherID e) \<and> validEntryStatus (en_Status e) \<and>
        matches namePattern (en_ReasonCode e)) \<and>
     sorted_wrt (<) (map en_PublisherID (sn_entries s))"

lemma Authority_Validate_None [validation]:
  "Authority_Validate lib a = None \<longleftrightarrow>
     matches namePattern (au_ProviderID a) \<and> length (au_PublicKey a) = PublicKeySize \<and>
     au_KeyID a = KeyID lib (au_PublicKey a)"
  by (simp add: Authority_Validate_def)

lemma Authenticate_Inr:
  assumes "Authenticate lib document authority = Inr s"
  obtains parsed payload canonical where
    "parseEnvelope lib document = Inr (parsed, payload, canonical)"
    "Authority_Validate lib authority = None"
    "ed25519_verify lib (au_PublicKey authority) canonical (ev_Signature parsed)"
    "validateSigned payload = Inr (sn_IssuedAt s, sn_ExpiresAt s)"
    "sn_ProviderID s = au_ProviderID authority" "sn_KeyID s = au_KeyID authority"
    "sn_Sequence s = sg_Sequence payload" "sn_entries s = sg_Entries payload"
  using assms
  by (auto simp: Authenticate_def validation split: if_splits option.splits prod.splits intro: that)

lemma Authenticate_wf:
  assumes "Authenticate lib document authority = Inr s"
  shows "wf_snapshot s"
  using assms
  by (rule Authenticate_Inr)
    (auto simp: wf_snapshot_def validateSigned_Inr check_entries_None validation)

text \<open>The reference for \<^verbatim>\<open>Lookup\<close>: scan the entries in order.\<close>

definition listed :: "Entry list \<Rightarrow> string \<Rightarrow> Entry option" where
  "listed es publisherID = List.find (\<lambda>e. en_PublisherID e = publisherID) es"

lemma sorted_strict_nth:
  "sorted_wrt (<) (map f xs) \<Longrightarrow> i < j \<Longrightarrow> j < length xs \<Longrightarrow> f (xs ! i) < (f (xs ! j) :: string)"
  by (simp add: sorted_wrt_iff_nth_less)

lemma sorted_strict_nth_le:
  "sorted_wrt (<) (map f xs) \<Longrightarrow> i \<le> j \<Longrightarrow> j < length xs \<Longrightarrow> f (xs ! i) \<le> (f (xs ! j) :: string)"
  using sorted_strict_nth [of f xs i j] by (cases "i = j") auto

lemma listed_Some_nth:
  assumes "sorted_wrt (<) (map en_PublisherID es)" "i < length es"
  shows "listed es (en_PublisherID (es ! i)) = Some (es ! i)"
  unfolding listed_def find_Some_iff using assms sorted_strict_nth [OF assms(1)]
  by (intro exI [of _ i]) fastforce

lemma lookup_index:
  fixes p :: string
  assumes "sorted_wrt (<) (map en_PublisherID es)"
  defines "k \<equiv> sort_Search (length es) (\<lambda>i. en_PublisherID (es ! i) \<ge> p)"
  shows "listed es p = (if k < length es \<and> en_PublisherID (es ! k) = p then Some (es ! k) else None)"
proof -
  have spec: "(\<forall>i. i < k \<longrightarrow> \<not> p \<le> en_PublisherID (es ! i)) \<and>
      (k = length es \<or> k < length es \<and> p \<le> en_PublisherID (es ! k))"
    unfolding k_def by (rule sort_Search_spec) (meson sorted_strict_nth_le assms(1) order_trans)
  have "e \<noteq> p" if "\<not> (k < length es \<and> en_PublisherID (es ! k) = p)" "i < length es"
    "e = en_PublisherID (es ! i)" for i e
    using that spec sorted_strict_nth [OF assms(1), of k i] by (cases i k rule: linorder_cases) auto
  then have "listed es p = None" if "\<not> (k < length es \<and> en_PublisherID (es ! k) = p)"
    using that by (auto simp: listed_def find_None_iff in_set_conv_nth)
  then show ?thesis using listed_Some_nth [OF assms(1), of k] by auto
qed

lemma Lookup_reference:
  assumes "wf_snapshot s"
  shows "Lookup s p = \<lparr>rr_ProviderID = sn_ProviderID s, rr_PublisherID = p,
     rr_Status = (case listed (sn_entries s) p of None \<Rightarrow> Unknown | Some e \<Rightarrow> en_Status e),
     rr_IssuedAt = sn_IssuedAt s, rr_ExpiresAt = sn_ExpiresAt s, rr_Sequence = sn_Sequence s,
     rr_ReasonCode = (case listed (sn_entries s) p of None \<Rightarrow> ''publisher-not-listed'' | Some e \<Rightarrow> en_ReasonCode e)\<rparr>"
  using assms by (simp add: wf_snapshot_def Lookup_def Let_def lookup_index)

lemma name_literals:
  "matches namePattern ''publisher-not-listed''" "matches namePattern ''provider-mismatch''"
  "matches namePattern ''publisher-mismatch''"
  by code_simp+

lemma Lookup_valid:
  assumes "wf_snapshot s" "ValidPublisherID p" "sn_IssuedAt s \<noteq> zero_time"
  shows "Result_Validate (Lookup s p) = None"
proof (cases "listed (sn_entries s) p")
  case None
  with assms show ?thesis
    by (auto simp: Lookup_reference Result_Validate_def wf_snapshot_def validEntryStatus_def name_literals
        dest: namePattern_length)
next
  case (Some e)
  then have "e \<in> set (sn_entries s)" by (auto simp: listed_def find_Some_iff)
  with assms Some show ?thesis
    by (auto simp: Lookup_reference Result_Validate_def wf_snapshot_def validEntryStatus_def
        dest: namePattern_length)
qed

end
