(* ===== verification/Trust_Policy.thy ===== *)
theory Trust_Policy
  imports Origins Reputation
begin

text \<open>
  \<^verbatim>\<open>pkg/trustpolicy\<close>: what an administrator decides about the software a host may run.  The
  five questions of \<^verbatim>\<open>decide.go\<close> and the reputation stage of \<^verbatim>\<open>reputation.go\<close> are functions of
  a policy; \<open>Policy_Validate\<close> is the check a policy passes before anybody acts on it.  A
  decision keeps the format of its reason and the format's arguments.  \<^verbatim>\<open>net/url\<close>'s parser is
  the argument \<open>parse_url\<close>.
\<close>

section \<open>Data\<close>

abbreviation ABIVersion :: int where "ABIVersion \<equiv> 1"
abbreviation CurrentABIVersion :: int where "CurrentABIVersion \<equiv> 2"
definition reasonLimit :: nat where "reasonLimit = 200"

record Signer =
  Issuer :: string
  Repo :: string

record Revocation =
  rv_Origin :: string
  rv_Generation :: u64
  rv_Reason :: string

record ReputationException =
  ex_PublisherID :: string
  ex_Origins :: "string list"
  ex_Statuses :: "Status list"
  ex_ExpiresAt :: string
  ex_ReasonCode :: string

record ReputationPolicy =
  rp_Mode :: string
  rp_ProviderID :: string
  rp_Exceptions :: "ReputationException list"

record X509Policy =
  x5_Revocation :: string

record Policy =
  ABI :: int
  RequirePublisher :: bool
  RequireApproval :: bool
  ApprovedSigners :: "Signer list"
  ApprovedOrigins :: "string list"
  ApprovalSigners :: "Signer list"
  Revoked :: "Revocation list"
  ApprovedPublisherIDs :: "string list"
  X509 :: "X509Policy option"
  Reputation_of :: "ReputationPolicy option"

abbreviation ReputationOff :: string where "ReputationOff \<equiv> ''off''"
abbreviation ReputationAudit :: string where "ReputationAudit \<equiv> ''audit''"
abbreviation ReputationWarn :: string where "ReputationWarn \<equiv> ''warn''"
abbreviation ReputationRequireEstablished :: string where
  "ReputationRequireEstablished \<equiv> ''require-established''"

datatype identity = Repo_issued_by string string | Repo_named string | Issued_by string

datatype reason =
  Not_an_origin string
| Origin_revoked string string
| Generation_revoked u64 string string
| Origins_unrestricted
| Origin_approved string
| Origin_not_approved string nat
| Nobody_signed string
| Publisher_required_none_approved string
| Publishers_unrestricted
| Publisher_approved identity
| Publisher_own_origin identity string
| Publisher_not_own_origin identity string
| Publisher_not_approved identity nat
| Publisher_id_approved string
| No_normalized_identity string
| Publisher_id_not_approved string nat
| Nobody_counter_signed
| Approval_required_none_named
| No_approval_expected
| May_counter_sign identity
| May_not_counter_sign identity nat
| Whole_origin_not_revoked string
| Generation_not_revoked u64 string
| Unknown_abi int int
| Missing_section
| No_policy_in_force

record Decision =
  Allowed :: bool
  Reason :: reason

definition allow :: "reason \<Rightarrow> Decision" where
  "allow r = \<lparr>Allowed = True, Reason = r\<rparr>"

definition refuse :: "reason \<Rightarrow> Decision" where
  "refuse r = \<lparr>Allowed = False, Reason = r\<rparr>"

definition identityLabel :: "string \<Rightarrow> string \<Rightarrow> identity" where
  "identityLabel issuer repo =
     (if repo \<noteq> [] \<and> issuer \<noteq> [] then Repo_issued_by repo issuer
      else if repo \<noteq> [] then Repo_named repo
      else Issued_by issuer)"

definition because :: "string \<Rightarrow> string" where
  "because r = (if r = [] then [] else '': '' @ r)"

definition signer_matches :: "Signer \<Rightarrow> string \<Rightarrow> string \<Rightarrow> bool" where
  "signer_matches s issuer repo =
     (if Issuer s \<noteq> [] \<and> Issuer s \<noteq> issuer then False
      else if Repo s = [] then True
      else sameOrigin (Repo s) repo)"

section \<open>Decisions\<close>

definition Policy_Empty :: "Policy \<Rightarrow> bool" where
  "Policy_Empty p \<longleftrightarrow> \<not> RequirePublisher p \<and> \<not> RequireApproval p \<and>
     ApprovedSigners p = [] \<and> ApprovedOrigins p = [] \<and> ApprovalSigners p = [] \<and> Revoked p = [] \<and>
     ApprovedPublisherIDs p = [] \<and> X509 p = None \<and> Reputation_of p = None"

text \<open>\<^verbatim>\<open>settled\<close>: \<open>Some\<close> is a decision that does not depend on what was asked.\<close>

definition settled :: "Policy \<Rightarrow> Decision option" where
  "settled p =
     (if ABI p \<noteq> 0 \<and> ABI p \<noteq> ABIVersion \<and> ABI p \<noteq> CurrentABIVersion
        then Some (refuse (Unknown_abi CurrentABIVersion (ABI p)))
      else if ABI p = CurrentABIVersion \<and> (X509 p = None \<or> Reputation_of p = None)
        then Some (refuse Missing_section)
      else if Policy_Empty p then Some (allow No_policy_in_force)
      else None)"

fun revoked_whole :: "Revocation list \<Rightarrow> string \<Rightarrow> Revocation option" where
  "revoked_whole [] wanted = None"
| "revoked_whole (r # rs) wanted =
     (if rv_Generation r = 0 \<and> sameOrigin (rv_Origin r) wanted then Some r else revoked_whole rs wanted)"

definition AllowsOrigin :: "Policy \<Rightarrow> string \<Rightarrow> Decision" where
  "AllowsOrigin p origin =
     (case settled p of Some d \<Rightarrow> d | None \<Rightarrow>
      case canonicalOrigin origin of None \<Rightarrow> refuse (Not_an_origin origin) | Some wanted \<Rightarrow>
      case revoked_whole (Revoked p) wanted of
        Some r \<Rightarrow> refuse (Origin_revoked wanted (because (rv_Reason r)))
      | None \<Rightarrow>
          if ApprovedOrigins p = [] then allow Origins_unrestricted
          else if list_ex (\<lambda>approved. sameOrigin approved wanted) (ApprovedOrigins p)
            then allow (Origin_approved wanted)
          else refuse (Origin_not_approved wanted (length (ApprovedOrigins p))))"

text \<open>The loop over the approved signers, with \<^verbatim>\<open>openEntry\<close> as its accumulator.\<close>

fun publisher_loop :: "string \<Rightarrow> string \<Rightarrow> string \<Rightarrow> nat \<Rightarrow> bool \<Rightarrow> Signer list \<Rightarrow> Decision" where
  "publisher_loop issuer repo wanted n openEntry [] =
     (if openEntry then refuse (Publisher_not_own_origin (identityLabel issuer repo) wanted)
      else refuse (Publisher_not_approved (identityLabel issuer repo) n))"
| "publisher_loop issuer repo wanted n openEntry (s # ss) =
     (if \<not> signer_matches s issuer repo then publisher_loop issuer repo wanted n openEntry ss
      else if Repo s \<noteq> [] then allow (Publisher_approved (identityLabel issuer repo))
      else if sameOrigin repo wanted then allow (Publisher_own_origin (identityLabel issuer repo) wanted)
      else publisher_loop issuer repo wanted n True ss)"

definition AllowsPublisher :: "Policy \<Rightarrow> string \<Rightarrow> string \<Rightarrow> string \<Rightarrow> Decision" where
  "AllowsPublisher p issuer repo origin =
     (case settled p of Some d \<Rightarrow> d | None \<Rightarrow>
      case canonicalOrigin origin of None \<Rightarrow> refuse (Not_an_origin origin) | Some wanted \<Rightarrow>
        if issuer = [] \<and> repo = [] then refuse (Nobody_signed wanted)
        else if ApprovedSigners p = [] then
          (if RequirePublisher p then refuse (Publisher_required_none_approved wanted)
           else allow Publishers_unrestricted)
        else publisher_loop issuer repo wanted (length (ApprovedSigners p)) False (ApprovedSigners p))"

definition AllowsNormalizedPublisher :: "Policy \<Rightarrow> string \<Rightarrow> string \<Rightarrow> string \<Rightarrow> string \<Rightarrow> Decision" where
  "AllowsNormalizedPublisher p publisherID issuer repo origin =
     (case settled p of Some d \<Rightarrow> d | None \<Rightarrow>
        if publisherID \<noteq> [] \<and> publisherID \<in> set (ApprovedPublisherIDs p)
          then allow (Publisher_id_approved publisherID)
        else if ApprovedSigners p \<noteq> [] then AllowsPublisher p issuer repo origin
        else if ApprovedPublisherIDs p = [] \<and> \<not> RequirePublisher p then allow Publishers_unrestricted
        else if publisherID = [] then refuse (No_normalized_identity origin)
        else refuse (Publisher_id_not_approved publisherID (length (ApprovedPublisherIDs p))))"

definition AllowsApproval :: "Policy \<Rightarrow> string \<Rightarrow> string \<Rightarrow> Decision" where
  "AllowsApproval p issuer repo =
     (case settled p of Some d \<Rightarrow> d | None \<Rightarrow>
        if issuer = [] \<and> repo = [] then refuse Nobody_counter_signed
        else if ApprovalSigners p = [] then
          (if RequireApproval p then refuse Approval_required_none_named else allow No_approval_expected)
        else if list_ex (\<lambda>s. signer_matches s issuer repo) (ApprovalSigners p)
          then allow (May_counter_sign (identityLabel issuer repo))
        else refuse (May_not_counter_sign (identityLabel issuer repo) (length (ApprovalSigners p))))"

fun revoked_loop :: "string \<Rightarrow> u64 \<Rightarrow> Revocation list \<Rightarrow> Decision" where
  "revoked_loop wanted generation [] =
     (if generation = 0 then allow (Whole_origin_not_revoked wanted)
      else allow (Generation_not_revoked generation wanted))"
| "revoked_loop wanted generation (r # rs) =
     (if \<not> sameOrigin (rv_Origin r) wanted then revoked_loop wanted generation rs
      else if rv_Generation r = 0 then refuse (Origin_revoked wanted (because (rv_Reason r)))
      else if generation \<noteq> 0 \<and> rv_Generation r = generation
        then refuse (Generation_revoked generation wanted (because (rv_Reason r)))
      else revoked_loop wanted generation rs)"

definition IsRevoked :: "Policy \<Rightarrow> string \<Rightarrow> u64 \<Rightarrow> Decision" where
  "IsRevoked p origin generation =
     (case settled p of Some d \<Rightarrow> d | None \<Rightarrow>
      case canonicalOrigin origin of None \<Rightarrow> refuse (Not_an_origin origin)
      | Some wanted \<Rightarrow> revoked_loop wanted generation (Revoked p))"

section \<open>Validation\<close>

record url =
  url_Scheme :: string
  url_Host :: string
  url_has_User :: bool
  url_RawQuery :: string
  url_Fragment :: string

datatype policy_error =
  Unsupported_policy_abi int
| Abi1_holds_abi2_fields
| Abi2_sections_missing
| Require_publisher_unsatisfiable
| Require_approval_unsatisfiable
| Signer_names_nobody string
| Signer_issuer_invalid string string
| Signer_no_repository string
| Not_an_origin_entry string string
| Not_written_canonically string string string
| Reason_too_long nat
| Reason_control_character string
| Bad_x509_revocation
| Off_names_provider
| Mode_needs_provider string
| Unsupported_mode string
| Unsupported_publisher_id
| Duplicate_publisher_id
| In_exception nat policy_error
| Duplicate_exception_scope
| Exception_publisher
| Exception_scope_empty
| Exception_duplicate_origin
| Exception_status string
| Exception_duplicate_status
| Exception_expiry
| Exception_reason_code

text \<open>
  \<^verbatim>\<open>strings.ContainsFunc(s, unicode.IsControl)\<close>: the control runes are U+0000 to U+001F and
  U+007F to U+009F; the last thirty-two are the byte C2 and a byte from 80 to 9F.
\<close>

fun has_control :: "string \<Rightarrow> bool" where
  "has_control [] = False"
| "has_control (c # cs) =
     (c < CHR 0x20 \<or> c = CHR 0x7F \<or>
      (c = CHR 0xC2 \<and> (case cs of [] \<Rightarrow> False | d # _ \<Rightarrow> CHR 0x80 \<le> d \<and> d \<le> CHR 0x9F)) \<or>
      has_control cs)"

definition validIssuer :: "(string \<Rightarrow> url option) \<Rightarrow> string \<Rightarrow> bool" where
  "validIssuer parse_url value =
     (if value = [] \<or> value \<noteq> TrimSpace value then False
      else case parse_url value of None \<Rightarrow> False
      | Some parsed \<Rightarrow>
          if url_Scheme parsed \<noteq> ''https'' \<or> url_Host parsed = [] \<or> url_has_User parsed then False
          else url_RawQuery parsed = [] \<and> url_Fragment parsed = [])"

definition validateOrigin :: "string \<Rightarrow> string \<Rightarrow> policy_error err" where
  "validateOrigin field origin =
     (case canonicalOrigin origin of None \<Rightarrow> Some (Not_an_origin_entry field origin)
      | Some canonical \<Rightarrow>
          if canonical \<noteq> origin then Some (Not_written_canonically field origin canonical) else None)"

definition validateReason :: "string \<Rightarrow> policy_error err" where
  "validateReason r =
     (if length r > reasonLimit then Some (Reason_too_long (length r))
      else if has_control r then Some (Reason_control_character r) else None)"

definition validateSigner :: "(string \<Rightarrow> url option) \<Rightarrow> string \<Rightarrow> bool \<Rightarrow> Signer \<Rightarrow> policy_error err" where
  "validateSigner parse_url field repoRequired s =
     (if Issuer s = [] \<and> Repo s = [] then Some (Signer_names_nobody field)
      else if Issuer s \<noteq> [] \<and> \<not> validIssuer parse_url (Issuer s) then Some (Signer_issuer_invalid field (Issuer s))
      else if Repo s = [] then (if repoRequired then Some (Signer_no_repository field) else None)
      else validateOrigin field (Repo s))"

definition validateSigners :: "(string \<Rightarrow> url option) \<Rightarrow> string \<Rightarrow> Signer list \<Rightarrow> bool \<Rightarrow> policy_error err" where
  "validateSigners parse_url field signers repoRequired =
     first_error (validateSigner parse_url field repoRequired) signers"

definition policyNamePattern :: rx where
  "policyNamePattern = namePattern"

definition validateReputationException :: "ReputationException \<Rightarrow> policy_error err" where
  "validateReputationException e =
     (if \<not> ValidPublisherID (ex_PublisherID e) then Some Exception_publisher
      else if ex_Origins e = [] \<or> ex_Statuses e = [] then Some Exception_scope_empty
      else and_then (check_unique (validateOrigin ''reputation exception'') id
                       (\<lambda>_. Exception_duplicate_origin) [] (ex_Origins e))
          (and_then (check_unique (\<lambda>status. if status \<noteq> Unknown \<and> status \<noteq> Caution
                                   then Some (Exception_status status) else None) id
                       (\<lambda>_. Exception_duplicate_status) [] (ex_Statuses e))
           (if ex_ExpiresAt e \<noteq> [] \<and> canonical_time (ex_ExpiresAt e) = None then Some Exception_expiry
            else if \<not> matches policyNamePattern (ex_ReasonCode e) then Some Exception_reason_code
            else None)))"

text \<open>The key a duplicated scope is noticed by; \<^verbatim>\<open>fmt.Sprint\<close> of a slice of strings.\<close>

definition sprint_list :: "string list \<Rightarrow> string" where
  "sprint_list xs = ''['' @ join_with CHR '' '' xs @ '']''"

definition exception_key :: "ReputationException \<Rightarrow> string" where
  "exception_key e = ex_PublisherID e @ [CHR 0x00] @ sprint_list (sort (ex_Origins e)) @ [CHR 0x00] @
     sprint_list (sort (ex_Statuses e)) @ [CHR 0x00] @ ex_ExpiresAt e"

definition validateMode :: "ReputationPolicy \<Rightarrow> policy_error err" where
  "validateMode r =
     (if rp_Mode r = ReputationOff then
        (if rp_ProviderID r \<noteq> [] \<or> rp_Exceptions r \<noteq> [] then Some Off_names_provider else None)
      else if rp_Mode r \<in> {ReputationAudit, ReputationWarn, ReputationRequireEstablished} then
        (if \<not> matches policyNamePattern (rp_ProviderID r) then Some (Mode_needs_provider (rp_Mode r)) else None)
      else Some (Unsupported_mode (rp_Mode r)))"

definition validateV2 :: "Policy \<Rightarrow> X509Policy \<Rightarrow> ReputationPolicy \<Rightarrow> policy_error err" where
  "validateV2 p x r =
     (if x5_Revocation x \<noteq> ''allow-unknown'' \<and> x5_Revocation x \<noteq> ''require-good'' then Some Bad_x509_revocation
      else and_then (validateMode r)
          (and_then (check_unique (\<lambda>i. if ValidPublisherID i then None else Some Unsupported_publisher_id) id
                       (\<lambda>_. Duplicate_publisher_id) [] (ApprovedPublisherIDs p))
                    (check_unique (\<lambda>(index, e). map_option (In_exception index) (validateReputationException e))
                       (\<lambda>(_, e). exception_key e) (\<lambda>_. Duplicate_exception_scope) []
                       (List.enumerate 0 (rp_Exceptions r)))))"

definition validateRevocation :: "Revocation \<Rightarrow> policy_error err" where
  "validateRevocation r = and_then (validateOrigin ''revoked'' (rv_Origin r)) (validateReason (rv_Reason r))"

definition validateAbi :: "Policy \<Rightarrow> policy_error err" where
  "validateAbi p =
     (if ABI p \<noteq> ABIVersion \<and> ABI p \<noteq> CurrentABIVersion then Some (Unsupported_policy_abi (ABI p))
      else if ABI p = ABIVersion \<and> (ApprovedPublisherIDs p \<noteq> [] \<or> X509 p \<noteq> None \<or> Reputation_of p \<noteq> None)
        then Some Abi1_holds_abi2_fields
      else if ABI p = CurrentABIVersion then
        (case (X509 p, Reputation_of p) of
           (Some x, Some r) \<Rightarrow> validateV2 p x r
         | _ \<Rightarrow> Some Abi2_sections_missing)
      else None)"

definition Policy_Validate :: "(string \<Rightarrow> url option) \<Rightarrow> Policy \<Rightarrow> policy_error err" where
  "Policy_Validate parse_url p =
     (if ABI p = 0 \<and> Policy_Empty p then None
      else and_then (validateAbi p)
        (if RequirePublisher p \<and> ApprovedSigners p = [] \<and> ApprovedPublisherIDs p = []
           then Some Require_publisher_unsatisfiable
         else if RequireApproval p \<and> ApprovalSigners p = [] then Some Require_approval_unsatisfiable
         else and_then (validateSigners parse_url ''approved_signers'' (ApprovedSigners p) False)
             (and_then (validateSigners parse_url ''approval_signers'' (ApprovalSigners p) True)
             (and_then (first_error (validateOrigin ''approved_origins'') (ApprovedOrigins p))
                       (first_error validateRevocation (Revoked p))))))"

section \<open>Exact answers\<close>

named_theorems decisions \<open>when a trust decision allows\<close>

lemma Allowed_allow [simp, decisions]: "Allowed (allow r)"
  by (simp add: allow_def)

lemma Allowed_refuse [simp, decisions]: "\<not> Allowed (refuse r)"
  by (simp add: refuse_def)

lemma settled_None_iff:
  "settled p = None \<longleftrightarrow> \<not> Policy_Empty p \<and>
     (ABI p = 0 \<or> ABI p = ABIVersion \<or> ABI p = CurrentABIVersion \<and> X509 p \<noteq> None \<and> Reputation_of p \<noteq> None)"
  by (auto simp: settled_def)

lemma settled_Some_Allowed: "settled p = Some d \<Longrightarrow> Allowed d \<Longrightarrow> Policy_Empty p"
  by (auto simp: settled_def split: if_splits)

lemma revoked_whole_None:
  "revoked_whole rs w = None \<longleftrightarrow> (\<forall>r\<in>set rs. \<not> (rv_Generation r = 0 \<and> sameOrigin (rv_Origin r) w))"
  by (induction rs) auto

lemma revoked_whole_Some:
  "revoked_whole rs w = Some r \<Longrightarrow> r \<in> set rs \<and> rv_Generation r = 0 \<and> sameOrigin (rv_Origin r) w"
  by (induction rs) (auto split: if_splits)

lemma revoked_loop_Allowed:
  "Allowed (revoked_loop w g rs) \<longleftrightarrow>
     (\<forall>r\<in>set rs. sameOrigin (rv_Origin r) w \<longrightarrow> rv_Generation r \<noteq> 0 \<and> (g = 0 \<or> rv_Generation r \<noteq> g))"
  by (induction rs) auto

lemma publisher_loop_Allowed:
  "Allowed (publisher_loop issuer repo w n b ss) \<longleftrightarrow>
     (\<exists>s\<in>set ss. signer_matches s issuer repo \<and> (Repo s \<noteq> [] \<or> sameOrigin repo w))"
  by (induction ss arbitrary: b) auto

lemma signer_matches_iff:
  "signer_matches s issuer repo \<longleftrightarrow> (Issuer s = [] \<or> Issuer s = issuer) \<and> (Repo s = [] \<or> sameOrigin (Repo s) repo)"
  by (auto simp: signer_matches_def)

lemma sameOrigin_canonicalised: "canonicalOrigin origin = Some w \<Longrightarrow> sameOrigin a w \<longleftrightarrow> sameOrigin a origin"
  using canonicalOrigin_idem [of origin w] by (auto simp: sameOrigin_iff)

lemma AllowsOrigin_unsettled:
  "settled p = None \<Longrightarrow> Allowed (AllowsOrigin p origin) \<longleftrightarrow>
     canonicalOrigin origin \<noteq> None \<and>
     (\<forall>r\<in>set (Revoked p). \<not> (rv_Generation r = 0 \<and> sameOrigin (rv_Origin r) origin)) \<and>
     (ApprovedOrigins p = [] \<or> (\<exists>a\<in>set (ApprovedOrigins p). sameOrigin a origin))"
  by (auto simp: AllowsOrigin_def list_ex_iff sameOrigin_canonicalised revoked_whole_None
      dest!: revoked_whole_Some split: option.splits)

lemma IsRevoked_unsettled:
  "settled p = None \<Longrightarrow> Allowed (IsRevoked p origin g) \<longleftrightarrow>
     canonicalOrigin origin \<noteq> None \<and>
     (\<forall>r\<in>set (Revoked p). sameOrigin (rv_Origin r) origin \<longrightarrow> rv_Generation r \<noteq> 0 \<and> (g = 0 \<or> rv_Generation r \<noteq> g))"
  by (auto simp: IsRevoked_def revoked_loop_Allowed sameOrigin_canonicalised split: option.splits)

lemma AllowsPublisher_unsettled:
  "settled p = None \<Longrightarrow> Allowed (AllowsPublisher p issuer repo origin) \<longleftrightarrow>
     canonicalOrigin origin \<noteq> None \<and> (issuer \<noteq> [] \<or> repo \<noteq> []) \<and>
     (if ApprovedSigners p = [] then \<not> RequirePublisher p
      else \<exists>s\<in>set (ApprovedSigners p). signer_matches s issuer repo \<and> (Repo s \<noteq> [] \<or> sameOrigin repo origin))"
  by (auto simp: AllowsPublisher_def publisher_loop_Allowed sameOrigin_canonicalised split: option.splits)

lemma settled_refusal_stays:
  "settled p = Some d \<Longrightarrow> \<not> Allowed d \<Longrightarrow> settled (p\<lparr>Revoked := rs\<rparr>) = Some d"
  by (auto simp: settled_def split: if_splits)

lemma revoked_not_empty: "r \<in> set (Revoked p) \<Longrightarrow> \<not> Policy_Empty p"
  by (auto simp: Policy_Empty_def)

section \<open>Validated policies\<close>

lemma validateOrigin_None [validation]: "validateOrigin field v = None \<longleftrightarrow> canonicalOrigin v = Some v"
  by (auto simp: validateOrigin_def split: option.splits)

lemma Policy_Validate_None:
  assumes "Policy_Validate parse_url p = None"
  shows "ABI p = 0 \<and> Policy_Empty p \<or>
     validateAbi p = None \<and> (RequirePublisher p \<longrightarrow> ApprovedSigners p \<noteq> [] \<or> ApprovedPublisherIDs p \<noteq> []) \<and>
     (RequireApproval p \<longrightarrow> ApprovalSigners p \<noteq> []) \<and>
     (\<forall>s\<in>set (ApprovedSigners p). validateSigner parse_url ''approved_signers'' False s = None) \<and>
     (\<forall>s\<in>set (ApprovalSigners p). validateSigner parse_url ''approval_signers'' True s = None) \<and>
     (\<forall>v\<in>set (ApprovedOrigins p). canonicalOrigin v = Some v) \<and>
     (\<forall>r\<in>set (Revoked p). canonicalOrigin (rv_Origin r) = Some (rv_Origin r) \<and> validateReason (rv_Reason r) = None)"
  using assms
  by (auto simp: Policy_Validate_def validateSigners_def validateRevocation_def validation split: if_splits)

lemma Policy_Validate_origins:
  assumes "Policy_Validate parse_url p = None"
  shows "(\<forall>v\<in>set (ApprovedOrigins p). canonicalOrigin v = Some v) \<and>
         (\<forall>r\<in>set (Revoked p). canonicalOrigin (rv_Origin r) = Some (rv_Origin r))"
  using Policy_Validate_None [OF assms] by (auto simp: Policy_Empty_def)

lemma Policy_Validate_readable:
  assumes "Policy_Validate parse_url p = None"
  shows "settled p = (if Policy_Empty p then Some (allow No_policy_in_force) else None)"
  using Policy_Validate_None [OF assms]
  by (auto simp: settled_def validateAbi_def Policy_Empty_def
      split: if_splits option.splits)

section \<open>Properties\<close>

text \<open>A revocation that names no generation withdraws the whole origin: no approved
  origin, no approved publisher and no requested generation brings it back, neither at an
  install (\<^verbatim>\<open>AllowsOrigin\<close>) nor at a launch (\<^verbatim>\<open>IsRevoked\<close>), under every ABI.\<close>

theorem revocation_beats_approval:
  assumes "r \<in> set (Revoked p)" and "rv_Generation r = 0" and "sameOrigin (rv_Origin r) origin"
  shows "\<not> Allowed (AllowsOrigin p origin) \<and> \<not> Allowed (IsRevoked p origin g)"
proof (cases "settled p")
  case None
  with assms show ?thesis by (auto simp: AllowsOrigin_unsettled IsRevoked_unsettled)
next
  case (Some d)
  moreover from this have "\<not> Allowed d" using settled_Some_Allowed revoked_not_empty assms(1) by blast
  ultimately show ?thesis by (simp add: AllowsOrigin_def IsRevoked_def)
qed

text \<open>Adding revocations to a policy only ever narrows it: whatever \<^verbatim>\<open>AllowsOrigin\<close> and
  \<^verbatim>\<open>IsRevoked\<close> let through with the longer list, they already let through with the shorter
  one.\<close>

theorem revoking_only_narrows:
  assumes "set (Revoked p) \<subseteq> set longer"
  shows "(Allowed (AllowsOrigin (p\<lparr>Revoked := longer\<rparr>) origin) \<longrightarrow> Allowed (AllowsOrigin p origin)) \<and>
         (Allowed (IsRevoked (p\<lparr>Revoked := longer\<rparr>) origin g) \<longrightarrow> Allowed (IsRevoked p origin g))"
proof (cases "settled p")
  case None
  then have "settled (p\<lparr>Revoked := longer\<rparr>) = None"
    using assms by (auto simp: settled_None_iff Policy_Empty_def)
  with None assms show ?thesis by (auto simp: AllowsOrigin_unsettled IsRevoked_unsettled)
next
  case (Some d)
  then show ?thesis
    using settled_refusal_stays [OF Some] by (cases "Allowed d") (auto simp: AllowsOrigin_def IsRevoked_def)
qed

text \<open>What a validated policy says is what it enforces: its ABI is one this build reads
  in full, and for an origin written in its canonical form the install gate compares the
  very strings the administrator wrote.\<close>

theorem validated_policy_is_literal:
  assumes "Policy_Validate parse_url p = None" and "canonicalOrigin origin = Some origin"
  shows "Allowed (AllowsOrigin p origin) \<longleftrightarrow>
    (\<forall>r\<in>set (Revoked p). \<not> (rv_Generation r = 0 \<and> rv_Origin r = origin)) \<and>
    (ApprovedOrigins p = [] \<or> origin \<in> set (ApprovedOrigins p))"
proof (cases "Policy_Empty p")
  case True
  with Policy_Validate_readable [OF assms(1)] show ?thesis
    by (simp add: AllowsOrigin_def) (simp add: Policy_Empty_def)
next
  case False
  with Policy_Validate_readable [OF assms(1)] have "settled p = None" by simp
  with Policy_Validate_origins [OF assms(1)] assms(2) show ?thesis
    by (auto simp: AllowsOrigin_unsettled sameOrigin_canonical)
qed

text \<open>Who may publish an origin, exactly.  Where the policy decides anything, an identity
  is let through by its normalized ID being approved, by a signer entry that names its
  repository, by an entry that leaves the repository open when the signing repository is the
  origin itself, or by nobody having been named and nobody being required.\<close>

theorem normalized_publisher_exact:
  assumes "settled p = None"
  shows "Allowed (AllowsNormalizedPublisher p publisherID issuer repo origin) \<longleftrightarrow>
     publisherID \<noteq> [] \<and> publisherID \<in> set (ApprovedPublisherIDs p) \<or>
     (if ApprovedSigners p = [] then ApprovedPublisherIDs p = [] \<and> \<not> RequirePublisher p
      else canonicalOrigin origin \<noteq> None \<and> (issuer \<noteq> [] \<or> repo \<noteq> []) \<and>
        (\<exists>s\<in>set (ApprovedSigners p). (Issuer s = [] \<or> Issuer s = issuer) \<and>
           (if Repo s = [] then sameOrigin repo origin else sameOrigin (Repo s) repo)))"
  using assms
  by (auto simp: AllowsNormalizedPublisher_def AllowsPublisher_unsettled signer_matches_iff)

text \<open>An unmanaged host: a policy nobody filled in allows every origin, publisher,
  approval and generation, and a policy of an ABI this build does not know allows none.\<close>

theorem empty_allows_unknown_refuses:
  shows "settled p = Some d \<Longrightarrow>
     AllowsOrigin p origin = d \<and> AllowsPublisher p issuer repo origin = d \<and>
     AllowsNormalizedPublisher p publisherID issuer repo origin = d \<and>
     AllowsApproval p issuer repo = d \<and> IsRevoked p origin g = d \<and>
     (Allowed d \<longleftrightarrow> Policy_Empty p \<and> ABI p \<in> {0, ABIVersion})"
  by (auto simp: AllowsOrigin_def AllowsPublisher_def AllowsNormalizedPublisher_def AllowsApproval_def
      IsRevoked_def settled_def Policy_Empty_def split: if_splits)

end
