(* ===== verification/Reputation_Policy.thy ===== *)
theory Reputation_Policy
  imports Trust_Policy
begin

text \<open>
  The reputation stage of \<^verbatim>\<open>pkg/trustpolicy/reputation.go\<close>: what a host policy makes of a
  lookup result, and what an invocation that cannot ask anybody makes of a warning.
\<close>

section \<open>Data\<close>

abbreviation InvocationGraphical :: string where "InvocationGraphical \<equiv> ''graphical''"
abbreviation InvocationInteractiveTerminal :: string where
  "InvocationInteractiveTerminal \<equiv> ''interactive-terminal''"
abbreviation InvocationNonInteractive :: string where "InvocationNonInteractive \<equiv> ''non-interactive''"

abbreviation ActionAllow :: string where "ActionAllow \<equiv> ''allow''"
abbreviation ActionWarn :: string where "ActionWarn \<equiv> ''warn''"
abbreviation ActionDeny :: string where "ActionDeny \<equiv> ''deny''"
abbreviation ActionConfirmationRequired :: string where
  "ActionConfirmationRequired \<equiv> ''confirmation-required''"

record ReputationDecision =
  rd_Allowed :: bool
  rd_Action :: string
  rd_ReasonCode :: string
  rd_Reason :: string
  rd_Exception :: bool

datatype decision_error =
  Allowing_marked_refused | Refusing_marked_allowed | Unknown_action | Invalid_reason_code | Invalid_reason

definition ReputationDecision_Validate :: "ReputationDecision \<Rightarrow> decision_error err" where
  "ReputationDecision_Validate d =
     and_then
       (if rd_Action d \<in> {ActionAllow, ActionWarn} then
          (if \<not> rd_Allowed d then Some Allowing_marked_refused else None)
        else if rd_Action d \<in> {ActionDeny, ActionConfirmationRequired} then
          (if rd_Allowed d then Some Refusing_marked_allowed else None)
        else Some Unknown_action)
       (if \<not> matches policyNamePattern (rd_ReasonCode d) then Some Invalid_reason_code
        else if rd_Reason d = [] \<or> length (rd_Reason d) > reasonLimit then Some Invalid_reason
        else None)"

definition reputationAllow :: "string \<Rightarrow> string \<Rightarrow> ReputationDecision" where
  "reputationAllow code why = \<lparr>rd_Allowed = True, rd_Action = ActionAllow, rd_ReasonCode = code,
     rd_Reason = why, rd_Exception = False\<rparr>"

definition reputationDeny :: "string \<Rightarrow> string \<Rightarrow> ReputationDecision" where
  "reputationDeny code why = \<lparr>rd_Allowed = False, rd_Action = ActionDeny, rd_ReasonCode = code,
     rd_Reason = why, rd_Exception = False\<rparr>"

section \<open>Operations\<close>

definition containsOrigin :: "string list \<Rightarrow> string \<Rightarrow> bool" where
  "containsOrigin origins wanted = list_ex (\<lambda>origin. sameOrigin origin wanted) origins"

definition containsStatus :: "Status list \<Rightarrow> Status \<Rightarrow> bool" where
  "containsStatus statuses wanted = list_ex (\<lambda>status. status = wanted) statuses"

text \<open>
  An expiry \<^verbatim>\<open>time.Parse\<close> cannot read is the zero time, which every clock is past.
\<close>

definition exception_applies :: "ReputationException \<Rightarrow> Status \<Rightarrow> string \<Rightarrow> string \<Rightarrow> instant \<Rightarrow> bool" where
  "exception_applies e status publisherID origin now =
     (if ex_PublisherID e \<noteq> publisherID \<or> \<not> containsOrigin (ex_Origins e) origin \<or>
         \<not> containsStatus (ex_Statuses e) status then False
      else if ex_ExpiresAt e \<noteq> [] then
        (let expires = (case canonical_time (ex_ExpiresAt e) of None \<Rightarrow> zero_time | Some t \<Rightarrow> t)
         in now < expires)
      else True)"

definition reputationException ::
  "ReputationPolicy \<Rightarrow> Status \<Rightarrow> string \<Rightarrow> string \<Rightarrow> instant \<Rightarrow> ReputationException option" where
  "reputationException r status publisherID origin now =
     (if status \<noteq> Unknown \<and> status \<noteq> Caution then None
      else List.find (\<lambda>e. exception_applies e status publisherID origin now) (rp_Exceptions r))"

text \<open>The result the mode is applied to, once it is held to the provider and the publisher asked about.\<close>

definition held_result :: "ReputationPolicy \<Rightarrow> Result \<Rightarrow> string \<Rightarrow> Result" where
  "held_result r result publisherID =
     (let result = (if rr_ProviderID result \<noteq> rp_ProviderID r \<and> rr_Status result \<noteq> Unavailable
                    then UnavailableResult (rp_ProviderID r) publisherID ''provider-mismatch'' else result)
      in if rr_PublisherID result \<noteq> publisherID
         then UnavailableResult (rp_ProviderID r) publisherID ''publisher-mismatch'' else result)"

definition warn_stage :: "Result \<Rightarrow> ReputationDecision" where
  "warn_stage result =
     (if rr_Status result = Blocked
        then reputationDeny ''publisher-blocked'' ''the configured reputation provider blocks this publisher''
      else if rr_Status result = Established
        then reputationAllow ''publisher-established''
               ''the configured reputation provider reports an established publisher''
      else \<lparr>rd_Allowed = True, rd_Action = ActionWarn, rd_ReasonCode = rr_ReasonCode result,
            rd_Reason = ''publisher reputation requires a warning before continuing'', rd_Exception = False\<rparr>)"

definition require_stage ::
  "ReputationPolicy \<Rightarrow> Result \<Rightarrow> string \<Rightarrow> string \<Rightarrow> instant \<Rightarrow> ReputationDecision" where
  "require_stage r result publisherID origin now =
     (if rr_Status result = Blocked
        then reputationDeny ''publisher-blocked'' ''the configured reputation provider blocks this publisher''
      else if rr_Status result = Established
        then reputationAllow ''publisher-established''
               ''the configured reputation provider reports an established publisher''
      else case reputationException r (rr_Status result) publisherID origin now of
        Some e \<Rightarrow> (reputationAllow (ex_ReasonCode e)
                     ''a scoped administrator exception permits this reputation result'')\<lparr>rd_Exception := True\<rparr>
      | None \<Rightarrow> reputationDeny ''publisher-not-established'' ''this host requires an established publisher'')"

definition EvaluatesReputation ::
  "Policy \<Rightarrow> Result \<Rightarrow> string \<Rightarrow> string \<Rightarrow> instant \<Rightarrow> ReputationDecision" where
  "EvaluatesReputation p result publisherID origin now =
     (let off = reputationAllow ''reputation-off'' ''publisher reputation is not enforced on this host'' in
      case Reputation_of p of None \<Rightarrow> off
      | Some r \<Rightarrow>
          if ABI p \<noteq> CurrentABIVersion \<or> rp_Mode r = ReputationOff then off
          else let result = held_result r result publisherID in
            if rp_Mode r = ReputationAudit then
              reputationAllow ''reputation-audited'' ''publisher reputation was recorded without changing the host decision''
            else if rp_Mode r = ReputationWarn then warn_stage result
            else if rp_Mode r = ReputationRequireEstablished then require_stage r result publisherID origin now
            else reputationDeny ''reputation-policy-invalid'' ''the reputation policy cannot be applied'')"

definition DecidesReputation ::
  "Policy \<Rightarrow> Result \<Rightarrow> string \<Rightarrow> string \<Rightarrow> instant \<Rightarrow> string \<Rightarrow> ReputationDecision" where
  "DecidesReputation p result publisherID origin now context =
     (let decision = EvaluatesReputation p result publisherID origin now in
      if rd_Action decision = ActionWarn \<and> context \<noteq> InvocationGraphical \<and> context \<noteq> InvocationInteractiveTerminal
      then \<lparr>rd_Allowed = False, rd_Action = ActionConfirmationRequired,
            rd_ReasonCode = ''reputation-confirmation-required'',
            rd_Reason = ''publisher reputation requires confirmation, and this invocation is non-interactive'',
            rd_Exception = False\<rparr>
      else decision)"

section \<open>What the stage lets through\<close>

lemma held_result_same:
  "rr_PublisherID result = publisherID \<Longrightarrow> rr_ProviderID result = rp_ProviderID r \<Longrightarrow>
     held_result r result publisherID = result"
  by (simp add: held_result_def)

lemma held_result_other:
  "\<not> (rr_PublisherID result = publisherID \<and> rr_ProviderID result = rp_ProviderID r) \<Longrightarrow>
     rr_Status (held_result r result publisherID) = Unavailable"
  by (auto simp: held_result_def UnavailableResult_def Let_def)

lemma held_result_reason:
  "rr_ReasonCode (held_result r result publisherID) \<in>
     {rr_ReasonCode result, ''provider-mismatch'', ''publisher-mismatch''}"
  by (simp add: held_result_def UnavailableResult_def Let_def)

lemma Evaluates_mode:
  assumes "ABI p = CurrentABIVersion" "Reputation_of p = Some r"
  shows "EvaluatesReputation p result publisherID origin now =
    (if rp_Mode r = ReputationOff then reputationAllow ''reputation-off'' ''publisher reputation is not enforced on this host''
     else if rp_Mode r = ReputationAudit then
       reputationAllow ''reputation-audited'' ''publisher reputation was recorded without changing the host decision''
     else if rp_Mode r = ReputationWarn then warn_stage (held_result r result publisherID)
     else if rp_Mode r = ReputationRequireEstablished then
       require_stage r (held_result r result publisherID) publisherID origin now
     else reputationDeny ''reputation-policy-invalid'' ''the reputation policy cannot be applied'')"
  using assms by (simp add: EvaluatesReputation_def Let_def)

lemma reputationException_Some:
  "reputationException r status publisherID origin now = Some e \<Longrightarrow>
     e \<in> set (rp_Exceptions r) \<and> status \<in> {Unknown, Caution} \<and> ex_PublisherID e = publisherID \<and>
     (\<exists>o'\<in>set (ex_Origins e). sameOrigin o' origin) \<and> status \<in> set (ex_Statuses e) \<and>
     (ex_ExpiresAt e \<noteq> [] \<longrightarrow> now < (case canonical_time (ex_ExpiresAt e) of None \<Rightarrow> zero_time | Some t \<Rightarrow> t))"
  by (auto simp: reputationException_def find_Some_iff exception_applies_def containsOrigin_def
      containsStatus_def list_ex_iff Let_def split: if_splits)

lemma reputationException_None:
  "reputationException r status publisherID origin now = None \<longleftrightarrow>
     status \<notin> {Unknown, Caution} \<or>
     (\<forall>e\<in>set (rp_Exceptions r). \<not> exception_applies e status publisherID origin now)"
  by (auto simp: reputationException_def find_None_iff)

lemma require_stage_Allowed:
  "rd_Allowed (require_stage r result publisherID origin now) \<longleftrightarrow>
     rr_Status result = Established \<or>
     rr_Status result \<in> {Unknown, Caution} \<and>
       (\<exists>e\<in>set (rp_Exceptions r). exception_applies e (rr_Status result) publisherID origin now)"
  using reputationException_None [of r "rr_Status result" publisherID origin now]
  by (auto simp: require_stage_def reputationAllow_def reputationDeny_def split: option.splits)

lemma require_stage_never_warns: "rd_Action (require_stage r result publisherID origin now) \<noteq> ActionWarn"
  by (simp add: require_stage_def reputationAllow_def reputationDeny_def split: option.splits)

lemma reason_code_literals:
  "matches namePattern ''publisher-blocked''" "matches namePattern ''publisher-established''"
  "matches namePattern ''publisher-not-established''" "matches namePattern ''reputation-off''"
  "matches namePattern ''reputation-audited''" "matches namePattern ''reputation-policy-invalid''"
  "matches namePattern ''reputation-confirmation-required''"
  by code_simp+

lemmas decision_validates =
  ReputationDecision_Validate_def policyNamePattern_def reasonLimit_def validation reason_code_literals
  reputationAllow_def reputationDeny_def

lemma warn_stage_valid:
  "matches namePattern (rr_ReasonCode result) \<Longrightarrow> ReputationDecision_Validate (warn_stage result) = None"
  by (simp add: warn_stage_def decision_validates)

lemma require_stage_valid:
  "(\<And>e. e \<in> set (rp_Exceptions r) \<Longrightarrow> matches namePattern (ex_ReasonCode e)) \<Longrightarrow>
     ReputationDecision_Validate (require_stage r result publisherID origin now) = None"
  by (auto simp: require_stage_def decision_validates dest: reputationException_Some split: option.splits)

lemma Policy_Validate_exceptions:
  assumes "Policy_Validate parse_url p = None" "Reputation_of p = Some r" "e \<in> set (rp_Exceptions r)"
  shows "validateReputationException e = None"
proof -
  from assms(1,2) obtain x where "validateV2 p x r = None"
    using Policy_Validate_None [OF assms(1)]
    by (auto simp: validateAbi_def Policy_Empty_def split: if_splits option.splits)
  then have "\<forall>(i, e)\<in>set (List.enumerate 0 (rp_Exceptions r)). validateReputationException e = None"
    by (auto simp: validateV2_def validation split: if_splits)
  moreover obtain i where "(i, e) \<in> set (List.enumerate 0 (rp_Exceptions r))"
    using assms(3) by (auto simp: in_set_enumerate_eq in_set_conv_nth [of e])
  ultimately show ?thesis by auto
qed

lemma validated_exception:
  "validateReputationException e = None \<Longrightarrow>
     matches namePattern (ex_ReasonCode e) \<and> (\<forall>v\<in>set (ex_Origins e). canonicalOrigin v = Some v) \<and>
     set (ex_Statuses e) \<subseteq> {Unknown, Caution} \<and> (ex_ExpiresAt e \<noteq> [] \<longrightarrow> canonical_time (ex_ExpiresAt e) \<noteq> None)"
  by (auto simp: validateReputationException_def validation policyNamePattern_def split: if_splits)

lemma Evaluates_valid:
  assumes "Policy_Validate parse_url p = None" "Result_Validate result = None"
  shows "ReputationDecision_Validate (EvaluatesReputation p result publisherID origin now) = None"
proof (cases "ABI p = CurrentABIVersion \<and> Reputation_of p \<noteq> None")
  case False
  then have "EvaluatesReputation p result publisherID origin now =
      reputationAllow ''reputation-off'' ''publisher reputation is not enforced on this host''"
    unfolding EvaluatesReputation_def Let_def by (cases "Reputation_of p") simp_all
  then show ?thesis by (simp add: decision_validates)
next
  case True
  then obtain r where r: "ABI p = CurrentABIVersion" "Reputation_of p = Some r" by auto
  have exceptions: "matches namePattern (ex_ReasonCode e)" if "e \<in> set (rp_Exceptions r)" for e
    using that assms(1) r validated_exception Policy_Validate_exceptions by blast
  have "matches namePattern (rr_ReasonCode result)"
    using assms(2) by (auto simp: Result_Validate_def split: if_splits)
  then have "matches namePattern (rr_ReasonCode (held_result r result publisherID))"
    using held_result_reason [of r result publisherID] name_literals by auto
  then show ?thesis
    using exceptions
    by (simp add: Evaluates_mode [OF r] warn_stage_valid require_stage_valid) (simp add: decision_validates)
qed

section \<open>Properties\<close>

text \<open>On a host that requires established publishers a package goes ahead exactly when the
  configured provider's answer about this very publisher is "established", or when it is
  "unknown" or "caution" and an exception the administrator wrote for this publisher, this
  origin and this status has not expired.  Nothing an invocation says about itself matters.\<close>

theorem require_established_exact:
  assumes "ABI p = CurrentABIVersion" and "Reputation_of p = Some r"
    and "rp_Mode r = ReputationRequireEstablished"
  shows "rd_Allowed (DecidesReputation p result publisherID origin now context) \<longleftrightarrow>
    rr_PublisherID result = publisherID \<and> rr_ProviderID result = rp_ProviderID r \<and>
    (rr_Status result = Established \<or>
     rr_Status result \<in> {Unknown, Caution} \<and>
       (\<exists>e\<in>set (rp_Exceptions r). exception_applies e (rr_Status result) publisherID origin now))"
proof -
  have "DecidesReputation p result publisherID origin now context =
      require_stage r (held_result r result publisherID) publisherID origin now"
    using require_stage_never_warns by (simp add: DecidesReputation_def Evaluates_mode [OF assms(1,2)] assms(3) Let_def)
  then show ?thesis
    using held_result_same [of result publisherID r] held_result_other [of result publisherID r]
    by (cases "rr_PublisherID result = publisherID \<and> rr_ProviderID result = rp_ProviderID r")
      (auto simp: require_stage_Allowed)
qed

text \<open>C13: Every reputation decision a validated policy makes about a validated result is well
  formed: its action and its verdict agree, its reason code is a bounded name and its reason
  is a short sentence; and an invocation that can ask nobody never goes ahead on a warning.\<close>

theorem reputation_decisions_validate:
  assumes "Policy_Validate parse_url p = None" and "Result_Validate result = None"
  shows "ReputationDecision_Validate (DecidesReputation p result publisherID origin now context) = None \<and>
    (context = InvocationNonInteractive \<longrightarrow>
       (rd_Allowed (DecidesReputation p result publisherID origin now context) \<longleftrightarrow>
        rd_Action (DecidesReputation p result publisherID origin now context) = ActionAllow))"
  using Evaluates_valid [OF assms, of publisherID origin now]
  by (auto simp: DecidesReputation_def Let_def decision_validates split: if_splits)

text \<open>A publisher the configured provider blocks never goes ahead on a host that warns or
  requires: the decision is a denial whatever exceptions exist and however it was invoked.\<close>

theorem blocked_publisher_is_denied:
  assumes "ABI p = CurrentABIVersion" and "Reputation_of p = Some r"
    and "rp_Mode r \<in> {ReputationWarn, ReputationRequireEstablished}"
    and "rr_PublisherID result = publisherID" and "rr_ProviderID result = rp_ProviderID r"
    and "rr_Status result = Blocked"
  shows "DecidesReputation p result publisherID origin now context =
    reputationDeny ''publisher-blocked'' ''the configured reputation provider blocks this publisher''"
  using assms
  by (auto simp: DecidesReputation_def Evaluates_mode held_result_same warn_stage_def require_stage_def
      reputationDeny_def Let_def)

end
