(* ===== verification/Enrolment.thy ===== *)
theory Enrolment
  imports Evidence Policy_Order Reputation_Policy
begin

text \<open>
  The records of \<^verbatim>\<open>pkg/systemauthority/anchor.go\<close> and \<^verbatim>\<open>pkg/integrity/store.go\<close>: anchors, enrolments
  and tombstones, the validation every one of them passes on each read and write, the order
  enrolments are held to, and the file each record is kept in.
\<close>

section \<open>Data\<close>

record Anchor =
  an_ABI :: int
  an_UID :: u32
  an_Origin :: string
  an_Generation :: u64
  an_ImageDigest :: string
  an_ManifestDigest :: string
  an_PackageRoot :: string
  an_PolicyRoot :: string
  an_LaunchRoot :: string
  an_SessionRoots :: "(string \<times> string) list"

record SignedState =
  ss_State :: State
  ss_Bundle :: string
  ss_ABI :: int
  ss_Kind :: string
  ss_MediaType :: string

record Enrolment =
  er_Anchor :: Anchor
  er_Policy :: "Override option"
  er_PolicySchema :: int
  er_Signature :: "SignedState option"
  er_Verification :: "VerificationResult option"
  er_Reputation :: "Result option"
  er_ReputationDecision :: "ReputationDecision option"
  er_SignatureMode :: string
  er_ReputationMode :: string

record Tombstone =
  tb_UID :: u32
  tb_Origin :: string
  tb_Generation :: u64
  tb_PolicyRoot :: string
  tb_Policy :: "Override option"
  tb_PolicySchema :: int
  tb_Signed :: bool
  tb_SignatureGeneration :: u64

abbreviation er_UID :: "Enrolment \<Rightarrow> u32" where "er_UID e \<equiv> an_UID (er_Anchor e)"
abbreviation er_Origin :: "Enrolment \<Rightarrow> string" where "er_Origin e \<equiv> an_Origin (er_Anchor e)"
abbreviation er_Generation :: "Enrolment \<Rightarrow> u64" where "er_Generation e \<equiv> an_Generation (er_Anchor e)"
abbreviation er_PolicyRoot :: "Enrolment \<Rightarrow> string" where "er_PolicyRoot e \<equiv> an_PolicyRoot (er_Anchor e)"

abbreviation SignaturesOptional :: string where "SignaturesOptional \<equiv> ''optional''"
abbreviation SignaturesRequired :: string where "SignaturesRequired \<equiv> ''required''"

text \<open>
  Code outside the sources a record is checked with: the digest of a policy's JSON and the
  hexadecimal SHA-256.
\<close>

record hashes =
  hx_policy :: "string \<Rightarrow> (string \<times> member) list \<Rightarrow> string"
  hx_sha256 :: "string \<Rightarrow> string"

datatype ledger_error =
  Invalid_package_origin
| Anchor_path_not_absolute
| Anchor_other_abi
| Anchor_digest_shape string
| Invalid_anchor_root
| Launch_root_does_not_follow
| Signed_state_invalid state_error
| Signed_state_other_package
| Signed_without_digests
| Signed_image_mismatch string string
| Signed_manifest_mismatch string string
| Signed_evidence evidence_error
| Bundle_too_large
| Verification_missing
| Verification_unsigned
| Verification_other_state
| Verification_not_authorized
| Verification_untrusted_chain
| Verification_signing_time
| Verification_blocked_revocation
| Verification_invalid_revocation
| Reputation_halves_apart
| Invalid_signature_mode
| Invalid_reputation_mode
| Reputation_result_invalid result_error
| Reputation_decision_invalid decision_error
| Unsigned_with_reputation
| Schema_without_policy
| Policy_root_underivable schema_error
| Policy_root_mismatch
| Invalid_tombstone_root
| Anchor_downgrade u64 u64
| Signature_lost string
| Signature_downgrade u64 u64
| Directory_untrusted
| File_untrusted
| File_undecodable
| File_mismatch
| Signature_setting_unreadable
| Signature_required string
| Signature_names_other string
| Signature_does_not_stand evidence_error
| Signature_foreign
| Trust_policy_unreadable
| Trust_refused reason
| Trust_unsigned string
| Trust_no_verification
| Trust_no_approval_check string
| Trust_approval_fails string
| Reputation_needs_publisher
| Confirmation_unprepared
| Confirmation_required string Result ReputationDecision
| Reputation_refused Result ReputationDecision
| Invalid_confirmation
| Confirmation_not_valid_here
| Unsupported_authority_action
| Request_without_anchor

section \<open>Validation\<close>

definition originPartPattern :: rx where
  "originPartPattern = segmentPattern"

fun contains_dotdot :: "string \<Rightarrow> bool" where
  "contains_dotdot (a # b # rest) \<longleftrightarrow> (a = CHR ''.'' \<and> b = CHR ''.'') \<or> contains_dotdot (b # rest)"
| "contains_dotdot rest \<longleftrightarrow> False"

text \<open>
  A value with a byte outside ASCII is refused by the pattern, so it is enough to fold the
  ASCII capitals where the code calls \<^verbatim>\<open>strings.ToLower\<close>.
\<close>

definition validatePackageOrigin :: "string \<Rightarrow> ledger_error err" where
  "validatePackageOrigin origin =
     (let parts = split_on slash origin in
      if length origin = 0 \<or> length origin > 263 \<or> origin \<noteq> foldASCII origin then Some Invalid_package_origin
      else if length parts \<noteq> 3 then Some Invalid_package_origin
      else if list_ex (\<lambda>part. length part > 100 \<or> \<not> matches originPartPattern part \<or> contains_dotdot part) parts
        then Some Invalid_package_origin
      else if CHR ''.'' \<notin> set (hd parts) then Some Invalid_package_origin
      else None)"

definition anchorRootPattern :: rx where
  "anchorRootPattern = sha256Pattern"

definition ValidateDigests :: "Anchor \<Rightarrow> ledger_error err" where
  "ValidateDigests a =
     (if an_ImageDigest a \<noteq> [] \<and> \<not> matches imageDigestPattern (an_ImageDigest a)
        then Some (Anchor_digest_shape (an_ImageDigest a))
      else if an_ManifestDigest a \<noteq> [] \<and> \<not> matches sha256Pattern (an_ManifestDigest a)
        then Some (Anchor_digest_shape (an_ManifestDigest a))
      else None)"

definition validateAnchor :: "hashes \<Rightarrow> Anchor \<Rightarrow> ledger_error err" where
  "validateAnchor hx a =
     (if an_ABI a \<noteq> 1 then Some Anchor_other_abi
      else and_then (validatePackageOrigin (an_Origin a))
          (and_then (ValidateDigests a)
            (if list_ex (\<lambda>root. \<not> matches anchorRootPattern root) [an_PackageRoot a, an_PolicyRoot a, an_LaunchRoot a]
               then Some Invalid_anchor_root
             else if an_LaunchRoot a \<noteq> LaunchRoot (hx_sha256 hx) (an_PackageRoot a) (an_PolicyRoot a)
               then Some Launch_root_does_not_follow
             else None)))"

definition evidence_of :: "SignedState \<Rightarrow> SignatureEvidence" where
  "evidence_of s =
     (if ss_ABI s = 0 \<and> ss_Kind s = [] \<and> ss_MediaType s = [] then NewSigstoreEvidence (ss_State s) (ss_Bundle s)
      else \<lparr>ve_ABI = ss_ABI s, ve_Kind = ss_Kind s, ve_State = ss_State s, ve_MediaType = ss_MediaType s,
            ve_Payload = ss_Bundle s\<rparr>)"

definition bindsTheAnchor :: "Anchor \<Rightarrow> SignedState \<Rightarrow> ledger_error err" where
  "bindsTheAnchor a s =
     (if an_ImageDigest a = [] \<or> an_ManifestDigest a = [] then Some Signed_without_digests
      else if st_ImageDigest (ss_State s) \<noteq> an_ImageDigest a
        then Some (Signed_image_mismatch (st_ImageDigest (ss_State s)) (an_ImageDigest a))
      else if st_ManifestSHA256 (ss_State s) \<noteq> an_ManifestDigest a
        then Some (Signed_manifest_mismatch (st_ManifestSHA256 (ss_State s)) (an_ManifestDigest a))
      else None)"

definition signatureBundleLimit :: nat where "signatureBundleLimit = 262144"

definition validateSignedState :: "Enrolment \<Rightarrow> ledger_error err" where
  "validateSignedState e =
     (case er_Signature e of None \<Rightarrow> None
      | Some s \<Rightarrow>
          and_then (map_option Signed_state_invalid (State_Validate (ss_State s)))
         (and_then (if st_Origin (ss_State s) \<noteq> er_Origin e then Some Signed_state_other_package else None)
         (and_then (bindsTheAnchor (er_Anchor e) s)
         (and_then (map_option Signed_evidence (ValidateEnvelope (evidence_of s)))
           (if length (ve_Payload (evidence_of s)) > signatureBundleLimit then Some Bundle_too_large else None)))))"

definition validateRecordedVerification :: "hashes \<Rightarrow> Enrolment \<Rightarrow> ledger_error err" where
  "validateRecordedVerification hx e =
     (case er_Verification e of
        None \<Rightarrow> if er_SignatureMode e \<noteq> [] \<and> er_Signature e \<noteq> None then Some Verification_missing else None
      | Some result \<Rightarrow>
          (case er_Signature e of None \<Rightarrow> Some Verification_unsigned
           | Some s \<Rightarrow>
               if Digest (hx_sha256 hx) (ss_State s) \<noteq> Inr (vr_StateDigest result) \<or>
                  vr_EvidenceKind result \<noteq> ve_Kind (evidence_of s) then Some Verification_other_state
               else if vr_Cryptographic result \<noteq> ''verified'' \<or>
                       (case vr_Publisher result of None \<Rightarrow> True | Some p \<Rightarrow> pi_ID p = []) \<or>
                       vr_OriginAuthorization result \<noteq> ''authorized'' then Some Verification_not_authorized
               else if vr_Chain result \<notin> {''not-applicable'', ''trusted-public'', ''trusted-local''}
                 then Some Verification_untrusted_chain
               else if vr_SigningTime result \<notin> {''current'', ''timestamped''} then Some Verification_signing_time
               else if vr_Revocation result \<in> {[], ''good'', ''unknown''} then None
               else if vr_Revocation result \<in> {''revoked'', ''stale''} then Some Verification_blocked_revocation
               else Some Verification_invalid_revocation))"

fun first_matching :: "hashes \<Rightarrow> Override \<Rightarrow> string \<Rightarrow> int list \<Rightarrow> int option" where
  "first_matching hx policy root [] = None"
| "first_matching hx policy root (schema # rest) =
     (if PolicyRootForSchema (hx_policy hx) policy schema = Inr root then Some schema
      else first_matching hx policy root rest)"

definition matchingPolicySchema :: "hashes \<Rightarrow> Override option \<Rightarrow> string \<Rightarrow> int \<Rightarrow> ledger_error + int" where
  "matchingPolicySchema hx policy root declared =
     (case policy of None \<Rightarrow> (if declared \<noteq> 0 then Inl Schema_without_policy else Inr 0)
      | Some p \<Rightarrow>
          if declared \<noteq> 0 then
            (case PolicyRootForSchema (hx_policy hx) p declared of
               Inl e \<Rightarrow> Inl (Policy_root_underivable e)
             | Inr candidate \<Rightarrow> if candidate = root then Inr declared else Inl Policy_root_mismatch)
          else (case first_matching hx p root [4, 3, 2, 1] of
               None \<Rightarrow> Inl Policy_root_mismatch | Some schema \<Rightarrow> Inr schema))"

definition validateReputationHalves :: "Enrolment \<Rightarrow> ledger_error err" where
  "validateReputationHalves e =
     (if (er_Reputation e = None) \<noteq> (er_ReputationDecision e = None) then Some Reputation_halves_apart
      else if er_SignatureMode e \<noteq> [] \<and> er_SignatureMode e \<notin> {SignaturesOptional, SignaturesRequired}
        then Some Invalid_signature_mode
      else if er_ReputationMode e \<noteq> [] \<and>
              er_ReputationMode e \<notin> {ReputationOff, ReputationAudit, ReputationWarn, ReputationRequireEstablished}
        then Some Invalid_reputation_mode
      else case (er_Reputation e, er_ReputationDecision e) of
        (Some r, Some d) \<Rightarrow>
          and_then (map_option Reputation_result_invalid (Result_Validate r))
         (and_then (map_option Reputation_decision_invalid (ReputationDecision_Validate d))
            (if er_Signature e = None then Some Unsigned_with_reputation else None))
      | _ \<Rightarrow> None)"

text \<open>\<^verbatim>\<open>completeEnrolmentPolicySchema\<close>: the checks, and the enrolment with its schema filled in.\<close>

definition completeEnrolmentPolicySchema :: "hashes \<Rightarrow> Enrolment \<Rightarrow> ledger_error + Enrolment" where
  "completeEnrolmentPolicySchema hx e =
     (case and_then (validateAnchor hx (er_Anchor e))
          (and_then (validateSignedState e)
          (and_then (validateRecordedVerification hx e) (validateReputationHalves e))) of
        Some x \<Rightarrow> Inl x
      | None \<Rightarrow> bind_result (matchingPolicySchema hx (er_Policy e) (er_PolicyRoot e) (er_PolicySchema e))
          (\<lambda>schema. Inr (e\<lparr>er_PolicySchema := schema\<rparr>)))"

definition validateEnrolment :: "hashes \<Rightarrow> Enrolment \<Rightarrow> ledger_error err" where
  "validateEnrolment hx e =
     (case completeEnrolmentPolicySchema hx e of Inl x \<Rightarrow> Some x | Inr _ \<Rightarrow> None)"

definition completeTombstonePolicySchema :: "hashes \<Rightarrow> Tombstone \<Rightarrow> ledger_error + Tombstone" where
  "completeTombstonePolicySchema hx t =
     (case validatePackageOrigin (tb_Origin t) of Some x \<Rightarrow> Inl x
      | None \<Rightarrow>
          if \<not> matches anchorRootPattern (tb_PolicyRoot t) then Inl Invalid_tombstone_root
          else bind_result (matchingPolicySchema hx (tb_Policy t) (tb_PolicyRoot t) (tb_PolicySchema t))
            (\<lambda>schema. Inr (t\<lparr>tb_PolicySchema := schema\<rparr>)))"

section \<open>Order\<close>

definition ordersAfter :: "Enrolment \<Rightarrow> Enrolment \<Rightarrow> ledger_error err" where
  "ordersAfter recorded offered =
     (if er_Generation offered < er_Generation recorded
        then Some (Anchor_downgrade (er_Generation recorded) (er_Generation offered))
      else case er_Signature recorded of None \<Rightarrow> None
      | Some s \<Rightarrow> (case er_Signature offered of None \<Rightarrow> Some (Signature_lost (er_Origin offered))
          | Some o' \<Rightarrow>
              if st_Generation (ss_State o') < st_Generation (ss_State s)
              then Some (Signature_downgrade (st_Generation (ss_State s)) (st_Generation (ss_State o')))
              else None))"

definition ordersAfterRemoval :: "Tombstone \<Rightarrow> Enrolment \<Rightarrow> ledger_error err" where
  "ordersAfterRemoval buried offered =
     (if er_Generation offered < tb_Generation buried
        then Some (Anchor_downgrade (tb_Generation buried) (er_Generation offered))
      else if \<not> tb_Signed buried then None
      else case er_Signature offered of None \<Rightarrow> Some (Signature_lost (er_Origin offered))
      | Some o' \<Rightarrow>
          if st_Generation (ss_State o') < tb_SignatureGeneration buried
          then Some (Signature_downgrade (tb_SignatureGeneration buried) (st_Generation (ss_State o')))
          else None)"

definition raisedBy :: "Tombstone \<Rightarrow> Tombstone \<Rightarrow> Tombstone" where
  "raisedBy t other =
     (let t = (if tb_Generation other > tb_Generation t
               then t\<lparr>tb_Generation := tb_Generation other, tb_PolicyRoot := tb_PolicyRoot other,
                      tb_Policy := tb_Policy other, tb_PolicySchema := tb_PolicySchema other\<rparr> else t);
          t = (if tb_Signed other then t\<lparr>tb_Signed := True\<rparr> else t)
      in if tb_SignatureGeneration other > tb_SignatureGeneration t
         then t\<lparr>tb_SignatureGeneration := tb_SignatureGeneration other\<rparr> else t)"

definition tombstone_of :: "Enrolment \<Rightarrow> Tombstone" where
  "tombstone_of e =
     \<lparr>tb_UID = er_UID e, tb_Origin = er_Origin e, tb_Generation = er_Generation e,
      tb_PolicyRoot = er_PolicyRoot e, tb_Policy = er_Policy e, tb_PolicySchema = er_PolicySchema e,
      tb_Signed = er_Signature e \<noteq> None,
      tb_SignatureGeneration = (case er_Signature e of None \<Rightarrow> 0 | Some s \<Rightarrow> st_Generation (ss_State s))\<rparr>"

section \<open>Authorization\<close>

definition ActionEnrolAnchor :: string where "ActionEnrolAnchor = ''it.cpak.system.enrol-anchor''"
definition ActionWidenAnchor :: string where "ActionWidenAnchor = ''it.cpak.system.widen-anchor''"

definition authorizationAgainst :: "u64 \<Rightarrow> string \<Rightarrow> Override option \<Rightarrow> Enrolment \<Rightarrow> string" where
  "authorizationAgainst generation policyRoot policy e =
     (if er_Generation e < generation then ActionWidenAnchor
      else if er_PolicyRoot e = policyRoot then ActionEnrolAnchor
      else case (policy, er_Policy e) of
        (Some held, Some offered) \<Rightarrow> if Restricts held offered then ActionEnrolAnchor else ActionWidenAnchor
      | _ \<Rightarrow> ActionWidenAnchor)"

section \<open>Files\<close>

definition forgottenSuffix :: string where "forgottenSuffix = ''+forgotten.json''"
definition recordSuffix :: string where "recordSuffix = ''.json''"

definition file_name :: "string \<Rightarrow> string \<Rightarrow> string" where
  "file_name origin sfx = map (\<lambda>c. if c = slash then CHR '':'' else c) origin @ sfx"

definition recordPath :: "string \<Rightarrow> u32 \<Rightarrow> string \<Rightarrow> string \<Rightarrow> ledger_error + string" where
  "recordPath directory uid origin sfx =
     (if \<not> IsAbs directory then Inl Anchor_path_not_absolute
      else case validatePackageOrigin origin of Some e \<Rightarrow> Inl e
      | None \<Rightarrow>
          if file_name origin sfx \<noteq> Base (file_name origin sfx) then Inl Invalid_package_origin
          else Inr (Join [directory, show_nat (unat uid), file_name origin sfx]))"

section \<open>One file per application and kind\<close>

lemma valid_origin_bytes:
  assumes "validatePackageOrigin origin = None" "c \<in> set origin"
  shows "c = slash \<or> origin_byte c"
proof -
  have "\<forall>p\<in>set (split_on slash origin). matches segmentPattern p"
    using assms(1) by (auto simp: validatePackageOrigin_def originPartPattern_def list_ex_iff Let_def split: if_splits)
  then have parts: "c \<in> set p \<Longrightarrow> p \<in> set (split_on slash origin) \<Longrightarrow> origin_byte c" for c p
    using segment_bytes by blast
  have "c \<in> set (join_with slash ps) \<Longrightarrow> c = slash \<or> (\<exists>p\<in>set ps. c \<in> set p)" for ps
    by (induction ps rule: join_with.induct) auto
  from this [of "split_on slash origin"] assms(2) parts show ?thesis by auto
qed

definition flat :: "char \<Rightarrow> char" where
  "flat c = (if c = slash then CHR '':'' else c)"

lemma file_name_flat: "file_name origin sfx = map flat origin @ sfx"
  by (simp add: file_name_def flat_def)

lemma map_flat_inj:
  assumes "validatePackageOrigin a = None" "validatePackageOrigin b = None" "map flat a = map flat b"
  shows "a = b"
proof -
  have colon: "c \<noteq> CHR '':''" if "c \<in> set a \<union> set b" for c
    using that valid_origin_bytes [OF assms(1), of c] valid_origin_bytes [OF assms(2), of c] origin_byte_excludes(2)
    by auto
  have "inj_on flat (set a \<union> set b)"
    using colon by (intro inj_onI) (auto simp: flat_def split: if_splits)
  with assms(3) show ?thesis by (simp add: inj_on_map_eq_map)
qed

lemma plus_marks_tombstone:
  assumes "validatePackageOrigin a = None" "sfx \<in> {recordSuffix, forgottenSuffix}"
  shows "CHR ''+'' \<in> set (file_name a sfx) \<longleftrightarrow> sfx = forgottenSuffix"
  using valid_origin_bytes [OF assms(1)] origin_byte_excludes(3) assms(2)
  by (fastforce simp: file_name_flat flat_def recordSuffix_def forgottenSuffix_def split: if_splits)

lemma file_name_proper:
  assumes "validatePackageOrigin a = None" "sfx \<in> {recordSuffix, forgottenSuffix}"
  shows "proper (file_name a sfx)"
  using assms(2) by (auto simp: proper_def file_name_flat flat_def recordSuffix_def forgottenSuffix_def append_eq_Cons_conv
      split: if_splits)

lemma show_nat_proper: "proper (show_nat n)"
proof -
  have "\<not> is_digit CHR ''.''" "\<not> is_digit slash" by (simp_all add: is_digit_def less_eq_char_def)
  then show ?thesis
    using is_decimal_show_nat [of n] by (auto simp: proper_def is_decimal_def list_all_iff)
qed

lemma recordPath_Inr:
  "recordPath directory uid origin sfx = Inr path \<Longrightarrow> sfx \<in> {recordSuffix, forgottenSuffix} \<Longrightarrow>
     validatePackageOrigin origin = None \<and> IsAbs directory \<and>
     path = slash # join_with slash (components directory @ [show_nat (unat uid), file_name origin sfx])"
  using Clean_under [of directory "[show_nat (unat uid), file_name origin sfx]"] show_nat_proper file_name_proper
  by (auto simp: recordPath_def IsAbs_def split: option.splits if_splits)

lemma recordPath_inj:
  assumes "recordPath directory uid origin sfx = Inr path" "recordPath directory uid' origin' sfx' = Inr path"
    and s: "sfx \<in> {recordSuffix, forgottenSuffix}" "sfx' \<in> {recordSuffix, forgottenSuffix}"
  shows "uid = uid' \<and> origin = origin' \<and> sfx = sfx'"
proof -
  note a = recordPath_Inr [OF assms(1) s(1)] and b = recordPath_Inr [OF assms(2) s(2)]
  have "components directory @ [show_nat (unat uid), file_name origin sfx] =
      components directory @ [show_nat (unat uid'), file_name origin' sfx']"
    using a b s components_proper [of directory] show_nat_proper file_name_proper
    by (intro join_components_inj) auto
  then have names: "file_name origin sfx = file_name origin' sfx'" and "show_nat (unat uid) = show_nat (unat uid')"
    by auto
  then have "uid = uid'" using show_nat_inj unsigned_word_eqI by blast
  moreover have "sfx = sfx'"
    using names plus_marks_tombstone a b s by (metis empty_iff insert_iff)
  moreover have "origin = origin'"
    using names calculation(2) map_flat_inj a b by (simp add: file_name_flat)
  ultimately show ?thesis by blast
qed

end
