(* ===== verification/Confirmations.thy ===== *)
theory Confirmations
  imports Enrolment
begin

text \<open>
  \<^verbatim>\<open>pkg/systemauthority/reputation_confirmation.go\<close>: the challenges an interactive prompt answers
  when publisher reputation asks for a warning.  The store is a map from tokens to
  challenges, kept as a list of pairs with distinct tokens; every operation runs under its
  mutex and is one step.  The random token is an argument, and \<open>None\<close> is a failing source.
  Where Go picks among equally old challenges in map order, the list order is picked.
\<close>

record challenge =
  ch_ExpiresAt :: instant
  ch_UID :: u32
  ch_Origin :: string
  ch_Generation :: u64
  ch_LaunchRoot :: string
  ch_StateDigest :: string
  ch_ProviderID :: string
  ch_PublisherID :: string
  ch_Status :: Status
  ch_Sequence :: u64
  ch_ProviderReason :: string
  ch_PolicyReason :: string

type_synonym confirmations = "(string \<times> challenge) list"

definition reputationConfirmationTTL :: int where "reputationConfirmationTTL = 300000000000"
definition reputationConfirmationLimit :: nat where "reputationConfirmationLimit = 1024"

section \<open>Operations\<close>

definition newChallenge ::
  "hashes \<Rightarrow> Enrolment \<Rightarrow> Result \<Rightarrow> ReputationDecision \<Rightarrow> instant \<Rightarrow> challenge option" where
  "newChallenge hx e result decision now =
     (case er_Signature e of None \<Rightarrow> None
      | Some s \<Rightarrow> (case Digest (hx_sha256 hx) (ss_State s) of Inl _ \<Rightarrow> None
          | Inr digest \<Rightarrow> Some \<lparr>ch_ExpiresAt = now + reputationConfirmationTTL, ch_UID = er_UID e,
              ch_Origin = er_Origin e, ch_Generation = er_Generation e,
              ch_LaunchRoot = an_LaunchRoot (er_Anchor e), ch_StateDigest = digest,
              ch_ProviderID = rr_ProviderID result, ch_PublisherID = rr_PublisherID result,
              ch_Status = rr_Status result, ch_Sequence = rr_Sequence result,
              ch_ProviderReason = rr_ReasonCode result, ch_PolicyReason = rd_ReasonCode decision\<rparr>))"

definition MatchesEnrolment :: "hashes \<Rightarrow> challenge \<Rightarrow> Enrolment \<Rightarrow> bool" where
  "MatchesEnrolment hx c e =
     (case er_Signature e of None \<Rightarrow> False
      | Some s \<Rightarrow> (case Digest (hx_sha256 hx) (ss_State s) of Inl _ \<Rightarrow> False
          | Inr digest \<Rightarrow> ch_UID c = er_UID e \<and> ch_Origin c = er_Origin e \<and> ch_Generation c = er_Generation e \<and>
              ch_LaunchRoot c = an_LaunchRoot (er_Anchor e) \<and> ch_StateDigest c = digest))"

definition MatchesWarning :: "challenge \<Rightarrow> Result \<Rightarrow> ReputationDecision \<Rightarrow> bool" where
  "MatchesWarning c result decision \<longleftrightarrow>
     ch_ProviderID c = rr_ProviderID result \<and> ch_PublisherID c = rr_PublisherID result \<and>
     ch_Status c = rr_Status result \<and> ch_Sequence c = rr_Sequence result \<and>
     ch_ProviderReason c = rr_ReasonCode result \<and> ch_PolicyReason c = rd_ReasonCode decision"

definition prune :: "instant \<Rightarrow> confirmations \<Rightarrow> confirmations" where
  "prune now entries = filter (\<lambda>(_, entry). now < ch_ExpiresAt entry) entries"

fun oldest :: "confirmations \<Rightarrow> string \<Rightarrow> instant \<Rightarrow> string" where
  "oldest [] token since = token"
| "oldest ((candidate, entry) # rest) token since =
     (if token = [] \<or> ch_ExpiresAt entry < since then oldest rest candidate (ch_ExpiresAt entry)
      else oldest rest token since)"

definition remove_token :: "string \<Rightarrow> confirmations \<Rightarrow> confirmations" where
  "remove_token token entries = filter (\<lambda>(t, _). t \<noteq> token) entries"

definition Issue ::
  "hashes \<Rightarrow> confirmations \<Rightarrow> string option \<Rightarrow> Enrolment \<Rightarrow> Result \<Rightarrow> ReputationDecision \<Rightarrow> instant \<Rightarrow>
   string option \<times> confirmations" where
  "Issue hx entries random e result decision now =
     (case newChallenge hx e result decision now of None \<Rightarrow> (None, entries)
      | Some challenge \<Rightarrow>
          (case random of None \<Rightarrow> (None, entries)
           | Some token \<Rightarrow>
               let entries = prune now entries;
                   entries = (if length entries \<ge> reputationConfirmationLimit
                              then remove_token (oldest entries [] 0) entries else entries)
               in (Some token, (token, challenge) # remove_token token entries)))"

definition Consume ::
  "hashes \<Rightarrow> confirmations \<Rightarrow> string \<Rightarrow> Enrolment \<Rightarrow> instant \<Rightarrow> challenge option \<times> confirmations" where
  "Consume hx entries token e now =
     (if token = [] \<or> length token > 64 then (None, entries)
      else let entries = prune now entries in
        case map_of entries token of None \<Rightarrow> (None, entries)
        | Some challenge \<Rightarrow>
            (if MatchesEnrolment hx challenge e then Some challenge else None, remove_token token entries))"

section \<open>Laws\<close>

definition wf_confirmations :: "confirmations \<Rightarrow> bool" where
  "wf_confirmations entries \<longleftrightarrow> distinct (map fst entries) \<and> length entries \<le> reputationConfirmationLimit \<and>
     [] \<notin> set (map fst entries)"

lemma prune_subset: "set (prune now entries) \<subseteq> set entries" "length (prune now entries) \<le> length entries"
  by (auto simp: prune_def)

lemma map_of_remove_token: "map_of (remove_token token entries) t = (if t = token then None else map_of entries t)"
  by (induction entries) (auto simp: remove_token_def)

lemma distinct_filter_keys: "distinct (map fst xs) \<Longrightarrow> distinct (map fst (filter P xs))"
  by (simp add: distinct_map_filter)

lemma remove_token_shrinks:
  "token \<in> fst ` set entries \<Longrightarrow> length (remove_token token entries) < length entries"
proof -
  assume "token \<in> fst ` set entries"
  then obtain c where "(token, c) \<in> set entries" by auto
  then show ?thesis unfolding remove_token_def by (rule length_filter_less) simp
qed

lemma oldest_member:
  "[] \<notin> set (map fst entries) \<Longrightarrow> entries \<noteq> [] \<or> token \<noteq> [] \<Longrightarrow>
     oldest entries token since \<in> fst ` set entries \<or> oldest entries token since = token \<and> token \<noteq> []"
  by (induction entries token since rule: oldest.induct) auto

lemma Issue_wf:
  assumes "wf_confirmations entries" "random \<noteq> Some []"
  shows "wf_confirmations (snd (Issue hx entries random e result decision now))"
proof (cases "newChallenge hx e result decision now = None \<or> random = None")
  case True
  with assms show ?thesis by (auto simp: Issue_def split: option.splits)
next
  case False
  then obtain c token where ct: "newChallenge hx e result decision now = Some c" "random = Some token" by auto
  define kept where "kept = prune now entries"
  define room where "room = (if length kept \<ge> reputationConfirmationLimit then remove_token (oldest kept [] 0) kept else kept)"
  have kept: "distinct (map fst kept)" "length kept \<le> reputationConfirmationLimit" "[] \<notin> set (map fst kept)"
    using assms(1) prune_subset [of now entries]
    by (auto simp: wf_confirmations_def kept_def prune_def distinct_filter_keys intro: order.trans [OF length_filter_le])
  have shrinks: "length (remove_token (oldest kept [] 0) kept) < length kept" if "kept \<noteq> []"
    using that kept(3) oldest_member [of kept "[]" 0] by (intro remove_token_shrinks) auto
  have room: "distinct (map fst room)" "[] \<notin> set (map fst room)"
    using kept by (auto simp: room_def remove_token_def distinct_filter_keys)
  have room_size: "length room < reputationConfirmationLimit"
    using kept(2) shrinks by (cases "kept = []") (auto simp: room_def reputationConfirmationLimit_def)
  have "snd (Issue hx entries random e result decision now) = (token, c) # remove_token token room"
    by (simp add: Issue_def ct kept_def room_def Let_def)
  moreover have "length (remove_token token room) < reputationConfirmationLimit"
    using room_size by (simp add: remove_token_def le_less_trans [OF length_filter_le])
  ultimately show ?thesis
    using room assms(2) ct(2) by (auto simp: wf_confirmations_def remove_token_def distinct_filter_keys)
qed

lemma Consume_wf: "wf_confirmations entries \<Longrightarrow> wf_confirmations (snd (Consume hx entries token e now))"
  using prune_subset [of now entries]
  by (auto simp: wf_confirmations_def Consume_def Let_def prune_def remove_token_def distinct_filter_keys
      intro: order.trans [OF length_filter_le] split: option.splits)

lemma Consume_Some:
  "Consume hx entries token e now = (Some c, entries') \<Longrightarrow>
     map_of (prune now entries) token = Some c \<and> MatchesEnrolment hx c e \<and>
     entries' = remove_token token (prune now entries)"
  by (auto simp: Consume_def Let_def split: if_splits option.splits)

lemma map_of_prune_None: "map_of entries token = None \<Longrightarrow> map_of (prune now entries) token = None"
  by (auto simp: map_of_eq_None_iff prune_def)

section \<open>Properties\<close>


text \<open>The confirmation store stays bounded: issuing and consuming keep at most 1024
  challenges, one per token.\<close>

theorem confirmations_stay_bounded:
  assumes "wf_confirmations entries" and "random \<noteq> Some []"
  shows "wf_confirmations (snd (Issue hx entries random e result decision now)) \<and>
         wf_confirmations (snd (Consume hx entries token e now))"
  using assms Issue_wf Consume_wf by blast

end
