(* ===== verification/Ratchet.thy ===== *)
theory Ratchet
  imports Main
begin

text \<open>
  The contract several stores of the system keep: a level that no operation takes down, except
  the ones named as lowering it.  A store that keeps it step by step keeps it along every
  sequence of operations, however they interleave.
\<close>

inductive run :: "('s \<Rightarrow> 'ev \<Rightarrow> 's \<Rightarrow> bool) \<Rightarrow> 's \<Rightarrow> 'ev list \<Rightarrow> 's \<Rightarrow> bool" for step where
  no_events: "run step s [] s"
| then_event: "step s ev s' \<Longrightarrow> run step s' evs s'' \<Longrightarrow> run step s (ev # evs) s''"

inductive_simps run_Nil [simp]: "run step s [] t"
inductive_simps run_Cons: "run step s (ev # evs) t"

lemma run_append: "run step s (evs @ evs') t \<longleftrightarrow> (\<exists>u. run step s evs u \<and> run step u evs' t)"
  by (induction evs arbitrary: s) (auto simp: run_Cons)

locale ratchet =
  fixes step :: "'s \<Rightarrow> 'ev \<Rightarrow> 's \<Rightarrow> bool"
    and level :: "'s \<Rightarrow> 'l::order"
    and lowers :: "'ev \<Rightarrow> bool"
  assumes level_step: "step s ev s' \<Longrightarrow> \<not> lowers ev \<Longrightarrow> level s \<le> level s'"
begin

lemma level_run: "run step s evs s' \<Longrightarrow> (\<And>ev. ev \<in> set evs \<Longrightarrow> \<not> lowers ev) \<Longrightarrow> level s \<le> level s'"
  by (induction rule: run.induct) (auto intro: order_trans level_step)

lemma level_between:
  assumes "run step s (evs @ evs') s'" and "\<And>ev. ev \<in> set (evs @ evs') \<Longrightarrow> \<not> lowers ev"
  obtains u where "run step s evs u" "run step u evs' s'" "level s \<le> level u" "level u \<le> level s'"
proof -
  obtain u where u: "run step s evs u" "run step u evs' s'" using assms(1) by (auto simp: run_append)
  with level_run [OF u(1)] level_run [OF u(2)] assms(2) that show thesis by auto
qed

end

locale invariant =
  fixes step :: "'s \<Rightarrow> 'ev \<Rightarrow> 's \<Rightarrow> bool"
    and inv :: "'s \<Rightarrow> bool"
  assumes inv_step: "inv s \<Longrightarrow> step s ev s' \<Longrightarrow> inv s'"
begin

lemma inv_run: "run step s evs s' \<Longrightarrow> inv s \<Longrightarrow> inv s'"
  by (induction rule: run.induct) (auto intro: inv_step)

end

sublocale invariant \<subseteq> ratchet step inv "\<lambda>_. False"
  by unfold_locales (auto simp: le_bool_def inv_step)

end
