(* ===== verification/Anchor_Ledger.thy ===== *)
theory Anchor_Ledger
  imports Confirmations Ratchet "HOL-Library.Product_Order"
begin

text \<open>
  \<^verbatim>\<open>AnchorLedger\<close> of \<^verbatim>\<open>pkg/systemauthority/anchor.go\<close> and the admission of \<^verbatim>\<open>trust.go\<close> and
  \<^verbatim>\<open>enforcement.go\<close>.  The ledger is a directory of files, one per application and one per
  removal, addressed by \<^const>\<open>recordPath\<close>; a file is absent, present but not trusted, or
  present with its decoded content.  A directory that does not exist yet is one without files.
  \<^verbatim>\<open>writeAtomic\<close> replaces a file in one step.  Evidence verification, the reputation lookup and
  the approval check are fields of \<open>authority_env\<close>.
\<close>

section \<open>State\<close>

datatype 'a setting = Absent | Untrusted | Present 'a

datatype ledger_file = Record_file Enrolment | Tombstone_file Tombstone | Undecodable_file

record ledger =
  lg_Directory :: string
  lg_trusted :: bool
  lg_files :: "string \<Rightarrow> ledger_file setting"
  lg_signatures :: "string setting"
  lg_trust :: "Policy setting"
  lg_confirmations :: confirmations

record authority_env =
  ae_hashes :: hashes
  ae_verify :: "SignatureEvidence \<Rightarrow> instant \<Rightarrow> evidence_error + VerificationResult"
  ae_parse_url :: "string \<Rightarrow> url option"
  ae_approval :: "(Enrolment \<Rightarrow> Identity option) option"
  ae_lookup :: "string \<Rightarrow> instant \<Rightarrow> Result"

section \<open>Reading\<close>

definition Recorded :: "authority_env \<Rightarrow> ledger \<Rightarrow> u32 \<Rightarrow> string \<Rightarrow> ledger_error + Enrolment option" where
  "Recorded env l uid origin =
     bind_result (recordPath (lg_Directory l) uid origin recordSuffix) (\<lambda>path.
       if \<not> lg_trusted l then Inl Directory_untrusted
       else case lg_files l path of
         Absent \<Rightarrow> Inr None
       | Untrusted \<Rightarrow> Inl File_untrusted
       | Present (Record_file e) \<Rightarrow>
           if er_UID e \<noteq> uid \<or> er_Origin e \<noteq> origin then Inl File_mismatch
           else bind_result (completeEnrolmentPolicySchema (ae_hashes env) e) (\<lambda>e. Inr (Some e))
       | Present _ \<Rightarrow> Inl File_undecodable)"

definition Load :: "authority_env \<Rightarrow> ledger \<Rightarrow> u32 \<Rightarrow> string \<Rightarrow> ledger_error + Anchor option" where
  "Load env l uid origin =
     bind_result (Recorded env l uid origin) (\<lambda>found. Inr (map_option er_Anchor found))"

definition Forgotten :: "authority_env \<Rightarrow> ledger \<Rightarrow> u32 \<Rightarrow> string \<Rightarrow> ledger_error + Tombstone option" where
  "Forgotten env l uid origin =
     bind_result (recordPath (lg_Directory l) uid origin forgottenSuffix) (\<lambda>path.
       if \<not> lg_trusted l then Inl Directory_untrusted
       else case lg_files l path of
         Absent \<Rightarrow> Inr None
       | Untrusted \<Rightarrow> Inl File_untrusted
       | Present (Tombstone_file t) \<Rightarrow>
           if tb_UID t \<noteq> uid \<or> tb_Origin t \<noteq> origin then Inl File_mismatch
           else bind_result (completeTombstonePolicySchema (ae_hashes env) t) (\<lambda>t. Inr (Some t))
       | Present _ \<Rightarrow> Inl File_undecodable)"

definition authorizationFor :: "authority_env \<Rightarrow> ledger \<Rightarrow> Enrolment \<Rightarrow> ledger_error + string" where
  "authorizationFor env l e =
     bind_result (Recorded env l (er_UID e) (er_Origin e)) (\<lambda>found.
       case found of
         Some r \<Rightarrow> Inr (authorizationAgainst (er_Generation r) (er_PolicyRoot r) (er_Policy r) e)
       | None \<Rightarrow> bind_result (Forgotten env l (er_UID e) (er_Origin e)) (\<lambda>entombed.
           case entombed of
             Some t \<Rightarrow> Inr (authorizationAgainst (tb_Generation t) (tb_PolicyRoot t) (tb_Policy t) e)
           | None \<Rightarrow> Inr ActionEnrolAnchor))"

definition AsksTheOwner :: "authority_env \<Rightarrow> ledger \<Rightarrow> Enrolment \<Rightarrow> ledger_error + bool" where
  "AsksTheOwner env l e =
     bind_result (authorizationFor env l e) (\<lambda>action. Inr (action \<noteq> ActionEnrolAnchor))"

section \<open>Admission\<close>

definition SignaturePolicy :: "ledger \<Rightarrow> ledger_error + string" where
  "SignaturePolicy l =
     (case lg_signatures l of Absent \<Rightarrow> Inr SignaturesOptional | Untrusted \<Rightarrow> Inl Signature_setting_unreadable
      | Present v \<Rightarrow> let policy = TrimSpace v in
          if policy \<in> {SignaturesOptional, SignaturesRequired} then Inr policy else Inl Signature_setting_unreadable)"

definition VerifyPublisher :: "authority_env \<Rightarrow> SignedState \<Rightarrow> string \<Rightarrow> instant \<Rightarrow> ledger_error + VerificationResult" where
  "VerifyPublisher env s origin now =
     (if st_Origin (ss_State s) \<noteq> origin then Inl (Signature_names_other (st_Origin (ss_State s)))
      else case ae_verify env (evidence_of s) now of Inl e \<Rightarrow> Inl (Signature_does_not_stand e)
      | Inr result \<Rightarrow> (case LegacyVerified result (ss_State s) of Inl e \<Rightarrow> Inl (Signature_does_not_stand e)
          | Inr _ \<Rightarrow> if vr_OriginAuthorization result \<noteq> ''authorized'' then Inl Signature_foreign else Inr result))"

definition admitSignature :: "authority_env \<Rightarrow> ledger \<Rightarrow> Enrolment \<Rightarrow> instant \<Rightarrow> ledger_error + Enrolment" where
  "admitSignature env l e now =
     bind_result (SignaturePolicy l) (\<lambda>policy.
       let e = e\<lparr>er_SignatureMode := policy\<rparr> in
       case er_Signature e of
         Some s \<Rightarrow> bind_result (VerifyPublisher env s (er_Origin e) now) (\<lambda>result.
             Inr (e\<lparr>er_Verification := Some result\<rparr>))
       | None \<Rightarrow> if policy = SignaturesRequired then Inl (Signature_required (er_Origin e)) else Inr e)"

definition empty_policy :: Policy where
  "empty_policy = \<lparr>ABI = 0, RequirePublisher = False, RequireApproval = False, ApprovedSigners = [],
     ApprovedOrigins = [], ApprovalSigners = [], Revoked = [], ApprovedPublisherIDs = [], X509 = None, Reputation_of = None\<rparr>"

definition TrustPolicy :: "authority_env \<Rightarrow> ledger \<Rightarrow> ledger_error + Policy" where
  "TrustPolicy env l =
     (case lg_trust l of Absent \<Rightarrow> Inr empty_policy | Untrusted \<Rightarrow> Inl Trust_policy_unreadable
      | Present p \<Rightarrow> (case Policy_Validate (ae_parse_url env) p of None \<Rightarrow> Inr p | Some _ \<Rightarrow> Inl Trust_policy_unreadable))"

definition publisherGeneration :: "Enrolment \<Rightarrow> u64" where
  "publisherGeneration e = (case er_Signature e of None \<Rightarrow> 0 | Some s \<Rightarrow> st_Generation (ss_State s))"

definition admitPublisher :: "Policy \<Rightarrow> Enrolment \<Rightarrow> ledger_error + PublisherIdentity option" where
  "admitPublisher policy e =
     (case er_Signature e of
        None \<Rightarrow> if RequirePublisher policy then Inl (Trust_unsigned (er_Origin e)) else Inr None
      | Some _ \<Rightarrow> (case er_Verification e of None \<Rightarrow> Inl Trust_no_verification
          | Some result \<Rightarrow> (case vr_Publisher result of None \<Rightarrow> Inl Trust_no_verification
              | Some p \<Rightarrow>
                  let decision = AllowsNormalizedPublisher policy (pi_ID p) (pi_Issuer p) (pi_Repository p) (er_Origin e)
                  in if \<not> Allowed decision then Inl (Trust_refused (Reason decision)) else Inr (Some p))))"

definition admitApproval :: "authority_env \<Rightarrow> Policy \<Rightarrow> Enrolment \<Rightarrow> ledger_error err" where
  "admitApproval env policy e =
     (if \<not> RequireApproval policy then None
      else case ae_approval env of None \<Rightarrow> Some (Trust_no_approval_check (er_Origin e))
      | Some verifyApproval \<Rightarrow> (case verifyApproval e of None \<Rightarrow> Some (Trust_approval_fails (er_Origin e))
          | Some i \<Rightarrow> let decision = AllowsApproval policy (id_Issuer i) (id_Repo i)
                       in if \<not> Allowed decision then Some (Trust_refused (Reason decision)) else None))"

definition admitReputation ::
  "authority_env \<Rightarrow> confirmations \<Rightarrow> Policy \<Rightarrow> Enrolment \<Rightarrow> PublisherIdentity option \<Rightarrow> string \<Rightarrow> instant \<Rightarrow>
   string option \<Rightarrow> (ledger_error + Enrolment) \<times> confirmations" where
  "admitReputation env entries policy e publisher confirmation now random =
     (if ABI policy \<noteq> CurrentABIVersion \<or> Reputation_of policy = None \<or>
         map_option rp_Mode (Reputation_of policy) = Some ReputationOff then (Inr e, entries)
      else case publisher of None \<Rightarrow> (Inl Reputation_needs_publisher, entries)
      | Some p \<Rightarrow>
          let (challenge, entries) = Consume (ae_hashes env) entries confirmation e now;
              result = ae_lookup env (pi_ID p) now;
              decision = EvaluatesReputation policy result (pi_ID p) (er_Origin e) now
          in if rd_Action decision = ActionWarn \<and>
                \<not> (case challenge of None \<Rightarrow> False | Some c \<Rightarrow> MatchesWarning c result decision)
             then (case Issue (ae_hashes env) entries random e result decision now of
                 (None, entries) \<Rightarrow> (Inl Confirmation_unprepared, entries)
               | (Some token, entries) \<Rightarrow> (Inl (Confirmation_required token result decision), entries))
             else if \<not> rd_Allowed decision then (Inl (Reputation_refused result decision), entries)
             else (Inr (e\<lparr>er_Reputation := Some result, er_ReputationDecision := Some decision\<rparr>), entries))"

text \<open>\<^verbatim>\<open>admitTrust\<close> in two parts: the mode the policy sets, and the checks in their order.\<close>

definition reputation_mode :: "Policy \<Rightarrow> string" where
  "reputation_mode policy = (case Reputation_of policy of
     Some r \<Rightarrow> if ABI policy = CurrentABIVersion then rp_Mode r else ReputationOff | None \<Rightarrow> ReputationOff)"

definition admit_under ::
  "authority_env \<Rightarrow> confirmations \<Rightarrow> Policy \<Rightarrow> Enrolment \<Rightarrow> string \<Rightarrow> instant \<Rightarrow> string option \<Rightarrow>
   (ledger_error + Enrolment) \<times> confirmations" where
  "admit_under env entries policy e confirmation now random =
     (if Policy_Empty policy then (Inr e, entries)
      else if \<not> Allowed (AllowsOrigin policy (er_Origin e))
        then (Inl (Trust_refused (Reason (AllowsOrigin policy (er_Origin e)))), entries)
      else case admitPublisher policy e of Inl x \<Rightarrow> (Inl x, entries)
      | Inr publisher \<Rightarrow>
          if \<not> Allowed (IsRevoked policy (er_Origin e) (publisherGeneration e))
            then (Inl (Trust_refused (Reason (IsRevoked policy (er_Origin e) (publisherGeneration e)))), entries)
          else case admitApproval env policy e of Some x \<Rightarrow> (Inl x, entries)
          | None \<Rightarrow> admitReputation env entries policy e publisher confirmation now random)"

definition admitTrust ::
  "authority_env \<Rightarrow> ledger \<Rightarrow> Enrolment \<Rightarrow> string \<Rightarrow> instant \<Rightarrow> string option \<Rightarrow>
   (ledger_error + Enrolment) \<times> confirmations" where
  "admitTrust env l e confirmation now random =
     (case TrustPolicy env l of Inl x \<Rightarrow> (Inl x, lg_confirmations l)
      | Inr policy \<Rightarrow> admit_under env (lg_confirmations l) policy (e\<lparr>er_ReputationMode := reputation_mode policy\<rparr>)
          confirmation now random)"

section \<open>Writing\<close>

definition stripped :: "Enrolment \<Rightarrow> Enrolment" where
  "stripped e = e\<lparr>er_Reputation := None, er_ReputationDecision := None, er_Verification := None,
     er_SignatureMode := [], er_ReputationMode := []\<rparr>"

text \<open>What \<^verbatim>\<open>record\<close> writes: the enrolment, with the policy of the record it replaces where it repeats its root.\<close>

definition carried :: "Enrolment option \<Rightarrow> Enrolment \<Rightarrow> Enrolment" where
  "carried existing e = (case existing of
     Some r \<Rightarrow> if er_Policy e = None \<and> er_PolicyRoot r = er_PolicyRoot e
               then e\<lparr>er_Policy := er_Policy r, er_PolicySchema := er_PolicySchema r\<rparr> else e
   | None \<Rightarrow> e)"

text \<open>The part of \<^verbatim>\<open>record\<close> after admission: order the enrolment and write it.\<close>

definition guarded :: "ledger_error err \<Rightarrow> ledger_error + 'a \<Rightarrow> ledger_error + 'a" where
  "guarded e rest = (case e of Some x \<Rightarrow> Inl x | None \<Rightarrow> rest)"

definition held_to :: "('a \<Rightarrow> ledger_error err) \<Rightarrow> 'a option \<Rightarrow> ledger_error err" where
  "held_to check found = (case found of None \<Rightarrow> None | Some r \<Rightarrow> check r)"

definition write_record :: "authority_env \<Rightarrow> ledger \<Rightarrow> Enrolment \<Rightarrow> ledger_error + ledger" where
  "write_record env l e =
     guarded (validateEnrolment (ae_hashes env) e)
     (bind_result (recordPath (lg_Directory l) (er_UID e) (er_Origin e) recordSuffix) (\<lambda>path.
      guarded (if lg_trusted l then None else Some Directory_untrusted)
     (bind_result (Recorded env l (er_UID e) (er_Origin e)) (\<lambda>existing.
      guarded (held_to (\<lambda>r. ordersAfter r e) existing)
     (bind_result (Forgotten env l (er_UID e) (er_Origin e)) (\<lambda>buried.
      guarded (held_to (\<lambda>t. ordersAfterRemoval t e) buried)
        (Inr (l\<lparr>lg_files := (lg_files l)(path := Present (Record_file (carried existing e)))\<rparr>))))))))"

definition record_enrolment ::
  "authority_env \<Rightarrow> ledger \<Rightarrow> Enrolment \<Rightarrow> string \<Rightarrow> instant \<Rightarrow> string option \<Rightarrow> ledger_error err \<times> ledger" where
  "record_enrolment env l e confirmation now random =
     (case completeEnrolmentPolicySchema (ae_hashes env) (stripped e) of Inl x \<Rightarrow> (Some x, l) | Inr e \<Rightarrow>
      case admitSignature env l e now of Inl x \<Rightarrow> (Some x, l) | Inr e \<Rightarrow>
      case admitTrust env l e confirmation now random of (r, entries) \<Rightarrow>
        let l = l\<lparr>lg_confirmations := entries\<rparr> in
        case r of Inl x \<Rightarrow> (Some x, l) | Inr e \<Rightarrow>
        case write_record env l e of Inl x \<Rightarrow> (Some x, l) | Inr l' \<Rightarrow> (None, l'))"

definition entomb :: "authority_env \<Rightarrow> ledger \<Rightarrow> Enrolment \<Rightarrow> ledger_error + ledger" where
  "entomb env l r =
     bind_result (Forgotten env l (er_UID r) (er_Origin r)) (\<lambda>standing.
     bind_result (recordPath (lg_Directory l) (er_UID r) (er_Origin r) forgottenSuffix) (\<lambda>path.
       let buried = (case standing of None \<Rightarrow> tombstone_of r | Some t \<Rightarrow> raisedBy (tombstone_of r) t)
       in Inr (l\<lparr>lg_files := (lg_files l)(path := Present (Tombstone_file buried))\<rparr>)))"

text \<open>
  \<^verbatim>\<open>Forget\<close> in its two writes: the tombstone, then the removal.  \<open>forget_entombed\<close> is the ledger
  a removal that stops between them leaves behind.
\<close>

definition forget_entombed :: "authority_env \<Rightarrow> ledger \<Rightarrow> u32 \<Rightarrow> string \<Rightarrow> ledger_error + ledger" where
  "forget_entombed env l uid origin =
     bind_result (recordPath (lg_Directory l) uid origin recordSuffix) (\<lambda>path.
       if \<not> lg_trusted l then Inl Directory_untrusted
       else bind_result (Recorded env l uid origin) (\<lambda>found.
         case found of None \<Rightarrow> Inr l | Some r \<Rightarrow> entomb env l r))"

definition Forget :: "authority_env \<Rightarrow> ledger \<Rightarrow> u32 \<Rightarrow> string \<Rightarrow> ledger_error + ledger" where
  "Forget env l uid origin =
     bind_result (forget_entombed env l uid origin) (\<lambda>l.
     bind_result (recordPath (lg_Directory l) uid origin recordSuffix) (\<lambda>path.
       Inr (l\<lparr>lg_files := (lg_files l)(path := Absent)\<rparr>)))"

definition ClearForgotten :: "authority_env \<Rightarrow> ledger \<Rightarrow> u32 \<Rightarrow> string \<Rightarrow> ledger_error + ledger" where
  "ClearForgotten env l uid origin =
     bind_result (recordPath (lg_Directory l) uid origin forgottenSuffix) (\<lambda>path.
       if \<not> lg_trusted l then Inl Directory_untrusted
       else Inr (l\<lparr>lg_files := (lg_files l)(path := Absent)\<rparr>))"

section \<open>Histories\<close>

text \<open>
  Everything that can happen to the ledger of a host: enrolments, accepted or refused,
  removals, removals that stop halfway, cleared removals, and an administrator changing a
  setting beside the ledger.
\<close>

datatype event =
  Enrol Enrolment | Forget_anchor u32 string | Forget_interrupted u32 string
| Clear_removal u32 string | Change_settings

inductive step :: "authority_env \<Rightarrow> ledger \<Rightarrow> event \<Rightarrow> ledger \<Rightarrow> bool" for env where
  enrol: "record_enrolment env l e confirmation now random = (r, l') \<Longrightarrow> step env l (Enrol e) l'"
| forget: "Forget env l uid origin = Inr l' \<Longrightarrow> step env l (Forget_anchor uid origin) l'"
| interrupted: "forget_entombed env l uid origin = Inr l' \<Longrightarrow> step env l (Forget_interrupted uid origin) l'"
| clear: "ClearForgotten env l uid origin = Inr l' \<Longrightarrow> step env l (Clear_removal uid origin) l'"
| settings: "step env l Change_settings (l\<lparr>lg_signatures := s, lg_trust := t\<rparr>)"

inductive_cases step_cases [elim!]:
  "step env l (Enrol e) l'" "step env l (Forget_anchor uid origin) l'" "step env l (Forget_interrupted uid origin) l'"
  "step env l (Clear_removal uid origin) l'" "step env l Change_settings l'"

section \<open>Reading back what was written\<close>

abbreviation put :: "ledger \<Rightarrow> string \<Rightarrow> ledger_file setting \<Rightarrow> ledger" where
  "put l path f \<equiv> l\<lparr>lg_files := (lg_files l)(path := f)\<rparr>"

abbreviation record_kinds :: "string set" where "record_kinds \<equiv> {recordSuffix, forgottenSuffix}"

lemma Recorded_put_other:
  assumes "recordPath (lg_Directory l) uid' origin' sfx = Inr path" "sfx \<in> record_kinds"
    and "(uid', origin', sfx) \<noteq> (uid, origin, recordSuffix)"
  shows "Recorded env (put l path f) uid origin = Recorded env l uid origin"
  using recordPath_inj [OF assms(1) _ assms(2), of uid origin recordSuffix] assms(3)
  by (auto simp: Recorded_def bind_result_def split: sum.splits)

lemma Forgotten_put_other:
  assumes "recordPath (lg_Directory l) uid' origin' sfx = Inr path" "sfx \<in> record_kinds"
    and "(uid', origin', sfx) \<noteq> (uid, origin, forgottenSuffix)"
  shows "Forgotten env (put l path f) uid origin = Forgotten env l uid origin"
  using recordPath_inj [OF assms(1) _ assms(2), of uid origin forgottenSuffix] assms(3)
  by (auto simp: Forgotten_def bind_result_def split: sum.splits)

lemma suffixes_differ [simp]: "recordSuffix \<noteq> forgottenSuffix" "forgottenSuffix \<noteq> recordSuffix"
  by (simp_all add: recordSuffix_def forgottenSuffix_def)

lemma first_matching_Some:
  "first_matching hx p root schemas = Some s \<Longrightarrow> s \<in> set schemas \<and> PolicyRootForSchema (hx_policy hx) p s = Inr root"
  by (induction schemas) (auto split: if_splits)

lemma matchingPolicySchema_idem:
  "matchingPolicySchema hx p root d = Inr s \<Longrightarrow> matchingPolicySchema hx p root s = Inr s"
  by (auto simp: matchingPolicySchema_def dest!: first_matching_Some split: option.splits if_splits sum.splits)

lemma completeEnrolment_Inr:
  "completeEnrolmentPolicySchema hx e = Inr e' \<longleftrightarrow>
     validateAnchor hx (er_Anchor e) = None \<and> validateSignedState e = None \<and>
     validateRecordedVerification hx e = None \<and> validateReputationHalves e = None \<and>
     (\<exists>s. matchingPolicySchema hx (er_Policy e) (er_PolicyRoot e) (er_PolicySchema e) = Inr s \<and>
          e' = e\<lparr>er_PolicySchema := s\<rparr>)"
proof (cases "and_then (validateAnchor hx (er_Anchor e)) (and_then (validateSignedState e)
          (and_then (validateRecordedVerification hx e) (validateReputationHalves e)))")
  case None
  then have "completeEnrolmentPolicySchema hx e =
      bind_result (matchingPolicySchema hx (er_Policy e) (er_PolicyRoot e) (er_PolicySchema e))
        (\<lambda>schema. Inr (e\<lparr>er_PolicySchema := schema\<rparr>))"
    by (simp only: completeEnrolmentPolicySchema_def option.case)
  with None show ?thesis by (auto simp: and_then_None bind_result_Inr)
next
  case (Some x)
  then have "\<not> (validateAnchor hx (er_Anchor e) = None \<and> validateSignedState e = None \<and>
     validateRecordedVerification hx e = None \<and> validateReputationHalves e = None)"
    using and_then_None by (metis option.distinct(1))
  with Some show ?thesis by (auto simp: completeEnrolmentPolicySchema_def)
qed

lemma validations_ignore_policy [simp]:
  "validateSignedState (e\<lparr>er_Policy := p\<rparr>) = validateSignedState e"
  "validateSignedState (e\<lparr>er_PolicySchema := s\<rparr>) = validateSignedState e"
  "validateRecordedVerification hx (e\<lparr>er_Policy := p\<rparr>) = validateRecordedVerification hx e"
  "validateRecordedVerification hx (e\<lparr>er_PolicySchema := s\<rparr>) = validateRecordedVerification hx e"
  "validateReputationHalves (e\<lparr>er_Policy := p\<rparr>) = validateReputationHalves e"
  "validateReputationHalves (e\<lparr>er_PolicySchema := s\<rparr>) = validateReputationHalves e"
  by (cases "er_Signature e"; cases "er_Verification e"; cases "er_Reputation e"; cases "er_ReputationDecision e";
      simp add: validateSignedState_def validateRecordedVerification_def validateReputationHalves_def)+

lemma completeEnrolment_idem:
  "completeEnrolmentPolicySchema hx e = Inr e' \<Longrightarrow> completeEnrolmentPolicySchema hx e' = Inr e'"
  by (auto simp: completeEnrolment_Inr dest: matchingPolicySchema_idem)

lemma completeTombstone_Inr:
  "completeTombstonePolicySchema hx t = Inr t' \<longleftrightarrow>
     validatePackageOrigin (tb_Origin t) = None \<and> matches anchorRootPattern (tb_PolicyRoot t) \<and>
     (\<exists>s. matchingPolicySchema hx (tb_Policy t) (tb_PolicyRoot t) (tb_PolicySchema t) = Inr s \<and>
          t' = t\<lparr>tb_PolicySchema := s\<rparr>)"
  by (auto simp: completeTombstonePolicySchema_def bind_result_def split: option.splits sum.splits if_splits)

lemma completeEnrolment_fixed:
  "completeEnrolmentPolicySchema hx e = Inr e \<longleftrightarrow>
     validateAnchor hx (er_Anchor e) = None \<and> validateSignedState e = None \<and>
     validateRecordedVerification hx e = None \<and> validateReputationHalves e = None \<and>
     matchingPolicySchema hx (er_Policy e) (er_PolicyRoot e) (er_PolicySchema e) = Inr (er_PolicySchema e)"
proof -
  have "e = e\<lparr>er_PolicySchema := s\<rparr> \<longleftrightarrow> er_PolicySchema e = s" for s by (cases e) simp
  then show ?thesis by (auto simp: completeEnrolment_Inr)
qed

lemma completeTombstone_fixed:
  "completeTombstonePolicySchema hx t = Inr t \<longleftrightarrow>
     validatePackageOrigin (tb_Origin t) = None \<and> matches anchorRootPattern (tb_PolicyRoot t) \<and>
     matchingPolicySchema hx (tb_Policy t) (tb_PolicyRoot t) (tb_PolicySchema t) = Inr (tb_PolicySchema t)"
proof -
  have "t = t\<lparr>tb_PolicySchema := s\<rparr> \<longleftrightarrow> tb_PolicySchema t = s" for s by (cases t) simp
  then show ?thesis by (auto simp: completeTombstone_Inr)
qed

lemma Recorded_Inr:
  "Recorded env l uid origin = Inr v \<longleftrightarrow>
     (\<exists>path. recordPath (lg_Directory l) uid origin recordSuffix = Inr path \<and> lg_trusted l \<and>
        (lg_files l path = Absent \<and> v = None \<or>
         (\<exists>e e'. lg_files l path = Present (Record_file e) \<and> er_UID e = uid \<and> er_Origin e = origin \<and>
            completeEnrolmentPolicySchema (ae_hashes env) e = Inr e' \<and> v = Some e')))"
proof (cases "recordPath (lg_Directory l) uid origin recordSuffix")
  case (Inr path)
  then show ?thesis
  proof (cases "lg_files l path")
    case (Present f)
    with Inr show ?thesis by (cases f) (auto simp: Recorded_def bind_result_Inr)
  qed (auto simp: Recorded_def bind_result_Inr)
qed (auto simp: Recorded_def bind_result_Inr)

lemma Forgotten_Inr:
  "Forgotten env l uid origin = Inr v \<longleftrightarrow>
     (\<exists>path. recordPath (lg_Directory l) uid origin forgottenSuffix = Inr path \<and> lg_trusted l \<and>
        (lg_files l path = Absent \<and> v = None \<or>
         (\<exists>t t'. lg_files l path = Present (Tombstone_file t) \<and> tb_UID t = uid \<and> tb_Origin t = origin \<and>
            completeTombstonePolicySchema (ae_hashes env) t = Inr t' \<and> v = Some t')))"
proof (cases "recordPath (lg_Directory l) uid origin forgottenSuffix")
  case (Inr path)
  then show ?thesis
  proof (cases "lg_files l path")
    case (Present f)
    with Inr show ?thesis by (cases f) (auto simp: Forgotten_def bind_result_Inr)
  qed (auto simp: Forgotten_def bind_result_Inr)
qed (auto simp: Forgotten_def bind_result_Inr)

lemma Recorded_Some:
  assumes "Recorded env l uid origin = Inr (Some r)"
  shows "er_UID r = uid" "er_Origin r = origin" "completeEnrolmentPolicySchema (ae_hashes env) r = Inr r"
proof -
  obtain e where "completeEnrolmentPolicySchema (ae_hashes env) e = Inr r" "er_UID e = uid" "er_Origin e = origin"
    using assms by (auto simp: Recorded_Inr)
  moreover from this(1) have "er_Anchor r = er_Anchor e" by (auto simp: completeEnrolment_Inr)
  ultimately show "er_UID r = uid" "er_Origin r = origin" "completeEnrolmentPolicySchema (ae_hashes env) r = Inr r"
    using completeEnrolment_idem by simp_all
qed

lemma Forgotten_Some:
  assumes "Forgotten env l uid origin = Inr (Some t)"
  shows "tb_UID t = uid" "tb_Origin t = origin" "completeTombstonePolicySchema (ae_hashes env) t = Inr t"
proof -
  obtain b where "completeTombstonePolicySchema (ae_hashes env) b = Inr t" "tb_UID b = uid" "tb_Origin b = origin"
    using assms by (auto simp: Forgotten_Inr)
  moreover from this(1) have "tb_UID t = tb_UID b" "tb_Origin t = tb_Origin b"
    "completeTombstonePolicySchema (ae_hashes env) t = Inr t"
    by (auto simp: completeTombstone_Inr dest: matchingPolicySchema_idem)
  ultimately show "tb_UID t = uid" "tb_Origin t = origin" "completeTombstonePolicySchema (ae_hashes env) t = Inr t"
    by simp_all
qed

text \<open>What a removal writes can be read back: the tombstone of a record, raised by the one standing.\<close>

lemma tombstone_of_complete:
  "completeEnrolmentPolicySchema hx r = Inr r \<Longrightarrow> completeTombstonePolicySchema hx (tombstone_of r) = Inr (tombstone_of r)"
  by (auto simp: completeEnrolment_fixed completeTombstone_fixed tombstone_of_def validateAnchor_def and_then_None
      split: if_splits)

lemma raisedBy_complete:
  assumes "completeTombstonePolicySchema hx t = Inr t" "completeTombstonePolicySchema hx b = Inr b"
    and "tb_Origin t = tb_Origin b"
  shows "completeTombstonePolicySchema hx (raisedBy t b) = Inr (raisedBy t b)"
  using assms by (auto simp: completeTombstone_fixed raisedBy_def Let_def)

lemma raisedBy_fields [simp]:
  "tb_UID (raisedBy t b) = tb_UID t" "tb_Origin (raisedBy t b) = tb_Origin t"
  "tb_Generation (raisedBy t b) = max (tb_Generation t) (tb_Generation b)"
  "tb_Signed (raisedBy t b) \<longleftrightarrow> tb_Signed t \<or> tb_Signed b"
  "tb_SignatureGeneration (raisedBy t b) = max (tb_SignatureGeneration t) (tb_SignatureGeneration b)"
  by (auto simp: raisedBy_def Let_def max_def)

section \<open>The floor\<close>

text \<open>
  What an application is held to, read from its record and from the tombstone of its removal:
  the highest generation, whether it was ever signed, and the highest signed generation.
\<close>

definition held_by_record :: "Enrolment option \<Rightarrow> u64 \<times> bool \<times> u64" where
  "held_by_record found = (case found of None \<Rightarrow> (0, False, 0)
     | Some r \<Rightarrow> (er_Generation r, er_Signature r \<noteq> None, publisherGeneration r))"

definition held_by_tombstone :: "Tombstone option \<Rightarrow> u64 \<times> bool \<times> u64" where
  "held_by_tombstone found = (case found of None \<Rightarrow> (0, False, 0)
     | Some t \<Rightarrow> (tb_Generation t, tb_Signed t, if tb_Signed t then tb_SignatureGeneration t else 0))"

definition read_or_none :: "ledger_error + 'a option \<Rightarrow> 'a option" where
  "read_or_none found = (case found of Inl _ \<Rightarrow> None | Inr v \<Rightarrow> v)"

fun higher :: "u64 \<times> bool \<times> u64 \<Rightarrow> u64 \<times> bool \<times> u64 \<Rightarrow> u64 \<times> bool \<times> u64" where
  "higher (g, s, k) (g', s', k') = (max g g', s \<or> s', max k k')"

definition floor_of :: "authority_env \<Rightarrow> u32 \<Rightarrow> string \<Rightarrow> ledger \<Rightarrow> u64 \<times> bool \<times> u64" where
  "floor_of env uid origin l =
     higher (held_by_record (read_or_none (Recorded env l uid origin)))
         (held_by_tombstone (read_or_none (Forgotten env l uid origin)))"

lemma read_or_none_Inr [simp]: "read_or_none (Inr v) = v" by (simp add: read_or_none_def)

lemma held_None [simp]: "held_by_record None \<le> x" "held_by_tombstone None \<le> x"
  by (cases x; auto simp: held_by_record_def held_by_tombstone_def)+

lemma held_by_tombstone_of: "held_by_tombstone (Some (tombstone_of r)) = held_by_record (Some r)"
  by (auto simp: held_by_tombstone_def held_by_record_def tombstone_of_def publisherGeneration_def split: option.splits)

lemma held_by_raised:
  "higher (held_by_tombstone (Some t)) (held_by_tombstone (Some b)) \<le> held_by_tombstone (Some (raisedBy t b))"
  by (auto simp: held_by_tombstone_def)

lemma higher_upper: "a \<le> higher a b" "b \<le> higher a b" "a \<le> c \<Longrightarrow> b \<le> c \<Longrightarrow> higher a b \<le> c"
  by (cases a; cases b; cases c; auto)+

lemma higher_mono: "a \<le> a' \<Longrightarrow> b \<le> b' \<Longrightarrow> higher a b \<le> higher a' b'"
  by (meson higher_upper order_trans)


lemma higher_none: "higher a (held_by_tombstone None) = a"
  by (cases a) (simp add: held_by_tombstone_def)

lemma ordersAfter_held: "ordersAfter r e = None \<Longrightarrow> held_by_record (Some r) \<le> held_by_record (Some e)"
  by (auto simp: ordersAfter_def held_by_record_def publisherGeneration_def not_less split: if_splits option.splits)

lemma ordersAfterRemoval_held:
  "ordersAfterRemoval t e = None \<Longrightarrow>
     tb_Generation t \<le> er_Generation e \<and> (tb_Signed t \<longrightarrow> er_Signature e \<noteq> None \<and> tb_SignatureGeneration t \<le> publisherGeneration e)"
  by (auto simp: ordersAfterRemoval_def publisherGeneration_def not_less split: if_splits option.splits)

lemma carried_fields [simp]:
  "er_Anchor (carried existing e) = er_Anchor e" "er_Signature (carried existing e) = er_Signature e"
  by (auto simp: carried_def split: option.splits)

lemma guarded_Inr [simp]: "guarded e rest = Inr v \<longleftrightarrow> e = None \<and> rest = Inr v"
  by (simp add: guarded_def split: option.split)

lemma held_to_None: "held_to check found = None \<longleftrightarrow> (\<forall>r. found = Some r \<longrightarrow> check r = None)"
  by (simp add: held_to_def split: option.split)

lemma write_record_Inr:
  "write_record env l e = Inr l' \<longleftrightarrow>
     (\<exists>path existing buried. validateEnrolment (ae_hashes env) e = None \<and>
        recordPath (lg_Directory l) (er_UID e) (er_Origin e) recordSuffix = Inr path \<and> lg_trusted l \<and>
        Recorded env l (er_UID e) (er_Origin e) = Inr existing \<and> (\<forall>r. existing = Some r \<longrightarrow> ordersAfter r e = None) \<and>
        Forgotten env l (er_UID e) (er_Origin e) = Inr buried \<and> (\<forall>t. buried = Some t \<longrightarrow> ordersAfterRemoval t e = None) \<and>
        l' = put l path (Present (Record_file (carried existing e))))"
  unfolding write_record_def guarded_Inr bind_result_Inr held_to_None by auto

lemma carried_complete:
  assumes "validateEnrolment hx e = None"
    and "\<forall>r. existing = Some r \<longrightarrow> completeEnrolmentPolicySchema hx r = Inr r"
  obtains e' where "completeEnrolmentPolicySchema hx (carried existing e) = Inr e'"
proof -
  obtain c where c: "completeEnrolmentPolicySchema hx e = Inr c"
    using assms(1) by (auto simp: validateEnrolment_def split: sum.splits)
  show thesis
  proof (cases "carried existing e = e")
    case True
    with c that show thesis by simp
  next
    case False
    then obtain r where r: "existing = Some r" "er_PolicyRoot r = er_PolicyRoot e"
        "carried existing e = e\<lparr>er_Policy := er_Policy r, er_PolicySchema := er_PolicySchema r\<rparr>"
      by (auto simp: carried_def split: option.splits if_splits)
    then have "matchingPolicySchema hx (er_Policy r) (er_PolicyRoot e) (er_PolicySchema r) = Inr (er_PolicySchema r)"
      using assms(2) completeEnrolment_fixed [of hx r] by simp
    with c r(3) have "completeEnrolmentPolicySchema hx (carried existing e) = Inr (carried existing e)"
      by (simp add: completeEnrolment_Inr)
    then show thesis by (rule that)
  qed
qed

lemma write_record_read_back:
  assumes "write_record env l e = Inr l'"
  obtains e' where "Recorded env l' (er_UID e) (er_Origin e) = Inr (Some e')"
    "er_Anchor e' = er_Anchor e" "er_Signature e' = er_Signature e"
proof -
  obtain path existing where w: "validateEnrolment (ae_hashes env) e = None"
      "recordPath (lg_Directory l) (er_UID e) (er_Origin e) recordSuffix = Inr path" "lg_trusted l"
      "Recorded env l (er_UID e) (er_Origin e) = Inr existing"
      "l' = put l path (Present (Record_file (carried existing e)))"
    using assms by (auto simp: write_record_Inr)
  obtain e' where e': "completeEnrolmentPolicySchema (ae_hashes env) (carried existing e) = Inr e'"
    using carried_complete [OF w(1), of existing] w(4) Recorded_Some(3) by metis
  then have "er_Anchor e' = er_Anchor e" "er_Signature e' = er_Signature e" by (auto simp: completeEnrolment_Inr)
  moreover have "Recorded env l' (er_UID e) (er_Origin e) = Inr (Some e')"
    using w e' by (auto simp: Recorded_Inr)
  ultimately show thesis using that by blast
qed

lemma write_record_other:
  assumes "write_record env l e = Inr l'" "(er_UID e, er_Origin e) \<noteq> (uid, origin)"
  shows "Recorded env l' uid origin = Recorded env l uid origin"
  using assms Recorded_put_other by (auto simp: write_record_Inr)

lemma write_record_Forgotten:
  assumes "write_record env l e = Inr l'"
  shows "Forgotten env l' uid origin = Forgotten env l uid origin"
proof -
  obtain path f where "recordPath (lg_Directory l) (er_UID e) (er_Origin e) recordSuffix = Inr path" "l' = put l path f"
    using assms by (auto simp: write_record_Inr)
  then show ?thesis using Forgotten_put_other by simp
qed

lemma held_by_record_cong:
  "er_Anchor e' = er_Anchor e \<Longrightarrow> er_Signature e' = er_Signature e \<Longrightarrow> held_by_record (Some e') = held_by_record (Some e)"
  by (simp add: held_by_record_def publisherGeneration_def)

lemma write_record_floor:
  assumes "write_record env l e = Inr l'"
  shows "floor_of env uid origin l \<le> floor_of env uid origin l'"
proof (cases "(er_UID e, er_Origin e) = (uid, origin)")
  case True
  obtain e' where e': "Recorded env l' uid origin = Inr (Some e')" "held_by_record (Some e') = held_by_record (Some e)"
    using write_record_read_back [OF assms] held_by_record_cong True by (metis prod.inject)
  obtain existing where ex: "Recorded env l uid origin = Inr existing" "\<forall>r. existing = Some r \<longrightarrow> ordersAfter r e = None"
    using assms True by (auto simp: write_record_Inr)
  then have "held_by_record existing \<le> held_by_record (Some e)"
    using ordersAfter_held by (cases existing) auto
  then show ?thesis
    by (simp add: floor_of_def e' ex write_record_Forgotten [OF assms] higher_mono)
qed (simp add: floor_of_def write_record_other [OF assms] write_record_Forgotten [OF assms])

text \<open>A removal that stops before the record is gone, and one that finishes, keep what they buried.\<close>

lemma entomb_floor:
  assumes "Recorded env l uid origin = Inr (Some r)" "entomb env l r = Inr l'"
  shows "Recorded env l' uid' origin' = Recorded env l uid' origin'"
    and "(uid', origin') \<noteq> (uid, origin) \<Longrightarrow> Forgotten env l' uid' origin' = Forgotten env l uid' origin'"
    and "floor_of env uid origin l \<le> held_by_tombstone (read_or_none (Forgotten env l' uid origin))"
    and "lg_Directory l' = lg_Directory l" and "lg_trusted l' = lg_trusted l"
proof -
  note r = Recorded_Some [OF assms(1)]
  obtain standing path where w: "Forgotten env l uid origin = Inr standing"
      "recordPath (lg_Directory l) uid origin forgottenSuffix = Inr path"
    and l': "l' = put l path (Present (Tombstone_file (case standing of None \<Rightarrow> tombstone_of r | Some t \<Rightarrow> raisedBy (tombstone_of r) t)))"
    using assms(2) by (auto simp: entomb_def bind_result_Inr Let_def r)
  show "Recorded env l' uid' origin' = Recorded env l uid' origin'"
    unfolding l' using w(2) by (intro Recorded_put_other) auto
  show "Forgotten env l' uid' origin' = Forgotten env l uid' origin'" if "(uid', origin') \<noteq> (uid, origin)"
    unfolding l' using w(2) that by (intro Forgotten_put_other) auto
  show "lg_Directory l' = lg_Directory l" "lg_trusted l' = lg_trusted l" by (simp_all add: l')
  let ?b = "case standing of None \<Rightarrow> tombstone_of r | Some t \<Rightarrow> raisedBy (tombstone_of r) t"
  have fields: "tb_UID (tombstone_of r) = uid" "tb_Origin (tombstone_of r) = origin"
    by (simp_all add: tombstone_of_def r)
  have "completeTombstonePolicySchema (ae_hashes env) ?b = Inr ?b"
    using tombstone_of_complete [OF r(3)] raisedBy_complete Forgotten_Some w(1) fields by (auto split: option.split)
  moreover have "tb_UID ?b = uid" "tb_Origin ?b = origin" using fields by (simp_all split: option.split)
  moreover have "lg_trusted l" using w(1) by (auto simp: Forgotten_Inr)
  ultimately have "Forgotten env l' uid origin = Inr (Some ?b)"
    using w(2) by (auto simp: l' Forgotten_Inr)
  then show "floor_of env uid origin l \<le> held_by_tombstone (read_or_none (Forgotten env l' uid origin))"
    using held_by_raised [of "tombstone_of r"]
    by (auto simp: floor_of_def assms(1) w(1) held_by_tombstone_of higher_none split: option.split)
qed

lemma forget_entombed_floor:
  assumes "forget_entombed env l uid0 origin0 = Inr l'"
  shows "floor_of env uid origin l \<le> floor_of env uid origin l'"
proof -
  obtain found where found: "Recorded env l uid0 origin0 = Inr found"
      "case found of None \<Rightarrow> l' = l | Some r \<Rightarrow> entomb env l r = Inr l'"
    using assms by (auto simp: forget_entombed_def bind_result_Inr split: if_splits option.splits)
  show ?thesis
  proof (cases found)
    case (Some r)
    note e = entomb_floor [OF found(1) [unfolded Some]] and Some [simp]
    from found(2) have en: "entomb env l r = Inr l'" by simp
    show ?thesis
    proof (cases "(uid, origin) = (uid0, origin0)")
      case True
      then have "floor_of env uid origin l \<le> held_by_tombstone (read_or_none (Forgotten env l' uid origin))"
        using e(3) [OF en] by simp
      also have "\<dots> \<le> floor_of env uid origin l'" by (simp add: floor_of_def higher_upper)
      finally show ?thesis .
    qed (simp add: floor_of_def e(1) [OF en] e(2) [OF en])
  qed (use found in simp)
qed

lemma Forget_Inr:
  assumes "Forget env l uid0 origin0 = Inr l'"
  obtains l1 path where "forget_entombed env l uid0 origin0 = Inr l1"
    "recordPath (lg_Directory l1) uid0 origin0 recordSuffix = Inr path" "l' = put l1 path Absent"
  using assms by (auto simp: Forget_def bind_result_Inr)

lemma forget_entombed_buries:
  assumes "forget_entombed env l uid origin = Inr l'"
  shows "floor_of env uid origin l \<le> held_by_tombstone (read_or_none (Forgotten env l' uid origin))"
proof -
  obtain found where found: "Recorded env l uid origin = Inr found"
      "case found of None \<Rightarrow> l' = l | Some r \<Rightarrow> entomb env l r = Inr l'"
    using assms by (auto simp: forget_entombed_def bind_result_Inr split: if_splits option.splits)
  then show ?thesis
    using entomb_floor(3) by (auto simp: floor_of_def higher_upper split: option.splits)
qed

lemma Forget_floor:
  assumes "Forget env l uid0 origin0 = Inr l'"
  shows "floor_of env uid origin l \<le> floor_of env uid origin l'"
proof -
  obtain l1 path where l1: "forget_entombed env l uid0 origin0 = Inr l1"
      "recordPath (lg_Directory l1) uid0 origin0 recordSuffix = Inr path" "l' = put l1 path Absent"
    using Forget_Inr [OF assms] .
  have tomb: "Forgotten env l' uid origin = Forgotten env l1 uid origin"
    unfolding l1(3) using l1(2) by (intro Forgotten_put_other) auto
  show ?thesis
  proof (cases "(uid, origin) = (uid0, origin0)")
    case True
    with forget_entombed_buries [OF l1(1)]
    have "floor_of env uid origin l \<le> held_by_tombstone (read_or_none (Forgotten env l' uid origin))"
      using tomb True by simp
    also have "\<dots> \<le> floor_of env uid origin l'" by (simp add: floor_of_def higher_upper)
    finally show ?thesis .
  next
    case False
    then have "Recorded env l' uid origin = Recorded env l1 uid origin"
      unfolding l1(3) using l1(2) by (intro Recorded_put_other) auto
    then have "floor_of env uid origin l' = floor_of env uid origin l1" by (simp add: floor_of_def tomb)
    then show ?thesis using forget_entombed_floor [OF l1(1)] by simp
  qed
qed

lemma ClearForgotten_other:
  assumes "ClearForgotten env l uid0 origin0 = Inr l'" "(uid, origin) \<noteq> (uid0, origin0)"
  shows "floor_of env uid origin l' = floor_of env uid origin l"
proof -
  obtain path where w: "recordPath (lg_Directory l) uid0 origin0 forgottenSuffix = Inr path" "l' = put l path Absent"
    using assms(1) by (auto simp: ClearForgotten_def bind_result_Inr split: if_splits)
  have "Recorded env l' uid origin = Recorded env l uid origin"
    unfolding w(2) using w(1) by (intro Recorded_put_other) auto
  moreover have "Forgotten env l' uid origin = Forgotten env l uid origin"
    unfolding w(2) using w(1) assms(2) by (intro Forgotten_put_other) auto
  ultimately show ?thesis by (simp add: floor_of_def)
qed

lemma settings_do_not_matter [simp]:
  "Recorded env (l\<lparr>lg_confirmations := c\<rparr>) uid origin = Recorded env l uid origin"
  "Forgotten env (l\<lparr>lg_confirmations := c\<rparr>) uid origin = Forgotten env l uid origin"
  "Recorded env (l\<lparr>lg_signatures := sg, lg_trust := t\<rparr>) uid origin = Recorded env l uid origin"
  "Forgotten env (l\<lparr>lg_signatures := sg, lg_trust := t\<rparr>) uid origin = Forgotten env l uid origin"
  by (simp_all add: Recorded_def Forgotten_def cong: if_cong)

text \<open>Admission fills in what was decided and leaves what was asked for alone.\<close>

definition same_request :: "Enrolment \<Rightarrow> Enrolment \<Rightarrow> bool" where
  "same_request e e' \<longleftrightarrow> er_Anchor e' = er_Anchor e \<and> er_Signature e' = er_Signature e \<and> er_Policy e' = er_Policy e"

lemma same_request_trans: "same_request a b \<Longrightarrow> same_request b c \<Longrightarrow> same_request a c"
  by (simp add: same_request_def)

lemma complete_same_request: "completeEnrolmentPolicySchema hx (stripped e) = Inr e' \<Longrightarrow> same_request e e'"
  by (auto simp: completeEnrolment_Inr same_request_def stripped_def)

lemma admitSignature_same_request: "admitSignature env l e now = Inr e' \<Longrightarrow> same_request e e'"
  by (auto simp: admitSignature_def same_request_def bind_result_Inr Let_def split: option.splits if_splits)

lemma admitReputation_same_request:
  "admitReputation env entries policy e publisher confirmation now random = (Inr e', c) \<Longrightarrow> same_request e e'"
  by (auto simp: admitReputation_def same_request_def Let_def split: option.splits if_splits prod.splits)

lemma admit_under_Inr:
  assumes "admit_under env entries policy e confirmation now random = (Inr e', c)"
  obtains (unmanaged) "Policy_Empty policy" "e' = e"
  | (managed) publisher where "\<not> Policy_Empty policy" "Allowed (AllowsOrigin policy (er_Origin e))"
      "admitPublisher policy e = Inr publisher" "Allowed (IsRevoked policy (er_Origin e) (publisherGeneration e))"
      "admitApproval env policy e = None"
      "admitReputation env entries policy e publisher confirmation now random = (Inr e', c)"
  using assms by (auto simp: admit_under_def split: if_splits sum.splits option.splits)

lemma admitTrust_same_request:
  assumes "admitTrust env l e confirmation now random = (Inr e', c)"
  shows "same_request e e'"
proof -
  obtain policy where u: "admit_under env (lg_confirmations l) policy (e\<lparr>er_ReputationMode := reputation_mode policy\<rparr>)
      confirmation now random = (Inr e', c)"
    using assms by (auto simp: admitTrust_def split: sum.splits)
  have "same_request (e\<lparr>er_ReputationMode := reputation_mode policy\<rparr>) e'"
    using u by (cases rule: admit_under_Inr) (auto simp: same_request_def dest: admitReputation_same_request)
  then show ?thesis by (simp add: same_request_def)
qed

lemma record_enrolment_cases:
  assumes "record_enrolment env l e confirmation now random = (r, l')"
  obtains (refused) x c where "r = Some x" "l' = l\<lparr>lg_confirmations := c\<rparr>"
  | (recorded) e0 e1 e2 c where "r = None"
      "completeEnrolmentPolicySchema (ae_hashes env) (stripped e) = Inr e0" "admitSignature env l e0 now = Inr e1"
      "admitTrust env l e1 confirmation now random = (Inr e2, c)" "same_request e e2"
      "write_record env (l\<lparr>lg_confirmations := c\<rparr>) e2 = Inr l'"
proof (cases "completeEnrolmentPolicySchema (ae_hashes env) (stripped e)")
  case (Inl x)
  with assms refused [of x "lg_confirmations l"] show thesis by (simp add: record_enrolment_def)
next
  case e0: (Inr e0)
  show thesis
  proof (cases "admitSignature env l e0 now")
    case (Inl x)
    with assms e0 refused [of x "lg_confirmations l"] show thesis by (simp add: record_enrolment_def)
  next
    case e1: (Inr e1)
    obtain t c where t: "admitTrust env l e1 confirmation now random = (t, c)" by (cases "admitTrust env l e1 confirmation now random")
    show thesis
    proof (cases t)
      case (Inl x)
      with assms e0 e1 t refused [of x c] show thesis by (simp add: record_enrolment_def)
    next
      case e2: (Inr e2)
      have same: "same_request e e2"
        using complete_same_request [OF e0] admitSignature_same_request [OF e1]
          admitTrust_same_request [of env l e1 confirmation now random e2 c] t e2
        by (auto simp: same_request_def)
      show thesis
      proof (cases "write_record env (l\<lparr>lg_confirmations := c\<rparr>) e2")
        case (Inl x)
        with assms e0 e1 t e2 refused [of x c] show thesis by (simp add: record_enrolment_def)
      next
        case (Inr l2)
        with assms e0 e1 t e2 same recorded [of e0 e1 e2 c] show thesis by (simp add: record_enrolment_def)
      qed
    qed
  qed
qed

section \<open>The ledger as a ratchet\<close>

fun clears :: "u32 \<Rightarrow> string \<Rightarrow> event \<Rightarrow> bool" where
  "clears uid origin (Clear_removal uid' origin') \<longleftrightarrow> uid' = uid \<and> origin' = origin"
| "clears uid origin ev \<longleftrightarrow> False"

lemma floor_of_settings [simp]:
  "floor_of env uid origin (l\<lparr>lg_confirmations := c\<rparr>) = floor_of env uid origin l"
  "floor_of env uid origin (l\<lparr>lg_signatures := sg, lg_trust := t\<rparr>) = floor_of env uid origin l"
  by (simp_all add: floor_of_def)

lemma step_floor:
  assumes "step env l ev l'" "\<not> clears uid origin ev"
  shows "floor_of env uid origin l \<le> floor_of env uid origin l'"
  using assms(1)
proof cases
  case (enrol e confirmation now random r)
  from enrol(2) show ?thesis
  proof (cases rule: record_enrolment_cases)
    case (recorded e0 e1 e2 c)
    then show ?thesis using write_record_floor [of env "l\<lparr>lg_confirmations := c\<rparr>"] by simp
  qed simp
next
  case (clear uid0 origin0)
  then show ?thesis using assms(2) ClearForgotten_other [of env l uid0 origin0 l' uid origin] by auto
qed (auto simp: Forget_floor forget_entombed_floor)

interpretation floors: ratchet "step env" "floor_of env uid origin" "clears uid origin" for env uid origin
  by unfold_locales (rule step_floor)

lemma write_record_above_floor:
  assumes "write_record env l e = Inr l'" and "floor_of env (er_UID e) (er_Origin e) l = (g, s, k)"
  shows "g \<le> er_Generation e \<and> (s \<longrightarrow> er_Signature e \<noteq> None \<and> k \<le> publisherGeneration e)"
proof -
  obtain existing buried where w: "Recorded env l (er_UID e) (er_Origin e) = Inr existing"
      "\<forall>r. existing = Some r \<longrightarrow> ordersAfter r e = None"
      "Forgotten env l (er_UID e) (er_Origin e) = Inr buried" "\<forall>t. buried = Some t \<longrightarrow> ordersAfterRemoval t e = None"
    using assms(1) by (auto simp: write_record_Inr)
  have floor: "(g, s, k) = higher (held_by_record existing) (held_by_tombstone buried)"
    using assms(2) w by (simp add: floor_of_def)
  have "held_by_record existing \<le> held_by_record (Some e)"
    using w(2) ordersAfter_held by (cases existing) auto
  moreover have "held_by_tombstone buried \<le> held_by_record (Some e)"
    using w(4) ordersAfterRemoval_held by (cases buried) (auto simp: held_by_tombstone_def held_by_record_def)
  ultimately have "(g, s, k) \<le> held_by_record (Some e)" unfolding floor by (rule higher_upper(3))
  then show ?thesis by (auto simp: held_by_record_def)
qed

lemma record_enrolment_above_floor:
  assumes "record_enrolment env l e confirmation now random = (None, l')"
    and "floor_of env (er_UID e) (er_Origin e) l = (g, s, k)"
  shows "g \<le> er_Generation e \<and> (s \<longrightarrow> er_Signature e \<noteq> None \<and> k \<le> publisherGeneration e)"
  using assms(1)
proof (cases rule: record_enrolment_cases)
  case (recorded e0 e1 e2 c)
  then have "er_Anchor e2 = er_Anchor e" "publisherGeneration e2 = publisherGeneration e" "er_Signature e2 = er_Signature e"
    by (auto simp: same_request_def publisherGeneration_def)
  then show ?thesis using write_record_above_floor [OF recorded(6), of g s k] assms(2) by simp
qed simp

section \<open>Properties\<close>

text \<open>C1: No downgrade, whatever happens in between.  Once the ledger has held a record, every later
  enrolment of that application that is accepted has at least its generation, is signed if it was
  and carries at least its signed generation, however many enrolments of any application,
  removals, removals that stopped halfway and setting changes came in between, as long as the
  administrator did not clear the removal.\<close>

theorem no_downgrade_across_history:
  assumes "Recorded env l uid origin = Inr (Some r)" and "run (step env) l evs l1"
    and "\<And>ev. ev \<in> set evs \<Longrightarrow> \<not> clears uid origin ev"
    and "record_enrolment env l1 e confirmation now random = (None, l2)"
    and "er_UID e = uid" and "er_Origin e = origin"
  shows "er_Generation r \<le> er_Generation e \<and>
    (er_Signature r \<noteq> None \<longrightarrow> er_Signature e \<noteq> None \<and> publisherGeneration r \<le> publisherGeneration e)"
proof -
  obtain g s k where f: "floor_of env uid origin l1 = (g, s, k)" by (cases "floor_of env uid origin l1")
  have "held_by_record (Some r) \<le> floor_of env uid origin l"
    by (simp add: floor_of_def assms(1) higher_upper)
  also have "\<dots> \<le> (g, s, k)" using floors.level_run [OF assms(2,3)] by (simp add: f)
  finally have "er_Generation r \<le> g" "er_Signature r \<noteq> None \<longrightarrow> s" "publisherGeneration r \<le> k"
    by (auto simp: held_by_record_def)
  then show ?thesis
    using record_enrolment_above_floor [OF assms(4)] f assms(5,6) by (auto intro: order_trans)
qed

text \<open>A refused enrolment leaves the ledger as it was: no record and no tombstone of any
  application changes, whatever the reason for the refusal.\<close>

theorem refused_enrolment_changes_no_file:
  assumes "record_enrolment env l e confirmation now random = (Some x, l')"
  shows "lg_files l' = lg_files l \<and> lg_trusted l' = lg_trusted l \<and> lg_signatures l' = lg_signatures l \<and>
    lg_trust l' = lg_trust l"
  using assms by (cases rule: record_enrolment_cases) simp_all


text \<open>C7: An enrolment that nobody is asked about never widens: when the ledger answers that the
  ordinary action is enough and the application has a record, or was removed and its tombstone
  stands, the enrolment repeats the policy root it is measured against or carries a policy that
  restricts the one held there, and its generation is not below it.\<close>

theorem unprompted_enrolment_never_widens:
  assumes "AsksTheOwner env l e = Inr False"
  shows "(case Recorded env l (er_UID e) (er_Origin e) of
      Inr (Some r) \<Rightarrow> er_Generation r \<le> er_Generation e \<and> (er_PolicyRoot e = er_PolicyRoot r \<or>
        (\<exists>held offered. er_Policy r = Some held \<and> er_Policy e = Some offered \<and> Restricts held offered))
    | Inr None \<Rightarrow> (case Forgotten env l (er_UID e) (er_Origin e) of
        Inr (Some t) \<Rightarrow> tb_Generation t \<le> er_Generation e \<and> (er_PolicyRoot e = tb_PolicyRoot t \<or>
          (\<exists>held offered. tb_Policy t = Some held \<and> er_Policy e = Some offered \<and> Restricts held offered))
      | Inr None \<Rightarrow> True
      | Inl _ \<Rightarrow> False)
    | Inl _ \<Rightarrow> False)"
proof -
  have act: "authorizationAgainst g root policy e = ActionEnrolAnchor \<longleftrightarrow> g \<le> er_Generation e \<and> (er_PolicyRoot e = root \<or>
      (\<exists>held offered. policy = Some held \<and> er_Policy e = Some offered \<and> Restricts held offered))" for g root policy
    by (auto simp: authorizationAgainst_def ActionEnrolAnchor_def ActionWidenAnchor_def not_less split: option.splits)
  have "authorizationFor env l e = Inr ActionEnrolAnchor"
    using assms by (auto simp: AsksTheOwner_def bind_result_Inr)
  then show ?thesis
    by (auto simp: authorizationFor_def bind_result_Inr act split: option.splits)
qed

lemma TrustPolicy_empty_allows:
  assumes "TrustPolicy env l = Inr p" "Policy_Empty p"
  shows "Allowed (AllowsOrigin p origin)" "Allowed (IsRevoked p origin g)"
proof -
  have "settled p = Some (allow No_policy_in_force)"
    using assms Policy_Validate_readable [of "ae_parse_url env" p]
    by (auto simp: TrustPolicy_def empty_policy_def settled_def Policy_Empty_def split: setting.splits option.splits)
  then show "Allowed (AllowsOrigin p origin)" "Allowed (IsRevoked p origin g)"
    by (simp_all add: AllowsOrigin_def IsRevoked_def)
qed

lemma admit_under_checked:
  assumes "admit_under env entries policy e confirmation now random = (Inr e', c)" "TrustPolicy env l = Inr policy"
  shows "Allowed (AllowsOrigin policy (er_Origin e))" "Allowed (IsRevoked policy (er_Origin e) (publisherGeneration e))"
    "RequirePublisher policy \<Longrightarrow> er_Signature e \<noteq> None"
  using assms(1)
  by (cases rule: admit_under_Inr; use TrustPolicy_empty_allows [OF assms(2)] in
      \<open>auto simp: Policy_Empty_def admitPublisher_def split: option.splits\<close>)+


lemma decisions_ignore_x509_contents:
  "Policy_Empty (p\<lparr>X509 := Some x\<rparr>) = Policy_Empty (p\<lparr>X509 := Some y\<rparr>)"
  "AllowsOrigin (p\<lparr>X509 := Some x\<rparr>) = AllowsOrigin (p\<lparr>X509 := Some y\<rparr>)"
  "AllowsPublisher (p\<lparr>X509 := Some x\<rparr>) = AllowsPublisher (p\<lparr>X509 := Some y\<rparr>)"
  "AllowsNormalizedPublisher (p\<lparr>X509 := Some x\<rparr>) = AllowsNormalizedPublisher (p\<lparr>X509 := Some y\<rparr>)"
  "AllowsApproval (p\<lparr>X509 := Some x\<rparr>) = AllowsApproval (p\<lparr>X509 := Some y\<rparr>)"
  "IsRevoked (p\<lparr>X509 := Some x\<rparr>) = IsRevoked (p\<lparr>X509 := Some y\<rparr>)"
  "EvaluatesReputation (p\<lparr>X509 := Some x\<rparr>) = EvaluatesReputation (p\<lparr>X509 := Some y\<rparr>)"
proof -
  have [simp]: "settled (p\<lparr>X509 := Some x\<rparr>) = settled (p\<lparr>X509 := Some y\<rparr>)"
    by (simp add: settled_def Policy_Empty_def)
  show "Policy_Empty (p\<lparr>X509 := Some x\<rparr>) = Policy_Empty (p\<lparr>X509 := Some y\<rparr>)"
    by (simp add: Policy_Empty_def)
  show "AllowsOrigin (p\<lparr>X509 := Some x\<rparr>) = AllowsOrigin (p\<lparr>X509 := Some y\<rparr>)"
    by (intro ext) (auto simp: AllowsOrigin_def split: option.split)
  show pub: "AllowsPublisher (p\<lparr>X509 := Some x\<rparr>) = AllowsPublisher (p\<lparr>X509 := Some y\<rparr>)"
    by (intro ext) (auto simp: AllowsPublisher_def split: option.split)
  show "AllowsNormalizedPublisher (p\<lparr>X509 := Some x\<rparr>) = AllowsNormalizedPublisher (p\<lparr>X509 := Some y\<rparr>)"
    by (intro ext) (auto simp: AllowsNormalizedPublisher_def pub split: option.split)
  show "AllowsApproval (p\<lparr>X509 := Some x\<rparr>) = AllowsApproval (p\<lparr>X509 := Some y\<rparr>)"
    by (intro ext) (auto simp: AllowsApproval_def split: option.split)
  show "IsRevoked (p\<lparr>X509 := Some x\<rparr>) = IsRevoked (p\<lparr>X509 := Some y\<rparr>)"
    by (intro ext) (auto simp: IsRevoked_def split: option.split)
  show "EvaluatesReputation (p\<lparr>X509 := Some x\<rparr>) = EvaluatesReputation (p\<lparr>X509 := Some y\<rparr>)"
    by (intro ext) (auto simp: EvaluatesReputation_def Let_def split: option.split)
qed

text \<open>The revocation mode of the X.509 section decides nothing: whichever of its values the
  administrator wrote, every enrolment is admitted or refused the same way.\<close>

theorem x509_revocation_mode_is_ignored:
  "admit_under env entries (policy\<lparr>X509 := Some x\<rparr>) e confirmation now random =
   admit_under env entries (policy\<lparr>X509 := Some y\<rparr>) e confirmation now random"
proof -
  note same = decisions_ignore_x509_contents [where p = policy and x = x and y = y]
  have "admitPublisher (policy\<lparr>X509 := Some x\<rparr>) e = admitPublisher (policy\<lparr>X509 := Some y\<rparr>) e"
    by (auto simp: admitPublisher_def same split: option.split)
  moreover have "admitApproval env (policy\<lparr>X509 := Some x\<rparr>) e = admitApproval env (policy\<lparr>X509 := Some y\<rparr>) e"
    by (auto simp: admitApproval_def same split: option.split)
  moreover have "admitReputation env entries (policy\<lparr>X509 := Some x\<rparr>) e publisher confirmation now random =
      admitReputation env entries (policy\<lparr>X509 := Some y\<rparr>) e publisher confirmation now random" for publisher
  proof -
    have "ABI (policy\<lparr>X509 := Some x\<rparr>) = ABI (policy\<lparr>X509 := Some y\<rparr>)"
      "Reputation_of (policy\<lparr>X509 := Some x\<rparr>) = Reputation_of (policy\<lparr>X509 := Some y\<rparr>)" by simp_all
    then show ?thesis by (simp only: admitReputation_def same)
  qed
  ultimately show ?thesis by (simp only: admit_under_def same)
qed

end
