(* ===== verification/Applications.thy ===== *)
theory Applications
  imports Policy_Order Go_Time
begin

text \<open>
  \<^verbatim>\<open>pkg/types/application.go\<close>, \<^verbatim>\<open>container.go\<close>, \<^verbatim>\<open>addon.go\<close> and \<^verbatim>\<open>manifest.go\<close>: what the store keeps about an
  installed application and its containers, field by field.  \<open>None\<close> is the zero time.
\<close>

record Dependency =
  dp_Id :: string
  dp_Origin :: string
  dp_Branch :: string
  dp_Release :: string
  dp_Commit :: string
  dp_Mode :: string

definition IsLayer :: "Dependency \<Rightarrow> bool" where
  "IsLayer d \<longleftrightarrow> dp_Mode d = ''layer''"

definition IsNested :: "Dependency \<Rightarrow> bool" where
  "IsNested d \<longleftrightarrow> dp_Mode d = [] \<or> dp_Mode d = ''nested''"

record AddonExports =
  ax_Path :: "string list"
  ax_LibraryPath :: "string list"
  ax_IncludePath :: "string list"
  ax_PkgConfigPath :: "string list"
  ax_CMakePrefixPath :: "string list"
  ax_Environment :: "string list"

record AddonProvider =
  pr_ID :: string
  pr_Slot :: string
  pr_Mode :: string
  pr_Exports :: AddonExports

abbreviation AddonSlotExclusive :: string where "AddonSlotExclusive \<equiv> ''exclusive''"
abbreviation AddonSlotMultiple :: string where "AddonSlotMultiple \<equiv> ''multiple''"

record RuntimeSource =
  rt_Name :: string
  rt_URL :: string
  rt_SHA256 :: string
  rt_Size :: int
  rt_Installer :: string
  rt_Destination :: string
  rt_Architecture :: string

record login_session =
  ls_ID :: string
  ls_Name :: string
  ls_Description :: string
  ls_Kind :: string
  ls_Entrypoint :: string
  ls_Override :: Override

record Container =
  cn_ID :: u64
  cn_CreatedAt :: "instant option"
  cn_UpdatedAt :: "instant option"
  cn_CpakId :: string
  cn_ApplicationCpakId :: string
  cn_Pid :: int
  cn_ProcessStartTime :: u64
  cn_CreateTimestamp :: "instant option"
  cn_StatePath :: string
  cn_SystemBrokerSocketPath :: string
  cn_SystemBrokerTokenPath :: string
  cn_NestedToken :: string
  cn_SystemBrokerPolicyPath :: string
  cn_DesktopBusProxyPid :: int
  cn_DesktopBusProxyStartTime :: u64
  cn_DesktopBusSocketPath :: string
  cn_BluetoothBusProxyPid :: int
  cn_BluetoothBusProxyStartTime :: u64
  cn_BluetoothBusSocketPath :: string
  cn_X11BridgePid :: int
  cn_X11BridgeStartTime :: u64
  cn_X11Display :: string
  cn_X11SocketPath :: string
  cn_X11SocketTarget :: string
  cn_X11AuthorityPath :: string
  cn_ExecSocketPath :: string
  cn_GrantSocketPath :: string
  cn_PolicyHash :: string
  cn_CgroupPath :: string
  cn_FVSLayerMountId :: string
  cn_FVSLayerMountPath :: string
  cn_FVSManagerSocketPath :: string
  cn_Instance :: string
  cn_LogPath :: string

record Application =
  ap_ID :: u64
  ap_CreatedAt :: "instant option"
  ap_UpdatedAt :: "instant option"
  ap_CpakId :: string
  ap_Name :: string
  ap_Version :: string
  ap_Branch :: string
  ap_Release :: string
  ap_Commit :: string
  ap_Origin :: string
  ap_InstallTimestamp :: "instant option"
  ap_Binaries :: string
  ap_DesktopEntries :: string
  ap_Addons :: string
  ap_Layers :: string
  ap_Config :: string
  ap_Image :: string
  ap_ImageDigest :: string
  ap_ManifestDigest :: string
  ap_Containers :: "Container list"
  ap_ParsedBinaries :: "string list"
  ap_ParsedDesktopEntries :: "string list"
  ap_ParsedSessions :: "login_session list"
  ap_ParsedDependencies :: "Dependency list"
  ap_ParsedAddons :: "string list"
  ap_ParsedAddonProvider :: "AddonProvider option"
  ap_IdleTime :: int
  ap_ParsedLayers :: "string list"
  ap_RuntimeSources :: "RuntimeSource list"
  ap_ParsedOverride :: Override
  ap_PulledIn :: bool
  ap_PulledInBy :: string
  ap_DependenciesRaw :: string
  ap_OverrideRaw :: string

definition SourceType :: "Application \<Rightarrow> string" where
  "SourceType a =
     (if ap_Branch a \<noteq> [] then ''branch'' else if ap_Release a \<noteq> [] then ''release''
      else if ap_Commit a \<noteq> [] then ''commit'' else ''unknown'')"

end
