(* ===== verification/Application_Store.thy ===== *)
theory Application_Store
  imports Applications
begin

text \<open>
  \<^verbatim>\<open>pkg/cpak/store-db.go\<close>: the installed applications and their containers.  Both are kept by a log-structured
  engine under their identifier; the model keeps the values of an engine as the list its walk visits, in which
  putting a value replaces the one under the same key.  A file of the engine that cannot be read or written is not
  part of the model, the clock is an argument.
\<close>

section \<open>Values under keys\<close>

fun put_keyed :: "('a \<Rightarrow> string) \<Rightarrow> 'a \<Rightarrow> 'a list \<Rightarrow> 'a list" where
  "put_keyed key v [] = [v]"
| "put_keyed key v (x # xs) = (if key x = key v then v # xs else x # put_keyed key v xs)"

definition delete_keyed :: "('a \<Rightarrow> string) \<Rightarrow> string \<Rightarrow> 'a list \<Rightarrow> 'a list" where
  "delete_keyed key k xs = filter (\<lambda>x. key x \<noteq> k) xs"

definition get_keyed :: "('a \<Rightarrow> string) \<Rightarrow> 'a list \<Rightarrow> string \<Rightarrow> 'a option" where
  "get_keyed key xs k = List.find (\<lambda>x. key x = k) xs"

section \<open>Operations\<close>

record app_store =
  st_Apps :: "Application list"
  st_Containers :: "Container list"

datatype store_error = No_application_id | No_container_id | Not_stored string | Application_not_found string

definition NewApplication :: "instant \<Rightarrow> Application \<Rightarrow> app_store \<Rightarrow> store_error + app_store" where
  "NewApplication now app s =
     (if ap_CpakId app = [] then Inl No_application_id
      else
        (let app = (if ap_InstallTimestamp app = None then app\<lparr>ap_InstallTimestamp := Some now\<rparr> else app);
             app = (if ap_CreatedAt app = None then app\<lparr>ap_CreatedAt := Some now\<rparr> else app)
         in Inr (s\<lparr>st_Apps := put_keyed ap_CpakId app (st_Apps s)\<rparr>)))"

definition NewContainer :: "instant \<Rightarrow> Container \<Rightarrow> app_store \<Rightarrow> store_error + app_store" where
  "NewContainer now container s =
     (if cn_CpakId container = [] \<or> cn_ApplicationCpakId container = [] then Inl No_container_id
      else
        (let container = (if cn_CreateTimestamp container = None then container\<lparr>cn_CreateTimestamp := Some now\<rparr> else container);
             container = (if cn_CreatedAt container = None then container\<lparr>cn_CreatedAt := Some now\<rparr> else container)
         in Inr (s\<lparr>st_Containers := put_keyed cn_CpakId container (st_Containers s)\<rparr>)))"

definition GetApplicationByCpakId :: "Application list \<Rightarrow> string \<Rightarrow> Application option" where
  "GetApplicationByCpakId apps i = get_keyed ap_CpakId apps i"

definition GetApplicationsByOrigin ::
  "Application list \<Rightarrow> string \<Rightarrow> string \<Rightarrow> string \<Rightarrow> string \<Rightarrow> string \<Rightarrow> Application list" where
  "GetApplicationsByOrigin apps origin version branch commit release =
     filter (\<lambda>app. \<not> (version \<noteq> [] \<and> ap_Version app \<noteq> version) \<and> \<not> (branch \<noteq> [] \<and> ap_Branch app \<noteq> branch) \<and>
         \<not> (commit \<noteq> [] \<and> ap_Commit app \<noteq> commit) \<and> \<not> (release \<noteq> [] \<and> ap_Release app \<noteq> release))
       (filter (\<lambda>app. ap_Origin app = origin) apps)"

definition GetApplicationByOrigin ::
  "Application list \<Rightarrow> string \<Rightarrow> string \<Rightarrow> string \<Rightarrow> string \<Rightarrow> string \<Rightarrow> store_error + Application" where
  "GetApplicationByOrigin apps origin version branch commit release =
     (case GetApplicationsByOrigin apps origin version branch commit release of
        [] \<Rightarrow> Inl (Application_not_found origin) | app # _ \<Rightarrow> Inr app)"

definition GetApplicationContainers :: "Container list \<Rightarrow> Application \<Rightarrow> store_error + Container list" where
  "GetApplicationContainers containers app =
     (if ap_CpakId app = [] then Inl No_application_id
      else Inr (filter (\<lambda>container. cn_ApplicationCpakId container = ap_CpakId app) containers))"

definition RemoveApplicationByCpakId :: "string \<Rightarrow> app_store \<Rightarrow> app_store" where
  "RemoveApplicationByCpakId i s = s\<lparr>st_Apps := delete_keyed ap_CpakId i (st_Apps s)\<rparr>"

definition RemoveContainerByCpakId :: "string \<Rightarrow> app_store \<Rightarrow> app_store" where
  "RemoveContainerByCpakId i s = s\<lparr>st_Containers := delete_keyed cn_CpakId i (st_Containers s)\<rparr>"

definition SetContainerRuntime :: "string \<Rightarrow> int \<Rightarrow> u64 \<Rightarrow> string \<Rightarrow> app_store \<Rightarrow> store_error + app_store" where
  "SetContainerRuntime i pid started cgroup s =
     (case get_keyed cn_CpakId (st_Containers s) i of
        None \<Rightarrow> Inl (Not_stored i)
      | Some container \<Rightarrow>
          Inr (s\<lparr>st_Containers := put_keyed cn_CpakId
            (container\<lparr>cn_Pid := pid, cn_ProcessStartTime := started, cn_CgroupPath := cgroup\<rparr>) (st_Containers s)\<rparr>))"

definition remove_each :: "Application list \<Rightarrow> app_store \<Rightarrow> app_store" where
  "remove_each apps s = foldl (\<lambda>s app. RemoveApplicationByCpakId (ap_CpakId app) s) s apps"

definition RemoveApplicationByOriginAndBranch :: "string \<Rightarrow> string \<Rightarrow> app_store \<Rightarrow> app_store" where
  "RemoveApplicationByOriginAndBranch origin branch s =
     remove_each (GetApplicationsByOrigin (st_Apps s) origin [] branch [] []) s"

definition RemoveApplicationByOriginAndCommit :: "string \<Rightarrow> string \<Rightarrow> app_store \<Rightarrow> app_store" where
  "RemoveApplicationByOriginAndCommit origin commit s =
     remove_each (GetApplicationsByOrigin (st_Apps s) origin [] [] commit []) s"

definition RemoveApplicationByOriginAndRelease :: "string \<Rightarrow> string \<Rightarrow> app_store \<Rightarrow> app_store" where
  "RemoveApplicationByOriginAndRelease origin release s =
     remove_each (GetApplicationsByOrigin (st_Apps s) origin [] [] [] release) s"

definition GetApplicationByDesktopEntry :: "Application list \<Rightarrow> string \<Rightarrow> Application option" where
  "GetApplicationByDesktopEntry apps entry = List.find (\<lambda>app. entry \<in> set (ap_ParsedDesktopEntries app)) apps"

definition GetApplicationByBinary :: "Application list \<Rightarrow> string \<Rightarrow> Application option" where
  "GetApplicationByBinary apps binary = List.find (\<lambda>app. binary \<in> set (ap_ParsedBinaries app)) apps"

definition dependency_on :: "Application \<Rightarrow> Dependency" where
  "dependency_on app = \<lparr>dp_Id = ap_CpakId app, dp_Origin = ap_Origin app, dp_Branch = ap_Branch app, dp_Release = ap_Release app,
     dp_Commit = ap_Commit app, dp_Mode = []\<rparr>"

definition ParseDependenciesString :: "Application list \<Rightarrow> string \<Rightarrow> Dependency list" where
  "ParseDependenciesString apps ids =
     (if ids = [] then []
      else List.map_filter (\<lambda>i. if i = [] then None else map_option dependency_on (GetApplicationByCpakId apps i))
        (split_on (CHR '','') ids))"

section \<open>Lookups after updates\<close>

lemma get_put_keyed [simp]: "get_keyed key (put_keyed key v xs) k = (if k = key v then Some v else get_keyed key xs k)"
  by (induction key v xs rule: put_keyed.induct) (auto simp: get_keyed_def)

lemma get_delete_keyed [simp]: "get_keyed key (delete_keyed key j xs) k = (if k = j then None else get_keyed key xs k)"
  by (induction xs) (auto simp: get_keyed_def delete_keyed_def)

lemma put_keyed_keys: "set (map key (put_keyed key v xs)) = insert (key v) (set (map key xs))"
  by (induction key v xs rule: put_keyed.induct) auto

lemma put_keyed_distinct: "distinct (map key xs) \<Longrightarrow> distinct (map key (put_keyed key v xs))"
proof (induction key v xs rule: put_keyed.induct)
  case (2 key v x xs)
  then show ?case using put_keyed_keys [of key v xs] by auto
qed simp

lemma delete_keyed_distinct: "distinct (map key xs) \<Longrightarrow> distinct (map key (delete_keyed key j xs))"
  by (simp add: delete_keyed_def distinct_map_filter)

lemma get_keyed_Some: "get_keyed key xs k = Some x \<Longrightarrow> x \<in> set xs \<and> key x = k"
  by (auto simp: get_keyed_def find_Some_iff)

lemma get_keyed_member: "distinct (map key xs) \<Longrightarrow> x \<in> set xs \<Longrightarrow> get_keyed key xs (key x) = Some x"
  by (induction xs) (auto simp: get_keyed_def)

lemma get_filter_keyed:
  "distinct (map key xs) \<Longrightarrow> get_keyed key (filter (\<lambda>x. \<not> P x) xs) k =
     (case get_keyed key xs k of None \<Rightarrow> None | Some x \<Rightarrow> if P x then None else Some x)"
proof (induction xs)
  case (Cons a xs)
  moreover have "get_keyed key xs (key a) = None" using Cons.prems by (simp add: get_keyed_def find_None_iff) (metis imageI)
  ultimately show ?case by (auto simp: get_keyed_def)
qed (simp add: get_keyed_def)

lemma remove_each_apps:
  "st_Apps (remove_each apps s) = filter (\<lambda>a. ap_CpakId a \<notin> ap_CpakId ` set apps) (st_Apps s) \<and>
   st_Containers (remove_each apps s) = st_Containers s"
proof (induction apps arbitrary: s)
  case (Cons a apps)
  have "remove_each (a # apps) s = remove_each apps (RemoveApplicationByCpakId (ap_CpakId a) s)"
    by (simp add: remove_each_def)
  then show ?case
    using Cons [of "RemoveApplicationByCpakId (ap_CpakId a) s"]
    by (auto simp: RemoveApplicationByCpakId_def delete_keyed_def intro: filter_cong)
qed (simp add: remove_each_def)

lemma remove_each_filter:
  assumes "distinct (map ap_CpakId (st_Apps s))"
  shows "st_Apps (remove_each (filter P (st_Apps s)) s) = filter (\<lambda>a. \<not> P a) (st_Apps s)"
proof -
  have "ap_CpakId a \<notin> ap_CpakId ` set (filter P (st_Apps s)) \<longleftrightarrow> \<not> P a" if "a \<in> set (st_Apps s)" for a
    using assms that by (auto simp: distinct_map dest: inj_onD)
  then show ?thesis using remove_each_apps by (metis (mono_tags, lifting) filter_cong)
qed

section \<open>The store as two maps\<close>

text \<open>The specification: a map from identifiers to applications, one to containers.\<close>

record keyed_store =
  ks_apps :: "string \<rightharpoonup> Application"
  ks_containers :: "string \<rightharpoonup> Container"

definition abstract_store :: "app_store \<Rightarrow> keyed_store" where
  "abstract_store s = \<lparr>ks_apps = get_keyed ap_CpakId (st_Apps s), ks_containers = get_keyed cn_CpakId (st_Containers s)\<rparr>"

definition stored_well :: "app_store \<Rightarrow> bool" where
  "stored_well s \<longleftrightarrow> distinct (map ap_CpakId (st_Apps s)) \<and> distinct (map cn_CpakId (st_Containers s))"

text \<open>The package store is two maps, whatever is done to it: storing an application or a container, recording
  the process of a container and removing by identifier are updates of one entry and keep the keys unique, a
  removal by branch, commit or release takes out exactly the installations of the origin on it, and no operation
  on applications touches a container or the reverse.\<close>

theorem package_store_refines_maps:
  assumes "stored_well s"
  shows "(\<forall>app s'. NewApplication now app s = Inr s' \<longrightarrow> stored_well s' \<and>
      (\<exists>stamped. ap_CpakId stamped = ap_CpakId app \<and> ap_Origin stamped = ap_Origin app \<and> ap_InstallTimestamp stamped \<noteq> None \<and>
        abstract_store s' = (abstract_store s)\<lparr>ks_apps := (ks_apps (abstract_store s))(ap_CpakId app \<mapsto> stamped)\<rparr>)) \<and>
    (\<forall>i pid started cgroup s'. SetContainerRuntime i pid started cgroup s = Inr s' \<longrightarrow> stored_well s' \<and>
      (\<exists>container. ks_containers (abstract_store s) i = Some container \<and>
        abstract_store s' = (abstract_store s)\<lparr>ks_containers := (ks_containers (abstract_store s))(i \<mapsto>
          container\<lparr>cn_Pid := pid, cn_ProcessStartTime := started, cn_CgroupPath := cgroup\<rparr>)\<rparr>)) \<and>
    (\<forall>origin branch. branch \<noteq> [] \<longrightarrow> (let s' = RemoveApplicationByOriginAndBranch origin branch s in stored_well s' \<and>
      abstract_store s' = (abstract_store s)\<lparr>ks_apps := (\<lambda>i. case ks_apps (abstract_store s) i of None \<Rightarrow> None
        | Some app \<Rightarrow> if ap_Origin app = origin \<and> ap_Branch app = branch then None else Some app)\<rparr>))"
proof (intro conjI allI impI)
  fix app s' assume n: "NewApplication now app s = Inr s'"
  define stamped where "stamped = (let app = (if ap_InstallTimestamp app = None then app\<lparr>ap_InstallTimestamp := Some now\<rparr> else app)
    in if ap_CreatedAt app = None then app\<lparr>ap_CreatedAt := Some now\<rparr> else app)"
  have s': "s' = s\<lparr>st_Apps := put_keyed ap_CpakId stamped (st_Apps s)\<rparr>"
    using n by (auto simp: NewApplication_def stamped_def Let_def split: if_split_asm)
  have i: "ap_CpakId stamped = ap_CpakId app" "ap_Origin stamped = ap_Origin app" "ap_InstallTimestamp stamped \<noteq> None"
    by (auto simp: stamped_def Let_def)
  show "stored_well s'" unfolding s' using assms by (simp add: stored_well_def put_keyed_distinct)
  have "abstract_store s' = (abstract_store s)\<lparr>ks_apps := (ks_apps (abstract_store s))(ap_CpakId app \<mapsto> stamped)\<rparr>"
    unfolding s' abstract_store_def using i(1) by (simp add: fun_eq_iff)
  then show "\<exists>stamped. ap_CpakId stamped = ap_CpakId app \<and> ap_Origin stamped = ap_Origin app \<and> ap_InstallTimestamp stamped \<noteq> None \<and>
        abstract_store s' = (abstract_store s)\<lparr>ks_apps := (ks_apps (abstract_store s))(ap_CpakId app \<mapsto> stamped)\<rparr>"
    using i by blast
next
  fix i pid started cgroup s' assume "SetContainerRuntime i pid started cgroup s = Inr s'"
  then obtain c where c: "get_keyed cn_CpakId (st_Containers s) i = Some c"
      "s' = s\<lparr>st_Containers := put_keyed cn_CpakId (c\<lparr>cn_Pid := pid, cn_ProcessStartTime := started, cn_CgroupPath := cgroup\<rparr>) (st_Containers s)\<rparr>"
    by (auto simp: SetContainerRuntime_def split: option.splits)
  show "stored_well s'" unfolding c(2) using assms by (simp add: stored_well_def put_keyed_distinct)
  have "cn_CpakId c = i" using get_keyed_Some [OF c(1)] by simp
  then show "\<exists>container. ks_containers (abstract_store s) i = Some container \<and>
        abstract_store s' = (abstract_store s)\<lparr>ks_containers := (ks_containers (abstract_store s))(i \<mapsto>
          container\<lparr>cn_Pid := pid, cn_ProcessStartTime := started, cn_CgroupPath := cgroup\<rparr>)\<rparr>"
    using c by (simp add: abstract_store_def fun_eq_iff)
next
  fix origin branch :: string assume b: "branch \<noteq> []"
  let ?P = "\<lambda>app. ap_Origin app = origin \<and> ap_Branch app = branch" and ?s = "RemoveApplicationByOriginAndBranch origin branch s"
  have "GetApplicationsByOrigin (st_Apps s) origin [] branch [] [] = filter ?P (st_Apps s)"
    using b by (auto simp: GetApplicationsByOrigin_def intro: filter_cong)
  then have apps: "st_Apps ?s = filter (\<lambda>a. \<not> ?P a) (st_Apps s)" and same: "st_Containers ?s = st_Containers s"
    using remove_each_filter [of s ?P] remove_each_apps assms by (simp_all add: RemoveApplicationByOriginAndBranch_def stored_well_def)
  have "get_keyed ap_CpakId (st_Apps ?s) i = (case get_keyed ap_CpakId (st_Apps s) i of None \<Rightarrow> None
        | Some app \<Rightarrow> if ?P app then None else Some app)" for i
    unfolding apps using assms get_filter_keyed [of ap_CpakId "st_Apps s" ?P i] unfolding stored_well_def by blast
  moreover have "stored_well ?s" using assms by (simp add: stored_well_def apps same distinct_map_filter)
  ultimately show "let s' = ?s in stored_well s' \<and>
      abstract_store s' = (abstract_store s)\<lparr>ks_apps := (\<lambda>i. case ks_apps (abstract_store s) i of None \<Rightarrow> None
        | Some app \<Rightarrow> if ?P app then None else Some app)\<rparr>"
    by (simp add: abstract_store_def same fun_eq_iff)
qed

end
