(* ===== verification/Confinement.thy ===== *)
theory Confinement
  imports Application_Store
begin

text \<open>
  \<^verbatim>\<open>pkg/cpak/nested_auth.go\<close>, \<^verbatim>\<open>nested_identity.go\<close> and the reading of the host ceiling in
  \<^verbatim>\<open>pkg/systemauthority/ceiling.go\<close>: who may run what from inside a container, and the policy a
  launch runs under once its parent, the package that pulled it in and the host ceiling have
  had their say.  \<open>home\<close> is the answer of \<^verbatim>\<open>os.UserHomeDir\<close>; \<open>LoadOverride\<close> is the reading of an
  override file; the installed applications are a list in the order the store returns them.
\<close>

section \<open>Data\<close>

record RequestParams =
  rq_Token :: string
  rq_Origin :: string
  rq_Branch :: string
  rq_Commit :: string
  rq_Release :: string
  rq_Binary :: string

record Ceiling =
  cl_Present :: bool
  cl_Policy :: Override
  cl_Named :: "string set option"

record launchPolicy =
  enrolled :: Override
  effective :: Override

record authorizedNestedRun =
  nr_parent :: Application
  nr_child :: Application
  nr_policy :: launchPolicy
  nr_binary :: string

datatype nested_error =
  Unknown_caller
| Not_declared string string
| Ambiguous_dependency string
| Dependency_not_installed
| Dependency_mismatch
| Binary_not_exported string string
| Nested_store store_error

record host =
  hs_home :: "string option"
  hs_ceiling :: Ceiling
  hs_LoadOverride :: "string \<Rightarrow> string \<Rightarrow> Override option"
  hs_applications :: "Application list"
  hs_containers :: "Container list"

section \<open>Intersection\<close>

definition intersectFilePicker :: "FilePickerGrant \<Rightarrow> FilePickerGrant \<Rightarrow> FilePickerGrant" where
  "intersectFilePicker parent child =
     \<lparr>OpenFile = OpenFile parent \<and> OpenFile child, OpenFolder = OpenFolder parent \<and> OpenFolder child,
      SaveFile = SaveFile parent \<and> SaveFile child, Persistent = Persistent parent \<and> Persistent child,
      ContainingFolder = ContainingFolder parent \<and> ContainingFolder child\<rparr>"

definition filesystemContains :: "string option \<Rightarrow> string \<Rightarrow> string \<Rightarrow> bool" where
  "filesystemContains home parent child =
     (if parent = ''host'' then True
      else if child = ''host'' then False
      else if parent = ''home'' \<and> child = ''home'' then True
      else if (parent = ''home'' \<or> child = ''home'') \<and> home = None then False
      else let parent = (if parent = ''home'' then the home else parent);
               child = (if child = ''home'' then the home else child)
           in parent = child \<or> HasPrefix child (parent @ ''/''))"

text \<open>The inner loop of \<^verbatim>\<open>intersectFilesystem\<close>; the empty string is no access.\<close>

definition access_step :: "string option \<Rightarrow> FilesystemPermission \<Rightarrow> string \<Rightarrow> FilesystemPermission \<Rightarrow> string" where
  "access_step home requested access granted =
     (if \<not> filesystemContains home (fp_Path granted) (fp_Path requested) then access
      else let candidate = (if fp_Access granted = read_only \<or> fp_Access requested = read_only
                            then read_only else fp_Access requested)
           in if access = [] \<or> candidate = read_only then candidate else access)"

definition access_for :: "string option \<Rightarrow> FilesystemPermission list \<Rightarrow> FilesystemPermission \<Rightarrow> string" where
  "access_for home parent requested = foldl (access_step home requested) [] parent"

definition put :: "string \<Rightarrow> string \<Rightarrow> (string \<times> string) list \<Rightarrow> (string \<times> string) list" where
  "put k v m = (k, v) # filter (\<lambda>(k', _). k' \<noteq> k) m"

definition intersect_step ::
  "string option \<Rightarrow> FilesystemPermission list \<Rightarrow> (string \<times> string) list \<Rightarrow> FilesystemPermission \<Rightarrow> (string \<times> string) list" where
  "intersect_step home parent permissions requested =
     (let access = access_for home parent requested in
      if access \<noteq> [] then put (fp_Path requested) access permissions else permissions)"

definition intersectFilesystem ::
  "string option \<Rightarrow> FilesystemPermission list \<Rightarrow> FilesystemPermission list \<Rightarrow> FilesystemPermission list" where
  "intersectFilesystem home parent child =
     (let permissions = foldl (intersect_step home parent) [] child
      in map (\<lambda>path. \<lparr>fp_Path = path, fp_Access = the (map_of permissions path)\<rparr>) (sort (map fst permissions)))"

definition minimumLimit :: "int \<Rightarrow> int \<Rightarrow> int" where
  "minimumLimit parent child =
     (if parent = 0 then child else if child = 0 \<or> parent < child then parent else child)"

definition intersectStrings :: "string list \<Rightarrow> string list \<Rightarrow> string list" where
  "intersectStrings parent child = filter (\<lambda>v. v \<in> set parent) child"

definition intersectOverrides :: "string option \<Rightarrow> Override \<Rightarrow> Override \<Rightarrow> Override" where
  "intersectOverrides home parent child =
     \<lparr>SocketX11 = SocketX11 parent \<and> SocketX11 child,
      DisplayX11 = DisplayX11 parent \<and> DisplayX11 child,
      SocketWayland = SocketWayland parent \<and> SocketWayland child,
      SocketPulseAudio = SocketPulseAudio parent \<and> SocketPulseAudio child,
      SocketSessionBus = SocketSessionBus parent \<and> SocketSessionBus child,
      SocketSystemBus = SocketSystemBus parent \<and> SocketSystemBus child,
      SocketSshAgent = SocketSshAgent parent \<and> SocketSshAgent child,
      SocketCups = SocketCups parent \<and> SocketCups child,
      SocketGpgAgent = SocketGpgAgent parent \<and> SocketGpgAgent child,
      SocketAtSpiBus = SocketAtSpiBus parent \<and> SocketAtSpiBus child,
      SocketBluetooth = SocketBluetooth parent \<and> SocketBluetooth child,
      Bluetooth = Bluetooth parent \<and> Bluetooth child,
      DeviceDri = DeviceDri parent \<and> DeviceDri child,
      DeviceKvm = DeviceKvm parent \<and> DeviceKvm child,
      DeviceShm = DeviceShm parent \<and> DeviceShm child,
      DeviceAlsa = DeviceAlsa parent \<and> DeviceAlsa child,
      DeviceVideo = DeviceVideo parent \<and> DeviceVideo child,
      DeviceFuse = DeviceFuse parent \<and> DeviceFuse child,
      DeviceTun = DeviceTun parent \<and> DeviceTun child,
      DeviceUsb = DeviceUsb parent \<and> DeviceUsb child,
      DeviceSerial = DeviceSerial parent \<and> DeviceSerial child,
      DeviceInput = DeviceInput parent \<and> DeviceInput child,
      DeviceTTY = DeviceTTY parent \<and> DeviceTTY child,
      DeviceAll = DeviceAll parent \<and> DeviceAll child,
      Notification = Notification parent \<and> Notification child,
      OpenURI = OpenURI parent \<and> OpenURI child,
      HostApplications = HostApplications parent \<and> HostApplications child,
      HostActions = IntersectHostActions (HostActions parent) (HostActions child),
      FilePicker = intersectFilePicker (FilePicker parent) (FilePicker child),
      SessionBus = IntersectDBusPolicies (SessionBus parent) (SessionBus child),
      Filesystem = intersectFilesystem home (Filesystem parent) (Filesystem child),
      FsHost = FsHost parent \<and> FsHost child,
      FsHostEtc = FsHostEtc parent \<and> FsHostEtc child,
      FsHostHome = FsHostHome parent \<and> FsHostHome child,
      FsExtra = intersectStrings (FsExtra parent) (FsExtra child),
      Env = intersectStrings (Env parent) (Env child),
      Network = Network parent \<and> Network child,
      Process = Process parent \<and> Process child,
      UserNamespaces = UserNamespaces parent \<and> UserNamespaces child,
      MemoryMaxMB = minimumLimit (MemoryMaxMB parent) (MemoryMaxMB child),
      CPUQuota = minimumLimit (CPUQuota parent) (CPUQuota child),
      PidsMax = minimumLimit (PidsMax parent) (PidsMax child),
      AsRoot = AsRoot parent \<and> AsRoot child,
      AllowedHostCommands = []\<rparr>"

section \<open>The host ceiling\<close>

definition permissionAliases :: "(string list \<times> string list) list" where
  "permissionAliases =
     [([''deviceDri'', ''deviceKvm'', ''deviceShm'', ''deviceAlsa'', ''deviceVideo'', ''deviceFuse'',
        ''deviceTun'', ''deviceUsb'', ''deviceSerial'', ''deviceInput'', ''deviceTTY''], [''deviceAll'']),
      ([''filesystem''], [''fsHost'', ''fsHostEtc'', ''fsHostHome'', ''fsExtra'']),
      ([''socketSystemBus'', ''socketBluetooth''], [''socketSystemBus'', ''socketBluetooth''])]"

definition withAliases :: "string set \<Rightarrow> string set" where
  "withAliases named = foldl (\<lambda>reached (whenAnyOf, alsoHold).
     if list_ex (\<lambda>trigger. trigger \<in> named) whenAnyOf then reached \<union> set alsoHold else reached)
     named permissionAliases"

text \<open>\<^verbatim>\<open>heldToNamed\<close> copies the named fields of the restricted policy over the requested one.\<close>

definition heldToNamed :: "Override \<Rightarrow> Override \<Rightarrow> string set option \<Rightarrow> Override" where
  "heldToNamed requested restricted named =
     (case named of None \<Rightarrow> restricted
      | Some keys \<Rightarrow>
          let n = withAliases keys; q = requested; r = restricted in
     \<lparr>SocketX11 = (if ''socketX11'' \<in> n then SocketX11 r else SocketX11 q),
      DisplayX11 = (if ''displayX11'' \<in> n then DisplayX11 r else DisplayX11 q),
      SocketWayland = (if ''socketWayland'' \<in> n then SocketWayland r else SocketWayland q),
      SocketPulseAudio = (if ''socketPulseAudio'' \<in> n then SocketPulseAudio r else SocketPulseAudio q),
      SocketSessionBus = (if ''socketSessionBus'' \<in> n then SocketSessionBus r else SocketSessionBus q),
      SocketSystemBus = (if ''socketSystemBus'' \<in> n then SocketSystemBus r else SocketSystemBus q),
      SocketSshAgent = (if ''socketSshAgent'' \<in> n then SocketSshAgent r else SocketSshAgent q),
      SocketCups = (if ''socketCups'' \<in> n then SocketCups r else SocketCups q),
      SocketGpgAgent = (if ''socketGpgAgent'' \<in> n then SocketGpgAgent r else SocketGpgAgent q),
      SocketAtSpiBus = (if ''socketAtSpiBus'' \<in> n then SocketAtSpiBus r else SocketAtSpiBus q),
      SocketBluetooth = (if ''socketBluetooth'' \<in> n then SocketBluetooth r else SocketBluetooth q),
      Bluetooth = (if ''bluetooth'' \<in> n then Bluetooth r else Bluetooth q),
      DeviceDri = (if ''deviceDri'' \<in> n then DeviceDri r else DeviceDri q),
      DeviceKvm = (if ''deviceKvm'' \<in> n then DeviceKvm r else DeviceKvm q),
      DeviceShm = (if ''deviceShm'' \<in> n then DeviceShm r else DeviceShm q),
      DeviceAlsa = (if ''deviceAlsa'' \<in> n then DeviceAlsa r else DeviceAlsa q),
      DeviceVideo = (if ''deviceVideo'' \<in> n then DeviceVideo r else DeviceVideo q),
      DeviceFuse = (if ''deviceFuse'' \<in> n then DeviceFuse r else DeviceFuse q),
      DeviceTun = (if ''deviceTun'' \<in> n then DeviceTun r else DeviceTun q),
      DeviceUsb = (if ''deviceUsb'' \<in> n then DeviceUsb r else DeviceUsb q),
      DeviceSerial = (if ''deviceSerial'' \<in> n then DeviceSerial r else DeviceSerial q),
      DeviceInput = (if ''deviceInput'' \<in> n then DeviceInput r else DeviceInput q),
      DeviceTTY = (if ''deviceTTY'' \<in> n then DeviceTTY r else DeviceTTY q),
      DeviceAll = (if ''deviceAll'' \<in> n then DeviceAll r else DeviceAll q),
      Notification = (if ''notification'' \<in> n then Notification r else Notification q),
      OpenURI = (if ''openURI'' \<in> n then OpenURI r else OpenURI q),
      HostApplications = (if ''hostApplications'' \<in> n then HostApplications r else HostApplications q),
      HostActions = (if ''hostActions'' \<in> n then HostActions r else HostActions q),
      FilePicker = (if ''filePicker'' \<in> n then FilePicker r else FilePicker q),
      SessionBus = (if ''sessionBus'' \<in> n then SessionBus r else SessionBus q),
      Filesystem = (if ''filesystem'' \<in> n then Filesystem r else Filesystem q),
      FsHost = (if ''fsHost'' \<in> n then FsHost r else FsHost q),
      FsHostEtc = (if ''fsHostEtc'' \<in> n then FsHostEtc r else FsHostEtc q),
      FsHostHome = (if ''fsHostHome'' \<in> n then FsHostHome r else FsHostHome q),
      FsExtra = (if ''fsExtra'' \<in> n then FsExtra r else FsExtra q),
      Env = (if ''env'' \<in> n then Env r else Env q),
      Network = (if ''network'' \<in> n then Network r else Network q),
      Process = (if ''process'' \<in> n then Process r else Process q),
      UserNamespaces = (if ''userNamespaces'' \<in> n then UserNamespaces r else UserNamespaces q),
      MemoryMaxMB = (if ''memoryMaxMB'' \<in> n then MemoryMaxMB r else MemoryMaxMB q),
      CPUQuota = (if ''cpuQuota'' \<in> n then CPUQuota r else CPUQuota q),
      PidsMax = (if ''pidsMax'' \<in> n then PidsMax r else PidsMax q),
      AsRoot = (if ''asRoot'' \<in> n then AsRoot r else AsRoot q),
      AllowedHostCommands = (if ''allowedHostCommands'' \<in> n then AllowedHostCommands r else AllowedHostCommands q)\<rparr>)"

definition underHostCeiling :: "host \<Rightarrow> Override \<Rightarrow> Override" where
  "underHostCeiling h requested =
     (let ceiling = hs_ceiling h in
      if \<not> cl_Present ceiling then requested
      else heldToNamed requested (intersectOverrides (hs_home h) (cl_Policy ceiling) requested) (cl_Named ceiling))"

definition requestedOverride :: "host \<Rightarrow> Application \<Rightarrow> Override" where
  "requestedOverride h app =
     (case hs_LoadOverride h (ap_Origin app) (ap_Version app) of
        None \<Rightarrow> ap_ParsedOverride app | Some userOverride \<Rightarrow> userOverride)"

definition resolvedOverride :: "host \<Rightarrow> Application \<Rightarrow> Override" where
  "resolvedOverride h app = underHostCeiling h (requestedOverride h app)"

section \<open>Launch policies\<close>

definition asLaunched :: "Override \<Rightarrow> launchPolicy" where
  "asLaunched override = \<lparr>enrolled = override, effective = override\<rparr>"

definition narrowedTo :: "string option \<Rightarrow> Override \<Rightarrow> Override \<Rightarrow> launchPolicy" where
  "narrowedTo home enr ceiling = \<lparr>enrolled = enr, effective = intersectOverrides home ceiling enr\<rparr>"

definition declaresDependency :: "Application \<Rightarrow> Application \<Rightarrow> bool" where
  "declaresDependency parent app =
     list_ex (\<lambda>d. dp_Id d = ap_CpakId app \<and> dp_Origin d = ap_Origin app) (ap_ParsedDependencies parent)"

definition boundsTheLaunchOf :: "Application \<Rightarrow> Application \<Rightarrow> bool" where
  "boundsTheLaunchOf parent app =
     (if \<not> declaresDependency parent app then False
      else ap_PulledInBy app = [] \<or> ap_Origin parent = ap_PulledInBy app)"

definition standaloneLaunchPolicy :: "host \<Rightarrow> Application \<Rightarrow> launchPolicy" where
  "standaloneLaunchPolicy h app =
     (let policy = asLaunched (resolvedOverride h app) in
      if \<not> ap_PulledIn app then policy
      else foldl (\<lambda>policy parent.
             if ap_CpakId parent = ap_CpakId app \<or> \<not> boundsTheLaunchOf parent app then policy
             else policy\<lparr>effective := intersectOverrides (hs_home h) (resolvedOverride h parent) (effective policy)\<rparr>)
           policy (hs_applications h))"

section \<open>Nested runs\<close>

definition is_hex :: "char \<Rightarrow> bool" where
  "is_hex c = in_cls [(CHR ''0'', CHR ''9''), (CHR ''a'', CHR ''f''), (CHR ''A'', CHR ''F'')] c"

definition validNestedToken :: "string \<Rightarrow> bool" where
  "validNestedToken token \<longleftrightarrow> length token = 64 \<and> list_all is_hex token"

fun token_holder :: "Container list \<Rightarrow> string \<Rightarrow> Application list \<Rightarrow> nested_error + Application" where
  "token_holder containers token [] = Inl Unknown_caller"
| "token_holder containers token (app # apps) =
     (case GetApplicationContainers containers app of
        Inl e \<Rightarrow> Inl (Nested_store e)
      | Inr owned \<Rightarrow>
          if list_ex (\<lambda>c. cn_NestedToken c \<noteq> [] \<and> cn_NestedToken c = token) owned then Inr app
          else token_holder containers token apps)"

definition parentForNestedToken :: "host \<Rightarrow> string \<Rightarrow> nested_error + Application" where
  "parentForNestedToken h token =
     (if \<not> validNestedToken token then Inl Unknown_caller
      else token_holder (hs_containers h) token (hs_applications h))"

definition declaredDependency :: "Application \<Rightarrow> RequestParams \<Rightarrow> nested_error + Dependency" where
  "declaredDependency parent params =
     (case filter (\<lambda>d. IsNested d \<and> dp_Origin d = rq_Origin params \<and>
               (rq_Branch params = [] \<or> dp_Branch d = rq_Branch params) \<and>
               (rq_Commit params = [] \<or> dp_Commit d = rq_Commit params) \<and>
               (rq_Release params = [] \<or> dp_Release d = rq_Release params)) (ap_ParsedDependencies parent) of
        [] \<Rightarrow> Inl (Not_declared (rq_Origin params) (ap_Name parent))
      | [d] \<Rightarrow> Inr d
      | _ \<Rightarrow> Inl (Ambiguous_dependency (rq_Origin params)))"

definition exportedNestedBinary :: "Application \<Rightarrow> string \<Rightarrow> nested_error + string" where
  "exportedNestedBinary app requested =
     (let requested = TrimPrefix requested ''@'' in
      case List.find (\<lambda>binary. requested = binary \<or> Base requested = Base binary) (ap_ParsedBinaries app) of
        None \<Rightarrow> Inl (Binary_not_exported requested (ap_Name app)) | Some binary \<Rightarrow> Inr binary)"

definition authorizeNestedRun :: "host \<Rightarrow> RequestParams \<Rightarrow> nested_error + authorizedNestedRun" where
  "authorizeNestedRun h params =
     bind_result (parentForNestedToken h (rq_Token params)) (\<lambda>parent.
     bind_result (declaredDependency parent params) (\<lambda>dependency.
       case List.find (\<lambda>app. ap_CpakId app = dp_Id dependency) (hs_applications h) of
         None \<Rightarrow> Inl Dependency_not_installed
       | Some child \<Rightarrow>
           if ap_Origin child \<noteq> dp_Origin dependency then Inl Dependency_mismatch
           else bind_result (exportedNestedBinary child (rq_Binary params)) (\<lambda>binary.
             Inr \<lparr>nr_parent = parent, nr_child = child,
                  nr_policy = narrowedTo (hs_home h) (resolvedOverride h child) (resolvedOverride h parent),
                  nr_binary = binary\<rparr>)))"

section \<open>Staying within a policy\<close>

text \<open>
  \<open>within home current candidate\<close>: what a container built from \<open>candidate\<close> reaches,
  \<open>current\<close> reaches too.  A mount is read-only exactly when the access says so
  (\<^verbatim>\<open>pkg/cpak/container.go\<close>); where a home scope lies is decided by the home directory, so this
  is the order a launch is confined by, while \<^const>\<open>Restricts\<close> is the literal one the ledger
  compares by.
\<close>

definition fs_within :: "string option \<Rightarrow> FilesystemPermission list \<Rightarrow> FilesystemPermission list \<Rightarrow> bool" where
  "fs_within home current candidate \<longleftrightarrow>
     (\<forall>w\<in>set candidate. \<exists>g\<in>set current. filesystemContains home (fp_Path g) (fp_Path w) \<and>
        (fp_Access g = read_only \<longrightarrow> fp_Access w = read_only))"

definition within :: "string option \<Rightarrow> Override \<Rightarrow> Override \<Rightarrow> bool" where
  "within home current candidate \<longleftrightarrow>
     list_all2 (\<longrightarrow>) (policy_flags candidate) (policy_flags current) \<and>
     list_all2 (\<lambda>wanted held. limit_covers held wanted) (policy_limits candidate) (policy_limits current) \<and>
     list_all2 (\<longrightarrow>) [FsHost candidate, FsHostEtc candidate, FsHostHome candidate]
       [FsHost current, FsHostEtc current, FsHostHome current] \<and>
     actionsCovered (HostActions current) (HostActions candidate) \<and>
     DBusPolicyRestricts (SessionBus current) (SessionBus candidate) \<and>
     fs_within home (Filesystem current) (Filesystem candidate) \<and>
     set (FsExtra candidate) \<subseteq> set (FsExtra current) \<and> set (Env candidate) \<subseteq> set (Env current) \<and>
     set (AllowedHostCommands candidate) \<subseteq> set (AllowedHostCommands current)"

lemma filesystemContains_refl: "filesystemContains home p p"
  by (simp add: filesystemContains_def)

lemma dir_prefix_trans: "prefix (a @ ''/'') b \<Longrightarrow> prefix (b @ ''/'') c \<Longrightarrow> prefix (a @ ''/'') c"
  by (metis prefixI prefix_order.order_trans)

lemma filesystemContains_trans:
  assumes "filesystemContains home a b" "filesystemContains home b c"
  shows "filesystemContains home a c"
proof (cases home)
  case None
  with assms show ?thesis
    by (auto simp: filesystemContains_def Let_def dest: dir_prefix_trans split: if_splits)
next
  case (Some h)
  define e where "e p = (if p = ''home'' then h else p)" for p
  have contains: "filesystemContains home p q \<longleftrightarrow>
      p = ''host'' \<or> (q \<noteq> ''host'' \<and> (e p = e q \<or> HasPrefix (e q) (e p @ ''/'')))" for p q
    by (auto simp: filesystemContains_def Some e_def Let_def)
  show ?thesis using assms unfolding contains by (auto dest: dir_prefix_trans)
qed

lemma fs_within_refl: "fs_within home p p"
  unfolding fs_within_def using filesystemContains_refl by blast

lemma fs_within_trans: "fs_within home p q \<Longrightarrow> fs_within home q r \<Longrightarrow> fs_within home p r"
  unfolding fs_within_def by (meson filesystemContains_trans)

lemma within_refl: "within home p p"
  by (simp add: within_def list.rel_refl limit_covers_iff actions.restricts_refl dbus.restricts_refl fs_within_refl)

lemma within_trans: "within home p q \<Longrightarrow> within home q r \<Longrightarrow> within home p r"
  unfolding within_def
  by (elim conjE, intro conjI)
    (assumption | rule subset_trans flags_trans limits_trans actionsCovered_trans dbus.restricts_trans fs_within_trans, assumption+)+

section \<open>The intersection is a lower bound\<close>

lemma access_for_sound:
  assumes "access_for home parent r \<noteq> []"
  shows "(\<exists>g\<in>set parent. filesystemContains home (fp_Path g) (fp_Path r) \<and>
            (fp_Access g = read_only \<longrightarrow> access_for home parent r = read_only)) \<and>
         (fp_Access r = read_only \<longrightarrow> access_for home parent r = read_only)"
  using assms unfolding access_for_def
proof (induction parent rule: rev_induct)
  case (snoc g gs)
  then show ?case
    by (auto simp: access_step_def Let_def split: if_splits)
qed simp

lemma put_member: "(k, v) \<in> set (put k' v' m) \<longleftrightarrow> k = k' \<and> v = v' \<or> k \<noteq> k' \<and> (k, v) \<in> set m"
  by (auto simp: put_def)

lemma put_distinct: "distinct (map fst m) \<Longrightarrow> distinct (map fst (put k v m))"
  by (auto simp: put_def distinct_map inj_on_def)

lemma intersect_step_member:
  "(k, v) \<in> set (intersect_step home parent m r) \<Longrightarrow>
     (k, v) \<in> set m \<or> k = fp_Path r \<and> v = access_for home parent r \<and> v \<noteq> []"
  by (auto simp: intersect_step_def Let_def put_member split: if_splits)

lemma intersect_fold_member:
  "(k, v) \<in> set (foldl (intersect_step home parent) m rs) \<Longrightarrow>
     (k, v) \<in> set m \<or> (\<exists>r\<in>set rs. k = fp_Path r \<and> v = access_for home parent r \<and> v \<noteq> [])"
proof (induction rs arbitrary: m)
  case (Cons r rs)
  then show ?case using intersect_step_member [of k v home parent m r] by auto
qed simp

lemma intersect_fold_distinct:
  "distinct (map fst m) \<Longrightarrow> distinct (map fst (foldl (intersect_step home parent) m rs))"
proof (induction rs arbitrary: m)
  case (Cons r rs)
  then show ?case by (simp add: intersect_step_def Let_def put_distinct)
qed simp

lemma intersectFilesystem_member:
  assumes "w \<in> set (intersectFilesystem home parent child)"
  obtains r where "r \<in> set child" "fp_Path w = fp_Path r" "fp_Access w = access_for home parent r"
    "access_for home parent r \<noteq> []"
proof -
  define table where "table = foldl (intersect_step home parent) [] child"
  from assms obtain k where k: "k \<in> fst ` set table" "w = \<lparr>fp_Path = k, fp_Access = the (map_of table k)\<rparr>"
    by (auto simp: intersectFilesystem_def table_def Let_def)
  then obtain v where v: "(k, v) \<in> set table" by auto
  moreover have "map_of table k = Some v"
    using v intersect_fold_distinct [of "[]"] by (simp add: table_def)
  ultimately show ?thesis
    using k(2) intersect_fold_member [of k v home parent "[]" child] that by (auto simp: table_def)
qed

lemma intersectFilesystem_lower:
  "fs_within home parent (intersectFilesystem home parent child)"
  "fs_within home child (intersectFilesystem home parent child)"
proof -
  have "(\<exists>g\<in>set parent. filesystemContains home (fp_Path g) (fp_Path w) \<and>
           (fp_Access g = read_only \<longrightarrow> fp_Access w = read_only)) \<and>
        (\<exists>g\<in>set child. filesystemContains home (fp_Path g) (fp_Path w) \<and>
           (fp_Access g = read_only \<longrightarrow> fp_Access w = read_only))"
    if member: "w \<in> set (intersectFilesystem home parent child)" for w
  proof -
    from member obtain r where r: "r \<in> set child" "fp_Path w = fp_Path r"
      "fp_Access w = access_for home parent r" "access_for home parent r \<noteq> []"
      by (rule intersectFilesystem_member)
    with access_for_sound [OF r(4)] filesystemContains_refl [of home "fp_Path r"] show ?thesis by metis
  qed
  then show "fs_within home parent (intersectFilesystem home parent child)"
    "fs_within home child (intersectFilesystem home parent child)" by (auto simp: fs_within_def)
qed

lemma minimumLimit_lower: "limit_covers p (minimumLimit p c)" "limit_covers c (minimumLimit p c)"
  by (auto simp: limit_covers_iff minimumLimit_def)

lemma intersectOverrides_parent: "within home parent (intersectOverrides home parent child)"
  by (simp add: within_def intersectOverrides_def policy_flags_def policy_limits_def intersectFilePicker_def
      minimumLimit_lower intersectFilesystem_lower Intersect_actions_parent dbus.meet_left intersectStrings_def
      le_fun_def subset_iff)

lemma intersectOverrides_child: "within home child (intersectOverrides home parent child)"
  by (simp add: within_def intersectOverrides_def policy_flags_def policy_limits_def intersectFilePicker_def
      minimumLimit_lower intersectFilesystem_lower Intersect_actions_child dbus.meet_right intersectStrings_def
      le_fun_def subset_iff)

interpretation confined: restriction_lower "within home" "intersectOverrides home" for home
  by unfold_locales (auto intro: within_refl within_trans intersectOverrides_parent intersectOverrides_child)

section \<open>What a launch runs under\<close>

lemma heldToNamed_values:
  "policy_values (heldToNamed q r (Some keys)) =
     map (\<lambda>(k, vq, vr). if k \<in> withAliases keys then vr else vq)
       (zip policy_keys (zip (policy_values q) (policy_values r)))"
  by (simp add: policy_values_def policy_keys_def heldToNamed_def Let_def)

lemma within_mixture:
  assumes "within home q r"
  shows "within home q (heldToNamed q r named)"
proof (cases named)
  case None
  with assms show ?thesis by (simp add: heldToNamed_def)
next
  case (Some keys)
  note w = assms [unfolded within_def policy_flags_def policy_limits_def, simplified]
  show ?thesis
    using w unfolding Some within_def policy_flags_def policy_limits_def heldToNamed_def Let_def
    by (simp add: limit_covers_iff actions.restricts_refl dbus.restricts_refl fs_within_refl)
qed

lemma underHostCeiling_narrows: "within (hs_home h) q (underHostCeiling h q)"
  by (simp add: underHostCeiling_def Let_def within_refl within_mixture intersectOverrides_child)

lemma standalone_fold:
  "enrolled (foldl (\<lambda>policy parent.
       if ap_CpakId parent = ap_CpakId app \<or> \<not> boundsTheLaunchOf parent app then policy
       else policy\<lparr>effective := intersectOverrides (hs_home h) (resolvedOverride h parent) (effective policy)\<rparr>) pol apps) =
     enrolled pol \<and>
   effective (foldl (\<lambda>policy parent.
       if ap_CpakId parent = ap_CpakId app \<or> \<not> boundsTheLaunchOf parent app then policy
       else policy\<lparr>effective := intersectOverrides (hs_home h) (resolvedOverride h parent) (effective policy)\<rparr>) pol apps) =
     fold (intersectOverrides (hs_home h))
       (map (resolvedOverride h) (filter (\<lambda>parent. ap_CpakId parent \<noteq> ap_CpakId app \<and> boundsTheLaunchOf parent app) apps))
       (effective pol)"
  by (induction apps arbitrary: pol) auto

section \<open>Properties\<close>

lemma token_holder_Inr:
  "token_holder containers token apps = Inr app \<Longrightarrow>
   app \<in> set apps \<and> (\<exists>c\<in>set containers. cn_ApplicationCpakId c = ap_CpakId app \<and> cn_NestedToken c = token)"
  by (induction containers token apps rule: token_holder.induct)
    (auto simp: GetApplicationContainers_def list_ex_iff split: if_splits)

text \<open>C5: A nested run is confined twice over.  When a request is authorized, the caller is the
  installed application one of whose containers holds the presented token, the child is an installed application
  it declared as a nested dependency, the binary is one the child exports, the gate is shown
  the child's own policy, and the container is built from a policy within both the child's
  and the parent's.\<close>

theorem nested_run_is_confined:
  assumes "authorizeNestedRun h params = Inr run"
  shows "nr_parent run \<in> set (hs_applications h) \<and>
    (\<exists>c\<in>set (hs_containers h). cn_ApplicationCpakId c = ap_CpakId (nr_parent run) \<and> cn_NestedToken c = rq_Token params) \<and>
    nr_child run \<in> set (hs_applications h) \<and>
    (\<exists>d\<in>set (ap_ParsedDependencies (nr_parent run)). IsNested d \<and> dp_Origin d = rq_Origin params \<and>
       dp_Id d = ap_CpakId (nr_child run) \<and> dp_Origin d = ap_Origin (nr_child run)) \<and>
    nr_binary run \<in> set (ap_ParsedBinaries (nr_child run)) \<and>
    enrolled (nr_policy run) = resolvedOverride h (nr_child run) \<and>
    within (hs_home h) (resolvedOverride h (nr_child run)) (effective (nr_policy run)) \<and>
    within (hs_home h) (resolvedOverride h (nr_parent run)) (effective (nr_policy run))"
proof -
  obtain parent d child binary where
    parent: "parentForNestedToken h (rq_Token params) = Inr parent"
    and d: "declaredDependency parent params = Inr d"
    and child: "List.find (\<lambda>app. ap_CpakId app = dp_Id d) (hs_applications h) = Some child" "ap_Origin child = dp_Origin d"
    and binary: "exportedNestedBinary child (rq_Binary params) = Inr binary"
    and run: "run = \<lparr>nr_parent = parent, nr_child = child,
      nr_policy = narrowedTo (hs_home h) (resolvedOverride h child) (resolvedOverride h parent), nr_binary = binary\<rparr>"
    using assms by (auto simp: authorizeNestedRun_def bind_result_Inr split: option.splits if_splits)
  have "parent \<in> set (hs_applications h)"
      "\<exists>c\<in>set (hs_containers h). cn_ApplicationCpakId c = ap_CpakId parent \<and> cn_NestedToken c = rq_Token params"
    using parent token_holder_Inr by (auto simp: parentForNestedToken_def split: if_splits)
  moreover have "d \<in> set (ap_ParsedDependencies parent) \<and> IsNested d \<and> dp_Origin d = rq_Origin params"
  proof -
    let ?ds = "filter (\<lambda>d. IsNested d \<and> dp_Origin d = rq_Origin params \<and>
      (rq_Branch params = [] \<or> dp_Branch d = rq_Branch params) \<and> (rq_Commit params = [] \<or> dp_Commit d = rq_Commit params) \<and>
      (rq_Release params = [] \<or> dp_Release d = rq_Release params)) (ap_ParsedDependencies parent)"
    from d have "?ds = [d]" by (auto simp: declaredDependency_def split: list.splits)
    then have "d \<in> set ?ds" by simp
    then show ?thesis by simp
  qed
  moreover have "child \<in> set (hs_applications h)" "ap_CpakId child = dp_Id d"
    using child(1) by (auto simp: find_Some_iff)
  moreover have "binary \<in> set (ap_ParsedBinaries child)"
    using binary by (auto simp: exportedNestedBinary_def find_Some_iff Let_def split: option.splits)
  ultimately show ?thesis
    using child(2) by (auto simp: run narrowedTo_def intersectOverrides_parent intersectOverrides_child)
qed

text \<open>C10: A package the user never named is held to every package that brought it here: its
  policy at a standalone launch is within its own and within the policy of each installed
  package that bounds it, while the policy the gate recognises it by is left alone.\<close>

theorem pulled_in_launch_is_bounded:
  assumes "ap_PulledIn app"
  shows "enrolled (standaloneLaunchPolicy h app) = resolvedOverride h app \<and>
    within (hs_home h) (resolvedOverride h app) (effective (standaloneLaunchPolicy h app)) \<and>
    (\<forall>parent\<in>set (hs_applications h). ap_CpakId parent \<noteq> ap_CpakId app \<longrightarrow> boundsTheLaunchOf parent app \<longrightarrow>
       within (hs_home h) (resolvedOverride h parent) (effective (standaloneLaunchPolicy h app)))"
proof -
  let ?cs = "map (resolvedOverride h)
    (filter (\<lambda>parent. ap_CpakId parent \<noteq> ap_CpakId app \<and> boundsTheLaunchOf parent app) (hs_applications h))"
  have eff: "effective (standaloneLaunchPolicy h app) = fold (intersectOverrides (hs_home h)) ?cs (resolvedOverride h app)"
    "enrolled (standaloneLaunchPolicy h app) = resolvedOverride h app"
    using assms by (simp_all add: standaloneLaunchPolicy_def standalone_fold asLaunched_def)
  show ?thesis
    using confined.fold_under_ceilings [of "hs_home h" "resolvedOverride h app" ?cs] unfolding eff by auto
qed


section \<open>The keys of a ceiling file\<close>

text \<open>
  \<^verbatim>\<open>encoding/json\<close> assigns a member to the field of that exact name, or else to one whose name
  differs from it in case only; \<^verbatim>\<open>DisallowUnknownFields\<close> refuses a member neither matches.
  \<^verbatim>\<open>parseCeiling\<close> then names the keys as they were written.
\<close>

definition field_of :: "string \<Rightarrow> string option" where
  "field_of key = (if key \<in> set policy_keys then Some key
     else List.find (\<lambda>f. foldASCII f = foldASCII key) policy_keys)"

definition parseCeiling_named :: "string list \<Rightarrow> string set option" where
  "parseCeiling_named written =
     (if list_all (\<lambda>key. field_of key \<noteq> None) written then Some (set written) else None)"

lemma ceiling_key_in_another_case_holds_nothing:
  "parseCeiling_named [''Network''] = Some {''Network''} \<and> field_of ''Network'' = Some ''network'' \<and>
   policy_values (heldToNamed q r (Some {''Network''})) = policy_values q"
proof -
  have "withAliases {''Network''} = {''Network''}"
    by (simp add: withAliases_def permissionAliases_def)
  then have "policy_values (heldToNamed q r (Some {''Network''})) = policy_values q"
    unfolding heldToNamed_values by (simp add: policy_keys_def policy_values_def)
  moreover have "parseCeiling_named [''Network''] = Some {''Network''}" "field_of ''Network'' = Some ''network''"
    by code_simp+
  ultimately show ?thesis by blast
qed

end
