(* ===== verification/Concrete_Instances.thy ===== *)
theory Concrete_Instances
  imports Anchor_Ledger Confinement
begin

text \<open>
  The properties of the other theories at concrete inputs: a host, a policy, a package and a
  ledger small enough to evaluate, at which the hypotheses hold.
\<close>

section \<open>Instances\<close>

definition hex64 :: string where "hex64 = replicate 64 (CHR ''a'')"

definition some_hashes :: hashes where
  "some_hashes = \<lparr>hx_policy = (\<lambda>_ _. hex64), hx_sha256 = (\<lambda>_. hex64)\<rparr>"

definition some_env :: authority_env where
  "some_env = \<lparr>ae_hashes = some_hashes, ae_verify = (\<lambda>_ _. Inl Unsupported_kind), ae_parse_url = (\<lambda>_. None),
     ae_approval = None, ae_lookup = (\<lambda>p _. UnavailableResult ''host'' p ''offline'')\<rparr>"

definition some_ledger :: ledger where
  "some_ledger = \<lparr>lg_Directory = ''/var/lib/cpak/anchors'', lg_trusted = True, lg_files = (\<lambda>_. Absent),
     lg_signatures = Absent, lg_trust = Absent, lg_confirmations = []\<rparr>"

definition some_enrolment :: "u64 \<Rightarrow> Enrolment" where
  "some_enrolment g =
     \<lparr>er_Anchor = \<lparr>an_ABI = 1, an_UID = 1000, an_Origin = ''github.com/acme/editor'', an_Generation = g, an_ImageDigest = [],
        an_ManifestDigest = [], an_PackageRoot = hex64, an_PolicyRoot = hex64, an_LaunchRoot = hex64, an_SessionRoots = []\<rparr>,
      er_Policy = Some NewOverride, er_PolicySchema = 4, er_Signature = None, er_Verification = None, er_Reputation = None,
      er_ReputationDecision = None, er_SignatureMode = [], er_ReputationMode = []\<rparr>"

definition enrolled_ledger :: ledger where
  "enrolled_ledger = snd (record_enrolment some_env some_ledger (some_enrolment 3) [] 0 None)"

definition removed_ledger :: ledger where
  "removed_ledger = projr (Forget some_env enrolled_ledger 1000 ''github.com/acme/editor'')"

lemma enrolled_here: "fst (record_enrolment some_env some_ledger (some_enrolment 3) [] 0 None) = None"
  by code_simp

lemma removed_here: "\<not> isl (Forget some_env enrolled_ledger 1000 ''github.com/acme/editor'')"
  by code_simp

lemma enrolled_again: "fst (record_enrolment some_env removed_ledger (some_enrolment 5) [] 0 None) = None"
  by code_simp

lemma refused_again: "fst (record_enrolment some_env removed_ledger (some_enrolment 2) [] 0 None) = Some (Anchor_downgrade 3 2)"
  by code_simp

definition some_revocation :: Revocation where
  "some_revocation = \<lparr>rv_Origin = ''GitHub.com/Acme/Editor'', rv_Generation = 0, rv_Reason = ''key lost''\<rparr>"

definition some_signer :: Signer where
  "some_signer = \<lparr>Issuer = [], Repo = ''github.com/acme/editor''\<rparr>"

definition managed :: Policy where
  "managed = empty_policy\<lparr>ABI := 1, ApprovedOrigins := [''github.com/acme/editor''], ApprovedSigners := [some_signer],
     Revoked := [some_revocation]\<rparr>"

definition some_publisher :: string where "some_publisher = ''x509-spki-sha256:'' @ hex64"

definition some_rule :: "string \<Rightarrow> ReputationPolicy" where
  "some_rule mode = \<lparr>rp_Mode = mode, rp_ProviderID = ''host'', rp_Exceptions =
     [\<lparr>ex_PublisherID = some_publisher, ex_Origins = [''github.com/acme/editor''], ex_Statuses = [Unknown],
       ex_ExpiresAt = [], ex_ReasonCode = ''reviewed''\<rparr>]\<rparr>"

definition rated :: "string \<Rightarrow> Policy" where
  "rated mode = empty_policy\<lparr>ABI := 2, X509 := Some \<lparr>x5_Revocation = ''require-good''\<rparr>, Reputation_of := Some (some_rule mode)\<rparr>"

definition some_result :: "Status \<Rightarrow> Result" where
  "some_result status = \<lparr>rr_ProviderID = ''host'', rr_PublisherID = some_publisher, rr_Status = status, rr_IssuedAt = 10,
     rr_ExpiresAt = 20, rr_Sequence = 1, rr_ReasonCode = ''listed''\<rparr>"

definition some_state :: State where
  "some_state = \<lparr>st_ABI = 1, st_Origin = ''github.com/acme/editor'', st_ManifestSHA256 = hex64,
     st_ImageDigest = ''sha256:'' @ hex64, st_LockSHA256 = hex64, st_Generation = 4\<rparr>"

definition some_identity :: Identity where
  "some_identity = \<lparr>id_Issuer = githubActionsIssuer, id_Subject = ''workflow'', id_Repo = ''github.com/Acme/Editor''\<rparr>"

definition some_host_env :: environment where
  "some_host_env = \<lparr>UserHomeDir = Some ''/home/ada'', XDG_CONFIG_HOME = [], ReadFile = (\<lambda>_. Inl File_missing), Unquote = (\<lambda>_. None)\<rparr>"

definition legacy_policy :: Override where
  "legacy_policy = NewOverride\<lparr>FsHostHome := True, FsExtra := [''/srv''],
     Filesystem := [\<lparr>fp_Path = ''/srv'', fp_Access = read_only\<rparr>]\<rparr>"

definition some_dependency :: Dependency where
  "some_dependency = \<lparr>dp_Id = ''b'', dp_Origin = ''github.com/acme/viewer'', dp_Branch = [], dp_Release = [], dp_Commit = [],
     dp_Mode = ''nested''\<rparr>"

definition some_token :: string where "some_token = hex64"

definition bare_container :: Container where
  "bare_container = \<lparr>cn_ID = 0, cn_CreatedAt = None, cn_UpdatedAt = None, cn_CpakId = [], cn_ApplicationCpakId
     = [], cn_Pid = 0, cn_ProcessStartTime = 0, cn_CreateTimestamp = None, cn_StatePath = [],
     cn_SystemBrokerSocketPath = [], cn_SystemBrokerTokenPath = [], cn_NestedToken = [], cn_SystemBrokerPolicyPath =
     [], cn_DesktopBusProxyPid = 0, cn_DesktopBusProxyStartTime = 0, cn_DesktopBusSocketPath = [],
     cn_BluetoothBusProxyPid = 0, cn_BluetoothBusProxyStartTime = 0, cn_BluetoothBusSocketPath = [], cn_X11BridgePid =
     0, cn_X11BridgeStartTime = 0, cn_X11Display = [], cn_X11SocketPath = [], cn_X11SocketTarget = [],
     cn_X11AuthorityPath = [], cn_ExecSocketPath = [], cn_GrantSocketPath = [], cn_PolicyHash = [], cn_CgroupPath =
     [], cn_FVSLayerMountId = [], cn_FVSLayerMountPath = [], cn_FVSManagerSocketPath = [], cn_Instance = [],
     cn_LogPath = []\<rparr>"

definition bare_application :: Application where
  "bare_application = \<lparr>ap_ID = 0, ap_CreatedAt = None, ap_UpdatedAt = None, ap_CpakId = [], ap_Name = [],
     ap_Version = [], ap_Branch = [], ap_Release = [], ap_Commit = [], ap_Origin = [], ap_InstallTimestamp = None,
     ap_Binaries = [], ap_DesktopEntries = [], ap_Addons = [], ap_Layers = [], ap_Config = [], ap_Image = [],
     ap_ImageDigest = [], ap_ManifestDigest = [], ap_Containers = [], ap_ParsedBinaries = [], ap_ParsedDesktopEntries
     = [], ap_ParsedSessions = [], ap_ParsedDependencies = [], ap_ParsedAddons = [], ap_ParsedAddonProvider = None,
     ap_IdleTime = 0, ap_ParsedLayers = [], ap_RuntimeSources = [], ap_ParsedOverride = NewOverride, ap_PulledIn =
     False, ap_PulledInBy = [], ap_DependenciesRaw = [], ap_OverrideRaw = []\<rparr>"

definition some_parent :: Application where
  "some_parent = bare_application\<lparr>ap_CpakId := ''a'', ap_Name := ''editor'', ap_Version := ''1'', ap_Origin := ''github.com/acme/editor'',
     ap_ParsedBinaries := [''/usr/bin/editor''], ap_ParsedDependencies := [some_dependency],
     ap_ParsedOverride := NewOverride\<lparr>Network := True\<rparr>\<rparr>"

definition some_child :: Application where
  "some_child = bare_application\<lparr>ap_CpakId := ''b'', ap_Name := ''viewer'', ap_Version := ''1'', ap_Origin := ''github.com/acme/viewer'',
     ap_ParsedBinaries := [''/usr/bin/viewer''], ap_ParsedOverride := NewOverride\<lparr>Network := True, DeviceDri := True\<rparr>,
     ap_PulledIn := True, ap_PulledInBy := ''github.com/acme/editor''\<rparr>"

definition some_container :: Container where
  "some_container = bare_container\<lparr>cn_CpakId := ''c'', cn_ApplicationCpakId := ''a'', cn_NestedToken := some_token\<rparr>"

definition some_host :: host where
  "some_host = \<lparr>hs_home = Some ''/home/ada'',
     hs_ceiling = \<lparr>cl_Present = True, cl_Policy = NewOverride, cl_Named = Some {''network''}\<rparr>,
     hs_LoadOverride = (\<lambda>_ _. None), hs_applications = [some_parent, some_child], hs_containers = [some_container]\<rparr>"

definition some_request :: RequestParams where
  "some_request = \<lparr>rq_Token = some_token, rq_Origin = ''github.com/acme/viewer'', rq_Branch = [], rq_Commit = [], rq_Release = [],
     rq_Binary = ''/usr/bin/viewer''\<rparr>"

section \<open>Trust policy\<close>

theorem revocation_beats_approval_witness:
  "\<not> Allowed (AllowsOrigin managed ''github.com/acme/editor'') \<and> \<not> Allowed (IsRevoked managed ''github.com/acme/editor'' 7)"
  by (rule revocation_beats_approval [of some_revocation]) code_simp+

theorem normalized_publisher_exact_witness:
  "Allowed (AllowsNormalizedPublisher managed [] ''issuer'' ''github.com/acme/editor'' ''github.com/acme/editor'')"
proof -
  have "settled managed = None" by code_simp
  moreover have "canonicalOrigin ''github.com/acme/editor'' \<noteq> None" by code_simp
  moreover have "sameOrigin ''github.com/acme/editor'' ''github.com/acme/editor''" by code_simp
  ultimately show ?thesis
    using normalized_publisher_exact [of managed "[]" "''issuer''" "''github.com/acme/editor''" "''github.com/acme/editor''"]
    by (simp add: managed_def some_signer_def)
qed

section \<open>Reputation\<close>

theorem require_established_exact_witness:
  "rd_Allowed (DecidesReputation (rated ReputationRequireEstablished) (some_result Established) some_publisher
     ''github.com/acme/editor'' 5 InvocationNonInteractive)"
  using require_established_exact [of "rated ReputationRequireEstablished" "some_rule ReputationRequireEstablished"
      "some_result Established" some_publisher "''github.com/acme/editor''" 5 InvocationNonInteractive]
  by (simp add: rated_def some_rule_def some_result_def)

theorem reputation_decisions_validate_witness:
  "ReputationDecision_Validate (DecidesReputation (rated ReputationWarn) (some_result Caution) some_publisher
     ''github.com/acme/editor'' 5 InvocationGraphical) = None"
proof -
  have "Policy_Validate (\<lambda>_. None) (rated ReputationWarn) = None" by code_simp
  moreover have "Result_Validate (some_result Caution) = None" by code_simp
  ultimately show ?thesis using reputation_decisions_validate by blast
qed

section \<open>Signed states\<close>

theorem authorization_agrees_with_matches_origin_witness:
  "AuthorizeOIDCOrigin (NormalizeOIDCIdentity id some_identity) ''github.com/acme/editor'' = OriginAuthorized \<longleftrightarrow>
     MatchesOrigin some_identity ''github.com/acme/editor''"
  by (rule authorization_agrees_with_matches_origin [where owner = "''acme''" and name = "''editor''"])
    (code_simp, simp add: githubHost_def)

section \<open>Permissions\<close>

theorem migrated_filesystem_witness:
  "ValidateFilesystemPermissions (Filesystem (WithMigratedFilesystem legacy_policy)) = None"
proof -
  have "ValidateFilesystemPermissions (Filesystem legacy_policy) = None" by code_simp
  then show ?thesis using migrated_filesystem [of legacy_policy] by blast
qed

theorem resolution_is_contained_witness:
  "ResolveFilesystemPermission some_host_env \<lparr>fp_Path = ''home/docs'', fp_Access = read_only\<rparr> =
     Inr (''/home/ada/docs'', ''/home/ada/docs'') \<and> IsAbs ''/home/ada/docs''"
proof -
  have "ResolveFilesystemPermission some_host_env \<lparr>fp_Path = ''home/docs'', fp_Access = read_only\<rparr> =
     Inr (''/home/ada/docs'', ''/home/ada/docs'')" by code_simp
  then show ?thesis using resolution_is_contained by blast
qed


section \<open>Policies\<close>


definition allowing_commands :: "string list \<Rightarrow> Override" where
  "allowing_commands names = NewOverride\<lparr>AllowedHostCommands := names\<rparr>"

theorem equal_roots_equal_policies_witness:
  "canonicalPolicy (allowing_commands [''B'', ''A'']) = canonicalPolicy (allowing_commands [''A'', ''B'']) \<and>
   Restricts (allowing_commands [''B'', ''A'']) (allowing_commands [''A'', ''B''])"
proof -
  let ?digest = "\<lambda>_ members. members"
  have "PolicyRootForSchema ?digest (allowing_commands [''B'', ''A'']) 4 = PolicyRootForSchema ?digest (allowing_commands [''A'', ''B'']) 4"
    by code_simp
  moreover have "\<not> isl (PolicyRootForSchema ?digest (allowing_commands [''A'', ''B'']) 4)" by code_simp
  then obtain root where "PolicyRootForSchema ?digest (allowing_commands [''A'', ''B'']) 4 = Inr root"
    by (cases "PolicyRootForSchema ?digest (allowing_commands [''A'', ''B'']) 4") auto
  moreover have "ValidateFilesystemPermissions (Filesystem (allowing_commands names)) = None" for names
    by (simp add: allowing_commands_def NewOverride_def ValidateFilesystemPermissions_def)
  ultimately show ?thesis
    using equal_roots_equal_policies [of ?digest "allowing_commands [''B'', ''A'']" 4 "allowing_commands [''A'', ''B'']" 4 root]
    by (simp add: inj_on_def)
qed

section \<open>Confinement\<close>

theorem nested_run_is_confined_witness:
  "\<not> isl (authorizeNestedRun some_host some_request) \<and>
   enrolled (nr_policy (projr (authorizeNestedRun some_host some_request))) =
     resolvedOverride some_host (nr_child (projr (authorizeNestedRun some_host some_request)))"
proof -
  have "\<not> isl (authorizeNestedRun some_host some_request)" by code_simp
  then obtain run where "authorizeNestedRun some_host some_request = Inr run"
    by (cases "authorizeNestedRun some_host some_request") auto
  then show ?thesis using nested_run_is_confined [of some_host some_request run] by simp
qed

definition some_app_store :: app_store where
  "some_app_store = \<lparr>st_Apps = [some_parent\<lparr>ap_Branch := ''main''\<rparr>, some_child], st_Containers = [some_container]\<rparr>"

theorem package_store_refines_maps_witness:
  "stored_well (RemoveApplicationByOriginAndBranch ''github.com/acme/editor'' ''main'' some_app_store) \<and>
   ks_apps (abstract_store (RemoveApplicationByOriginAndBranch ''github.com/acme/editor'' ''main'' some_app_store)) ''a'' = None"
proof -
  have "stored_well some_app_store" by code_simp
  moreover have "ks_apps (abstract_store some_app_store) ''a'' = Some (some_parent\<lparr>ap_Branch := ''main''\<rparr>)"
    by (simp add: abstract_store_def some_app_store_def get_keyed_def some_parent_def)
  moreover have "let s' = RemoveApplicationByOriginAndBranch ''github.com/acme/editor'' ''main'' some_app_store in stored_well s' \<and>
      abstract_store s' = (abstract_store some_app_store)\<lparr>ks_apps := (\<lambda>i. case ks_apps (abstract_store some_app_store) i of None \<Rightarrow> None
        | Some app \<Rightarrow> if ap_Origin app = ''github.com/acme/editor'' \<and> ap_Branch app = ''main'' then None else Some app)\<rparr>"
    by (rule package_store_refines_maps [THEN conjunct2, THEN conjunct2, rule_format]) (use calculation in simp_all)
  ultimately show ?thesis by (simp add: Let_def some_parent_def)
qed

theorem pulled_in_launch_is_bounded_witness:
  "within (hs_home some_host) (resolvedOverride some_host some_child) (effective (standaloneLaunchPolicy some_host some_child))"
  using pulled_in_launch_is_bounded [of some_child some_host] by (simp add: some_child_def)


section \<open>The ledger\<close>

lemma enrolled_ledger_eq: "record_enrolment some_env some_ledger (some_enrolment 3) [] 0 None = (None, enrolled_ledger)"
  using enrolled_here by (simp add: enrolled_ledger_def prod_eq_iff)

lemma removed_ledger_eq: "Forget some_env enrolled_ledger 1000 ''github.com/acme/editor'' = Inr removed_ledger"
  using removed_here by (cases "Forget some_env enrolled_ledger 1000 ''github.com/acme/editor''") (auto simp: removed_ledger_def)

lemma some_enrolment_names: "er_UID (some_enrolment g) = 1000" "er_Origin (some_enrolment g) = ''github.com/acme/editor''"
    "er_Generation (some_enrolment g) = g"
  by (simp_all add: some_enrolment_def)

lemma recorded_here: "\<exists>r. Recorded some_env enrolled_ledger 1000 ''github.com/acme/editor'' = Inr (Some r) \<and> er_Generation r = 3"
proof -
  have "Load some_env enrolled_ledger 1000 ''github.com/acme/editor'' = Inr (Some (er_Anchor (some_enrolment 3)))" by code_simp
  then show ?thesis by (auto simp: Load_def bind_result_Inr some_enrolment_def)
qed

theorem no_downgrade_across_history_witness:
  "run (step some_env) enrolled_ledger [Forget_anchor 1000 ''github.com/acme/editor''] removed_ledger \<and> (3 :: u64) \<le> 5"
proof -
  have s: "run (step some_env) enrolled_ledger [Forget_anchor 1000 ''github.com/acme/editor''] removed_ledger"
    using removed_ledger_eq by (auto simp: run_Cons intro: step.forget)
  obtain r where r: "Recorded some_env enrolled_ledger 1000 ''github.com/acme/editor'' = Inr (Some r)" "er_Generation r = 3"
    using recorded_here by blast
  obtain l2 where l2: "record_enrolment some_env removed_ledger (some_enrolment 5) [] 0 None = (None, l2)"
    using enrolled_again by (metis prod.collapse)
  show ?thesis
    using no_downgrade_across_history [OF r(1) s _ l2] s r(2) by (simp add: some_enrolment_names)
qed

theorem refused_enrolment_changes_no_file_witness:
  "lg_files (snd (record_enrolment some_env removed_ledger (some_enrolment 2) [] 0 None)) = lg_files removed_ledger"
proof -
  obtain l2 where "record_enrolment some_env removed_ledger (some_enrolment 2) [] 0 None = (Some (Anchor_downgrade 3 2), l2)"
    using refused_again by (metis prod.collapse)
  then show ?thesis using refused_enrolment_changes_no_file by fastforce
qed


theorem unprompted_enrolment_never_widens_witness:
  "AsksTheOwner some_env enrolled_ledger (some_enrolment 4) = Inr False \<and> (3 :: u64) \<le> 4"
proof -
  have a: "AsksTheOwner some_env enrolled_ledger (some_enrolment 4) = Inr False" by code_simp
  obtain r where "Recorded some_env enrolled_ledger 1000 ''github.com/acme/editor'' = Inr (Some r)" "er_Generation r = 3"
    using recorded_here by blast
  with a unprompted_enrolment_never_widens [OF a] show ?thesis by (simp add: some_enrolment_names)
qed


section \<open>Confirmations\<close>

definition signed_enrolment :: Enrolment where
  "signed_enrolment = (some_enrolment 3)\<lparr>er_Signature := Some \<lparr>ss_State = some_state, ss_Bundle = ''bundle'', ss_ABI = 0,
     ss_Kind = [], ss_MediaType = []\<rparr>\<rparr>"

definition some_warning :: ReputationDecision where
  "some_warning = \<lparr>rd_Allowed = True, rd_Action = ActionWarn, rd_ReasonCode = ''listed'', rd_Reason = ''warn'', rd_Exception = False\<rparr>"

definition some_confirmations :: confirmations where
  "some_confirmations = snd (Issue some_hashes [] (Some ''token'') signed_enrolment (some_result Caution) some_warning 0)"


theorem confirmations_stay_bounded_witness:
  "wf_confirmations (snd (Issue some_hashes [] (Some ''token'') signed_enrolment (some_result Caution) some_warning 0))"
  using confirmations_stay_bounded [of "[]" "Some ''token''"] by (simp add: wf_confirmations_def)

end
