(* ===== verification/Bus_Wire.thy ===== *)
theory Bus_Wire
  imports Go_Time "HOL-Library.Word"
begin

unbundle bit_operations_syntax

text \<open>
  \<^verbatim>\<open>pkg/desktopbus/wire.go\<close>: the framing of bus messages, the descriptors that travel with them,
  the header a forwarded message is given, the serials of the messages the proxy makes up, and
  the authentication dialogue with a client.  A connection is what the peer has sent and not
  been read yet, in the pieces the kernel delivers; decoding and encoding a message is the
  D-Bus library's, a parameter.
\<close>

section \<open>Integers on the wire\<close>

type_synonym byte = "8 word"

datatype ByteOrder = LittleEndian | BigEndian

definition flag :: "ByteOrder \<Rightarrow> byte" where
  "flag order = (case order of LittleEndian \<Rightarrow> 0x6C | BigEndian \<Rightarrow> 0x42)"

definition le32 :: "byte \<Rightarrow> byte \<Rightarrow> byte \<Rightarrow> byte \<Rightarrow> u32" where
  "le32 a b c d = ucast a OR push_bit 8 (ucast b) OR push_bit 16 (ucast c) OR push_bit 24 (ucast d)"

fun Uint32 :: "ByteOrder \<Rightarrow> byte list \<Rightarrow> u32" where
  "Uint32 LittleEndian (a # b # c # d # rest) = le32 a b c d"
| "Uint32 BigEndian (a # b # c # d # rest) = le32 d c b a"
| "Uint32 order short = 0"

definition PutUint32 :: "ByteOrder \<Rightarrow> u32 \<Rightarrow> byte list" where
  "PutUint32 order v =
     (let bytes = [ucast v, ucast (drop_bit 8 v), ucast (drop_bit 16 v), ucast (drop_bit 24 v)]
      in case order of LittleEndian \<Rightarrow> bytes | BigEndian \<Rightarrow> rev bytes)"

text \<open>\<^verbatim>\<open>data[from:to]\<close>, and the same slice replaced.\<close>

definition slice :: "nat \<Rightarrow> nat \<Rightarrow> 'a list \<Rightarrow> 'a list" where
  "slice from stop data = take (stop - from) (drop from data)"

definition splice :: "nat \<Rightarrow> 'a list \<Rightarrow> 'a list \<Rightarrow> 'a list" where
  "splice from new data = take from data @ new @ drop (from + length new) data"

section \<open>Layout\<close>

datatype wire_error =
  Truncated | Invalid_byte_order | Invalid_length | Too_large | Too_many_descriptors
| End_of_stream | Control_unreadable | Undecodable | Unencodable

definition maxMessageSize :: nat where "maxMessageSize = 16777216"
definition maxMessageFDs :: nat where "maxMessageFDs = 64"

definition order_of :: "byte \<Rightarrow> ByteOrder option" where
  "order_of b = (if b = 0x6C then Some LittleEndian else if b = 0x42 then Some BigEndian else None)"

text \<open>Here the lengths are Go \<^verbatim>\<open>int\<close>s, wide enough for every 32-bit value and its alignment.\<close>

definition messageLayout :: "byte list \<Rightarrow> wire_error + (ByteOrder \<times> nat \<times> nat)" where
  "messageLayout data =
     (if length data < 16 then Inl Truncated
      else case order_of (data ! 0) of None \<Rightarrow> Inl Invalid_byte_order
      | Some order \<Rightarrow>
          let bodyLength = unat (Uint32 order (slice 4 8 data));
              headerLength = unat (Uint32 order (slice 12 16 data));
              bodyOffset = 16 + (headerLength + 7) div 8 * 8
          in if bodyOffset > length data \<or> bodyLength > length data - bodyOffset then Inl Invalid_length
             else Inr (order, bodyOffset, bodyLength))"

text \<open>Here they are \<^verbatim>\<open>uint32\<close>, and the alignment wraps.\<close>

definition aligned :: "u32 \<Rightarrow> u32" where
  "aligned headerLength = (headerLength + 7) AND NOT 7"

definition remaining :: "ByteOrder \<Rightarrow> byte list \<Rightarrow> u64" where
  "remaining order header =
     ucast (aligned (Uint32 order (slice 12 16 header))) + ucast (Uint32 order (slice 4 8 header))"

section \<open>Reading\<close>

record chunk =
  ck_data :: "byte list"
  ck_rights :: "nat list list option"
  ck_truncated :: bool

type_synonym conn = "chunk list"

text \<open>
  \<^verbatim>\<open>ReadMsgUnix\<close> into a buffer: the next piece, or as much of it as fits, with the control
  messages that came with its first byte.
\<close>

fun ReadMsgUnix :: "nat \<Rightarrow> conn \<Rightarrow> (chunk \<times> conn) option" where
  "ReadMsgUnix room [] = None"
| "ReadMsgUnix room (c # cs) =
     (if length (ck_data c) \<le> room then Some (c, cs)
      else Some (c\<lparr>ck_data := take room (ck_data c)\<rparr>,
                 \<lparr>ck_data = drop room (ck_data c), ck_rights = Some [], ck_truncated = False\<rparr> # cs))"

text \<open>The rights of one piece: kept while there is room, closed where there is none.\<close>

fun take_rights :: "nat list \<Rightarrow> nat list list \<Rightarrow> nat list \<times> nat list \<times> bool" where
  "take_rights fds [] = (fds, [], True)"
| "take_rights fds (rights # rest) =
     (if length rights > maxMessageFDs - length fds then (fds, rights, False)
      else take_rights (fds @ rights) rest)"

record 'a received =
  rx_result :: "wire_error + 'a"
  rx_fds :: "nat list"
  rx_closed :: "nat list"
  rx_rest :: conn

function (sequential) readMessageBytes :: "nat \<Rightarrow> nat list \<Rightarrow> nat list \<Rightarrow> byte list \<Rightarrow> conn \<Rightarrow> byte list received" where
  "readMessageBytes want fds closed got connection =
     (if want \<le> length got then \<lparr>rx_result = Inr got, rx_fds = fds, rx_closed = closed, rx_rest = connection\<rparr>
      else case ReadMsgUnix (want - length got) connection of
        None \<Rightarrow> \<lparr>rx_result = Inl End_of_stream, rx_fds = fds, rx_closed = closed, rx_rest = []\<rparr>
      | Some (c, rest) \<Rightarrow>
          if ck_data c = [] then \<lparr>rx_result = Inl End_of_stream, rx_fds = fds, rx_closed = closed, rx_rest = rest\<rparr>
          else if ck_truncated c then \<lparr>rx_result = Inl Too_many_descriptors, rx_fds = fds, rx_closed = closed, rx_rest = rest\<rparr>
          else case ck_rights c of
            None \<Rightarrow> \<lparr>rx_result = Inl Control_unreadable, rx_fds = fds, rx_closed = closed, rx_rest = rest\<rparr>
          | Some rights \<Rightarrow>
              (case take_rights fds rights of
                 (fds, dropped, False) \<Rightarrow>
                   \<lparr>rx_result = Inl Too_many_descriptors, rx_fds = fds, rx_closed = closed @ dropped, rx_rest = rest\<rparr>
               | (fds, dropped, True) \<Rightarrow> readMessageBytes want fds closed (got @ ck_data c) rest))"
  by pat_completeness auto
termination
  by (relation "measure (\<lambda>(want, fds, closed, got, connection). want - length got)")
    (auto intro!: diff_less_mono2)

declare readMessageBytes.simps [simp del]

record 'm packet =
  pk_message :: 'm
  pk_data :: "byte list"

text \<open>
  \<^verbatim>\<open>readMessage\<close>: the packet with its descriptors, or an error with the ones it closed.  On an
  error the remaining \<open>rx_fds\<close> are descriptors that stay open with nothing referring to them.
\<close>

definition closing :: "nat list \<Rightarrow> 'a received \<Rightarrow> wire_error \<Rightarrow> 'b received" where
  "closing fds r e = \<lparr>rx_result = Inl e, rx_fds = [], rx_closed = rx_closed r @ fds, rx_rest = rx_rest r\<rparr>"

definition readMessage :: "(byte list \<Rightarrow> nat list \<Rightarrow> 'm option) \<Rightarrow> conn \<Rightarrow> 'm packet received" where
  "readMessage decode connection =
     (let h = readMessageBytes 16 [] [] [] connection in
      case rx_result h of
        Inl e \<Rightarrow> \<lparr>rx_result = Inl e, rx_fds = rx_fds h, rx_closed = rx_closed h, rx_rest = rx_rest h\<rparr>
      | Inr header \<Rightarrow>
          (case order_of (header ! 0) of None \<Rightarrow> closing (rx_fds h) h Invalid_byte_order
           | Some order \<Rightarrow>
               if unat (remaining order header) > maxMessageSize - 16 then closing (rx_fds h) h Too_large
               else let b = readMessageBytes (unat (remaining order header)) [] (rx_closed h) [] (rx_rest h) in
                 case rx_result b of
                   Inl e \<Rightarrow> closing (rx_fds b @ rx_fds h) b e
                 | Inr body \<Rightarrow>
                     if length (rx_fds b) > maxMessageFDs - length (rx_fds h)
                       then closing (rx_fds b @ rx_fds h) b Too_many_descriptors
                     else let fds = rx_fds h @ rx_fds b; data = header @ body in
                       case decode data fds of None \<Rightarrow> closing fds b Undecodable
                       | Some message \<Rightarrow>
                           \<lparr>rx_result = Inr \<lparr>pk_message = message, pk_data = data\<rparr>, rx_fds = fds, rx_closed = rx_closed b,
                            rx_rest = rx_rest b\<rparr>))"

section \<open>Forwarding\<close>

definition canonicalPacketData :: "('m \<Rightarrow> ByteOrder \<Rightarrow> byte list option) \<Rightarrow> 'm packet \<Rightarrow> wire_error + byte list" where
  "canonicalPacketData encode packet =
     bind_result (messageLayout (pk_data packet)) (\<lambda>(order, originalBodyOffset, originalBodyLength).
       case encode (pk_message packet) order of None \<Rightarrow> Inl Unencodable
       | Some encoded \<Rightarrow>
           bind_result (messageLayout encoded) (\<lambda>(_, canonicalBodyOffset, _).
             Inr (splice 4 (PutUint32 order (word_of_nat originalBodyLength))
               (take canonicalBodyOffset encoded @
                slice originalBodyOffset (originalBodyOffset + originalBodyLength) (pk_data packet)))))"

text \<open>\<^verbatim>\<open>writeSyntheticMessage\<close>: the next serial, never the reserved zero.\<close>

definition synthetic_serial :: "u32 \<Rightarrow> u32" where
  "synthetic_serial serial = (let serial = serial + 1 in if serial = 0 then serial + 1 else serial)"

section \<open>Laws of the integers\<close>

lemma length_PutUint32 [simp]: "length (PutUint32 order v) = 4"
  by (simp add: PutUint32_def Let_def split: ByteOrder.split)

lemma le32_bytes: "le32 (ucast v) (ucast (drop_bit 8 v)) (ucast (drop_bit 16 v)) (ucast (drop_bit 24 v)) = v"
  for v :: u32
proof (rule bit_word_eqI)
  fix n
  assume "n < LENGTH(32)"
  then consider "n < 8" | "8 \<le> n" "n < 16" | "16 \<le> n" "n < 24" | "24 \<le> n" "n < 32" by force
  then show "bit (le32 (ucast v) (ucast (drop_bit 8 v)) (ucast (drop_bit 16 v)) (ucast (drop_bit 24 v))) n = bit v n"
    by cases (auto simp: le32_def bit_simps)
qed

lemma Uint32_Put [simp]: "Uint32 order (PutUint32 order v @ rest) = v"
  by (cases order) (simp_all add: PutUint32_def Let_def le32_bytes)

lemma Uint32_take: "4 \<le> n \<Longrightarrow> Uint32 order (take n xs) = Uint32 order xs"
  by (cases "(order, xs)" rule: Uint32.cases; cases n; simp; cases "n - 1"; simp; cases "n - 2"; simp; cases "n - 3"; simp)

lemma flag_order [simp]: "order_of (flag order) = Some order"
  by (cases order) (simp_all add: order_of_def flag_def)

lemma order_of_Some: "order_of b = Some order \<longleftrightarrow> b = flag order"
  by (cases order) (auto simp: order_of_def flag_def)

lemma length_splice: "from + length new \<le> length data \<Longrightarrow> length (splice from new data) = length data"
  by (simp add: splice_def)

lemma slice_append: "stop \<le> length xs \<Longrightarrow> slice from stop (xs @ ys) = slice from stop xs"
  by (auto simp: slice_def)

lemma drop_splice:
  assumes "from + length new \<le> n" "n \<le> length data"
  shows "drop n (splice from new data) = drop n data"
proof -
  have "n = length (take from data @ new) + (n - (from + length new))" using assms by simp
  then have "drop n (splice from new data) = drop (n - (from + length new)) (drop (from + length new) data)"
    unfolding splice_def append_assoc [symmetric] by (metis drop_append drop_drop add.commute append_eq_conv_conj)
  then show ?thesis using assms by simp
qed

text \<open>Aligning a header length that fits never wraps; the last seven values wrap to nothing.\<close>

lemma unat_and_not_7: "unat (w AND NOT 7) = unat w div 8 * 8" for w :: u32
proof -
  have seven: "7 = (mask 3 :: u32)" by (simp add: mask_eq_exp_minus_1)
  have "w AND NOT 7 = push_bit 3 (drop_bit 3 w)"
    unfolding seven by (intro bit_word_eqI) (auto simp: bit_simps)
  moreover have "unat w < 2 ^ 32" using unsigned_less [of w] by simp
  then have "unat w div 8 * 8 < 2 ^ 32" using div_times_less_eq_dividend [of "unat w" 8] by linarith
  ultimately show ?thesis
    by (simp only: unsigned_push_bit_eq unsigned_drop_bit_eq) (simp add: push_bit_eq_mult drop_bit_eq_div take_bit_eq_mod)
qed

lemma unat_aligned:
  "unat (aligned h) = (if unat h + 7 < 2 ^ 32 then (unat h + 7) div 8 * 8 else 0)"
proof (cases "unat h + 7 < 2 ^ 32")
  case True
  then have "unat (h + 7) = unat h + 7" by (simp add: unat_word_ariths)
  with True show ?thesis by (simp only: aligned_def unat_and_not_7 if_True)
next
  case False
  have "unat h < 2 ^ 32" using unsigned_less [of h] by simp
  with False have "unat (h + 7) = unat h + 7 - 2 ^ 32" by (simp add: unat_word_ariths mod_if)
  with False \<open>unat h < 2 ^ 32\<close> have "unat (h + 7) div 8 = 0" by simp
  with False show ?thesis by (simp only: aligned_def unat_and_not_7 if_False mult_zero_left)
qed

lemma unat_remaining:
  "unat (remaining order header) =
     unat (aligned (Uint32 order (slice 12 16 header))) + unat (Uint32 order (slice 4 8 header))"
proof -
  have "unat (a :: u32) < 2 ^ 32" for a using unsigned_less [of a] by simp
  from this [of "aligned (Uint32 order (slice 12 16 header))"] this [of "Uint32 order (slice 4 8 header)"]
  show ?thesis by (simp add: remaining_def unat_word_ariths unsigned_ucast_eq take_bit_nat_eq_self)
qed


section \<open>What is read\<close>

definition rights_of :: "conn \<Rightarrow> nat list" where
  "rights_of connection = concat (map (\<lambda>c. case ck_rights c of None \<Rightarrow> [] | Some rights \<Rightarrow> concat rights) connection)"

lemma rights_of_Cons [simp]:
  "rights_of (c # cs) = (case ck_rights c of None \<Rightarrow> [] | Some rights \<Rightarrow> concat rights) @ rights_of cs"
  by (simp add: rights_of_def)

lemma ReadMsgUnix_Some:
  assumes "ReadMsgUnix room connection = Some (c, rest)"
  shows "length (ck_data c) \<le> room \<and>
    rights_of connection = (case ck_rights c of None \<Rightarrow> [] | Some rights \<Rightarrow> concat rights) @ rights_of rest"
proof (cases connection)
  case (Cons d ds)
  with assms show ?thesis by (cases "length (ck_data d) \<le> room") auto
qed (use assms in simp)

lemma take_rights_True:
  "take_rights fds rights = (fds', dropped, True) \<Longrightarrow>
     fds' = fds @ concat rights \<and> (length fds \<le> maxMessageFDs \<longrightarrow> length fds' \<le> maxMessageFDs)"
proof (induction fds rights rule: take_rights.induct)
  case (2 fds rights rest)
  then show ?case by (cases "length rights > maxMessageFDs - length fds") auto
qed simp

lemma readMessageBytes_full:
  "want \<le> length got \<Longrightarrow>
     readMessageBytes want fds closed got connection =
       \<lparr>rx_result = Inr got, rx_fds = fds, rx_closed = closed, rx_rest = connection\<rparr>"
  by (simp add: readMessageBytes.simps)

lemma readMessageBytes_more:
  assumes "\<not> want \<le> length got" "rx_result (readMessageBytes want fds closed got connection) = Inr bytes"
  obtains c rest rights fds' dropped where "ReadMsgUnix (want - length got) connection = Some (c, rest)" "ck_data c \<noteq> []"
    "\<not> ck_truncated c" "ck_rights c = Some rights" "take_rights fds rights = (fds', dropped, True)"
    "readMessageBytes want fds closed got connection = readMessageBytes want fds' closed (got @ ck_data c) rest"
proof -
  note unfold = readMessageBytes.simps [of want fds closed got connection]
  obtain c rest where r: "ReadMsgUnix (want - length got) connection = Some (c, rest)"
    using assms by (cases "ReadMsgUnix (want - length got) connection") (auto simp: unfold)
  have c: "ck_data c \<noteq> []" "\<not> ck_truncated c"
    using assms by (auto simp: unfold r split: if_splits)
  then obtain rights where rights: "ck_rights c = Some rights"
    using assms by (cases "ck_rights c") (auto simp: unfold r)
  obtain fds' dropped ok where t: "take_rights fds rights = (fds', dropped, ok)" by (cases "take_rights fds rights") auto
  have "ok" using assms c by (cases ok) (auto simp: unfold r rights t)
  with that r c rights t assms(1) show thesis by (auto simp: unfold)
qed

lemma readMessageBytes_Inr:
  assumes "readMessageBytes want fds closed got connection = r" "rx_result r = Inr bytes" "length got \<le> want"
  shows "length bytes = want \<and> prefix got bytes \<and> rx_closed r = closed \<and>
    (\<exists>new. rx_fds r = fds @ new \<and> rights_of connection = new @ rights_of (rx_rest r)) \<and>
    (length fds \<le> maxMessageFDs \<longrightarrow> length (rx_fds r) \<le> maxMessageFDs)"
  using assms
proof (induction "want - length got" arbitrary: fds got connection rule: less_induct)
  case less
  show ?case
  proof (cases "want \<le> length got")
    case True
    with less.prems show ?thesis by (auto simp: readMessageBytes_full)
  next
    case False
    from readMessageBytes_more [OF False] less.prems
    obtain c rest rights fds' dropped where c: "ReadMsgUnix (want - length got) connection = Some (c, rest)" "ck_data c \<noteq> []"
      "ck_rights c = Some rights" "take_rights fds rights = (fds', dropped, True)"
      "readMessageBytes want fds' closed (got @ ck_data c) rest = r" by metis
    have len: "length (got @ ck_data c) \<le> want" using ReadMsgUnix_Some [OF c(1)] False by auto
    moreover have "want - length (got @ ck_data c) < want - length got"
      using c(2) False by (cases "ck_data c") auto
    ultimately have IH: "length bytes = want \<and> prefix (got @ ck_data c) bytes \<and> rx_closed r = closed \<and>
        (\<exists>new. rx_fds r = fds' @ new \<and> rights_of rest = new @ rights_of (rx_rest r)) \<and>
        (length fds' \<le> maxMessageFDs \<longrightarrow> length (rx_fds r) \<le> maxMessageFDs)"
      using less.hyps c(5) less.prems(2) by blast
    with take_rights_True [OF c(4)] ReadMsgUnix_Some [OF c(1)] c(3) show ?thesis
      by (auto dest: append_prefixD)
  qed
qed


lemma readMessage_Inr:
  assumes "readMessage decode connection = r" "rx_result r = Inr packet"
  obtains header body order where "pk_data packet = header @ body" "length header = 16" "order_of (header ! 0) = Some order"
    "length body = unat (remaining order header)" "unat (remaining order header) \<le> maxMessageSize - 16"
    "rx_closed r = []" "rights_of connection = rx_fds r @ rights_of (rx_rest r)" "length (rx_fds r) \<le> maxMessageFDs"
    "decode (pk_data packet) (rx_fds r) = Some (pk_message packet)"
proof -
  define h where "h = readMessageBytes 16 [] [] [] connection"
  note unfold = readMessage_def [of decode connection, unfolded h_def [symmetric] Let_def]
  obtain header where header: "rx_result h = Inr header"
    using assms by (cases "rx_result h") (auto simp: unfold)
  note H = readMessageBytes_Inr [OF h_def [symmetric] header, simplified]
  obtain order where order: "order_of (header ! 0) = Some order"
    using assms by (cases "order_of (header ! 0)") (auto simp: unfold header closing_def)
  have small: "\<not> unat (remaining order header) > maxMessageSize - 16"
    using assms by (auto simp: unfold header order closing_def split: if_splits)
  define b where "b = readMessageBytes (unat (remaining order header)) [] (rx_closed h) [] (rx_rest h)"
  note unfold' = unfold [unfolded header order sum.case option.case if_not_P [OF small] b_def [symmetric]]
  obtain body where body: "rx_result b = Inr body"
    using assms by (cases "rx_result b") (auto simp: unfold' closing_def)
  note B = readMessageBytes_Inr [OF b_def [symmetric] body, simplified]
  have few: "\<not> length (rx_fds b) > maxMessageFDs - length (rx_fds h)"
    using assms by (auto simp: unfold' body closing_def split: if_splits)
  obtain message where m: "decode (header @ body) (rx_fds h @ rx_fds b) = Some message"
    using assms few by (cases "decode (header @ body) (rx_fds h @ rx_fds b)") (auto simp: unfold' body closing_def)
  have r: "r = \<lparr>rx_result = Inr \<lparr>pk_message = message, pk_data = header @ body\<rparr>, rx_fds = rx_fds h @ rx_fds b,
      rx_closed = rx_closed b, rx_rest = rx_rest b\<rparr>"
    using assms(1) few by (simp add: unfold' body m)
  then have "packet = \<lparr>pk_message = message, pk_data = header @ body\<rparr>" using assms(2) by simp
  then show thesis
    using that [of header body order] H B order small few m by (auto simp: r)
qed

lemma slice_header: "length header = 16 \<Longrightarrow> stop \<le> 16 \<Longrightarrow> slice from stop (header @ body) = slice from stop header"
  by (simp add: slice_append)

lemma messageLayout_Inr:
  "messageLayout data = Inr (order, bodyOffset, bodyLength) \<longleftrightarrow>
     16 \<le> length data \<and> order_of (data ! 0) = Some order \<and>
     bodyOffset = 16 + (unat (Uint32 order (slice 12 16 data)) + 7) div 8 * 8 \<and>
     bodyLength = unat (Uint32 order (slice 4 8 data)) \<and> bodyOffset + bodyLength \<le> length data"
  by (auto simp: messageLayout_def Let_def split: option.splits if_splits)

text \<open>The packet assembled from a header that ends at \<open>bodyOffset\<close> and a body, with the length put in.\<close>

lemma assembled_layout:
  assumes "messageLayout encoded = Inr (order, offset, n)" "length body < 2 ^ 32"
  shows "messageLayout (splice 4 (PutUint32 order (word_of_nat (length body))) (take offset encoded @ body)) =
      Inr (order, offset, length body)"
    and "length (splice 4 (PutUint32 order (word_of_nat (length body))) (take offset encoded @ body)) = offset + length body"
    and "drop offset (splice 4 (PutUint32 order (word_of_nat (length body))) (take offset encoded @ body)) = body"
    and "slice 8 offset (splice 4 (PutUint32 order (word_of_nat (length body))) (take offset encoded @ body)) = slice 8 offset encoded"
proof -
  let ?put = "PutUint32 order (word_of_nat (length body))" and ?whole = "take offset encoded @ body"
  define data where "data = splice 4 ?put ?whole"
  note e = assms(1) [unfolded messageLayout_Inr]
  have off: "16 \<le> offset" "offset \<le> length encoded" using e by auto
  show len: "length data = offset + length body" using off by (simp add: data_def length_splice)
  show "drop offset data = body" using off by (simp add: data_def drop_splice)
  have tail: "drop 8 data = drop 8 ?whole" using off by (simp add: data_def drop_splice)
  then show "slice 8 offset data = slice 8 offset encoded"
    using off by (simp add: slice_def) (simp add: take_drop)
  have "drop 12 data = drop 12 ?whole" using off by (simp add: data_def drop_splice)
  then have "slice 12 16 data = slice 12 16 encoded" using off by (simp add: slice_def) (simp add: take_drop)
  moreover have "slice 4 8 data = ?put" using off by (simp add: slice_def data_def splice_def)
  moreover have "data ! 0 = encoded ! 0" using off by (simp add: data_def splice_def nth_append)
  moreover have "Uint32 order ?put = word_of_nat (length body)" using Uint32_Put [of order _ "[]"] by simp
  moreover have "unat (word_of_nat (length body) :: u32) = length body" using assms(2) by (simp add: unsigned_of_nat take_bit_nat_eq_self)
  ultimately show "messageLayout data = Inr (order, offset, length body)"
    using e off len by (simp add: messageLayout_Inr)
qed

section \<open>Properties\<close>

text \<open>C19: Every message the proxy reads is bounded and accounted for: a packet is between 16 bytes
  and 16 MiB, carries at most 64 descriptors, and those are exactly the descriptors taken from
  the connection, with none left open and unreferenced; and where the header length does not
  wrap, the header and the body together fill the packet to the last byte.\<close>

theorem read_packet_is_exact:
  assumes "readMessage decode connection = r" and "rx_result r = Inr packet"
  shows "16 \<le> length (pk_data packet) \<and> length (pk_data packet) \<le> maxMessageSize \<and>
    length (rx_fds r) \<le> maxMessageFDs \<and> rx_closed r = [] \<and>
    rights_of connection = rx_fds r @ rights_of (rx_rest r) \<and>
    (case messageLayout (pk_data packet) of
       Inl e \<Rightarrow> e = Invalid_length \<and>
         (\<exists>order. order_of (pk_data packet ! 0) = Some order \<and> unat (Uint32 order (slice 12 16 (pk_data packet))) + 7 \<ge> 2 ^ 32)
     | Inr (order, bodyOffset, bodyLength) \<Rightarrow> bodyOffset + bodyLength = length (pk_data packet))"
proof -
  obtain header body order where p: "pk_data packet = header @ body" "length header = 16" "order_of (header ! 0) = Some order"
      "length body = unat (remaining order header)" "unat (remaining order header) \<le> maxMessageSize - 16"
      "rx_closed r = []" "rights_of connection = rx_fds r @ rights_of (rx_rest r)" "length (rx_fds r) \<le> maxMessageFDs"
    using readMessage_Inr [OF assms] by metis
  let ?h = "unat (Uint32 order (slice 12 16 header))" and ?b = "unat (Uint32 order (slice 4 8 header))"
  have zero: "(header @ body) ! 0 = header ! 0" using p(2) by (simp add: nth_append)
  have "messageLayout (pk_data packet) =
      (if ?h + 7 < 2 ^ 32 then Inr (order, 16 + (?h + 7) div 8 * 8, ?b) else Inl Invalid_length) \<and>
      (?h + 7 < 2 ^ 32 \<longrightarrow> 16 + (?h + 7) div 8 * 8 + ?b = length (pk_data packet))"
  proof (cases "?h + 7 < 2 ^ 32")
    case True
    then have "length body = (?h + 7) div 8 * 8 + ?b" by (simp add: p(4) unat_remaining unat_aligned)
    with True show ?thesis by (simp add: messageLayout_def p(1-3) zero slice_header Let_def)
  next
    case False
    then have "length (header @ body) < 16 + (?h + 7) div 8 * 8"
      using p(2,4,5) by (simp add: unat_remaining unat_aligned maxMessageSize_def)
    with False show ?thesis by (simp add: messageLayout_def p(1-3) zero slice_header Let_def)
  qed
  moreover have "16 \<le> length (pk_data packet)" "length (pk_data packet) \<le> maxMessageSize"
    using p(1,2,4,5) by (simp_all add: maxMessageSize_def)
  ultimately show ?thesis
    using p(3,6-8) by (auto simp: p(1,2) zero slice_header not_less)
qed

text \<open>The header a message is forwarded with cannot disagree with its body: the packet written
  upstream has the header the library encoded from the parsed fields, in the byte order it was
  asked for, and behind it exactly the bytes of the body the client sent, with the length field
  naming their number.\<close>

theorem canonical_packet_layout:
  assumes "\<And>message order encoded. encode message order = Some encoded \<Longrightarrow> encoded ! 0 = flag order"
    and "length (pk_data packet) \<le> maxMessageSize"
    and "canonicalPacketData encode packet = Inr data"
  shows "\<exists>order originalOffset bodyLength offset encoded.
    messageLayout (pk_data packet) = Inr (order, originalOffset, bodyLength) \<and>
    encode (pk_message packet) order = Some encoded \<and>
    messageLayout data = Inr (order, offset, bodyLength) \<and> length data = offset + bodyLength \<and>
    slice 8 offset data = slice 8 offset encoded \<and>
    drop offset data = slice originalOffset (originalOffset + bodyLength) (pk_data packet)"
proof -
  obtain order originalOffset bodyLength encoded order' offset n where
      o: "messageLayout (pk_data packet) = Inr (order, originalOffset, bodyLength)"
      "encode (pk_message packet) order = Some encoded" "messageLayout encoded = Inr (order', offset, n)"
      and data: "data = splice 4 (PutUint32 order (word_of_nat bodyLength))
        (take offset encoded @ slice originalOffset (originalOffset + bodyLength) (pk_data packet))"
    using assms(3) by (auto simp: canonicalPacketData_def bind_result_Inr split: option.splits)
  have "order' = order"
    using assms(1) [OF o(2)] o(3) by (auto simp: messageLayout_Inr)
  moreover have body: "length (slice originalOffset (originalOffset + bodyLength) (pk_data packet)) = bodyLength"
    using o(1) by (auto simp: messageLayout_Inr slice_def)
  moreover have "bodyLength < 2 ^ 32"
    using o(1) assms(2) by (auto simp: messageLayout_Inr maxMessageSize_def)
  ultimately show ?thesis
    using assembled_layout [of encoded order offset n "slice originalOffset (originalOffset + bodyLength) (pk_data packet)"]
      o data by auto
qed

text \<open>
  The one path on which descriptors are lost: when the header cannot be read, what came with its
  first bytes is returned to nobody and closed by nobody.
\<close>

theorem header_failure_leaks_descriptors:
  "readMessage decode [\<lparr>ck_data = [0x6C], ck_rights = Some [[fd]], ck_truncated = False\<rparr>] =
     \<lparr>rx_result = Inl End_of_stream, rx_fds = [fd], rx_closed = [], rx_rest = []\<rparr>"
  by (simp add: readMessage_def readMessageBytes.simps maxMessageFDs_def)

theorem later_failures_close_descriptors:
  assumes "rx_result (readMessageBytes 16 [] [] [] connection) = Inr header"
    and "readMessage decode connection = r" and "rx_result r = Inl e"
  shows "rx_fds r = []"
  using assms by (auto simp: readMessage_def Let_def closing_def split: option.splits if_splits sum.splits)

section \<open>Serials\<close>

lemma synthetic_serial_nonzero: "synthetic_serial serial \<noteq> 0"
  by (auto simp: synthetic_serial_def Let_def)

end
