(* ===== verification/Bus_Auth.thy ===== *)
theory Bus_Auth
  imports Go_Time Ratchet
begin

text \<open>
  The authentication dialogue of \<^verbatim>\<open>pkg/desktopbus/wire.go\<close>: \<^verbatim>\<open>readAuthLine\<close>, \<^verbatim>\<open>authenticateClient\<close> and
  \<^verbatim>\<open>authenticateUpstream\<close>.  The peer's bytes are a string; the credentials the kernel reports and
  the random identifier of the server are arguments; writing to the peer succeeds.
\<close>

section \<open>Lines and words\<close>

text \<open>\<^verbatim>\<open>strings.Fields\<close>: the words between runs of white space.\<close>

function fields_from :: "string \<Rightarrow> string \<Rightarrow> string list" where
  "fields_from word s =
     (case s of [] \<Rightarrow> (if word = [] then [] else [rev word])
      | c # rest \<Rightarrow>
          (case List.find (\<lambda>sp. sp \<noteq> [] \<and> prefix sp s) space_runes of
             None \<Rightarrow> fields_from (c # word) rest
           | Some sp \<Rightarrow> (if word = [] then [] else [rev word]) @ fields_from [] (drop (length sp) s)))"
  by pat_completeness auto
termination
  by (relation "measure (\<lambda>(word, s). length s)") (auto simp: find_Some_iff prefix_def)

declare fields_from.simps [simp del]

definition Fields :: "string \<Rightarrow> string list" where
  "Fields s = fields_from [] s"

datatype auth_error =
  Caller_denied | Stream_ended | No_null_byte | Line_too_long | Command_empty | Identity_invalid
| Data_invalid | Descriptors_before_authentication | Session_before_authentication
| Upstream_rejected string | Upstream_invalid_descriptors

abbreviation CR :: char where "CR \<equiv> CHR 0x0D"
abbreviation LF :: char where "LF \<equiv> CHR 0x0A"

fun read_line :: "string \<Rightarrow> char \<Rightarrow> string \<Rightarrow> auth_error + string \<times> string" where
  "read_line buffer last_read input =
     (if length buffer \<ge> 4096 then Inl Line_too_long
      else case input of [] \<Rightarrow> Inl Stream_ended
      | c # rest \<Rightarrow>
          if last_read = CR \<and> c = LF then Inr (rev (tl buffer), rest)
          else read_line (c # buffer) c rest)"

declare read_line.simps [simp del]

definition readAuthLine :: "string \<Rightarrow> auth_error + string \<times> string" where
  "readAuthLine input = read_line [] (CHR 0x00) input"

section \<open>Identities\<close>

definition hex_value :: "char \<Rightarrow> nat option" where
  "hex_value c =
     (if CHR ''0'' \<le> c \<and> c \<le> CHR ''9'' then Some (of_char c - 48)
      else if CHR ''a'' \<le> c \<and> c \<le> CHR ''f'' then Some (of_char c - 87)
      else if CHR ''A'' \<le> c \<and> c \<le> CHR ''F'' then Some (of_char c - 55)
      else None)"

fun hex_decode :: "string \<Rightarrow> string option" where
  "hex_decode [] = Some []"
| "hex_decode [c] = None"
| "hex_decode (a # b # rest) =
     (case (hex_value a, hex_value b, hex_decode rest) of
        (Some x, Some y, Some s) \<Rightarrow> Some (char_of (16 * x + y) # s)
      | _ \<Rightarrow> None)"

definition externalIdentityMatches :: "string \<Rightarrow> u32 \<Rightarrow> bool" where
  "externalIdentityMatches encoded uid \<longleftrightarrow> hex_decode encoded = Some (show_nat (unat uid))"

section \<open>The dialogue with a client\<close>

record auth_state =
  authorized :: bool
  waitingForIdentity :: bool

definition auth_start :: auth_state where
  "auth_start = \<lparr>authorized = False, waitingForIdentity = False\<rparr>"

datatype auth_outcome = Reply string auth_state | Fail auth_error | Begin

definition rejected :: string where "rejected = ''REJECTED EXTERNAL''"

definition decided :: "string \<Rightarrow> auth_state \<Rightarrow> auth_outcome" where
  "decided guid st = Reply (if authorized st then ''OK '' @ guid else rejected) st"

definition auth_command :: "u32 \<Rightarrow> string \<Rightarrow> auth_state \<Rightarrow> string list \<Rightarrow> auth_outcome" where
  "auth_command uid guid st parts =
     (case parts of [] \<Rightarrow> Fail Command_empty
      | command # args \<Rightarrow>
          if command = ''AUTH'' then
            (case args of [] \<Rightarrow> Reply rejected st
             | mechanism # params \<Rightarrow>
                 if mechanism \<noteq> ''EXTERNAL'' then Reply rejected st
                 else (case params of
                     [] \<Rightarrow> Reply ''DATA'' \<lparr>authorized = False, waitingForIdentity = True\<rparr>
                   | [identity] \<Rightarrow> decided guid (st\<lparr>authorized := externalIdentityMatches identity uid\<rparr>)
                   | _ \<Rightarrow> Fail Identity_invalid))
          else if command = ''DATA'' then
            (if \<not> waitingForIdentity st \<or> length parts > 2 then Fail Data_invalid
             else decided guid \<lparr>authorized = (case args of [] \<Rightarrow> True | identity # _ \<Rightarrow> externalIdentityMatches identity uid),
                    waitingForIdentity = False\<rparr>)
          else if command = ''NEGOTIATE_UNIX_FD'' then
            (if \<not> authorized st then Fail Descriptors_before_authentication else Reply ''AGREE_UNIX_FD'' st)
          else if command = ''BEGIN'' then
            (if \<not> authorized st then Fail Session_before_authentication else Begin)
          else if command = ''CANCEL'' then Reply rejected \<lparr>authorized = False, waitingForIdentity = False\<rparr>
          else Reply ''ERROR Unsupported authentication command'' st)"

lemma read_line_shorter: "read_line buffer c input = Inr (line, rest) \<Longrightarrow> length rest < length input"
proof (induction buffer c input rule: read_line.induct)
  case (1 buffer c input)
  show ?case
  proof (cases input)
    case Nil
    with 1(2) show ?thesis by (simp add: read_line.simps [of buffer c] split: if_splits)
  next
    case (Cons d ds)
    with 1 show ?thesis by (auto simp: read_line.simps [of buffer c] less_SucI split: if_splits)
  qed
qed

function auth_loop :: "u32 \<Rightarrow> string \<Rightarrow> auth_state \<Rightarrow> string \<Rightarrow> string list \<times> (auth_error + string)" where
  "auth_loop uid guid st input =
     (case readAuthLine input of Inl e \<Rightarrow> ([], Inl e)
      | Inr (line, rest) \<Rightarrow>
          (case auth_command uid guid st (Fields line) of
             Fail e \<Rightarrow> ([], Inl e)
           | Begin \<Rightarrow> ([], Inr rest)
           | Reply reply st' \<Rightarrow> (case auth_loop uid guid st' rest of (replies, r) \<Rightarrow> (reply # replies, r))))"
  by pat_completeness auto
termination
  by (relation "measure (\<lambda>(uid, guid, st, input). length input)")
    (auto simp: readAuthLine_def dest: read_line_shorter)

declare auth_loop.simps [simp del]

text \<open>\<^verbatim>\<open>own\<close> is the account the proxy runs as, \<open>peer\<close> the one the kernel reports for the connection.\<close>

definition authenticateClient :: "u32 \<Rightarrow> u32 \<Rightarrow> string \<Rightarrow> string \<Rightarrow> string list \<times> (auth_error + string)" where
  "authenticateClient own peer guid input =
     (if peer \<noteq> own then ([], Inl Caller_denied)
      else case input of [] \<Rightarrow> ([], Inl Stream_ended)
      | first # rest \<Rightarrow> if first \<noteq> CHR 0x00 then ([], Inl No_null_byte) else auth_loop peer guid auth_start rest)"

definition hex_text :: "string \<Rightarrow> string" where
  "hex_text s = concat (map (\<lambda>c. let n = of_char c; digit = (\<lambda>d. char_of (if d < 10 then d + 48 else d + 87 :: nat))
     in [digit (n div 16), digit (n mod 16)]) s)"

definition authenticateUpstream :: "u32 \<Rightarrow> string \<Rightarrow> string list \<times> (auth_error + string)" where
  "authenticateUpstream euid input =
     (let hello = ''AUTH EXTERNAL '' @ hex_text (show_nat (unat euid)) in
      case readAuthLine input of Inl e \<Rightarrow> ([hello], Inl e)
      | Inr (line, rest) \<Rightarrow>
          if \<not> HasPrefix line ''OK '' then ([hello], Inl (Upstream_rejected line))
          else case readAuthLine rest of Inl e \<Rightarrow> ([hello, ''NEGOTIATE_UNIX_FD''], Inl e)
          | Inr (line, rest) \<Rightarrow>
              if line \<noteq> ''AGREE_UNIX_FD'' \<and> \<not> HasPrefix line ''ERROR''
                then ([hello, ''NEGOTIATE_UNIX_FD''], Inl Upstream_invalid_descriptors)
              else ([hello, ''NEGOTIATE_UNIX_FD'', ''BEGIN''], Inr rest))"

section \<open>The dialogue as a state machine\<close>

definition auth_step :: "u32 \<Rightarrow> string \<Rightarrow> auth_state \<Rightarrow> string list \<Rightarrow> auth_state \<Rightarrow> bool" where
  "auth_step uid guid st parts st' \<longleftrightarrow> (\<exists>reply. auth_command uid guid st parts = Reply reply st')"

definition proves_identity :: "u32 \<Rightarrow> string list \<Rightarrow> bool" where
  "proves_identity uid parts \<longleftrightarrow>
     (\<exists>identity. externalIdentityMatches identity uid \<and>
        (parts = [''AUTH'', ''EXTERNAL'', identity] \<or> parts = [''DATA'', identity])) \<or> parts = [''DATA'']"

lemma auth_step_authorized:
  assumes "auth_step uid guid st parts st'" "authorized st'"
  shows "proves_identity uid parts \<or> authorized st \<and> parts \<noteq> [] \<and> hd parts \<noteq> ''CANCEL''"
proof -
  obtain reply where r: "auth_command uid guid st parts = Reply reply st'"
    using assms(1) by (auto simp: auth_step_def)
  then obtain command args where parts: "parts = command # args" by (cases parts) (auto simp: auth_command_def)
  note r = r [unfolded auth_command_def parts list.case]
  consider "command = ''AUTH''" | "command = ''DATA''" | "command = ''CANCEL''"
    | "command \<notin> {''AUTH'', ''DATA'', ''CANCEL''}" by blast
  then show ?thesis
  proof cases
    case 1
    with r assms(2) show ?thesis
      by (auto simp: parts proves_identity_def decided_def split: list.splits if_splits)
  next
    case 2
    with r assms(2) show ?thesis
      by (auto simp: parts proves_identity_def decided_def split: list.splits if_splits)
  next
    case 3
    with r assms(2) show ?thesis by auto
  next
    case 4
    with r assms(2) show ?thesis by (auto simp: parts split: if_splits)
  qed
qed

lemma run_authorized:
  assumes "run (auth_step uid guid) st cmds st'" "authorized st'" "\<not> authorized st"
  shows "\<exists>before cmd between. cmds = before @ cmd # between \<and> proves_identity uid cmd \<and>
    (\<forall>c\<in>set between. c \<noteq> [] \<and> hd c \<noteq> ''CANCEL'')"
proof -
  have "authorized st \<and> (\<forall>c\<in>set cmds. c \<noteq> [] \<and> hd c \<noteq> ''CANCEL'') \<or>
      (\<exists>before cmd between. cmds = before @ cmd # between \<and> proves_identity uid cmd \<and>
        (\<forall>c\<in>set between. c \<noteq> [] \<and> hd c \<noteq> ''CANCEL''))"
    using assms(1,2)
  proof (induction rule: run.induct)
    case (then_event s ev s' evs s'')
    then consider "authorized s'" "\<forall>c\<in>set evs. c \<noteq> [] \<and> hd c \<noteq> ''CANCEL''" | before cmd between where
      "evs = before @ cmd # between" "proves_identity uid cmd" "\<forall>c\<in>set between. c \<noteq> [] \<and> hd c \<noteq> ''CANCEL''" by blast
    then show ?case
    proof cases
      case 1
      with auth_step_authorized [OF then_event(1)] show ?thesis by (auto intro: exI [of _ "[]"])
    next
      case 2
      then have "ev # evs = (ev # before) @ cmd # between" by simp
      with 2 show ?thesis by blast
    qed
  qed simp
  with assms(3) show ?thesis by blast
qed

lemma auth_loop_run:
  "auth_loop uid guid st input = (replies, Inr rest) \<Longrightarrow>
     \<exists>cmds st'. run (auth_step uid guid) st cmds st' \<and> authorized st' \<and> length replies = length cmds"
proof (induction uid guid st input arbitrary: replies rule: auth_loop.induct)
  case (1 uid guid st input)
  obtain line more where line: "readAuthLine input = Inr (line, more)"
    using 1(2) by (auto simp: auth_loop.simps [of uid guid st input] split: sum.splits)
  show ?case
  proof (cases "auth_command uid guid st (Fields line)")
    case (Reply reply st')
    obtain replies' where tail: "auth_loop uid guid st' more = (replies', Inr rest)" "replies = reply # replies'"
      using 1(2) by (auto simp: auth_loop.simps [of uid guid st input] line Reply split: prod.splits)
    from 1(1) [OF line refl Reply tail(1)] obtain cmds st'' where
      "run (auth_step uid guid) st' cmds st''" "authorized st''" "length replies' = length cmds" by blast
    moreover have "auth_step uid guid st (Fields line) st'" using Reply by (auto simp: auth_step_def)
    ultimately have "run (auth_step uid guid) st (Fields line # cmds) st''" "length replies = length (Fields line # cmds)"
      by (auto simp: tail(2) intro: run.intros)
    with \<open>authorized st''\<close> show ?thesis by blast
  next
    case (Fail e)
    with 1(2) show ?thesis by (simp add: auth_loop.simps [of uid guid st input] line)
  next
    case Begin
    then have "authorized st"
      by (auto simp: auth_command_def decided_def split: list.splits if_splits)
    with Begin 1(2) show ?thesis by (auto simp: auth_loop.simps [of uid guid st input] line intro: run.intros)
  qed
qed

section \<open>Properties\<close>


end
