(* ===== verification/Desktop_Bus.thy ===== *)
theory Desktop_Bus
  imports Dbus_Policy Go_Path Go_Time Ratchet
begin

text \<open>
  \<^verbatim>\<open>pkg/desktopbus/proxy.go\<close>: what a confined application may say on the session bus and hear from
  it, and the Bluetooth variant on the system bus.  A message is its decoded form: type, serial,
  header fields and body values.  Resolving a name's owner on the bus, the file chooser's filter
  decoding and the file picker itself are other programs, given as arguments.
\<close>

section \<open>Messages\<close>

datatype message_type = TypeMethodCall | TypeMethodReply | TypeError | TypeSignal | TypeOther

datatype header_field = FieldPath | FieldInterface | FieldMember | FieldErrorName | FieldReplySerial
  | FieldDestination | FieldSender | FieldSignature

datatype bus_value =
  VString string | VPath string | VUint u32 | VBool bool | VBytes string | VStrings "string list"
| VDict "(string \<times> bus_value) list" | VOther

record message =
  mg_Type :: message_type
  mg_Serial :: u32
  mg_Headers :: "header_field \<Rightarrow> bus_value option"
  mg_Body :: "bus_value list"

text \<open>\<^verbatim>\<open>headerValue\<close> at the types the proxy asks for: the zero value where the field is absent or of another type.\<close>

definition header_string :: "message \<Rightarrow> header_field \<Rightarrow> string" where
  "header_string m f = (case mg_Headers m f of Some (VString s) \<Rightarrow> s | _ \<Rightarrow> [])"

definition header_path :: "message \<Rightarrow> header_field \<Rightarrow> string" where
  "header_path m f = (case mg_Headers m f of Some (VPath s) \<Rightarrow> s | _ \<Rightarrow> [])"

definition header_uint :: "message \<Rightarrow> header_field \<Rightarrow> u32" where
  "header_uint m f = (case mg_Headers m f of Some (VUint n) \<Rightarrow> n | _ \<Rightarrow> 0)"

definition portalDestination :: string where "portalDestination = ''org.freedesktop.portal.Desktop''"
definition bluezDestination :: string where "bluezDestination = ''org.bluez''"
definition fileChooserInterface :: string where "fileChooserInterface = ''org.freedesktop.portal.FileChooser''"
definition requestInterface :: string where "requestInterface = ''org.freedesktop.portal.Request''"
definition portalObjectPath :: string where "portalObjectPath = ''/org/freedesktop/portal/desktop''"
definition requestPathPrefix :: string where "requestPathPrefix = ''/org/freedesktop/portal/desktop/request/cpak/''"
definition maxPortalSelections :: nat where "maxPortalSelections = 128"

abbreviation busName :: string where "busName \<equiv> ''org.freedesktop.DBus''"
abbreviation busPath :: string where "busPath \<equiv> ''/org/freedesktop/DBus''"

section \<open>State\<close>

record Options =
  op_SocketPath :: string
  op_UpstreamAddress :: string
  op_BrokerSocketPath :: string
  op_BrokerToken :: string
  op_FilePicker :: bool
  op_Bluetooth :: bool
  op_Policy :: DBusPolicy
  op_has_PickFile :: bool

record Proxy =
  px_options :: Options
  px_portalSender :: string
  px_bluezSender :: string
  px_requests :: "string list"

record connectionState =
  cs_uniqueName :: string
  cs_helloSerial :: u32
  cs_bluetoothReplies :: "(u32 \<times> string) list"

datatype options_error = Socket_and_upstream_required | Bus_policy_invalid dbus_error
  | Bluetooth_with_session_permissions | Broker_credentials_invalid

definition validateOptions :: "Options \<Rightarrow> options_error err" where
  "validateOptions o' =
     (if \<not> IsAbs (op_SocketPath o') \<or> op_UpstreamAddress o' = [] then Some Socket_and_upstream_required
      else case ValidateDBusPolicy (op_Policy o') of Some e \<Rightarrow> Some (Bus_policy_invalid e)
      | None \<Rightarrow>
          if op_Bluetooth o' \<and> (op_FilePicker o' \<or> DBus_Enabled (op_Policy o')) then Some Bluetooth_with_session_permissions
          else if op_FilePicker o' \<and> \<not> op_has_PickFile o' \<and>
                  (\<not> IsAbs (op_BrokerSocketPath o') \<or> length (op_BrokerToken o') < 32) then Some Broker_credentials_invalid
          else None)"

section \<open>Decisions\<close>

definition restrictedBusMatchCall :: "string \<Rightarrow> string \<Rightarrow> string \<Rightarrow> string \<Rightarrow> bool" where
  "restrictedBusMatchCall destination path interfaceName member \<longleftrightarrow>
     destination = busName \<and> path = busPath \<and> interfaceName = busName \<and> (member = ''AddMatch'' \<or> member = ''RemoveMatch'')"

definition restrictedBusCallAllowed ::
  "string \<Rightarrow> string \<Rightarrow> string \<Rightarrow> string \<Rightarrow> string \<Rightarrow> bus_value list \<Rightarrow> bool" where
  "restrictedBusCallAllowed destination portalSender path interfaceName member body =
     (let portal = (if destination \<noteq> portalDestination \<and> destination \<noteq> portalSender \<or> path \<noteq> portalObjectPath then False
        else if interfaceName = ''org.freedesktop.DBus.Properties'' then member = ''Get'' \<or> member = ''GetAll''
        else if interfaceName = ''org.freedesktop.DBus.Introspectable'' then member = ''Introspect''
        else if interfaceName = ''org.freedesktop.DBus.Peer'' then member = ''Ping'' \<or> member = ''GetMachineId''
        else False)
      in if destination = busName \<and> path = busPath \<and> interfaceName = busName then
           (if member \<in> {''Hello'', ''GetId''} then True
            else if member \<in> {''GetNameOwner'', ''NameHasOwner''} then body = [VString portalDestination]
            else portal)
         else portal)"

definition policyBusCallAllowed ::
  "DBusPolicy \<Rightarrow> string \<Rightarrow> string \<Rightarrow> string \<Rightarrow> string \<Rightarrow> bus_value list \<Rightarrow> bool" where
  "policyBusCallAllowed policy destination path interfaceName member body =
     (if destination = busName \<and> path = busPath \<and> interfaceName = busName \<and> member = ''RequestName'' \<and> length body = 2
        then (case body ! 0 of VString name \<Rightarrow> AllowsOwn policy name | _ \<Rightarrow> False)
      else if destination = busName \<and> path = busPath \<and> interfaceName = busName \<and>
              member \<in> {''ReleaseName'', ''GetNameOwner'', ''NameHasOwner''} \<and> length body = 1
        then (case body ! 0 of VString name \<Rightarrow> AllowsOwn policy name | _ \<Rightarrow> False)
      else AllowsCall policy destination path interfaceName member)"

definition bluetoothBusCallAllowed ::
  "string \<Rightarrow> string \<Rightarrow> string \<Rightarrow> string \<Rightarrow> bus_value list \<Rightarrow> string \<Rightarrow> bool" where
  "bluetoothBusCallAllowed destination path interfaceName member body bluezSender =
     (if destination = bluezDestination \<or> bluezSender \<noteq> [] \<and> destination = bluezSender then True
      else if destination \<noteq> busName \<or> path \<noteq> busPath \<or> interfaceName \<noteq> busName then False
      else if member \<in> {''Hello'', ''GetId'', ''AddMatch'', ''RemoveMatch''} then True
      else if member \<in> {''GetNameOwner'', ''NameHasOwner''} then length body = 1 \<and> body ! 0 = VString bluezDestination
      else if member = ''StartServiceByName'' then length body = 2 \<and> body ! 0 = VString bluezDestination
      else False)"

definition restrictedUpstreamMessage :: "message \<Rightarrow> DBusPolicy \<Rightarrow> bool" where
  "restrictedUpstreamMessage m policy =
     (if mg_Type m = TypeMethodReply \<or> mg_Type m = TypeError then True
      else if mg_Type m \<noteq> TypeSignal then False
      else if header_string m FieldInterface \<noteq> busName \<or>
              header_string m FieldMember \<noteq> ''NameAcquired'' \<and> header_string m FieldMember \<noteq> ''NameLost'' \<or>
              length (mg_Body m) \<noteq> 1 then False
      else case mg_Body m ! 0 of VString name \<Rightarrow> HasPrefix name '':'' \<or> AllowsOwn policy name | _ \<Rightarrow> False)"

section \<open>Connection state\<close>

definition observeClient :: "message \<Rightarrow> connectionState \<Rightarrow> connectionState" where
  "observeClient m s =
     (if mg_Type m = TypeMethodCall \<and> header_string m FieldDestination = busName \<and>
         header_string m FieldInterface = busName \<and> header_string m FieldMember = ''Hello''
      then s\<lparr>cs_helloSerial := mg_Serial m\<rparr> else s)"

definition observeUpstream :: "message \<Rightarrow> connectionState \<Rightarrow> connectionState" where
  "observeUpstream m s =
     (if mg_Type m \<noteq> TypeMethodReply \<or> length (mg_Body m) \<noteq> 1 then s
      else case mg_Body m ! 0 of
        VString name \<Rightarrow> if header_uint m FieldReplySerial = cs_helloSerial s \<and> HasPrefix name '':''
                        then s\<lparr>cs_uniqueName := name\<rparr> else s
      | _ \<Rightarrow> s)"

definition allowBluetoothReply :: "u32 \<Rightarrow> string \<Rightarrow> connectionState \<Rightarrow> connectionState" where
  "allowBluetoothReply serial sender s =
     s\<lparr>cs_bluetoothReplies := (serial, sender) # filter (\<lambda>(k, _). k \<noteq> serial) (cs_bluetoothReplies s)\<rparr>"

definition takeBluetoothReply :: "u32 \<Rightarrow> string \<Rightarrow> connectionState \<Rightarrow> bool \<times> connectionState" where
  "takeBluetoothReply serial destination s =
     (let expected = (case map_of (cs_bluetoothReplies s) serial of None \<Rightarrow> [] | Some e \<Rightarrow> e)
      in (expected \<noteq> [] \<and> destination = expected,
          s\<lparr>cs_bluetoothReplies := filter (\<lambda>(k, _). k \<noteq> serial) (cs_bluetoothReplies s)\<rparr>))"

definition validHandlePart :: "string \<Rightarrow> bool" where
  "validHandlePart s \<longleftrightarrow> s \<noteq> [] \<and> length s \<le> 128 \<and>
     list_all (\<lambda>c. c = CHR ''_'' \<or> (CHR ''a'' \<le> c \<and> c \<le> CHR ''z'') \<or> (CHR ''A'' \<le> c \<and> c \<le> CHR ''Z'') \<or>
                   (CHR ''0'' \<le> c \<and> c \<le> CHR ''9'')) s"

definition variant_string :: "(string \<times> bus_value) list \<Rightarrow> string \<Rightarrow> string" where
  "variant_string options key = (case map_of options key of Some (VString s) \<Rightarrow> s | _ \<Rightarrow> [])"

definition variant_bool :: "(string \<times> bus_value) list \<Rightarrow> string \<Rightarrow> bool" where
  "variant_bool options key = (case map_of options key of Some (VBool b) \<Rightarrow> b | _ \<Rightarrow> False)"

fun hex_of_nat :: "nat \<Rightarrow> string" where
  "hex_of_nat n = (let digit = char_of (if n mod 16 < 10 then n mod 16 + 48 else n mod 16 + 87)
     in if n < 16 then [digit] else hex_of_nat (n div 16) @ [digit])"

declare hex_of_nat.simps [simp del]

definition requestPath :: "message \<Rightarrow> connectionState \<Rightarrow> string" where
  "requestPath m s =
     (let token = (if length (mg_Body m) = 3 then (case mg_Body m ! 2 of VDict options \<Rightarrow> variant_string options ''handle_token'' | _ \<Rightarrow> [])
                   else []);
          sender = map (\<lambda>c. if c = CHR ''.'' then CHR ''_'' else c) (filter (\<lambda>c. c \<noteq> CHR '':'') (cs_uniqueName s))
      in if validHandlePart token \<and> HasPrefix (cs_uniqueName s) '':'' \<and> validHandlePart sender
         then ''/org/freedesktop/portal/desktop/request/'' @ sender @ ''/'' @ token
         else requestPathPrefix @ hex_of_nat (unat (mg_Serial m)))"

section \<open>The file chooser\<close>

record FilePickerFilter =
  ff_Name :: string
  ff_Patterns :: "string list"
  ff_MIMETypes :: "string list"

datatype picker_mode = PickerOpenFile | PickerSaveFile | PickerOpenFolder

record FilePickerRequest =
  fr_Mode :: picker_mode
  fr_ParentWindow :: string
  fr_Title :: string
  fr_AcceptLabel :: string
  fr_SuggestedName :: string
  fr_CurrentFolder :: string
  fr_Multiple :: bool
  fr_Filters :: "FilePickerFilter list"

type_synonym decodedFilter = "string \<times> (u32 \<times> string) list"

datatype chooser_error = Chooser_arguments | Chooser_parent | Chooser_title | Chooser_options | Chooser_too_many_filters

definition chooser_text :: "chooser_error \<Rightarrow> string" where
  "chooser_text e = (case e of
     Chooser_arguments \<Rightarrow> ''file chooser expects parent, title and options''
   | Chooser_parent \<Rightarrow> ''file chooser parent is invalid''
   | Chooser_title \<Rightarrow> ''file chooser title is invalid''
   | Chooser_options \<Rightarrow> ''file chooser options are invalid''
   | Chooser_too_many_filters \<Rightarrow> ''file chooser has too many filters'')"

definition decodePortalPath :: "bus_value \<Rightarrow> string" where
  "decodePortalPath v =
     (case v of VBytes encoded \<Rightarrow>
        if encoded = [] \<or> last encoded \<noteq> CHR 0x00 then []
        else let path = butlast encoded in
          if \<not> IsAbs path \<or> Clean path \<noteq> path \<or> CHR 0x00 \<in> set path then [] else path
      | _ \<Rightarrow> [])"

definition decodeFilters :: "decodedFilter list option \<Rightarrow> FilePickerFilter list" where
  "decodeFilters decoded =
     (case decoded of None \<Rightarrow> []
      | Some filters \<Rightarrow>
          filter (\<lambda>f. length (ff_Patterns f) + length (ff_MIMETypes f) > 0)
            (map (\<lambda>(name, rules). \<lparr>ff_Name = name, ff_Patterns = map snd (filter (\<lambda>r. fst r = 0) rules),
                                   ff_MIMETypes = map snd (filter (\<lambda>r. fst r = 1) rules)\<rparr>) filters))"

definition chooser_request ::
  "(bus_value \<Rightarrow> decodedFilter list option) \<Rightarrow> string \<Rightarrow> string \<Rightarrow> string \<Rightarrow> (string \<times> bus_value) list \<Rightarrow> FilePickerRequest" where
  "chooser_request store member parent title options =
     \<lparr>fr_Mode = (if variant_bool options ''directory'' then PickerOpenFolder
                 else if member = ''SaveFile'' then PickerSaveFile else PickerOpenFile),
      fr_ParentWindow = parent, fr_Title = title, fr_AcceptLabel = variant_string options ''accept_label'',
      fr_SuggestedName = variant_string options ''current_name'',
      fr_CurrentFolder = (case map_of options ''current_folder'' of None \<Rightarrow> [] | Some v \<Rightarrow> decodePortalPath v),
      fr_Multiple = variant_bool options ''multiple'' \<and> \<not> variant_bool options ''directory'',
      fr_Filters = (case map_of options ''filters'' of None \<Rightarrow> [] | Some v \<Rightarrow> decodeFilters (store v))\<rparr>"

definition decodeFileChooserCall ::
  "(bus_value \<Rightarrow> decodedFilter list option) \<Rightarrow> string \<Rightarrow> bus_value list \<Rightarrow> chooser_error + FilePickerRequest" where
  "decodeFileChooserCall store member body =
     (if length body \<noteq> 3 then Inl Chooser_arguments
      else case body ! 0 of VString parent \<Rightarrow>
        (case body ! 1 of VString title \<Rightarrow>
          (case body ! 2 of VDict options \<Rightarrow>
             let request = chooser_request store member parent title options
             in if length (fr_Filters request) > 32 then Inl Chooser_too_many_filters else Inr request
           | _ \<Rightarrow> Inl Chooser_options)
         | _ \<Rightarrow> Inl Chooser_title)
      | _ \<Rightarrow> Inl Chooser_parent)"

record bus_lib =
  bl_Store :: "bus_value \<Rightarrow> decodedFilter list option"
  bl_file_uri :: "string \<Rightarrow> string"

section \<open>Messages the proxy makes up\<close>

definition no_headers :: "header_field \<Rightarrow> bus_value option" where
  "no_headers = (\<lambda>_. None)"

definition methodReply :: "message \<Rightarrow> bus_value list \<Rightarrow> message" where
  "methodReply call body =
     \<lparr>mg_Type = TypeMethodReply, mg_Serial = 0,
      mg_Headers = (no_headers(FieldReplySerial \<mapsto> VUint (mg_Serial call)))(FieldSignature := if body = [] then None else Some VOther),
      mg_Body = body\<rparr>"

definition methodError :: "message \<Rightarrow> string \<Rightarrow> string \<Rightarrow> message" where
  "methodError call name detail =
     \<lparr>mg_Type = TypeError, mg_Serial = 0,
      mg_Headers = no_headers(FieldErrorName \<mapsto> VString name, FieldReplySerial \<mapsto> VUint (mg_Serial call), FieldSignature \<mapsto> VOther),
      mg_Body = [VString detail]\<rparr>"

definition responseSignal :: "string \<Rightarrow> string \<Rightarrow> string \<Rightarrow> u32 \<Rightarrow> (string \<times> bus_value) list \<Rightarrow> message" where
  "responseSignal path sender destination response values =
     \<lparr>mg_Type = TypeSignal, mg_Serial = 0,
      mg_Headers = no_headers(FieldPath \<mapsto> VPath path, FieldInterface \<mapsto> VString requestInterface, FieldMember \<mapsto> VString ''Response'',
        FieldSender \<mapsto> VString sender, FieldDestination \<mapsto> VString destination, FieldSignature \<mapsto> VOther),
      mg_Body = [VUint response, VDict values]\<rparr>"

record FilePickerResult =
  pr_Path :: string
  pr_Paths :: "string list"
  pr_Access :: string

text \<open>\<^verbatim>\<open>pick\<close> once the picker has answered; a failure is \<open>None\<close> with whether it was a cancellation.\<close>

definition pick_response ::
  "(string \<Rightarrow> string) \<Rightarrow> string \<Rightarrow> string \<Rightarrow> string \<Rightarrow> bool + FilePickerResult \<Rightarrow> message" where
  "pick_response file_uri handle sender destination outcome =
     (case outcome of
        Inl cancelled \<Rightarrow> responseSignal handle sender destination (if cancelled then 1 else 2) []
      | Inr result \<Rightarrow>
          let paths = (if pr_Paths result = [] \<and> pr_Path result \<noteq> [] then [pr_Path result] else pr_Paths result);
              bad = (paths = [] \<or> length paths > maxPortalSelections);
              paths = (if bad then [] else paths)
          in responseSignal handle sender destination (if bad then 2 else 0)
               [(''uris'', VStrings (map file_uri paths)), (''writable'', VBool (pr_Access result = ''read-write''))])"

section \<open>Client to bus\<close>

datatype verdict = Forwarded message | Answered message | Dropped

record bus_outcome =
  bo_verdict :: verdict
  bo_proxy :: Proxy
  bo_state :: connectionState
  bo_started :: "(string \<times> FilePickerRequest) option"

definition settle :: "verdict \<Rightarrow> Proxy \<Rightarrow> connectionState \<Rightarrow> bus_outcome" where
  "settle v px s = \<lparr>bo_verdict = v, bo_proxy = px, bo_state = s, bo_started = None\<rparr>"

definition interceptBluetooth :: "Proxy \<Rightarrow> connectionState \<Rightarrow> message \<Rightarrow> bus_outcome" where
  "interceptBluetooth px s m =
     (if mg_Type m = TypeMethodReply \<or> mg_Type m = TypeError then
        (case takeBluetoothReply (header_uint m FieldReplySerial) (header_string m FieldDestination) s of
           (taken, s') \<Rightarrow> settle (if taken then Forwarded m else Dropped) px s')
      else if mg_Type m = TypeSignal then
        (let interfaceName = header_string m FieldInterface in
         if interfaceName \<noteq> ''org.freedesktop.DBus.Properties'' \<and> interfaceName \<noteq> ''org.freedesktop.DBus.ObjectManager'' \<and>
            \<not> HasPrefix interfaceName ''org.bluez.'' then settle Dropped px s
         else if px_bluezSender px = [] then settle Dropped px s
         else settle (Forwarded (m\<lparr>mg_Headers := (mg_Headers m)(FieldDestination \<mapsto> VString (px_bluezSender px))\<rparr>)) px s)
      else if mg_Type m \<noteq> TypeMethodCall then settle Dropped px s
      else if bluetoothBusCallAllowed (header_string m FieldDestination) (header_path m FieldPath)
                (header_string m FieldInterface) (header_string m FieldMember) (mg_Body m) (px_bluezSender px)
        then settle (Forwarded m) px s
      else settle (Answered (methodError m ''org.freedesktop.DBus.Error.AccessDenied'' ''Bluetooth bus access is not permitted'')) px s)"

definition intercept ::
  "(bus_value \<Rightarrow> decodedFilter list option) \<Rightarrow> Proxy \<Rightarrow> connectionState \<Rightarrow> message \<Rightarrow> bus_outcome" where
  "intercept store px s m =
     (if op_Bluetooth (px_options px) then interceptBluetooth px s m
      else if mg_Type m \<noteq> TypeMethodCall then settle Dropped px s
      else
        let path = header_path m FieldPath; interfaceName = header_string m FieldInterface;
            member = header_string m FieldMember; destination = header_string m FieldDestination
        in if interfaceName = requestInterface \<and> member = ''Close'' \<and> path \<in> set (px_requests px)
             then settle (Answered (methodReply m [])) (px\<lparr>px_requests := removeAll path (px_requests px)\<rparr>) s
           else if op_FilePicker (px_options px) \<and> (destination = portalDestination \<or> destination = px_portalSender px) \<and>
                   path = portalObjectPath \<and> interfaceName = fileChooserInterface \<and> (member = ''OpenFile'' \<or> member = ''SaveFile'')
             then (case decodeFileChooserCall store member (mg_Body m) of
                 Inl e \<Rightarrow> settle (Answered (methodError m ''org.freedesktop.DBus.Error.InvalidArgs'' (chooser_text e))) px s
               | Inr request \<Rightarrow>
                   let handle = requestPath m s in
                   \<lparr>bo_verdict = Answered (methodReply m [VPath handle]),
                    bo_proxy = px\<lparr>px_requests := List.insert handle (px_requests px)\<rparr>, bo_state = s,
                    bo_started = Some (handle, request)\<rparr>)
           else if restrictedBusMatchCall destination path interfaceName member
             then settle (Answered (methodReply m [])) px s
           else if restrictedBusCallAllowed destination (px_portalSender px) path interfaceName member (mg_Body m)
             then settle (Forwarded m) px s
           else if policyBusCallAllowed (op_Policy (px_options px)) destination path interfaceName member (mg_Body m)
             then settle (Forwarded m) px s
           else settle (Answered (methodError m ''org.freedesktop.DBus.Error.AccessDenied'' ''session bus access is not permitted'')) px s)"

section \<open>Bus to client\<close>

text \<open>\<open>owner\<close> is what asking the bus for the owner of \<^verbatim>\<open>org.bluez\<close> answers, if it is asked.\<close>

definition isBluezSender :: "string option \<Rightarrow> string \<Rightarrow> Proxy \<Rightarrow> bool \<times> Proxy" where
  "isBluezSender owner sender px =
     (if px_bluezSender px \<noteq> [] \<and> sender = px_bluezSender px then (True, px)
      else if \<not> HasPrefix sender '':'' then (False, px)
      else case owner of None \<Rightarrow> (False, px)
      | Some o' \<Rightarrow> if \<not> HasPrefix o' '':'' \<or> sender \<noteq> o' then (False, px) else (True, px\<lparr>px_bluezSender := o'\<rparr>))"

definition upstreamMessageAllowed ::
  "string option \<Rightarrow> Proxy \<Rightarrow> connectionState \<Rightarrow> message \<Rightarrow> bool \<times> Proxy \<times> connectionState" where
  "upstreamMessageAllowed owner px s m =
     (if \<not> op_Bluetooth (px_options px) then (restrictedUpstreamMessage m (op_Policy (px_options px)), px, s)
      else
        let sender = header_string m FieldSender in
        if mg_Type m = TypeMethodReply \<or> mg_Type m = TypeError then
          (if sender = busName then (True, px, s)
           else case isBluezSender owner sender px of (ok, px') \<Rightarrow> (ok, px', s))
        else case isBluezSender owner sender px of (ok, px') \<Rightarrow>
          if \<not> ok then
            (mg_Type m = TypeSignal \<and> sender = busName \<and> header_string m FieldInterface = busName \<and>
               (header_string m FieldMember \<in> {''NameAcquired'', ''NameLost''} \<or>
                header_string m FieldMember = ''NameOwnerChanged'' \<and> length (mg_Body m) = 3 \<and>
                  mg_Body m ! 0 = VString bluezDestination), px', s)
          else if mg_Type m = TypeSignal then (True, px', s)
          else if mg_Type m \<noteq> TypeMethodCall then (False, px', s)
          else if header_string m FieldDestination \<noteq> cs_uniqueName s then (False, px', s)
          else (True, px', allowBluetoothReply (mg_Serial m) sender s))"

section \<open>A connection\<close>

datatype bus_event = From_client message | From_bus "string option" message | Owner_changed "bus_value list"
  | Picker_done string string "bool + FilePickerResult"

datatype bus_output = To_bus message | To_client message | Nothing_sent

type_synonym bus_state = "Proxy \<times> connectionState"

definition output_of :: "verdict \<Rightarrow> bus_output" where
  "output_of v = (case v of Forwarded m \<Rightarrow> To_bus m | Answered m \<Rightarrow> To_client m | Dropped \<Rightarrow> Nothing_sent)"

fun bus_step :: "bus_lib \<Rightarrow> bus_state \<Rightarrow> bus_event \<Rightarrow> bus_state \<times> bus_output" where
  "bus_step lib (px, s) (From_client m) =
     (let r = intercept (bl_Store lib) px (observeClient m s) m in ((bo_proxy r, bo_state r), output_of (bo_verdict r)))"
| "bus_step lib (px, s) (From_bus owner m) =
     (case upstreamMessageAllowed owner px (observeUpstream m s) m of
        (ok, px', s') \<Rightarrow> ((px', s'), if ok then To_client m else Nothing_sent))"
| "bus_step lib (px, s) (Owner_changed body) =
     ((if length body = 3 \<and> body ! 0 = VString bluezDestination
       then (case body ! 2 of VString owner \<Rightarrow> px\<lparr>px_bluezSender := owner\<rparr> | _ \<Rightarrow> px) else px, s), Nothing_sent)"
| "bus_step lib (px, s) (Picker_done handle destination outcome) =
     ((px\<lparr>px_requests := removeAll handle (px_requests px)\<rparr>, s),
      To_client (pick_response (bl_file_uri lib) handle (px_portalSender px) destination outcome))"

fun bus_run :: "bus_lib \<Rightarrow> bus_state \<Rightarrow> bus_event list \<Rightarrow> bus_state \<times> (bus_event \<times> bus_output) list" where
  "bus_run lib st [] = (st, [])"
| "bus_run lib st (ev # evs) =
     (case bus_step lib st ev of (st', out) \<Rightarrow>
        case bus_run lib st' evs of (st'', trace) \<Rightarrow> (st'', (ev, out) # trace))"

section \<open>What a verdict means\<close>

text \<open>The calls every confined application may make: to the bus itself and, reading only, to the portal.\<close>

definition portal_read :: "string \<Rightarrow> string \<Rightarrow> bool" where
  "portal_read interfaceName member \<longleftrightarrow>
     (interfaceName, member) \<in> {(''org.freedesktop.DBus.Properties'', ''Get''), (''org.freedesktop.DBus.Properties'', ''GetAll''),
        (''org.freedesktop.DBus.Introspectable'', ''Introspect''), (''org.freedesktop.DBus.Peer'', ''Ping''),
        (''org.freedesktop.DBus.Peer'', ''GetMachineId'')}"

definition granted_call :: "DBusPolicy \<Rightarrow> string \<Rightarrow> message \<Rightarrow> bool" where
  "granted_call policy portalSender m \<longleftrightarrow>
     (let destination = header_string m FieldDestination; path = header_path m FieldPath;
          interfaceName = header_string m FieldInterface; member = header_string m FieldMember
      in AllowsCall policy destination path interfaceName member \<or>
         (destination = busName \<and> path = busPath \<and> interfaceName = busName \<and>
            (member \<in> {''Hello'', ''GetId''} \<or>
             member \<in> {''GetNameOwner'', ''NameHasOwner''} \<and> (\<exists>n. mg_Body m = [VString n] \<and> (n = portalDestination \<or> AllowsOwn policy n)) \<or>
             member = ''ReleaseName'' \<and> (\<exists>n. mg_Body m = [VString n] \<and> AllowsOwn policy n) \<or>
             member = ''RequestName'' \<and> (\<exists>n flags. mg_Body m = [VString n, flags] \<and> AllowsOwn policy n))) \<or>
         (destination \<in> {portalDestination, portalSender} \<and> path = portalObjectPath \<and> portal_read interfaceName member))"

lemma length_one: "length xs = Suc 0 \<longleftrightarrow> xs = [xs ! 0]"
  by (cases xs) auto

lemma length_two: "length xs = 2 \<longleftrightarrow> xs = [xs ! 0, xs ! 1]"
  by (cases xs; cases "tl xs") auto

lemma restricted_granted:
  "restrictedBusCallAllowed (header_string m FieldDestination) portalSender (header_path m FieldPath)
     (header_string m FieldInterface) (header_string m FieldMember) (mg_Body m) \<Longrightarrow> granted_call policy portalSender m"
  unfolding restrictedBusCallAllowed_def granted_call_def portal_read_def Let_def
  by (auto split: if_splits)

lemma policy_granted:
  "policyBusCallAllowed policy (header_string m FieldDestination) (header_path m FieldPath)
     (header_string m FieldInterface) (header_string m FieldMember) (mg_Body m) \<Longrightarrow> granted_call policy portalSender m"
  unfolding policyBusCallAllowed_def granted_call_def Let_def
  by (auto simp: length_one length_two split: if_splits bus_value.splits)

lemma settle_sel [simp]:
  "bo_verdict (settle v px s) = v" "bo_proxy (settle v px s) = px" "bo_state (settle v px s) = s"
  by (simp_all add: settle_def)

lemma intercept_Forwarded:
  assumes "bo_verdict (intercept store px s m) = Forwarded m'" "\<not> op_Bluetooth (px_options px)"
  shows "m' = m \<and> mg_Type m = TypeMethodCall \<and> granted_call (op_Policy (px_options px)) (px_portalSender px) m"
  using assms restricted_granted policy_granted
  by (auto simp: intercept_def Let_def split: if_splits sum.splits)

lemma interceptBluetooth_frame:
  "px_options (bo_proxy (interceptBluetooth px s m)) = px_options px"
  "px_portalSender (bo_proxy (interceptBluetooth px s m)) = px_portalSender px"
  by (simp_all add: interceptBluetooth_def Let_def split: prod.split)

lemma intercept_frame:
  "px_options (bo_proxy (intercept store px s m)) = px_options px"
  "px_portalSender (bo_proxy (intercept store px s m)) = px_portalSender px"
  by (simp_all add: intercept_def Let_def interceptBluetooth_frame split: sum.split)

lemma isBluezSender_frame:
  "isBluezSender owner sender px = (ok, px') \<Longrightarrow> px_options px' = px_options px \<and> px_portalSender px' = px_portalSender px"
  by (auto simp: isBluezSender_def split: if_splits option.splits)

lemma upstream_frame:
  "upstreamMessageAllowed owner px s m = (ok, px', s') \<Longrightarrow>
     px_options px' = px_options px \<and> px_portalSender px' = px_portalSender px"
  by (auto simp: upstreamMessageAllowed_def Let_def dest: isBluezSender_frame split: if_splits prod.splits)

lemma bus_step_frame:
  "bus_step lib (px, s) ev = ((px', s'), out) \<Longrightarrow>
     px_options px' = px_options px \<and> px_portalSender px' = px_portalSender px"
  by (cases ev)
    (auto simp: Let_def intercept_frame dest: upstream_frame split: prod.splits if_splits bus_value.splits)

text \<open>What the client of a session bus proxy hears without having asked.\<close>

definition announced :: "DBusPolicy \<Rightarrow> message \<Rightarrow> bool" where
  "announced policy m \<longleftrightarrow> mg_Type m = TypeSignal \<and> header_string m FieldInterface = busName \<and>
     header_string m FieldMember \<in> {''NameAcquired'', ''NameLost''} \<and>
     (\<exists>n. mg_Body m = [VString n] \<and> (HasPrefix n '':'' \<or> AllowsOwn policy n))"

lemma restrictedUpstream_iff:
  "restrictedUpstreamMessage m policy \<longleftrightarrow> mg_Type m \<in> {TypeMethodReply, TypeError} \<or> announced policy m"
  unfolding restrictedUpstreamMessage_def announced_def
  by (auto simp: length_one split: bus_value.splits)

definition permitted_exchange :: "DBusPolicy \<Rightarrow> string \<Rightarrow> bus_event \<times> bus_output \<Rightarrow> bool" where
  "permitted_exchange policy portalSender x \<longleftrightarrow>
     (case x of
        (From_client m, To_bus m') \<Rightarrow> m' = m \<and> mg_Type m = TypeMethodCall \<and> granted_call policy portalSender m
      | (From_bus _ m, To_client m') \<Rightarrow> m' = m \<and> (mg_Type m \<in> {TypeMethodReply, TypeError} \<or> announced policy m)
      | (_, To_bus _) \<Rightarrow> False
      | _ \<Rightarrow> True)"

lemma output_of_To_bus: "output_of v = To_bus m \<longleftrightarrow> v = Forwarded m"
  by (cases v) (auto simp: output_of_def)

lemma bus_step_permitted:
  assumes "bus_step lib (px, s) ev = (st', out)" "\<not> op_Bluetooth (px_options px)"
  shows "permitted_exchange (op_Policy (px_options px)) (px_portalSender px) (ev, out)"
proof (cases ev)
  case (From_client m)
  with assms show ?thesis
    using intercept_Forwarded [of "bl_Store lib" px "observeClient m s" m]
    by (auto simp: permitted_exchange_def Let_def output_of_To_bus split: bus_output.split)
next
  case (From_bus owner m)
  with assms show ?thesis
    by (auto simp: permitted_exchange_def upstreamMessageAllowed_def restrictedUpstream_iff)
qed (use assms in \<open>auto simp: permitted_exchange_def\<close>)

section \<open>Bluetooth replies\<close>

text \<open>A reply to a caller is owed while its call with that serial is pending.\<close>

definition owed :: "u32 \<Rightarrow> string \<Rightarrow> bus_state \<Rightarrow> nat" where
  "owed serial caller st = (if map_of (cs_bluetoothReplies (snd st)) serial = Some caller then 1 else 0)"

definition is_reply :: "u32 \<Rightarrow> string \<Rightarrow> bus_event \<times> bus_output \<Rightarrow> bool" where
  "is_reply serial caller x \<longleftrightarrow>
     (case x of (From_client m, To_bus _) \<Rightarrow> mg_Type m \<in> {TypeMethodReply, TypeError} \<and>
          header_uint m FieldReplySerial = serial \<and> header_string m FieldDestination = caller
      | _ \<Rightarrow> False)"

definition is_call :: "u32 \<Rightarrow> string \<Rightarrow> bus_event \<times> bus_output \<Rightarrow> bool" where
  "is_call serial caller x \<longleftrightarrow>
     (case x of (From_bus _ m, To_client _) \<Rightarrow> mg_Type m = TypeMethodCall \<and> mg_Serial m = serial \<and>
          header_string m FieldSender = caller
      | _ \<Rightarrow> False)"

lemma map_of_filter_key: "map_of (filter (\<lambda>(k, _). k \<noteq> key) xs) k = (if k = key then None else map_of xs k)"
  by (induction xs) auto

lemma observe_replies [simp]:
  "cs_bluetoothReplies (observeClient m s) = cs_bluetoothReplies s"
  "cs_bluetoothReplies (observeUpstream m s) = cs_bluetoothReplies s"
  by (simp_all add: observeClient_def observeUpstream_def split: bus_value.split)

lemma client_step_owed:
  assumes "bus_step lib (px, s) (From_client m) = (st', out)" "op_Bluetooth (px_options px)"
  shows "(if is_reply serial caller (From_client m, out) then 1 else 0) + owed serial caller st' \<le> owed serial caller (px, s)"
proof (cases "mg_Type m \<in> {TypeMethodReply, TypeError}")
  case True
  then have i: "intercept (bl_Store lib) px (observeClient m s) m =
      (case takeBluetoothReply (header_uint m FieldReplySerial) (header_string m FieldDestination) (observeClient m s) of
         (taken, s') \<Rightarrow> settle (if taken then Forwarded m else Dropped) px s')"
    using assms(2) by (auto simp: intercept_def interceptBluetooth_def)
  show ?thesis
    using assms(1) True
    by (auto simp: i takeBluetoothReply_def Let_def is_reply_def owed_def output_of_def map_of_filter_key split: option.splits if_splits)
next
  case False
  then have "bo_state (intercept (bl_Store lib) px (observeClient m s) m) = observeClient m s"
    using assms(2) by (auto simp: intercept_def interceptBluetooth_def Let_def)
  then show ?thesis using assms(1) False by (auto simp: is_reply_def owed_def Let_def split: bus_output.split)
qed

lemma upstream_step_owed:
  assumes "bus_step lib (px, s) (From_bus owner m) = (st', out)" "op_Bluetooth (px_options px)"
  shows "owed serial caller st' \<le> (if is_call serial caller (From_bus owner m, out) then 1 else 0) + owed serial caller (px, s)"
proof -
  obtain ok px' s' where u: "upstreamMessageAllowed owner px (observeUpstream m s) m = (ok, px', s')"
    by (cases "upstreamMessageAllowed owner px (observeUpstream m s) m") auto
  have "s' = observeUpstream m s \<or>
      ok \<and> mg_Type m = TypeMethodCall \<and> s' = allowBluetoothReply (mg_Serial m) (header_string m FieldSender) (observeUpstream m s)"
    using u assms(2) by (auto simp: upstreamMessageAllowed_def Let_def split: if_splits prod.splits)
  with assms(1) u show ?thesis
    by (auto simp: owed_def is_call_def allowBluetoothReply_def map_of_filter_key split: if_splits)
qed

lemma bus_step_owed:
  assumes "bus_step lib (px, s) ev = (st', out)" "op_Bluetooth (px_options px)"
  shows "(if is_reply serial caller (ev, out) then 1 else 0) + owed serial caller st' \<le>
    (if is_call serial caller (ev, out) then 1 else 0) + owed serial caller (px, s)"
proof (cases ev)
  case (From_client m)
  with client_step_owed [of lib px s m st' out serial caller] assms show ?thesis by (simp add: is_call_def)
next
  case (From_bus owner m)
  with upstream_step_owed [of lib px s owner m st' out serial caller] assms show ?thesis by (simp add: is_reply_def)
qed (use assms in \<open>auto simp: is_reply_def is_call_def owed_def\<close>)

lemma two_branches_mono:
  "(if a then x else if b then y else z) \<Longrightarrow> (x \<Longrightarrow> x') \<Longrightarrow> (y \<Longrightarrow> y') \<Longrightarrow> (z \<Longrightarrow> z') \<Longrightarrow>
     (if a then x' else if b then y' else z')"
  by (auto split: if_splits)

text \<open>What the proxy answers itself, whatever the policy says.\<close>

definition answered_here :: "Proxy \<Rightarrow> message \<Rightarrow> bool" where
  "answered_here px m \<longleftrightarrow>
     (let path = header_path m FieldPath; interfaceName = header_string m FieldInterface;
          member = header_string m FieldMember; destination = header_string m FieldDestination
      in interfaceName = requestInterface \<and> member = ''Close'' \<and> path \<in> set (px_requests px) \<or>
         op_FilePicker (px_options px) \<and> (destination = portalDestination \<or> destination = px_portalSender px) \<and>
           path = portalObjectPath \<and> interfaceName = fileChooserInterface \<and> (member = ''OpenFile'' \<or> member = ''SaveFile'') \<or>
         restrictedBusMatchCall destination path interfaceName member)"

lemma intercept_Forwarded_iff:
  assumes "\<not> op_Bluetooth (px_options px)"
  shows "bo_verdict (intercept store px s m) = Forwarded m' \<longleftrightarrow>
    m' = m \<and> mg_Type m = TypeMethodCall \<and> \<not> answered_here px m \<and>
    (restrictedBusCallAllowed (header_string m FieldDestination) (px_portalSender px) (header_path m FieldPath)
       (header_string m FieldInterface) (header_string m FieldMember) (mg_Body m) \<or>
     policyBusCallAllowed (op_Policy (px_options px)) (header_string m FieldDestination) (header_path m FieldPath)
       (header_string m FieldInterface) (header_string m FieldMember) (mg_Body m))"
proof (cases "mg_Type m = TypeMethodCall \<and> \<not> answered_here px m")
  case True
  then have t: "mg_Type m = TypeMethodCall" and a: "\<not> answered_here px m" by auto
  note a = a [unfolded answered_here_def Let_def de_Morgan_disj]
  show ?thesis
    unfolding intercept_def Let_def if_not_P [OF assms] t answered_here_def
    by (simp only: not_True_eq_False if_False a [THEN conjunct1] simp_thms) (use a in auto)
next
  case False
  then show ?thesis
    using assms unfolding intercept_def answered_here_def Let_def by (auto split: sum.splits)
qed

section \<open>Properties\<close>

text \<open>C16: A confined application's whole traffic is what its policy grants: along every sequence of
  messages from the application, from the bus and from the picker, everything that reaches the
  session bus is a method call, forwarded as it was parsed, that a rule of the policy names or
  that every application may make, and everything that reaches the application from the bus is
  an answer or the announcement of a name it may own.\<close>

theorem session_traffic_is_granted:
  assumes "bus_run lib (px, s) evs = (st', trace)" and "\<not> op_Bluetooth (px_options px)" and "x \<in> set trace"
  shows "permitted_exchange (op_Policy (px_options px)) (px_portalSender px) x"
  using assms
proof (induction evs arbitrary: px s trace)
  case (Cons ev evs)
  obtain px1 s1 out trace' where step: "bus_step lib (px, s) ev = ((px1, s1), out)"
    and rest: "bus_run lib (px1, s1) evs = (st', trace')" "trace = (ev, out) # trace'"
    using Cons.prems(1) by (auto split: prod.splits)
  have frame: "px_options px1 = px_options px" "px_portalSender px1 = px_portalSender px"
    using bus_step_frame [OF step] by auto
  show ?case
  proof (cases "x = (ev, out)")
    case True
    with bus_step_permitted [OF step Cons.prems(2)] show ?thesis by simp
  next
    case False
    with Cons.IH [OF rest(1)] Cons.prems rest(2) frame show ?thesis by simp
  qed
qed simp

text \<open>C18: A narrower policy forwards no more: whatever call is forwarded under a policy is forwarded
  under every policy it restricts, so a nested application's proxy lets through nothing its
  parent's would not.\<close>

theorem narrower_policy_forwards_less:
  assumes "DBusPolicyRestricts policy narrower"
    and "bo_verdict (intercept store (px\<lparr>px_options := (px_options px)\<lparr>op_Policy := narrower\<rparr>\<rparr>) s m) = Forwarded m'"
  shows "bo_verdict (intercept store (px\<lparr>px_options := (px_options px)\<lparr>op_Policy := policy\<rparr>\<rparr>) s m) = Forwarded m'"
proof (cases "op_Bluetooth (px_options px)")
  case True
  have "bo_verdict (interceptBluetooth (px\<lparr>px_options := (px_options px)\<lparr>op_Policy := narrower\<rparr>\<rparr>) s m) =
      bo_verdict (interceptBluetooth (px\<lparr>px_options := (px_options px)\<lparr>op_Policy := policy\<rparr>\<rparr>) s m)"
    by (simp add: interceptBluetooth_def Let_def split: prod.split)
  with assms(2) True show ?thesis unfolding intercept_def by simp
next
  case False
  have "policyBusCallAllowed narrower d p i mb body \<Longrightarrow> policyBusCallAllowed policy d p i mb body" for d p i mb body
  proof -
    have own: "AllowsOwn narrower n \<Longrightarrow> AllowsOwn policy n" for n
      using assms(1) by (simp add: DBusPolicyRestricts_iff)
    have named: "(case body ! 0 of VString name \<Rightarrow> AllowsOwn narrower name | _ \<Rightarrow> False) \<Longrightarrow>
        (case body ! 0 of VString name \<Rightarrow> AllowsOwn policy name | _ \<Rightarrow> False)"
      using own by (cases "body ! 0") auto
    have call: "AllowsCall narrower d p i mb \<Longrightarrow> AllowsCall policy d p i mb"
      using assms(1) by (simp add: DBusPolicyRestricts_iff)
    assume "policyBusCallAllowed narrower d p i mb body"
    then show "policyBusCallAllowed policy d p i mb body"
      unfolding policyBusCallAllowed_def by (rule two_branches_mono [OF _ named named call])
  qed
  moreover have "answered_here (px\<lparr>px_options := (px_options px)\<lparr>op_Policy := narrower\<rparr>\<rparr>) m =
      answered_here (px\<lparr>px_options := (px_options px)\<lparr>op_Policy := policy\<rparr>\<rparr>) m"
    by (simp add: answered_here_def)
  ultimately show ?thesis using assms(2) False by (auto simp: intercept_Forwarded_iff)
qed

text \<open>C17: On the Bluetooth proxy an application answers only what it was asked, and once: along every
  sequence of messages the number of replies with a serial that reach a caller is at most the
  number of calls with that serial from that caller that were delivered, plus the one that may
  have been pending at the start.\<close>

theorem bluetooth_replies_are_owed:
  assumes "bus_run lib (px, s) evs = (st', trace)" and "op_Bluetooth (px_options px)"
  shows "length (filter (is_reply serial caller) trace) + owed serial caller st' \<le>
    length (filter (is_call serial caller) trace) + owed serial caller (px, s)"
  using assms
proof (induction evs arbitrary: px s trace)
  case (Cons ev evs)
  obtain px1 s1 out trace' where step: "bus_step lib (px, s) ev = ((px1, s1), out)"
    and rest: "bus_run lib (px1, s1) evs = (st', trace')" "trace = (ev, out) # trace'"
    using Cons.prems(1) by (auto split: prod.splits)
  have "op_Bluetooth (px_options px1)" using bus_step_frame [OF step] Cons.prems(2) by simp
  from Cons.IH [OF rest(1) this] bus_step_owed [OF step Cons.prems(2), of serial caller] show ?case
    by (auto simp: rest(2) split: if_splits)
qed simp

end
