(* ===== verification/Image_Reference.thy ===== *)
theory Image_Reference
  imports Regex
begin

text \<open>
  \<^verbatim>\<open>pkg/oci/reference.go\<close>: OCI image references and their normal form.  \<^verbatim>\<open>strings.ToLower\<close> folds the
  ASCII capitals here; a byte outside ASCII is left as it is.
\<close>

abbreviation lower_digit_cls :: "(char \<times> char) list" where
  "lower_digit_cls \<equiv> [(CHR ''a'', CHR ''z''), (CHR ''0'', CHR ''9'')]"

definition nameSegment :: rx where
  "nameSegment = Cat (plus (Cls lower_digit_cls))
     (Star (Cat (Cls [(CHR ''.'', CHR ''.''), (CHR ''_'', CHR ''_''), (CHR ''-'', CHR ''-'')]) (plus (Cls lower_digit_cls))))"

definition repositoryPattern :: rx where
  "repositoryPattern = Cat nameSegment (Star (Cat (one CHR ''/'') nameSegment))"

abbreviation tag_first_cls :: "(char \<times> char) list" where
  "tag_first_cls \<equiv> [(CHR ''A'', CHR ''Z''), (CHR ''a'', CHR ''z''), (CHR ''0'', CHR ''9''), (CHR ''_'', CHR ''_'')]"

definition tagPattern :: rx where
  "tagPattern = Cat (Cls tag_first_cls)
     (rep_upto 127 (Cls (tag_first_cls @ [(CHR ''.'', CHR ''.''), (CHR ''-'', CHR ''-'')])))"

definition digestPattern :: rx where
  "digestPattern = Cat (lit ''sha256:'') (rep 64 (Cls [(CHR ''a'', CHR ''f''), (CHR ''0'', CHR ''9'')]))"

record Reference =
  rf_Registry :: string
  rf_Repository :: string
  rf_Identifier :: string
  rf_IsDigest :: bool

datatype reference_error = Invalid_reference | Unsupported_digest string | Invalid_tag string

text \<open>The text before and after the last occurrence of a byte: \<^verbatim>\<open>strings.LastIndexByte\<close>.\<close>

definition cut_last :: "char \<Rightarrow> string \<Rightarrow> (string \<times> string) option" where
  "cut_last c s = (if c \<notin> set s then None
     else case cut_on c (rev s) of (behind, before, _) \<Rightarrow> Some (rev before, rev behind))"

text \<open>A tag follows the last colon, if no slash follows it.\<close>

definition cut_tag :: "string \<Rightarrow> (string \<times> string) option" where
  "cut_tag s = (case cut_last CHR '':'' s of None \<Rightarrow> None
     | Some (name, tag) \<Rightarrow> if CHR ''/'' \<in> set tag then None else Some (name, tag))"

definition splitIdentifier :: "string \<Rightarrow> reference_error + string \<times> string \<times> bool" where
  "splitIdentifier s =
     (if count_list s (CHR ''@'') > 1 then Inl Invalid_reference
      else case cut_on CHR ''@'' s of
        (name, digest, True) \<Rightarrow>
          if \<not> matches digestPattern digest then Inl (Unsupported_digest digest)
          else (case cut_tag name of None \<Rightarrow> Inr (name, digest, True)
            | Some (short, tag) \<Rightarrow> if \<not> matches tagPattern tag then Inl (Invalid_tag tag) else Inr (short, digest, True))
      | (_, _, False) \<Rightarrow>
          (case (case cut_tag s of None \<Rightarrow> (s, ''latest'') | Some (name, tag) \<Rightarrow> (name, tag)) of
             (name, identifier) \<Rightarrow> if \<not> matches tagPattern identifier then Inl (Invalid_tag identifier) else Inr (name, identifier, False)))"

definition isRegistry :: "string \<Rightarrow> bool" where
  "isRegistry s \<longleftrightarrow> s = ''localhost'' \<or> CHR ''.'' \<in> set s \<or> CHR '':'' \<in> set s"

definition validRegistry :: "string \<Rightarrow> bool" where
  "validRegistry s \<longleftrightarrow> s \<noteq> [] \<and> set s \<inter> {CHR '' '', CHR ''/'', CHR ''@''} = {} \<and> \<not> HasPrefix s ''.'' \<and> \<not> HasSuffix s ''.''"

abbreviation defaultRegistry :: string where "defaultRegistry \<equiv> ''index.docker.io''"

definition split_registry :: "string list \<Rightarrow> string \<times> string list" where
  "split_registry parts =
     (let (registry, parts) = (if length parts > 1 \<and> isRegistry (hd parts) then (foldASCII (hd parts), tl parts)
                               else (defaultRegistry, parts));
          registry = (if registry = ''docker.io'' then defaultRegistry else registry);
          parts = (if registry = defaultRegistry \<and> length parts = 1 then ''library'' # parts else parts)
      in (registry, parts))"

definition ParseReference :: "string \<Rightarrow> reference_error + Reference" where
  "ParseReference text =
     (let s = TrimSpace text in
      if s = [] \<or> set s \<inter> {CHR 0x00, CHR 0x0D, CHR 0x0A, CHR ''?'', CHR ''#''} \<noteq> {} then Inl Invalid_reference
      else bind_result (splitIdentifier s) (\<lambda>(name, identifier, isDigest).
        let (registry, parts) = split_registry (split_on CHR ''/'' name);
            rawRepository = join_with CHR ''/'' parts; repository = foldASCII rawRepository
        in if rawRepository \<noteq> repository then Inl Invalid_reference
           else if \<not> validRegistry registry \<or> \<not> matches repositoryPattern repository then Inl Invalid_reference
           else Inr \<lparr>rf_Registry = registry, rf_Repository = repository, rf_Identifier = identifier, rf_IsDigest = isDigest\<rparr>))"

definition ContextName :: "Reference \<Rightarrow> string" where
  "ContextName r = rf_Registry r @ ''/'' @ rf_Repository r"

definition Reference_Name :: "Reference \<Rightarrow> string" where
  "Reference_Name r = ContextName r @ (if rf_IsDigest r then ''@'' else '':'') @ rf_Identifier r"

definition WithTag :: "Reference \<Rightarrow> string \<Rightarrow> reference_error + Reference" where
  "WithTag r tag = (if \<not> matches tagPattern tag then Inl (Invalid_tag tag)
     else Inr (r\<lparr>rf_Identifier := tag, rf_IsDigest := False\<rparr>))"

lemma injected_option_parses: "\<not> isl (ParseReference ''--volume=..:/host'')"
  by code_simp

end
