(* ===== verification/Container_Broker.thy ===== *)
theory Container_Broker
  imports Image_Reference Go_Path Signed_State
begin

text \<open>
  \<^verbatim>\<open>pkg/systembroker/container_parser.go\<close> and \<^verbatim>\<open>container.go\<close>: the container command a confined
  application may have run on the host.  The shim inside the sandbox parses a command line into a
  request, the broker validates the request against what the application was granted and builds
  the argument list for podman or docker.  The file system (symbolic links, the trusted binary)
  and what the backend's \<^verbatim>\<open>inspect\<close> prints are arguments.
\<close>

section \<open>Requests\<close>

record ContainerMount =
  cm_Source :: string
  cm_Target :: string
  cm_ReadOnly :: bool

record ContainerPathGrant =
  pg_Path :: string
  pg_ReadOnly :: bool

record ContainerRequest =
  ct_Backend :: string
  ct_Operation :: string
  ct_Resources :: "string list"
  ct_Command :: "string list"
  ct_Image :: string
  ct_Name :: string
  ct_Environment :: "string list"
  ct_Mounts :: "ContainerMount list"
  ct_Ports :: "string list"
  ct_Workdir :: string
  ct_User :: string
  ct_Entrypoint :: string
  ct_All :: bool
  ct_Follow :: bool
  ct_Remove :: bool
  ct_Force :: bool
  ct_Detach :: bool
  ct_NoTrunc :: bool
  ct_NoStream :: bool
  ct_Timestamps :: bool
  ct_Tail :: "int option"
  ct_Format :: string
  ct_Timeout :: int

definition request_for :: "string \<Rightarrow> ContainerRequest" where
  "request_for operation =
     \<lparr>ct_Backend = [], ct_Operation = operation, ct_Resources = [], ct_Command = [], ct_Image = [], ct_Name = [],
      ct_Environment = [], ct_Mounts = [], ct_Ports = [], ct_Workdir = [], ct_User = [], ct_Entrypoint = [], ct_All = False,
      ct_Follow = False, ct_Remove = False, ct_Force = False, ct_Detach = False, ct_NoTrunc = False, ct_NoStream = False,
      ct_Timestamps = False, ct_Tail = None, ct_Format = [], ct_Timeout = 0\<rparr>"

datatype container_error =
  Command_required | Unsupported_operation | Unsupported_option string | Value_required | Resource_required
| One_resource_required | Invalid_tail | Invalid_timeout | Resource_and_command_required | Image_required | Invalid_mount
| Only_ro_mounts | Unsupported_backend | Request_too_large | Invalid_resource | Invalid_command | Invalid_environment
| Only_json | Invalid_container_name | Name_like_identifier | Invalid_workdir | Invalid_user | Invalid_entrypoint
| Invalid_port_protocol | Invalid_port | Invalid_image | Invalid_shape string | Not_permitted string | Colon_in_mount
| Mount_unavailable | Mount_exceeds_grant | Mount_outside_grants | Backend_unavailable | Container_not_found | Container_not_owned

section \<open>Parsing a command line\<close>

definition containerOptionValue :: "string \<Rightarrow> bool \<Rightarrow> string list \<Rightarrow> container_error + string \<times> string list" where
  "containerOptionValue inline hasInline rest =
     (if hasInline then (if inline = [] then Inl Value_required else Inr (inline, rest))
      else case rest of [] \<Rightarrow> Inl Value_required
      | v # rest' \<Rightarrow> if v = [] then Inl Value_required else Inr (v, rest'))"

lemma containerOptionValue_shorter [termination_simp]:
  "containerOptionValue inline hasInline rest = Inr (v, rest') \<Longrightarrow> length rest' < Suc (length rest)"
  by (auto simp: containerOptionValue_def split: if_splits list.splits)

fun list_options :: "ContainerRequest \<Rightarrow> string list \<Rightarrow> container_error + ContainerRequest" where
  "list_options request [] = Inr request"
| "list_options request (arg # rest) =
     (case cut_on CHR ''='' arg of (name, inline, hasInline) \<Rightarrow>
        if name \<in> {''-a'', ''--all''} then list_options (request\<lparr>ct_All := True\<rparr>) rest
        else if name = ''--no-trunc'' then list_options (request\<lparr>ct_NoTrunc := True\<rparr>) rest
        else if name = ''--format'' then
          (case containerOptionValue inline hasInline rest of Inl e \<Rightarrow> Inl e
           | Inr (v, rest') \<Rightarrow> list_options (request\<lparr>ct_Format := v\<rparr>) rest')
        else Inl (Unsupported_option name))"

definition parseContainerList :: "ContainerRequest \<Rightarrow> string list \<Rightarrow> container_error + ContainerRequest" where
  "parseContainerList request args = list_options request args"

definition add_resource :: "ContainerRequest \<Rightarrow> string \<Rightarrow> ContainerRequest" where
  "add_resource request arg = request\<lparr>ct_Resources := ct_Resources request @ [arg]\<rparr>"

fun inspect_options :: "ContainerRequest \<Rightarrow> string list \<Rightarrow> container_error + ContainerRequest" where
  "inspect_options request [] = (if ct_Resources request = [] then Inl Resource_required else Inr request)"
| "inspect_options request (arg # rest) =
     (case cut_on CHR ''='' arg of (name, inline, hasInline) \<Rightarrow>
        if name \<in> {''--format'', ''-f''} then
          (case containerOptionValue inline hasInline rest of Inl e \<Rightarrow> Inl e
           | Inr (v, rest') \<Rightarrow> inspect_options (request\<lparr>ct_Format := v\<rparr>) rest')
        else if HasPrefix arg ''-'' then Inl (Unsupported_option name)
        else inspect_options (add_resource request arg) rest)"

fun logs_options :: "ContainerRequest \<Rightarrow> string list \<Rightarrow> container_error + ContainerRequest" where
  "logs_options request [] = (if length (ct_Resources request) \<noteq> 1 then Inl One_resource_required else Inr request)"
| "logs_options request (arg # rest) =
     (case cut_on CHR ''='' arg of (name, inline, hasInline) \<Rightarrow>
        if name \<in> {''-f'', ''--follow''} then logs_options (request\<lparr>ct_Follow := True\<rparr>) rest
        else if name \<in> {''-t'', ''--timestamps''} then logs_options (request\<lparr>ct_Timestamps := True\<rparr>) rest
        else if name = ''--tail'' then
          (case containerOptionValue inline hasInline rest of Inl e \<Rightarrow> Inl e
           | Inr (v, rest') \<Rightarrow>
               (case Atoi v of None \<Rightarrow> Inl Invalid_tail
                | Some tail \<Rightarrow> if tail < 0 then Inl Invalid_tail else logs_options (request\<lparr>ct_Tail := Some tail\<rparr>) rest'))
        else if HasPrefix arg ''-'' then Inl (Unsupported_option name)
        else logs_options (add_resource request arg) rest)"

fun stats_options :: "ContainerRequest \<Rightarrow> string list \<Rightarrow> container_error + ContainerRequest" where
  "stats_options request [] = Inr request"
| "stats_options request (arg # rest) =
     (case cut_on CHR ''='' arg of (name, inline, hasInline) \<Rightarrow>
        if name = ''--no-stream'' then stats_options (request\<lparr>ct_NoStream := True\<rparr>) rest
        else if name = ''--format'' then
          (case containerOptionValue inline hasInline rest of Inl e \<Rightarrow> Inl e
           | Inr (v, rest') \<Rightarrow> stats_options (request\<lparr>ct_Format := v\<rparr>) rest')
        else if HasPrefix arg ''-'' then Inl (Unsupported_option name)
        else stats_options (add_resource request arg) rest)"

fun mutation_options :: "ContainerRequest \<Rightarrow> string list \<Rightarrow> container_error + ContainerRequest" where
  "mutation_options request [] = (if ct_Resources request = [] then Inl Resource_required else Inr request)"
| "mutation_options request (arg # rest) =
     (case cut_on CHR ''='' arg of (name, inline, hasInline) \<Rightarrow>
        if name \<in> {''-t'', ''--time''} then
          (case containerOptionValue inline hasInline rest of Inl e \<Rightarrow> Inl e
           | Inr (v, rest') \<Rightarrow>
               (case Atoi v of None \<Rightarrow> Inl Invalid_timeout
                | Some timeout \<Rightarrow> if timeout < 0 \<or> timeout > 300 then Inl Invalid_timeout
                    else mutation_options (request\<lparr>ct_Timeout := timeout\<rparr>) rest'))
        else if name \<in> {''-f'', ''--force''} then
          (if ct_Operation request \<noteq> ''rm'' then Inl (Unsupported_option name)
           else mutation_options (request\<lparr>ct_Force := True\<rparr>) rest)
        else if HasPrefix arg ''-'' then Inl (Unsupported_option name)
        else mutation_options (add_resource request arg) rest)"

fun exec_options :: "ContainerRequest \<Rightarrow> string list \<Rightarrow> container_error + ContainerRequest" where
  "exec_options request [] = Inl Resource_and_command_required"
| "exec_options request (arg # rest) =
     (if HasPrefix arg ''-'' then
        (case cut_on CHR ''='' arg of (name, inline, hasInline) \<Rightarrow>
           if name \<notin> {''-w'', ''--workdir'', ''-u'', ''--user'', ''-e'', ''--env''} then Inl (Unsupported_option name)
           else (case containerOptionValue inline hasInline rest of Inl e \<Rightarrow> Inl e
             | Inr (v, rest') \<Rightarrow>
                 exec_options (if name \<in> {''-w'', ''--workdir''} then request\<lparr>ct_Workdir := v\<rparr>
                               else if name \<in> {''-u'', ''--user''} then request\<lparr>ct_User := v\<rparr>
                               else request\<lparr>ct_Environment := ct_Environment request @ [v]\<rparr>) rest'))
      else if rest = [] then Inl Resource_and_command_required
      else Inr (request\<lparr>ct_Resources := [arg], ct_Command := rest\<rparr>))"

definition parseContainerMount :: "string \<Rightarrow> container_error + ContainerMount" where
  "parseContainerMount text =
     (case split_on CHR '':'' text of
        [source, target] \<Rightarrow> Inr \<lparr>cm_Source = source, cm_Target = target, cm_ReadOnly = False\<rparr>
      | [source, target, opt] \<Rightarrow> if opt \<noteq> ''ro'' then Inl Only_ro_mounts
          else Inr \<lparr>cm_Source = source, cm_Target = target, cm_ReadOnly = True\<rparr>
      | _ \<Rightarrow> Inl Invalid_mount)"

definition create_valued :: "string set" where
  "create_valued = {''--name'', ''-e'', ''--env'', ''-v'', ''--volume'', ''-p'', ''--publish'', ''-w'', ''--workdir'', ''-u'', ''--user'', ''--entrypoint''}"

definition create_option :: "string \<Rightarrow> string \<Rightarrow> ContainerRequest \<Rightarrow> container_error + ContainerRequest" where
  "create_option name v request =
     (if name = ''--name'' then Inr (request\<lparr>ct_Name := v\<rparr>)
      else if name \<in> {''-e'', ''--env''} then Inr (request\<lparr>ct_Environment := ct_Environment request @ [v]\<rparr>)
      else if name \<in> {''-v'', ''--volume''} then
        (case parseContainerMount v of Inl e \<Rightarrow> Inl e | Inr m \<Rightarrow> Inr (request\<lparr>ct_Mounts := ct_Mounts request @ [m]\<rparr>))
      else if name \<in> {''-p'', ''--publish''} then Inr (request\<lparr>ct_Ports := ct_Ports request @ [v]\<rparr>)
      else if name \<in> {''-w'', ''--workdir''} then Inr (request\<lparr>ct_Workdir := v\<rparr>)
      else if name \<in> {''-u'', ''--user''} then Inr (request\<lparr>ct_User := v\<rparr>)
      else Inr (request\<lparr>ct_Entrypoint := v\<rparr>))"

fun create_options :: "ContainerRequest \<Rightarrow> string list \<Rightarrow> container_error + ContainerRequest" where
  "create_options request [] = Inl Image_required"
| "create_options request (arg # rest) =
     (if HasPrefix arg ''-'' then
        (case cut_on CHR ''='' arg of (name, inline, hasInline) \<Rightarrow>
           if name \<in> create_valued then
             (case containerOptionValue inline hasInline rest of Inl e \<Rightarrow> Inl e
              | Inr (v, rest') \<Rightarrow>
                  (case create_option name v request of Inl e \<Rightarrow> Inl e
                   | Inr request' \<Rightarrow> create_options request' rest'))
           else if name = ''--rm'' then create_options (request\<lparr>ct_Remove := True\<rparr>) rest
           else if name \<in> {''-d'', ''--detach''} then create_options (request\<lparr>ct_Detach := True\<rparr>) rest
           else Inl (Unsupported_option name))
      else Inr (request\<lparr>ct_Image := arg, ct_Command := rest\<rparr>))"

definition normalize_args :: "string list \<Rightarrow> string list" where
  "normalize_args args =
     (let args = (case args of first # second # rest \<Rightarrow> if first = ''container'' then second # rest else args | _ \<Rightarrow> args)
      in case args of first # second # rest \<Rightarrow> if first = ''image'' \<and> second = ''ls'' then ''images'' # rest else args | _ \<Rightarrow> args)"

definition parseContainerCommand :: "string list \<Rightarrow> container_error + ContainerRequest" where
  "parseContainerCommand args =
     (case normalize_args args of [] \<Rightarrow> Inl Command_required
      | first # rest \<Rightarrow>
          let operation = (if first = ''ls'' then ''ps'' else first); request = request_for operation in
          if operation \<in> {''version'', ''info'', ''ps'', ''images''} then parseContainerList request rest
          else if operation = ''inspect'' then inspect_options request rest
          else if operation = ''logs'' then logs_options request rest
          else if operation = ''stats'' then stats_options request rest
          else if operation \<in> {''start'', ''stop'', ''restart'', ''rm''} then mutation_options request rest
          else if operation = ''exec'' then exec_options request rest
          else if operation \<in> {''run'', ''create''} then create_options request rest
          else Inl Unsupported_operation)"

section \<open>Validation\<close>

abbreviation alnum_range :: "(char \<times> char) list" where
  "alnum_range \<equiv> [(CHR ''A'', CHR ''Z''), (CHR ''a'', CHR ''z''), (CHR ''0'', CHR ''9'')]"

abbreviation word_range :: "(char \<times> char) list" where
  "word_range \<equiv> alnum_range @ [(CHR ''_'', CHR ''_''), (CHR ''.'', CHR ''.''), (CHR ''-'', CHR ''-'')]"

definition containerResourcePattern :: rx where
  "containerResourcePattern = Cat (Cls alnum_range) (rep_upto 127 (Cls word_range))"

definition containerEnvironmentPattern :: rx where
  "containerEnvironmentPattern =
     Cat (Cls [(CHR ''A'', CHR ''Z''), (CHR ''a'', CHR ''z''), (CHR ''_'', CHR ''_'')])
     (Cat (Star (Cls (alnum_range @ [(CHR ''_'', CHR ''_'')])))
     (Cat (one CHR ''='') (Star (Cls [(CHR 0x00, CHR 0x09), (CHR 0x0B, CHR 0xFF)]))))"

definition containerUserPattern :: rx where
  "containerUserPattern = Cat (plus (Cls word_range)) (optional (Cat (one CHR '':'') (plus (Cls word_range))))"

definition containerIdentifierPattern :: rx where
  "containerIdentifierPattern = Cat (rep 12 (Cls hex_cls)) (rep_upto 52 (Cls hex_cls))"

definition validateContainerPort :: "string \<Rightarrow> container_error err" where
  "validateContainerPort text =
     (case cut_on CHR ''/'' text of (base, protocol, found) \<Rightarrow>
        if found \<and> protocol \<notin> {[], ''tcp'', ''udp''} then Some Invalid_port_protocol
        else let parts = split_on CHR '':'' base in
          if length parts > 2 then Some Invalid_port
          else if list_ex (\<lambda>part. case Atoi part of None \<Rightarrow> True | Some port \<Rightarrow> port < 1 \<or> port > 65535) parts then Some Invalid_port
          else None)"

definition createFields :: "ContainerRequest \<Rightarrow> bool" where
  "createFields r \<longleftrightarrow> ct_Image r \<noteq> [] \<or> ct_Name r \<noteq> [] \<or> ct_Mounts r \<noteq> [] \<or> ct_Ports r \<noteq> [] \<or> ct_Entrypoint r \<noteq> [] \<or>
     ct_Remove r \<or> ct_Detach r"

definition execFields :: "ContainerRequest \<Rightarrow> bool" where
  "execFields r \<longleftrightarrow> ct_Command r \<noteq> [] \<or> ct_Environment r \<noteq> [] \<or> ct_Workdir r \<noteq> [] \<or> ct_User r \<noteq> []"

definition readFields :: "ContainerRequest \<Rightarrow> bool" where
  "readFields r \<longleftrightarrow> ct_All r \<or> ct_Follow r \<or> ct_NoTrunc r \<or> ct_NoStream r \<or> ct_Timestamps r \<or> ct_Tail r \<noteq> None \<or> ct_Format r \<noteq> []"

definition mutationFields :: "ContainerRequest \<Rightarrow> bool" where
  "mutationFields r \<longleftrightarrow> ct_Timeout r \<noteq> 0 \<or> ct_Force r"

definition invalid_shape :: "ContainerRequest \<Rightarrow> bool" where
  "invalid_shape r \<longleftrightarrow>
     (let none = (ct_Resources r = []); op = ct_Operation r;
          others = (createFields r \<or> execFields r \<or> mutationFields r)
      in if op \<in> {''version'', ''info''} then
           \<not> none \<or> others \<or> ct_All r \<or> ct_Follow r \<or> ct_NoTrunc r \<or> ct_NoStream r \<or> ct_Timestamps r \<or> ct_Tail r \<noteq> None
         else if op \<in> {''ps'', ''images''} then \<not> none \<or> others \<or> ct_Follow r \<or> ct_NoStream r \<or> ct_Timestamps r \<or> ct_Tail r \<noteq> None
         else if op = ''inspect'' then
           none \<or> others \<or> ct_All r \<or> ct_Follow r \<or> ct_NoTrunc r \<or> ct_NoStream r \<or> ct_Timestamps r \<or> ct_Tail r \<noteq> None
         else if op = ''logs'' then
           length (ct_Resources r) \<noteq> 1 \<or> others \<or> ct_All r \<or> ct_NoTrunc r \<or> ct_NoStream r \<or> ct_Format r \<noteq> []
         else if op = ''stats'' then others \<or> ct_All r \<or> ct_Follow r \<or> ct_NoTrunc r \<or> ct_Timestamps r \<or> ct_Tail r \<noteq> None
         else if op = ''run'' then ct_Image r = [] \<or> \<not> none \<or> readFields r \<or> mutationFields r
         else if op = ''create'' then ct_Image r = [] \<or> \<not> none \<or> readFields r \<or> mutationFields r \<or> ct_Remove r \<or> ct_Detach r
         else if op = ''start'' then none \<or> others \<or> readFields r
         else if op \<in> {''stop'', ''restart''} then none \<or> createFields r \<or> execFields r \<or> readFields r \<or> ct_Force r
         else if op = ''rm'' then none \<or> createFields r \<or> execFields r \<or> readFields r \<or> ct_Timeout r \<noteq> 0
         else if op = ''exec'' then
           length (ct_Resources r) \<noteq> 1 \<or> ct_Command r = [] \<or> createFields r \<or> readFields r \<or> mutationFields r
         else True)"

definition validateContainerShape :: "ContainerRequest \<Rightarrow> container_error err" where
  "validateContainerShape r = (if invalid_shape r then Some (Invalid_shape (ct_Operation r)) else None)"

definition validateContainerRequest :: "ContainerRequest \<Rightarrow> container_error err" where
  "validateContainerRequest r =
     (if ct_Backend r \<notin> {[], ''podman'', ''docker''} then Some Unsupported_backend
      else if length (ct_Resources r) > 32 \<or> length (ct_Command r) > 128 \<or> length (ct_Environment r) > 64 \<or>
              length (ct_Mounts r) > 32 \<or> length (ct_Ports r) > 32 then Some Request_too_large
      else if \<not> list_all (matches containerResourcePattern) (ct_Resources r) then Some Invalid_resource
      else if list_ex (\<lambda>a. length a > 4096 \<or> CHR 0x00 \<in> set a) (ct_Command r) then Some Invalid_command
      else if list_ex (\<lambda>e. length e > 4096 \<or> \<not> matches containerEnvironmentPattern e \<or> CHR 0x00 \<in> set e) (ct_Environment r)
        then Some Invalid_environment
      else if ct_Format r \<noteq> [] \<and> ct_Format r \<noteq> ''json'' then Some Only_json
      else if ct_Name r \<noteq> [] \<and> \<not> matches containerResourcePattern (ct_Name r) then Some Invalid_container_name
      else if matches containerIdentifierPattern (ct_Name r) then Some Name_like_identifier
      else if ct_Workdir r \<noteq> [] \<and> (\<not> IsAbs (ct_Workdir r) \<or> Clean (ct_Workdir r) \<noteq> ct_Workdir r) then Some Invalid_workdir
      else if ct_User r \<noteq> [] \<and> \<not> matches containerUserPattern (ct_User r) then Some Invalid_user
      else if ct_Entrypoint r \<noteq> [] \<and> (length (ct_Entrypoint r) > 4096 \<or> CHR 0x00 \<in> set (ct_Entrypoint r)) then Some Invalid_entrypoint
      else and_then (first_error validateContainerPort (ct_Ports r))
        (if ct_Image r \<noteq> [] \<and> isl (ParseReference (ct_Image r)) then Some Invalid_image
         else validateContainerShape r))"

section \<open>Arguments\<close>

record container_host =
  ch_EvalSymlinks :: "string \<Rightarrow> string option"
  ch_confirm :: "string \<Rightarrow> bool"
  ch_binary :: "string \<Rightarrow> string option"
  ch_inspect :: "string \<Rightarrow> string option"

definition pathContains :: "string \<Rightarrow> string \<Rightarrow> bool" where
  "pathContains parent child \<longleftrightarrow> Clean parent = Clean child \<or> HasPrefix (Clean child) (Clean parent @ ''/'')"

fun granted_mount :: "container_host \<Rightarrow> ContainerMount \<Rightarrow> string \<Rightarrow> ContainerPathGrant list \<Rightarrow> container_error + string" where
  "granted_mount h mount resolved [] = Inl Mount_outside_grants"
| "granted_mount h mount resolved (grant # grants) =
     (if \<not> pathContains (pg_Path grant) resolved then granted_mount h mount resolved grants
      else if pg_ReadOnly grant \<and> \<not> cm_ReadOnly mount then Inl Mount_exceeds_grant
      else if \<not> ch_confirm h resolved then Inl Mount_unavailable
      else Inr resolved)"

definition validateContainerMount ::
  "container_host \<Rightarrow> ContainerPathGrant list \<Rightarrow> ContainerMount \<Rightarrow> container_error + string" where
  "validateContainerMount h grants mount =
     (if \<not> IsAbs (cm_Source mount) \<or> \<not> IsAbs (cm_Target mount) \<or> Clean (cm_Source mount) \<noteq> cm_Source mount \<or>
         Clean (cm_Target mount) \<noteq> cm_Target mount then Inl Invalid_mount
      else if CHR '':'' \<in> set (cm_Source mount) \<or> CHR '':'' \<in> set (cm_Target mount) then Inl Colon_in_mount
      else case ch_EvalSymlinks h (cm_Source mount) of None \<Rightarrow> Inl Mount_unavailable
      | Some resolved \<Rightarrow> if CHR '':'' \<in> set resolved then Inl Colon_in_mount else granted_mount h mount resolved grants)"

definition flag_if :: "bool \<Rightarrow> string \<Rightarrow> string list" where
  "flag_if b name = (if b then [name] else [])"

definition option_if :: "string \<Rightarrow> string \<Rightarrow> string list" where
  "option_if name v = (if v \<noteq> [] then [name, v] else [])"

definition each_option :: "string \<Rightarrow> string list \<Rightarrow> string list" where
  "each_option name vs = concat (map (\<lambda>v. [name, v]) vs)"

definition containerReadArguments :: "ContainerRequest \<Rightarrow> string list" where
  "containerReadArguments r =
     flag_if (ct_All r) ''--all'' @ flag_if (ct_NoTrunc r) ''--no-trunc'' @ flag_if (ct_Follow r) ''--follow'' @
     flag_if (ct_Timestamps r) ''--timestamps'' @ flag_if (ct_NoStream r) ''--no-stream'' @
     (case ct_Tail r of None \<Rightarrow> [] | Some tail \<Rightarrow> [''--tail'', show_int tail]) @
     option_if ''--format'' (ct_Format r) @ ct_Resources r"

definition volume :: "ContainerMount \<Rightarrow> string \<Rightarrow> string" where
  "volume mount source = source @ '':'' @ cm_Target mount @ (if cm_ReadOnly mount then '':ro'' else [])"

fun volumes :: "container_host \<Rightarrow> ContainerPathGrant list \<Rightarrow> ContainerMount list \<Rightarrow> container_error + string list" where
  "volumes h grants [] = Inr []"
| "volumes h grants (mount # mounts) =
     bind_result (validateContainerMount h grants mount) (\<lambda>source.
     bind_result (volumes h grants mounts) (\<lambda>vs. Inr (volume mount source # vs)))"

definition containerCreateArguments ::
  "container_host \<Rightarrow> string \<Rightarrow> ContainerPathGrant list \<Rightarrow> ContainerRequest \<Rightarrow> container_error + string list" where
  "containerCreateArguments h owner grants r =
     bind_result (volumes h grants (ct_Mounts r)) (\<lambda>vs. Inr (
       [''--label'', ''io.cpak.owner='' @ owner, ''--label'', ''io.cpak.managed=true''] @ option_if ''--name'' (ct_Name r) @
       flag_if (ct_Remove r) ''--rm'' @ flag_if (ct_Detach r) ''--detach'' @ option_if ''--workdir'' (ct_Workdir r) @
       option_if ''--user'' (ct_User r) @ option_if ''--entrypoint'' (ct_Entrypoint r) @
       each_option ''--env'' (ct_Environment r) @ each_option ''--publish'' (ct_Ports r) @ each_option ''--volume'' vs @
       ct_Image r # ct_Command r))"

definition containerMutationArguments :: "ContainerRequest \<Rightarrow> string list" where
  "containerMutationArguments r =
     (if ct_Timeout r > 0 then [''--time'', show_int (ct_Timeout r)] else []) @ flag_if (ct_Force r) ''--force'' @ ct_Resources r"

definition containerExecArguments :: "ContainerRequest \<Rightarrow> string list" where
  "containerExecArguments r =
     option_if ''--workdir'' (ct_Workdir r) @ option_if ''--user'' (ct_User r) @ each_option ''--env'' (ct_Environment r) @
     hd (ct_Resources r) # ct_Command r"

abbreviation containers_read :: string where "containers_read \<equiv> ''read''"
abbreviation containers_manage :: string where "containers_manage \<equiv> ''manage-owned''"
abbreviation containers_exec :: string where "containers_exec \<equiv> ''exec-owned''"

definition containerArguments ::
  "container_host \<Rightarrow> string \<Rightarrow> string list \<Rightarrow> ContainerPathGrant list \<Rightarrow> ContainerRequest \<Rightarrow> container_error + string list \<times> bool" where
  "containerArguments h owner capabilities grants r =
     (case validateContainerRequest r of Some e \<Rightarrow> Inl e
      | None \<Rightarrow>
          let op = ct_Operation r in
          if op \<in> {''version'', ''info'', ''ps'', ''images'', ''inspect'', ''logs'', ''stats''} then
            (if containers_read \<notin> set capabilities then Inl (Not_permitted op) else Inr (op # containerReadArguments r, False))
          else if op \<in> {''run'', ''create''} then
            (if containers_manage \<notin> set capabilities then Inl (Not_permitted op)
             else bind_result (containerCreateArguments h owner grants r) (\<lambda>created. Inr (op # created, False)))
          else if op \<in> {''start'', ''stop'', ''restart'', ''rm''} then
            (if containers_manage \<notin> set capabilities then Inl (Not_permitted op) else Inr (op # containerMutationArguments r, True))
          else if op = ''exec'' then
            (if containers_exec \<notin> set capabilities then Inl (Not_permitted op) else Inr (op # containerExecArguments r, True))
          else Inl Unsupported_operation)"

section \<open>Ownership\<close>

definition requireOwnedContainer :: "container_host \<Rightarrow> string \<Rightarrow> string \<Rightarrow> container_error + string" where
  "requireOwnedContainer h owner resource =
     (case ch_inspect h resource of None \<Rightarrow> Inl Container_not_found
      | Some out \<Rightarrow> (case cut_on CHR '' '' (TrimSpace out) of (identifier, label, found) \<Rightarrow>
          if \<not> found \<or> TrimSpace label \<noteq> owner then Inl Container_not_owned
          else if \<not> matches containerIdentifierPattern identifier then Inl Container_not_found
          else Inr identifier))"

fun owned_identifiers :: "container_host \<Rightarrow> string \<Rightarrow> string list \<Rightarrow> container_error + string list" where
  "owned_identifiers h owner [] = Inr []"
| "owned_identifiers h owner (resource # rest) =
     bind_result (requireOwnedContainer h owner resource) (\<lambda>identifier.
     bind_result (owned_identifiers h owner rest) (\<lambda>ids. Inr (identifier # ids)))"

definition ownedContainerRequest :: "container_host \<Rightarrow> string \<Rightarrow> ContainerRequest \<Rightarrow> container_error + ContainerRequest" where
  "ownedContainerRequest h owner r =
     bind_result (owned_identifiers h owner (ct_Resources r)) (\<lambda>ids. Inr (r\<lparr>ct_Resources := ids\<rparr>))"

definition containerBackend :: "ContainerRequest \<Rightarrow> string" where
  "containerBackend r = (if ct_Backend r = [] then ''podman'' else ct_Backend r)"

text \<open>\<^verbatim>\<open>executeContainer\<close> up to the execution: the program and the arguments it is run with.\<close>

definition executeContainer ::
  "container_host \<Rightarrow> string \<Rightarrow> string list \<Rightarrow> ContainerPathGrant list \<Rightarrow> ContainerRequest \<Rightarrow> container_error + string \<times> string list" where
  "executeContainer h owner capabilities grants r =
     bind_result (containerArguments h owner capabilities grants r) (\<lambda>(arguments, owned).
       case ch_binary h (containerBackend r) of None \<Rightarrow> Inl Backend_unavailable
       | Some binary \<Rightarrow>
           if owned then
             bind_result (ownedContainerRequest h owner r) (\<lambda>resolved.
             bind_result (containerArguments h owner capabilities grants resolved) (\<lambda>(arguments, _). Inr (binary, arguments)))
           else Inr (binary, arguments))"

section \<open>Mounts and ownership\<close>

lemma granted_mount_Inr:
  "granted_mount h mount resolved grants = Inr source \<Longrightarrow>
     source = resolved \<and> (\<exists>g\<in>set grants. pathContains (pg_Path g) resolved \<and> (pg_ReadOnly g \<longrightarrow> cm_ReadOnly mount))"
  by (induction grants) (auto split: if_splits)

lemma volume_parses:
  assumes "CHR '':'' \<notin> set source" "CHR '':'' \<notin> set (cm_Target mount)"
  shows "parseContainerMount (volume mount source) = Inr (mount\<lparr>cm_Source := source\<rparr>)"
proof (cases "cm_ReadOnly mount")
  case True
  then have "split_on CHR '':'' (volume mount source) = [source, cm_Target mount, ''ro'']"
    using assms by (simp add: volume_def split_append_sep)
  with True show ?thesis by (cases mount) (simp add: parseContainerMount_def)
next
  case False
  then have "split_on CHR '':'' (volume mount source) = [source, cm_Target mount]"
    using assms by (simp add: volume_def split_append_sep)
  with False show ?thesis by (cases mount) (simp add: parseContainerMount_def)
qed

definition within_grants :: "ContainerPathGrant list \<Rightarrow> string \<Rightarrow> bool" where
  "within_grants grants v \<longleftrightarrow>
     (\<exists>m. parseContainerMount v = Inr m \<and>
        (\<exists>g\<in>set grants. pathContains (pg_Path g) (cm_Source m) \<and> (pg_ReadOnly g \<longrightarrow> cm_ReadOnly m)))"

lemma validateContainerMount_Inr:
  assumes "validateContainerMount h grants mount = Inr source"
  shows "within_grants grants (volume mount source)"
proof -
  have c: "CHR '':'' \<notin> set source" "CHR '':'' \<notin> set (cm_Target mount)" "granted_mount h mount source grants = Inr source"
    using assms by (auto simp: validateContainerMount_def split: if_splits option.splits dest: granted_mount_Inr)
  from volume_parses [OF c(1,2)] granted_mount_Inr [OF c(3)] show ?thesis by (auto simp: within_grants_def)
qed

lemma volumes_Inr: "volumes h grants mounts = Inr vs \<Longrightarrow> length vs = length mounts \<and> (\<forall>v\<in>set vs. within_grants grants v)"
  by (induction mounts arbitrary: vs) (auto simp: bind_result_Inr validateContainerMount_Inr)

lemma owned_identifiers_Inr:
  "owned_identifiers h owner resources = Inr ids \<longleftrightarrow>
     list_all2 (\<lambda>resource i. requireOwnedContainer h owner resource = Inr i) resources ids"
  by (induction resources arbitrary: ids) (auto simp: bind_result_Inr list_all2_Cons1)

lemma containerArguments_Inr:
  assumes "containerArguments h owner capabilities grants r = Inr (arguments, owned)"
  shows "validateContainerRequest r = None"
    and "ct_Operation r \<in> {''run'', ''create''} \<Longrightarrow> containers_manage \<in> set capabilities \<and> \<not> owned \<and>
      (\<exists>created. containerCreateArguments h owner grants r = Inr created \<and> arguments = ct_Operation r # created)"
    and "ct_Operation r \<in> {''start'', ''stop'', ''restart'', ''rm''} \<Longrightarrow> containers_manage \<in> set capabilities \<and> owned \<and>
      arguments = ct_Operation r # containerMutationArguments r"
    and "ct_Operation r = ''exec'' \<Longrightarrow> containers_exec \<in> set capabilities \<and> owned \<and> arguments = ''exec'' # containerExecArguments r"
  using assms by (auto simp: containerArguments_def Let_def bind_result_Inr split: option.splits if_splits)

section \<open>Properties\<close>



text \<open>
  What the image of a request may be: the backend reads it where it stands, after the options, so
  a reference that begins with a hyphen is an option to it.
\<close>

definition injecting_request :: ContainerRequest where
  "injecting_request = (request_for ''run'')\<lparr>ct_Image := ''--volume=..:/host'', ct_Command := [''alpine'', ''sh'']\<rparr>"


end
