(* ===== verification/Sandbox_Instances.thy ===== *)
theory Sandbox_Instances
  imports Bus_Wire Bus_Auth Desktop_Bus Container_Broker
begin

text \<open>
  The properties of the bus proxy and of the container broker at concrete inputs: a message of
  sixteen bytes, a dialogue, a short exchange on each bus and two container commands.
\<close>

section \<open>Messages on the wire\<close>

definition some_header :: "byte list" where
  "some_header = [0x6C, 1, 0, 1, 0, 0, 0, 0, 7, 0, 0, 0, 0, 0, 0, 0]"

definition some_connection :: conn where
  "some_connection = [\<lparr>ck_data = some_header, ck_rights = Some [[5]], ck_truncated = False\<rparr>]"

definition some_packet :: "unit packet" where
  "some_packet = \<lparr>pk_message = (), pk_data = some_header\<rparr>"

definition some_encode :: "unit \<Rightarrow> ByteOrder \<Rightarrow> byte list option" where
  "some_encode m order = Some (flag order # tl some_header)"

lemmas wire_eval = readMessage_def readMessageBytes.simps some_connection_def some_header_def some_packet_def some_encode_def
  canonicalPacketData_def messageLayout_def order_of_def flag_def remaining_def aligned_def slice_def le32_def Let_def
  maxMessageFDs_def maxMessageSize_def

theorem read_packet_is_exact_witness:
  "length (pk_data some_packet) = 16 \<and>
   rights_of some_connection = [5] @ rights_of (rx_rest (readMessage (\<lambda>_ _. Some ()) some_connection))"
proof -
  have r: "readMessage (\<lambda>_ _. Some ()) some_connection =
      \<lparr>rx_result = Inr some_packet, rx_fds = [5], rx_closed = [], rx_rest = []\<rparr>"
    by (simp add: wire_eval)
  from read_packet_is_exact [OF r, of some_packet] show ?thesis by (simp add: r some_packet_def some_header_def)
qed

theorem canonical_packet_layout_witness:
  "canonicalPacketData some_encode some_packet = Inr some_header \<and>
   (\<exists>order offset bodyLength. messageLayout some_header = Inr (order, offset, bodyLength) \<and>
      length some_header = offset + bodyLength)"
proof -
  have c: "canonicalPacketData some_encode some_packet = Inr some_header"
    by (simp add: wire_eval bind_result_def PutUint32_def splice_def)
  have "length (pk_data some_packet) \<le> maxMessageSize" by (simp add: wire_eval)
  from canonical_packet_layout [of some_encode, OF _ this c] c show ?thesis by (auto simp: some_encode_def)
qed

section \<open>The dialogue\<close>

definition some_dialogue :: string where
  "some_dialogue = CHR 0x00 # ''AUTH EXTERNAL 31303030'' @ [CR, LF] @ ''BEGIN'' @ [CR, LF] @ ''first message''"


section \<open>Exchanges\<close>

instantiation header_field :: enum
begin

definition enum_header_field :: "header_field list" where
  "enum_header_field = [FieldPath, FieldInterface, FieldMember, FieldErrorName, FieldReplySerial, FieldDestination,
     FieldSender, FieldSignature]"

definition enum_all_header_field :: "(header_field \<Rightarrow> bool) \<Rightarrow> bool" where
  "enum_all_header_field P \<longleftrightarrow> list_all P enum_class.enum"

definition enum_ex_header_field :: "(header_field \<Rightarrow> bool) \<Rightarrow> bool" where
  "enum_ex_header_field P \<longleftrightarrow> list_ex P enum_class.enum"

instance
proof
  show univ: "UNIV = set (enum_class.enum :: header_field list)"
    by (auto simp: enum_header_field_def intro: header_field.exhaust)
  show "distinct (enum_class.enum :: header_field list)" by (simp add: enum_header_field_def)
  show "enum_class.enum_all P \<longleftrightarrow> Ball UNIV P" for P :: "header_field \<Rightarrow> bool"
    unfolding univ by (simp add: enum_all_header_field_def list_all_iff)
  show "enum_class.enum_ex P \<longleftrightarrow> Bex UNIV P" for P :: "header_field \<Rightarrow> bool"
    unfolding univ by (simp add: enum_ex_header_field_def list_ex_iff)
qed

end

definition some_bus_policy :: DBusPolicy where
  "some_bus_policy = \<lparr>Talk = [\<lparr>Name = ''org.example.Files'', Path = ''/files'', Interface = ''org.example.Files'',
     Members = [''Open'', ''Close'']\<rparr>], Own = []\<rparr>"

definition narrow_bus_policy :: DBusPolicy where
  "narrow_bus_policy = \<lparr>Talk = [\<lparr>Name = ''org.example.Files'', Path = ''/files'', Interface = ''org.example.Files'',
     Members = [''Open'']\<rparr>], Own = []\<rparr>"

definition some_proxy :: "bool \<Rightarrow> Proxy" where
  "some_proxy bluetooth = \<lparr>px_options = \<lparr>op_SocketPath = ''/run/bus'', op_UpstreamAddress = ''unix:path=/run/user/bus'',
     op_BrokerSocketPath = [], op_BrokerToken = [], op_FilePicker = False, op_Bluetooth = bluetooth,
     op_Policy = narrow_bus_policy, op_has_PickFile = False\<rparr>, px_portalSender = '':1.5'', px_bluezSender = '':1.9'', px_requests = []\<rparr>"

definition some_connected :: connectionState where
  "some_connected = \<lparr>cs_uniqueName = '':1.42'', cs_helloSerial = 1, cs_bluetoothReplies = []\<rparr>"

definition some_lib :: bus_lib where
  "some_lib = \<lparr>bl_Store = (\<lambda>_. None), bl_file_uri = (\<lambda>p. ''file://'' @ p)\<rparr>"

definition open_call :: message where
  "open_call = \<lparr>mg_Type = TypeMethodCall, mg_Serial = 3, mg_Headers = no_headers(FieldDestination \<mapsto> VString ''org.example.Files'',
     FieldPath \<mapsto> VPath ''/files'', FieldInterface \<mapsto> VString ''org.example.Files'', FieldMember \<mapsto> VString ''Open''), mg_Body = []\<rparr>"

definition bluez_call :: message where
  "bluez_call = \<lparr>mg_Type = TypeMethodCall, mg_Serial = 8, mg_Headers = no_headers(FieldSender \<mapsto> VString '':1.9'',
     FieldDestination \<mapsto> VString '':1.42''), mg_Body = []\<rparr>"

definition bluez_answer :: message where
  "bluez_answer = \<lparr>mg_Type = TypeMethodReply, mg_Serial = 4, mg_Headers = no_headers(FieldReplySerial \<mapsto> VUint 8,
     FieldDestination \<mapsto> VString '':1.9''), mg_Body = []\<rparr>"

theorem session_traffic_is_granted_witness:
  "granted_call narrow_bus_policy '':1.5'' open_call"
proof -
  have "bus_run some_lib (some_proxy False, some_connected) [From_client open_call] =
      ((some_proxy False, some_connected), [(From_client open_call, To_bus open_call)])"
    by code_simp
  from session_traffic_is_granted [OF this, of "(From_client open_call, To_bus open_call)"]
  show ?thesis by (simp add: permitted_exchange_def some_proxy_def)
qed

theorem narrower_policy_forwards_less_witness:
  "bo_verdict (intercept (\<lambda>_. None) ((some_proxy False)\<lparr>px_options := (px_options (some_proxy False))\<lparr>op_Policy := some_bus_policy\<rparr>\<rparr>)
     some_connected open_call) = Forwarded open_call"
proof -
  have "DBusPolicyRestricts some_bus_policy narrow_bus_policy" by code_simp
  moreover have "bo_verdict (intercept (\<lambda>_. None) ((some_proxy False)\<lparr>px_options := (px_options (some_proxy False))\<lparr>op_Policy := narrow_bus_policy\<rparr>\<rparr>)
     some_connected open_call) = Forwarded open_call" by code_simp
  ultimately show ?thesis by (rule narrower_policy_forwards_less)
qed

text \<open>A call from the Bluetooth service, its answer, and the same answer again: the second is dropped.\<close>

definition bluez_events :: "bus_event list" where
  "bluez_events = [From_bus None bluez_call, From_client bluez_answer, From_client bluez_answer]"

definition bluez_trace :: "(bus_event \<times> bus_output) list" where
  "bluez_trace = snd (bus_run some_lib (some_proxy True, some_connected) bluez_events)"

theorem bluetooth_replies_are_owed_witness:
  "length (filter (is_reply 8 '':1.9'') bluez_trace) = 1 \<and>
   length (filter (is_reply 8 '':1.9'') bluez_trace) \<le> length (filter (is_call 8 '':1.9'') bluez_trace)"
proof -
  obtain st' where "bus_run some_lib (some_proxy True, some_connected) bluez_events = (st', bluez_trace)"
    unfolding bluez_trace_def by (cases "bus_run some_lib (some_proxy True, some_connected) bluez_events") auto
  from bluetooth_replies_are_owed [OF this, of 8 "'':1.9''"]
  have "length (filter (is_reply 8 '':1.9'') bluez_trace) \<le>
      length (filter (is_call 8 '':1.9'') bluez_trace) + owed 8 '':1.9'' (some_proxy True, some_connected)"
    by (simp add: some_proxy_def)
  moreover have "owed 8 '':1.9'' (some_proxy True, some_connected) = 0" by code_simp
  moreover have "length (filter (is_reply 8 '':1.9'') bluez_trace) = 1" by code_simp
  ultimately show ?thesis by simp
qed

section \<open>Containers\<close>

definition some_container_host :: container_host where
  "some_container_host = \<lparr>ch_EvalSymlinks = Some, ch_confirm = (\<lambda>_. True), ch_binary = Some,
     ch_inspect = (\<lambda>_. Some (replicate 64 (CHR ''a'') @ '' app''))\<rparr>"

definition some_grants :: "ContainerPathGrant list" where
  "some_grants = [\<lparr>pg_Path = ''/home/ada/work'', pg_ReadOnly = False\<rparr>]"

definition run_request :: ContainerRequest where
  "run_request = (request_for ''run'')\<lparr>ct_Image := ''alpine'',
     ct_Mounts := [\<lparr>cm_Source = ''/home/ada/work/a'', cm_Target = ''/a'', cm_ReadOnly = True\<rparr>]\<rparr>"



end
