(* ===== verification/Trusted_Files.thy ===== *)
theory Trusted_Files
  imports Cpak_Prelude
begin

text \<open>
  The checks the root-owned stores of \<^verbatim>\<open>pkg/systemauthority\<close> make before they believe a file:
  \<^verbatim>\<open>validateExistingDirectory\<close> and \<^verbatim>\<open>ensureDirectory\<close> of \<^verbatim>\<open>session.go\<close>, \<^verbatim>\<open>readTrusted\<close> of \<^verbatim>\<open>anchor.go\<close>.
  What \<^verbatim>\<open>lstat\<close> reports is reduced to the three answers the code tells apart.
\<close>

text \<open>A directory that is not there; one that is a link, foreign or writable by others; one that may be trusted.\<close>

datatype directory = Missing_directory | Foreign_directory | Owned_directory

datatype trusted_file = No_file | Foreign_file | Trusted_file string

datatype path_error =
  Not_exist | Directory_not_made | Directory_foreign | Path_foreign | Path_too_large | Not_written | Not_synced | Not_removed | Not_linked

definition validateExistingDirectory :: "directory \<Rightarrow> path_error err" where
  "validateExistingDirectory d =
     (case d of Missing_directory \<Rightarrow> Some Not_exist | Foreign_directory \<Rightarrow> Some Directory_foreign
      | Owned_directory \<Rightarrow> None)"

text \<open>\<open>fails\<close> is whether \<^verbatim>\<open>MkdirAll\<close> does; a directory it makes belongs to the authority.\<close>

definition ensureDirectory :: "bool \<Rightarrow> directory \<Rightarrow> path_error err \<times> directory" where
  "ensureDirectory fails d =
     (if fails then (Some Directory_not_made, d)
      else let d = (if d = Missing_directory then Owned_directory else d) in (validateExistingDirectory d, d))"

definition readTrusted :: "nat \<Rightarrow> trusted_file \<Rightarrow> path_error + string option" where
  "readTrusted limit file =
     (case file of No_file \<Rightarrow> Inr None | Foreign_file \<Rightarrow> Inl Path_foreign
      | Trusted_file data \<Rightarrow> if length data > limit then Inl Path_too_large else Inr (Some data))"

text \<open>An error of the file system as an error of the store that met it.\<close>

definition lift_error :: "('e \<Rightarrow> 'f) \<Rightarrow> 'e + 'a \<Rightarrow> 'f + 'a" where
  "lift_error f r = (case r of Inl e \<Rightarrow> Inl (f e) | Inr a \<Rightarrow> Inr a)"

lemma lift_error_Inr [simp]: "lift_error f r = Inr a \<longleftrightarrow> r = Inr a"
  by (cases r) (simp_all add: lift_error_def)

lemma lift_error_simps [simp]: "lift_error f (Inr a) = Inr a" "lift_error f (Inl e) = Inl (f e)"
  by (simp_all add: lift_error_def)

lemma validateExistingDirectory_None [simp]: "validateExistingDirectory d = None \<longleftrightarrow> d = Owned_directory"
  by (cases d) (simp_all add: validateExistingDirectory_def)

lemma validateExistingDirectory_simps [simp]:
  "validateExistingDirectory Owned_directory = None" "validateExistingDirectory Missing_directory = Some Not_exist"
  "validateExistingDirectory Foreign_directory = Some Directory_foreign"
  by (simp_all add: validateExistingDirectory_def)

lemma ensureDirectory_owned [simp]:
  "ensureDirectory False Owned_directory = (None, Owned_directory)" "fst (ensureDirectory fails Owned_directory) = None \<longleftrightarrow> \<not> fails"
  by (simp_all add: ensureDirectory_def)

lemma ensureDirectory_None: "ensureDirectory fails d = (None, d') \<Longrightarrow> d' = Owned_directory \<and> \<not> fails"
  by (auto simp: ensureDirectory_def Let_def split: if_splits)

end
