(* ===== verification/Reputation_Store.thy ===== *)
theory Reputation_Store
  imports Trusted_Files Reputation Go_Path Ratchet
begin

text \<open>
  \<^verbatim>\<open>pkg/systemauthority/reputation.go\<close>: the root-owned store of the configured reputation provider
  and its one active snapshot.  The state is the directory and its two files as \<^verbatim>\<open>readTrusted\<close>
  sees them; each call to the file system may fail, and which of them do is an argument, so an
  operation returns the state it leaves behind together with its answer.  The authority's JSON
  document is encoded and decoded by the library.
\<close>

section \<open>State\<close>

record ReputationStore =
  rs_Directory :: string
  rs_directory :: directory
  rs_provider :: trusted_file
  rs_snapshot :: trusted_file

record store_lib =
  sl_snapshots :: snapshot_lib
  sl_decode_authority :: "string \<Rightarrow> (int \<times> Authority) option"
  sl_encode_authority :: "Authority \<Rightarrow> string"

record faults =
  no_mkdir :: bool
  no_write :: bool
  no_sync :: bool
  no_remove :: bool
  no_remove_provider :: bool
  no_last_sync :: bool

definition working :: faults where
  "working = \<lparr>no_mkdir = False, no_write = False, no_sync = False, no_remove = False, no_remove_provider = False, no_last_sync = False\<rparr>"

datatype store_error =
  Relative_directory | Store_files path_error | Authority_document rep_error | Authority_size | Authority_undecodable | Authority_abi int
| Key_not_confirmed | No_provider
| Snapshot_refused rep_error | Active_unreadable rep_error | Reputation_rollback u64 u64

definition MaxAuthoritySize :: nat where "MaxAuthoritySize = 65536"

definition ParseAuthority :: "store_lib \<Rightarrow> string \<Rightarrow> store_error + Authority" where
  "ParseAuthority lib document =
     (if document = [] \<or> length document > MaxAuthoritySize then Inl Authority_size
      else case rejectDuplicateKeys (sl_snapshots lib) document of Some e \<Rightarrow> Inl (Authority_document e)
      | None \<Rightarrow>
          (case sl_decode_authority lib document of None \<Rightarrow> Inl Authority_undecodable
           | Some (abi, authority) \<Rightarrow>
               if abi \<noteq> SnapshotABIVersion then Inl (Authority_abi abi)
               else case Authority_Validate (sl_snapshots lib) authority of Some e \<Rightarrow> Inl (Authority_document e)
               | None \<Rightarrow> Inr authority))"

definition MarshalAuthority :: "store_lib \<Rightarrow> Authority \<Rightarrow> store_error + string" where
  "MarshalAuthority lib authority =
     (case Authority_Validate (sl_snapshots lib) authority of Some e \<Rightarrow> Inl (Authority_document e)
      | None \<Rightarrow> Inr (sl_encode_authority lib authority))"

definition store_path :: "ReputationStore \<Rightarrow> store_error err" where
  "store_path s = (if \<not> IsAbs (rs_Directory s) then Some Relative_directory else None)"

section \<open>Operations\<close>

definition Store_Authority :: "store_lib \<Rightarrow> ReputationStore \<Rightarrow> store_error + Authority option" where
  "Store_Authority lib s =
     (case store_path s of Some e \<Rightarrow> Inl e
      | None \<Rightarrow>
          (case validateExistingDirectory (rs_directory s) of
             Some e \<Rightarrow> if e = Not_exist then Inr None else Inl (Store_files e)
           | None \<Rightarrow>
               bind_result (lift_error Store_files (readTrusted MaxAuthoritySize (rs_provider s))) (\<lambda>found.
                 case found of None \<Rightarrow> Inr None
                 | Some document \<Rightarrow> bind_result (ParseAuthority lib document) (\<lambda>authority. Inr (Some authority)))))"

definition replace_authority ::
  "store_lib \<Rightarrow> faults \<Rightarrow> Authority \<Rightarrow> ReputationStore \<Rightarrow> (store_error + Authority) \<times> ReputationStore" where
  "replace_authority lib io authority s =
     (case store_path s of Some e \<Rightarrow> (Inl e, s)
      | None \<Rightarrow>
          (case MarshalAuthority lib authority of Inl e \<Rightarrow> (Inl e, s)
           | Inr canonical \<Rightarrow>
               if no_write io then (Inl (Store_files Not_written), s)
               else let s = s\<lparr>rs_provider := Trusted_file canonical\<rparr> in
                 if no_sync io then (Inl (Store_files Not_synced), s)
                 else if no_remove io \<and> rs_snapshot s \<noteq> No_file then (Inl (Store_files Not_removed), s)
                 else let s = s\<lparr>rs_snapshot := No_file\<rparr> in
                   if no_last_sync io then (Inl (Store_files Not_synced), s) else (Inr authority, s)))"

definition SetAuthority ::
  "store_lib \<Rightarrow> faults \<Rightarrow> string \<Rightarrow> string \<Rightarrow> ReputationStore \<Rightarrow> (store_error + Authority) \<times> ReputationStore" where
  "SetAuthority lib io document expectedKeyID s =
     (case ParseAuthority lib document of Inl e \<Rightarrow> (Inl e, s)
      | Inr authority \<Rightarrow>
          if expectedKeyID = [] \<or> expectedKeyID \<noteq> au_KeyID authority then (Inl Key_not_confirmed, s)
          else case ensureDirectory (no_mkdir io) (rs_directory s) of
            (Some e, d) \<Rightarrow> (Inl (Store_files e), s\<lparr>rs_directory := d\<rparr>)
          | (None, d) \<Rightarrow>
              let s = s\<lparr>rs_directory := d\<rparr> in
              (case Store_Authority lib s of
                 Inr (Some current) \<Rightarrow>
                   if au_ProviderID current = au_ProviderID authority \<and> au_KeyID current = au_KeyID authority
                   then (Inr current, s) else replace_authority lib io authority s
               | _ \<Rightarrow> replace_authority lib io authority s))"

definition Store_Clear :: "faults \<Rightarrow> ReputationStore \<Rightarrow> store_error err \<times> ReputationStore" where
  "Store_Clear io s =
     (case store_path s of Some e \<Rightarrow> (Some e, s)
      | None \<Rightarrow>
          (case validateExistingDirectory (rs_directory s) of
             Some e \<Rightarrow> (if e = Not_exist then None else Some (Store_files e), s)
           | None \<Rightarrow>
               if no_remove io \<and> rs_snapshot s \<noteq> No_file then (Some (Store_files Not_removed), s)
               else let s = s\<lparr>rs_snapshot := No_file\<rparr> in
                 if no_remove_provider io \<and> rs_provider s \<noteq> No_file then (Some (Store_files Not_removed), s)
                 else (fail_if (no_last_sync io) (Store_files Not_synced), s\<lparr>rs_provider := No_file\<rparr>)))"

definition newer_than_active :: "store_lib \<Rightarrow> Authority \<Rightarrow> Snapshot \<Rightarrow> string option \<Rightarrow> store_error err" where
  "newer_than_active lib authority candidate found =
     (case found of None \<Rightarrow> None
      | Some activeDocument \<Rightarrow>
          (case Authenticate (sl_snapshots lib) activeDocument authority of Inl e \<Rightarrow> Some (Active_unreadable e)
           | Inr active \<Rightarrow>
               if sn_Sequence candidate \<le> sn_Sequence active
               then Some (Reputation_rollback (sn_Sequence active) (sn_Sequence candidate)) else None))"

definition Import ::
  "store_lib \<Rightarrow> faults \<Rightarrow> string \<Rightarrow> instant \<Rightarrow> ReputationStore \<Rightarrow> (store_error + Snapshot) \<times> ReputationStore" where
  "Import lib io document now s =
     (case Store_Authority lib s of Inl e \<Rightarrow> (Inl e, s)
      | Inr None \<Rightarrow> (Inl No_provider, s)
      | Inr (Some authority) \<Rightarrow>
          (case Verify (sl_snapshots lib) document authority now of Inl e \<Rightarrow> (Inl (Snapshot_refused e), s)
           | Inr candidate \<Rightarrow>
               (case store_path s of Some e \<Rightarrow> (Inl e, s)
                | None \<Rightarrow>
                    (case readTrusted MaxSnapshotSize (rs_snapshot s) of Inl e \<Rightarrow> (Inl (Store_files e), s)
                     | Inr found \<Rightarrow>
                         (case newer_than_active lib authority candidate found of Some e \<Rightarrow> (Inl e, s)
                          | None \<Rightarrow>
                              if no_write io then (Inl (Store_files Not_written), s)
                              else (if no_sync io then Inl (Store_files Not_synced) else Inr candidate,
                                    s\<lparr>rs_snapshot := Trusted_file document\<rparr>))))))"

definition Current :: "store_lib \<Rightarrow> instant \<Rightarrow> ReputationStore \<Rightarrow> store_error + Snapshot option" where
  "Current lib now s =
     bind_result (Store_Authority lib s) (\<lambda>configured.
       case configured of None \<Rightarrow> Inr None
       | Some authority \<Rightarrow>
           (case store_path s of Some e \<Rightarrow> Inl e
            | None \<Rightarrow>
                bind_result (lift_error Store_files (readTrusted MaxSnapshotSize (rs_snapshot s))) (\<lambda>found.
                  case found of None \<Rightarrow> Inr None
                  | Some document \<Rightarrow>
                      (case Verify (sl_snapshots lib) document authority now of Inl e \<Rightarrow> Inl (Snapshot_refused e)
                       | Inr snapshot \<Rightarrow> Inr (Some snapshot)))))"

definition Store_Lookup :: "store_lib \<Rightarrow> string \<Rightarrow> instant \<Rightarrow> ReputationStore \<Rightarrow> Result \<times> store_error err" where
  "Store_Lookup lib publisherID now s =
     (case Store_Authority lib s of
        Inl e \<Rightarrow> (UnavailableResult [] publisherID ''provider-configuration-invalid'', Some e)
      | Inr None \<Rightarrow> (UnavailableResult [] publisherID ''provider-not-configured'', None)
      | Inr (Some authority) \<Rightarrow>
          (case Current lib now s of
             Inl e \<Rightarrow> (UnavailableResult (au_ProviderID authority) publisherID ''snapshot-unavailable'', Some e)
           | Inr None \<Rightarrow> (UnavailableResult (au_ProviderID authority) publisherID ''snapshot-not-installed'', None)
           | Inr (Some snapshot) \<Rightarrow> (Lookup snapshot publisherID, None)))"


section \<open>The active sequence\<close>

definition same_provider :: "Authority \<Rightarrow> Authority \<Rightarrow> bool" where
  "same_provider a b \<longleftrightarrow> au_ProviderID a = au_ProviderID b \<and> au_KeyID a = au_KeyID b"

definition active_sequence :: "store_lib \<Rightarrow> Authority \<Rightarrow> ReputationStore \<Rightarrow> nat" where
  "active_sequence lib authority s =
     (case rs_snapshot s of Trusted_file document \<Rightarrow>
        (case Authenticate (sl_snapshots lib) document authority of Inr active \<Rightarrow> unat (sn_Sequence active) | Inl _ \<Rightarrow> 0)
      | _ \<Rightarrow> 0)"

text \<open>What the store holds of one provider: nothing while another one is configured.\<close>

definition sequence_under :: "store_lib \<Rightarrow> Authority \<Rightarrow> ReputationStore \<Rightarrow> nat" where
  "sequence_under lib provider s =
     (case Store_Authority lib s of
        Inr (Some authority) \<Rightarrow> if same_provider authority provider then active_sequence lib authority s else 0
      | _ \<Rightarrow> 0)"

datatype store_event = Configure faults string string | Clear_store faults | Import_at faults string instant

fun store_op :: "store_lib \<Rightarrow> store_event \<Rightarrow> ReputationStore \<Rightarrow> ReputationStore" where
  "store_op lib (Configure io document key) s = snd (SetAuthority lib io document key s)"
| "store_op lib (Clear_store io) s = snd (Store_Clear io s)"
| "store_op lib (Import_at io document now) s = snd (Import lib io document now s)"

definition store_step :: "store_lib \<Rightarrow> ReputationStore \<Rightarrow> store_event \<Rightarrow> ReputationStore \<Rightarrow> bool" where
  "store_step lib s ev s' \<longleftrightarrow> s' = store_op lib ev s"

text \<open>The events that may give a provider's sequence up: a cleared store and a confirmed change to another provider.\<close>

fun gives_up :: "store_lib \<Rightarrow> Authority \<Rightarrow> store_event \<Rightarrow> bool" where
  "gives_up lib provider (Configure io document key) =
     (case ParseAuthority lib document of Inl _ \<Rightarrow> False
      | Inr authority \<Rightarrow> key = au_KeyID authority \<and> \<not> same_provider authority provider)"
| "gives_up lib provider (Clear_store io) = True"
| "gives_up lib provider (Import_at io document now) = False"

lemma Store_Authority_frame:
  "Store_Authority lib (s\<lparr>rs_snapshot := f\<rparr>) = Store_Authority lib s"
  by (simp add: Store_Authority_def store_path_def split: option.split)

lemma owned_again: "rs_directory s = Owned_directory \<Longrightarrow> s\<lparr>rs_directory := Owned_directory\<rparr> = s"
  by (cases s) simp

lemma Store_Authority_owned:
  assumes "Store_Authority lib s = Inr (Some authority)"
  shows "rs_directory s = Owned_directory" "store_path s = None"
  using assms by (cases "rs_directory s"; cases "store_path s"; simp add: Store_Authority_def validateExistingDirectory_def)+

lemma same_provider_configured:
  assumes "Store_Authority lib s = Inr (Some authority)" "same_provider authority provider"
    and "\<not> gives_up lib provider (Configure io document key)"
  shows "snd (SetAuthority lib io document key s) = s"
  using assms Store_Authority_owned(1) [OF assms(1)]
  by (auto simp: owned_again SetAuthority_def ensureDirectory_def same_provider_def Let_def split: sum.splits)

text \<open>An import either leaves the store as it is or replaces an older snapshot of the same provider.\<close>

lemma Import_cases:
  obtains (unchanged) e where "Import lib io document now s = (Inl e, s)"
  | (replaced) authority candidate found r where
      "Store_Authority lib s = Inr (Some authority)" "Verify (sl_snapshots lib) document authority now = Inr candidate"
      "readTrusted MaxSnapshotSize (rs_snapshot s) = Inr found" "newer_than_active lib authority candidate found = None"
      "Import lib io document now s = (r, s\<lparr>rs_snapshot := Trusted_file document\<rparr>)" "r = Inl (Store_files Not_synced) \<or> r = Inr candidate"
  by (cases "\<exists>e. Import lib io document now s = (Inl e, s)")
    (auto simp: Import_def split: sum.splits option.splits if_splits)

lemma Verify_Authenticate:
  "Verify lib document authority now = Inr snapshot \<longleftrightarrow>
     Authenticate lib document authority = Inr snapshot \<and> sn_IssuedAt snapshot \<le> now \<and> now < sn_ExpiresAt snapshot"
  by (auto simp: Verify_def bind_result_Inr split: if_splits)

lemma newer_than_active_sequence:
  assumes "newer_than_active lib authority candidate found = None" "readTrusted limit (rs_snapshot s) = Inr found"
    and "0 < sn_Sequence candidate"
  shows "active_sequence lib authority s < unat (sn_Sequence candidate)"
proof (cases found)
  case None
  with assms show ?thesis
    by (auto simp: readTrusted_def active_sequence_def word_less_nat_alt split: trusted_file.splits if_splits)
next
  case (Some document)
  with assms show ?thesis
    by (auto simp: readTrusted_def active_sequence_def newer_than_active_def word_less_nat_alt word_le_nat_alt
        split: trusted_file.splits if_splits sum.splits)
qed

lemma Authenticate_sequence: "Authenticate lib document authority = Inr snapshot \<Longrightarrow> 0 < sn_Sequence snapshot"
  using Authenticate_wf [of lib document authority snapshot] by (auto simp: wf_snapshot_def word_neq_0_conv)

lemma import_raises:
  assumes "Store_Authority lib s = Inr (Some authority)" "Import lib io document now s = (Inr candidate, s')"
  shows "active_sequence lib authority s < unat (sn_Sequence candidate)"
proof (cases rule: Import_cases [of lib io document now s])
  case (replaced authority' candidate' found r)
  with assms show ?thesis
    by (auto simp: Verify_Authenticate dest: Authenticate_sequence intro!: newer_than_active_sequence)
qed (use assms in simp)

lemma import_level:
  "sequence_under lib provider s \<le> sequence_under lib provider (snd (Import lib io document now s))"
proof (cases rule: Import_cases [of lib io document now s])
  case (replaced authority candidate found r)
  then have "active_sequence lib authority s < unat (sn_Sequence candidate)"
    by (auto simp: Verify_Authenticate dest: Authenticate_sequence intro!: newer_than_active_sequence)
  moreover have "active_sequence lib authority (s\<lparr>rs_snapshot := Trusted_file document\<rparr>) = unat (sn_Sequence candidate)"
    using replaced(2) by (simp add: active_sequence_def Verify_Authenticate)
  ultimately show ?thesis
    using replaced(1,5) by (simp add: sequence_under_def Store_Authority_frame)
qed simp

lemma store_level_step:
  assumes "store_step lib s ev s'" "\<not> gives_up lib provider ev"
  shows "sequence_under lib provider s \<le> sequence_under lib provider s'"
proof (cases ev)
  case (Configure io document key)
  show ?thesis
  proof (cases "sequence_under lib provider s = 0")
    case False
    then obtain authority where "Store_Authority lib s = Inr (Some authority)" "same_provider authority provider"
      by (auto simp: sequence_under_def split: sum.splits option.splits if_splits)
    with same_provider_configured [of lib s authority provider io document key] assms Configure
    show ?thesis by (simp add: store_step_def)
  qed simp
next
  case (Import_at io document now)
  with assms import_level [of lib provider s io document now] show ?thesis by (simp add: store_step_def)
qed (use assms in simp)

interpretation snapshots: ratchet "store_step lib" "sequence_under lib provider" "gives_up lib provider" for lib provider
  by unfold_locales (rule store_level_step)

section \<open>Properties\<close>

text \<open>C24: A reputation provider cannot be rolled back: along every history of imports, of clearing and
  of configuring a provider, with any of the file operations failing, as long as the store is not
  cleared and no other provider is confirmed, a snapshot accepted later has a larger sequence than
  the one that was active before.\<close>

theorem imported_snapshot_is_newer:
  assumes "run (store_step lib) s evs s'" and "\<forall>ev\<in>set evs. \<not> gives_up lib provider ev"
    and "Store_Authority lib s' = Inr (Some authority)" and "same_provider authority provider"
    and "Import lib io document now s' = (Inr candidate, s'')"
  shows "sequence_under lib provider s < unat (sn_Sequence candidate) \<and>
    unat (sn_Sequence candidate) = sequence_under lib provider s''"
proof -
  have "sequence_under lib provider s \<le> sequence_under lib provider s'"
    using snapshots.level_run [OF assms(1)] assms(2) by blast
  moreover have "sequence_under lib provider s' < unat (sn_Sequence candidate)"
    using assms(3,4) import_raises [OF assms(3,5)] by (simp add: sequence_under_def)
  moreover have "unat (sn_Sequence candidate) = sequence_under lib provider s''"
  proof (cases rule: Import_cases [of lib io document now s'])
    case (replaced authority' candidate' found r)
    with assms(3-5) show ?thesis
      by (auto simp: sequence_under_def Store_Authority_frame active_sequence_def Verify_Authenticate)
  qed (use assms(5) in simp)
  ultimately show ?thesis by simp
qed

text \<open>C25: A verdict about a publisher is authentic, current and the one the provider listed: the store
  answers with anything but \<open>unavailable\<close> exactly when the snapshot on disk carries the configured
  provider's signature, has been issued and has not expired, and then the answer is that of a scan
  through its entries.\<close>

theorem verdicts_are_authentic:
  assumes "Store_Lookup lib publisherID now s = (result, e)"
  shows "rr_Status result \<noteq> Unavailable \<longleftrightarrow>
    (\<exists>authority document snapshot. Store_Authority lib s = Inr (Some authority) \<and>
       readTrusted MaxSnapshotSize (rs_snapshot s) = Inr (Some document) \<and>
       Authenticate (sl_snapshots lib) document authority = Inr snapshot \<and>
       sn_IssuedAt snapshot \<le> now \<and> now < sn_ExpiresAt snapshot \<and> e = None \<and>
       rr_ProviderID result = au_ProviderID authority \<and> rr_Sequence result = sn_Sequence snapshot \<and>
       rr_Status result = (case listed (sn_entries snapshot) publisherID of None \<Rightarrow> Unknown | Some entry \<Rightarrow> en_Status entry))"
proof -
  have "rr_Status (Lookup snapshot publisherID) \<noteq> Unavailable" if "wf_snapshot snapshot" for snapshot
  proof (cases "listed (sn_entries snapshot) publisherID")
    case (Some entry)
    then have "entry \<in> set (sn_entries snapshot)" by (auto simp: listed_def find_Some_iff)
    with that Some show ?thesis by (auto simp: Lookup_reference wf_snapshot_def validEntryStatus_def)
  qed (use that in \<open>simp add: Lookup_reference\<close>)
  note known = this [OF Authenticate_wf]
  show ?thesis
  proof (cases "\<exists>authority document snapshot. Store_Authority lib s = Inr (Some authority) \<and>
      readTrusted MaxSnapshotSize (rs_snapshot s) = Inr (Some document) \<and>
      Verify (sl_snapshots lib) document authority now = Inr snapshot")
    case True
    then obtain authority document snapshot where t: "Store_Authority lib s = Inr (Some authority)"
      "readTrusted MaxSnapshotSize (rs_snapshot s) = Inr (Some document)"
      "Verify (sl_snapshots lib) document authority now = Inr snapshot" by blast
    have "result = Lookup snapshot publisherID \<and> e = None"
      using assms t Store_Authority_owned(2) [OF t(1)] by (simp add: Store_Lookup_def Current_def bind_result_def)
    moreover from t(3) have a: "Authenticate (sl_snapshots lib) document authority = Inr snapshot"
      "sn_IssuedAt snapshot \<le> now" "now < sn_ExpiresAt snapshot" by (auto simp: Verify_Authenticate)
    moreover have "sn_ProviderID snapshot = au_ProviderID authority" using a(1) by (rule Authenticate_Inr)
    ultimately show ?thesis using t known [OF a(1)] Authenticate_wf [OF a(1)] by (auto simp: Lookup_reference)
  next
    case False
    then have "rr_Status result = Unavailable"
      using assms by (auto simp: Store_Lookup_def Current_def bind_result_Inr UnavailableResult_def
          split: sum.splits option.splits)
    with False show ?thesis by (auto simp: Verify_Authenticate)
  qed
qed


text \<open>C26: An authentic newer snapshot gets in and is served: with a provider configured, the files
  working and no snapshot, or an older one of the same provider, on disk, importing a snapshot that
  verifies succeeds, and from then on it is the current one until it expires.\<close>

theorem newer_snapshot_is_served:
  assumes "Store_Authority lib s = Inr (Some authority)"
    and "Verify (sl_snapshots lib) document authority now = Inr candidate"
    and "rs_snapshot s = No_file \<or>
      (\<exists>held active. rs_snapshot s = Trusted_file held \<and> Authenticate (sl_snapshots lib) held authority = Inr active \<and>
         sn_Sequence active < sn_Sequence candidate)"
  shows "\<exists>s'. Import lib working document now s = (Inr candidate, s') \<and>
    (\<forall>later. now \<le> later \<longrightarrow> later < sn_ExpiresAt candidate \<longrightarrow> Current lib later s' = Inr (Some candidate))"
proof -
  have size: "Authenticate (sl_snapshots lib) held authority = Inr active \<Longrightarrow> length held \<le> MaxSnapshotSize" for held active
    by (auto simp: Authenticate_def split: if_splits)
  let ?s' = "s\<lparr>rs_snapshot := Trusted_file document\<rparr>"
  have found: "\<exists>found. readTrusted MaxSnapshotSize (rs_snapshot s) = Inr found \<and> newer_than_active lib authority candidate found = None"
    using assms(3)
  proof
    assume "\<exists>held active. rs_snapshot s = Trusted_file held \<and> Authenticate (sl_snapshots lib) held authority = Inr active \<and>
         sn_Sequence active < sn_Sequence candidate"
    then show ?thesis using size by (force simp: readTrusted_def newer_than_active_def)
  qed (simp add: readTrusted_def newer_than_active_def)
  then have i: "Import lib working document now s = (Inr candidate, ?s')"
    using assms(1,2) Store_Authority_owned(2) [OF assms(1)] by (auto simp: Import_def working_def)
  have "Current lib later ?s' = Inr (Some candidate)" if "now \<le> later" "later < sn_ExpiresAt candidate" for later
  proof -
    have a: "Authenticate (sl_snapshots lib) document authority = Inr candidate" "sn_IssuedAt candidate \<le> later"
      using assms(2) that by (auto simp: Verify_Authenticate)
    then have "Verify (sl_snapshots lib) document authority later = Inr candidate" using that by (simp add: Verify_Authenticate)
    moreover have "store_path ?s' = None" using Store_Authority_owned(2) [OF assms(1)] by (simp add: store_path_def)
    ultimately show ?thesis
      using assms(1) size [OF a(1)] by (simp add: Current_def Store_Authority_frame bind_result_def readTrusted_def)
  qed
  with i show ?thesis by blast
qed

text \<open>A provider change that is interrupted between its two files is not repaired by repeating it:
  when the old provider's snapshot cannot be removed, configuring the new provider again reports
  success and changes nothing, and no snapshot of the new provider can be imported any more.\<close>

theorem interrupted_change_blocks_imports:
  assumes "\<And>authority. Authority_Validate (sl_snapshots lib) authority = None \<Longrightarrow>
      ParseAuthority lib (sl_encode_authority lib authority) = Inr authority"
    and "Store_Authority lib s = Inr (Some old)" and "ParseAuthority lib document = Inr new"
    and "\<not> same_provider old new" and "au_KeyID new \<noteq> []"
    and "rs_snapshot s = Trusted_file held" and "Authenticate (sl_snapshots lib) held old = Inr active"
  shows "\<exists>s'. SetAuthority lib (working\<lparr>no_remove := True\<rparr>) document (au_KeyID new) s = (Inl (Store_files Not_removed), s') \<and>
    SetAuthority lib working document (au_KeyID new) s' = (Inr new, s') \<and>
    (\<forall>io offered now. isl (fst (Import lib io offered now s')))"
proof -
  have valid: "Authority_Validate (sl_snapshots lib) new = None"
    using assms(3) by (auto simp: ParseAuthority_def split: if_splits option.splits)
  define s' where "s' = s\<lparr>rs_provider := Trusted_file (sl_encode_authority lib new)\<rparr>"
  have size: "length (sl_encode_authority lib new) \<le> MaxAuthoritySize"
    using assms(1) [OF valid] by (auto simp: ParseAuthority_def split: if_splits)
  note owned = Store_Authority_owned [OF assms(2)]
  have now_new: "Store_Authority lib s' = Inr (Some new)"
    using owned size assms(1) [OF valid]
    by (simp add: s'_def Store_Authority_def store_path_def validateExistingDirectory_def readTrusted_def bind_result_def)
  have first: "SetAuthority lib (working\<lparr>no_remove := True\<rparr>) document (au_KeyID new) s = (Inl (Store_files Not_removed), s')"
    using assms(2-6) owned valid
    by (simp add: owned_again SetAuthority_def ensureDirectory_def working_def validateExistingDirectory_def same_provider_def
        replace_authority_def MarshalAuthority_def Let_def s'_def)
  have "rs_directory s' = Owned_directory" using owned by (simp add: s'_def)
  then have again: "SetAuthority lib working document (au_KeyID new) s' = (Inr new, s')"
    using assms(3,5) now_new by (simp add: owned_again Let_def  SetAuthority_def ensureDirectory_def working_def validateExistingDirectory_def)
  have "isl (Authenticate (sl_snapshots lib) held new)"
  proof (cases "Authenticate (sl_snapshots lib) held new")
    case (Inr other)
    from assms(7) Inr have "sn_ProviderID active = au_ProviderID old" "sn_KeyID active = au_KeyID old"
      "sn_ProviderID other = au_ProviderID new" "sn_KeyID other = au_KeyID new"
      by (auto elim!: Authenticate_Inr)
    moreover have "sn_ProviderID active = sn_ProviderID other" "sn_KeyID active = sn_KeyID other"
      using assms(7) Inr by (auto simp: Authenticate_def bind_result_Inr split: if_splits option.splits)
    ultimately show ?thesis using assms(4) by (simp add: same_provider_def)
  qed simp
  then have "isl (fst (Import lib io offered now s'))" for io offered now
  proof (cases rule: Import_cases [of lib io offered now s'])
    case (replaced authority candidate found r)
    then have "found = Some held" "authority = new"
      using assms(6) now_new by (auto simp: s'_def readTrusted_def split: if_splits)
    with replaced(4) \<open>isl (Authenticate (sl_snapshots lib) held new)\<close> show ?thesis
      by (auto simp: newer_than_active_def isl_def)
  qed simp
  with first again show ?thesis by blast
qed

end
