(* ===== verification/Layer_Bindings.thy ===== *)
theory Layer_Bindings
  imports Policy_Order Ratchet "HOL-Library.Multiset"
begin

text \<open>
  \<^verbatim>\<open>pkg/integrity/bindings.go\<close>: which store state a layer digest produced, written once per layer, and
  what the root of a package, which is hashed from those states, says about it.  The records are
  files in one directory; encoding and decoding a record is the library's.
\<close>

section \<open>Bindings\<close>

record binding_codec =
  bc_encode :: "LayerBinding \<Rightarrow> string"
  bc_decode :: "string \<Rightarrow> LayerBinding option"

record DirectoryBindings =
  db_directory :: string
  db_files :: "string \<Rightarrow> string option"

datatype binding_error =
  Directory_not_absolute | Invalid_layer_digest string | Layer_unbound string | Not_staged | Not_published
| Binding_too_large | Binding_undecodable | Names_another_layer | Binding_conflict string

definition bindingLimit :: nat where "bindingLimit = 4096"

definition lower_hex :: "char \<Rightarrow> bool" where
  "lower_hex c \<longleftrightarrow> \<not> ((c < CHR ''0'' \<or> c > CHR ''9'') \<and> (c < CHR ''a'' \<or> c > CHR ''f''))"

definition canonicalLayerDigest :: "string \<Rightarrow> binding_error + string" where
  "canonicalLayerDigest reference =
     (let digest = TrimPrefix reference ''sha256:'' in
      if length digest \<noteq> 64 then Inl (Invalid_layer_digest reference)
      else if \<not> list_all lower_hex digest then Inl (Invalid_layer_digest reference)
      else Inr digest)"

definition binding_path :: "DirectoryBindings \<Rightarrow> string \<Rightarrow> string" where
  "binding_path b digest = Join [db_directory b, digest @ ''.json'']"

definition NewDirectoryBindings :: "(string \<Rightarrow> string option) \<Rightarrow> string \<Rightarrow> binding_error + DirectoryBindings" where
  "NewDirectoryBindings files directory =
     (if \<not> IsAbs directory then Inl Directory_not_absolute
      else Inr \<lparr>db_directory = directory, db_files = files\<rparr>)"

definition Binding_Lookup :: "binding_codec \<Rightarrow> DirectoryBindings \<Rightarrow> string \<Rightarrow> binding_error + LayerBinding option" where
  "Binding_Lookup codec b ociDigest =
     bind_result (canonicalLayerDigest ociDigest) (\<lambda>digest.
       case db_files b (binding_path b digest) of None \<Rightarrow> Inr None
       | Some data \<Rightarrow>
           if length data > bindingLimit then Inl Binding_too_large
           else case bc_decode codec data of None \<Rightarrow> Inl Binding_undecodable
           | Some binding \<Rightarrow>
               if OCIDigest binding \<noteq> digest then Inl Names_another_layer
               else if StateID binding = [] \<or> StateRoot binding = [] then Inl (Layer_unbound digest)
               else Inr (Some binding))"

text \<open>
  \<^verbatim>\<open>Bind\<close>.  \<open>staged\<close> and \<open>linked\<close> say whether writing the record beside its destination and linking
  it into place are possible at all; a name that exists is never replaced.
\<close>

definition Bind ::
  "binding_codec \<Rightarrow> bool \<Rightarrow> bool \<Rightarrow> LayerBinding \<Rightarrow> DirectoryBindings \<Rightarrow> binding_error err \<times> DirectoryBindings" where
  "Bind codec staged linked binding b =
     (case canonicalLayerDigest (OCIDigest binding) of Inl e \<Rightarrow> (Some e, b)
      | Inr digest \<Rightarrow>
          if StateID binding = [] \<or> StateRoot binding = [] then (Some (Layer_unbound digest), b)
          else let binding = binding\<lparr>OCIDigest := digest\<rparr> in
            if \<not> staged then (Some Not_staged, b)
            else case db_files b (binding_path b digest) of
              None \<Rightarrow>
                if \<not> linked then (Some Not_published, b)
                else (None, b\<lparr>db_files := (db_files b)(binding_path b digest \<mapsto> bc_encode codec binding)\<rparr>)
            | Some _ \<Rightarrow>
                (case Binding_Lookup codec b digest of
                   Inl e \<Rightarrow> (Some e, b)
                 | Inr existing \<Rightarrow> if existing \<noteq> Some binding then (Some (Binding_conflict digest), b) else (None, b)))"

section \<open>Names\<close>

lemma lower_hex_plain: "lower_hex c \<Longrightarrow> c \<noteq> slash \<and> c \<noteq> CHR ''.'' \<and> c \<noteq> CHR '':''"
  by (auto simp: lower_hex_def less_char_def)

lemma canonicalLayerDigest_Inr:
  assumes "canonicalLayerDigest reference = Inr digest"
  shows "length digest = 64" "list_all lower_hex digest" "reference = digest \<or> reference = ''sha256:'' @ digest"
    "canonicalLayerDigest digest = Inr digest" "canonicalLayerDigest (''sha256:'' @ digest) = Inr digest"
proof -
  have c: "digest = TrimPrefix reference ''sha256:''" "length digest = 64" "list_all lower_hex digest"
    using assms by (auto simp: canonicalLayerDigest_def Let_def split: if_splits)
  then show "length digest = 64" "list_all lower_hex digest" by simp_all
  from c(1) show "reference = digest \<or> reference = ''sha256:'' @ digest"
    by (metis TrimPrefix_def TrimPrefix_eq)
  have "\<not> HasPrefix digest ''sha256:''"
    using c(3) lower_hex_plain [of "CHR '':''"] by (auto simp: prefix_def)
  then show "canonicalLayerDigest digest = Inr digest" "canonicalLayerDigest (''sha256:'' @ digest) = Inr digest"
    using c(2,3) by (simp_all add: canonicalLayerDigest_def TrimPrefix_def)
qed

lemma binding_name_proper:
  assumes "list_all lower_hex digest" "length digest = 64"
  shows "\<forall>c\<in>set (split_on slash (digest @ ''.json'')). proper c"
proof -
  have "slash \<notin> set (digest @ ''.json'')" using assms(1) lower_hex_plain by (auto simp: list_all_iff)
  moreover have "digest @ ''.json'' \<noteq> ''.''" "digest @ ''.json'' \<noteq> ''..''" "digest @ ''.json'' \<noteq> []"
    using assms(2) by (auto simp: append_eq_Cons_conv)
  ultimately show ?thesis by (simp add: proper_def)
qed

section \<open>Sets as sorted lists\<close>

lemma sort_eq_iff: "sort xs = sort ys \<longleftrightarrow> mset xs = mset ys"
proof
  show "mset xs = mset ys" if "sort xs = sort ys" using that by (metis mset_sort)
  show "sort xs = sort ys" if "mset xs = mset ys"
    by (rule properties_for_sort) (use that in simp_all)
qed

section \<open>Written once\<close>

datatype binding_event = Bound bool bool LayerBinding

fun binding_step :: "binding_codec \<Rightarrow> DirectoryBindings \<Rightarrow> binding_event \<Rightarrow> DirectoryBindings \<Rightarrow> bool" where
  "binding_step codec b (Bound staged linked binding) b' \<longleftrightarrow> b' = snd (Bind codec staged linked binding b)"

definition recorded :: "DirectoryBindings \<Rightarrow> (string \<times> string \<times> string) set" where
  "recorded b = {(db_directory b, p, data) | p data. db_files b p = Some data}"

lemma Bind_cases:
  obtains (unchanged) e where "Bind codec staged linked binding b = (e, b)"
  | (published) digest where "canonicalLayerDigest (OCIDigest binding) = Inr digest"
      "db_files b (binding_path b digest) = None" "StateID binding \<noteq> []" "StateRoot binding \<noteq> []"
      "Bind codec staged linked binding b =
         (None, b\<lparr>db_files := (db_files b)(binding_path b digest \<mapsto> bc_encode codec (binding\<lparr>OCIDigest := digest\<rparr>))\<rparr>)"
proof (cases "canonicalLayerDigest (OCIDigest binding)")
  case (Inl e)
  then show ?thesis by (intro unchanged) (simp add: Bind_def)
next
  case (Inr digest)
  note bind = Bind_def [of codec staged linked binding b, unfolded Inr sum.case Let_def]
  show ?thesis
  proof (cases "db_files b (binding_path b digest)")
    case None
    note bind = bind [unfolded None option.case]
    show ?thesis
    proof (cases "(StateID binding = [] \<or> StateRoot binding = []) \<or> \<not> staged \<or> \<not> linked")
      case True
      then show ?thesis by (intro unchanged [of "fst (Bind codec staged linked binding b)"]) (auto simp: bind)
    next
      case False
      then show ?thesis using Inr None bind by (intro published) simp_all
    qed
  next
    case (Some data)
    note bind = bind [unfolded Some option.case]
    show ?thesis by (rule unchanged [of "fst (Bind codec staged linked binding b)"]) (simp add: bind split: sum.splits)
  qed
qed

lemma Bind_recorded: "recorded b \<subseteq> recorded (snd (Bind codec staged linked binding b))"
proof (cases rule: Bind_cases [of codec staged linked binding b])
  case (published digest)
  show ?thesis unfolding published(5) using published(2) by (auto simp: recorded_def)
qed simp

interpretation layers: ratchet "binding_step codec" recorded "\<lambda>_. False" for codec
proof
  fix s ev s'
  assume "binding_step codec s ev s'"
  then show "recorded s \<le> recorded s'" by (cases ev) (simp add: Bind_recorded)
qed

lemma recorded_Lookup:
  assumes "recorded b \<subseteq> recorded b'" "Binding_Lookup codec b d = Inr (Some binding)"
  shows "Binding_Lookup codec b' d = Inr (Some binding)"
proof -
  obtain digest data where d: "canonicalLayerDigest d = Inr digest" "db_files b (binding_path b digest) = Some data"
    using assms(2) by (auto simp: Binding_Lookup_def bind_result_Inr split: option.splits)
  then have "(db_directory b, binding_path b digest, data) \<in> recorded b'" using assms(1) by (auto simp: recorded_def)
  then have "db_directory b' = db_directory b" "db_files b' (binding_path b digest) = Some data"
    by (auto simp: recorded_def)
  with assms(2) d show ?thesis by (simp add: Binding_Lookup_def bind_result_def binding_path_def)
qed

section \<open>Properties\<close>

text \<open>C27: A layer keeps the state it was first bound to: along every history of bindings, by whatever
  pulls and with whatever write failing, the binding a layer has is found again under both
  spellings of its digest, and a binding accepted later for that layer is the same one.\<close>

theorem bound_layer_keeps_its_state:
  assumes "run (binding_step codec) b evs b'" and "Binding_Lookup codec b d = Inr (Some binding)"
    and "canonicalLayerDigest d = Inr digest"
  shows "Binding_Lookup codec b' digest = Inr (Some binding) \<and> Binding_Lookup codec b' (''sha256:'' @ digest) = Inr (Some binding) \<and>
    (\<forall>staged linked later. canonicalLayerDigest (OCIDigest later) = Inr digest \<longrightarrow>
       fst (Bind codec staged linked later b') = None \<longrightarrow> later\<lparr>OCIDigest := digest\<rparr> = binding)"
proof -
  have "recorded b \<subseteq> recorded b'" using layers.level_run [OF assms(1)] by auto
  then have held: "Binding_Lookup codec b' d = Inr (Some binding)" using assms(2) by (rule recorded_Lookup)
  then have found: "Binding_Lookup codec b' digest = Inr (Some binding)" "Binding_Lookup codec b' (''sha256:'' @ digest) = Inr (Some binding)"
    using assms(3) canonicalLayerDigest_Inr [OF assms(3)] by (simp_all add: Binding_Lookup_def bind_result_def)
  have "later\<lparr>OCIDigest := digest\<rparr> = binding"
    if "canonicalLayerDigest (OCIDigest later) = Inr digest" "fst (Bind codec staged linked later b') = None" for staged linked later
  proof -
    obtain data where "db_files b' (binding_path b' digest) = Some data"
      using held assms(3) by (auto simp: Binding_Lookup_def bind_result_def split: option.splits)
    with that found(1) show ?thesis by (auto simp: Bind_def Let_def split: if_splits)
  qed
  with found show ?thesis by blast
qed

text \<open>What is bound is found: a binding accepted for a layer is what the layer's digest answers with
  afterwards, in a file directly inside the directory of the bindings and named by the digest
  alone, provided the library decodes what it encodes.\<close>

theorem bound_layer_is_found:
  assumes "\<And>binding. bc_decode codec (bc_encode codec binding) = Some binding"
    and "length (bc_encode codec (binding\<lparr>OCIDigest := digest\<rparr>)) \<le> bindingLimit"
    and "canonicalLayerDigest (OCIDigest binding) = Inr digest"
    and "Bind codec staged linked binding b = (None, b')"
    and "IsAbs (db_directory b)" and "Clean (db_directory b) = db_directory b" and "db_directory b \<noteq> ''/''"
  shows "Binding_Lookup codec b' (OCIDigest binding) = Inr (Some (binding\<lparr>OCIDigest := digest\<rparr>)) \<and>
    binding_path b digest = db_directory b @ ''/'' @ digest @ ''.json'' \<and>
    (\<forall>p. p \<noteq> binding_path b digest \<longrightarrow> db_files b' p = db_files b p)"
proof -
  note digest = canonicalLayerDigest_Inr [OF assms(3)]
  have path: "binding_path b digest = db_directory b @ ''/'' @ digest @ ''.json''"
    unfolding binding_path_def using Join_under [OF assms(5-7) binding_name_proper [OF digest(2,1)]] by simp
  show ?thesis
  proof (cases rule: Bind_cases [of codec staged linked binding b])
    case (unchanged e)
    then have same: "b' = b" using assms(4) by simp
    have "db_files b' (binding_path b digest) \<noteq> None"
      using assms(3,4) by (auto simp: Bind_def Let_def split: option.splits sum.splits if_splits)
    with same have "Binding_Lookup codec b digest = Inr (Some (binding\<lparr>OCIDigest := digest\<rparr>))"
      using assms(3,4) by (auto simp: Bind_def Let_def split: option.splits sum.splits if_splits)
    with same path digest(4) assms(3) show ?thesis by (simp add: Binding_Lookup_def bind_result_def)
  next
    case (published digest')
    with assms(1-4) path digest show ?thesis
      by (auto simp: Binding_Lookup_def bind_result_def binding_path_def)
  qed
qed

text \<open>A package root names what is installed: with a hash that tells the two packages apart, two
  packages have one root exactly when they agree in every digest, in the order and the states of
  their layers, and, up to order, in every list that is a set.\<close>

theorem package_root_names_the_package:
  assumes "PackageRoot digest p = Inr r" and "PackageRoot digest q = Inr r'"
    and "inj_on (digest ''package'') {canonicalPackage p, canonicalPackage q}"
  shows "r = r' \<longleftrightarrow>
    pk_Origin p = pk_Origin q \<and> pk_Selector p = pk_Selector q \<and> pk_Version p = pk_Version q \<and>
    pk_ManifestDigest p = pk_ManifestDigest q \<and> pk_ImageDigest p = pk_ImageDigest q \<and> pk_ConfigDigest p = pk_ConfigDigest q \<and>
    pk_Layers p = pk_Layers q \<and> mset (pk_Dependencies p) = mset (pk_Dependencies q) \<and> mset (pk_Addons p) = mset (pk_Addons q) \<and>
    mset (pk_Binaries p) = mset (pk_Binaries q) \<and> mset (pk_DesktopEntries p) = mset (pk_DesktopEntries q) \<and>
    mset (pk_Sessions p) = mset (pk_Sessions q)"
proof -
  have "r = digest ''package'' (canonicalPackage p)" "r' = digest ''package'' (canonicalPackage q)"
    using assms(1,2) by (auto simp: PackageRoot_def split: if_splits option.splits)
  then have "r = r' \<longleftrightarrow> canonicalPackage p = canonicalPackage q" using inj_on_eq_iff [OF assms(3)] by simp
  then show ?thesis by (cases p, cases q) (auto simp: canonicalPackage_def sort_eq_iff)
qed

end
