(* ===== verification/Session_Registry.thy ===== *)
theory Session_Registry
  imports Trusted_Files Enrolment Ratchet
begin

text \<open>
  \<^verbatim>\<open>pkg/systemauthority/session.go\<close>: the desktop sessions packages register with the display manager.
  A session is a record in the registry and an entry among the display manager's sessions, each a
  file named by the session's identifier; the state is both directories as \<^verbatim>\<open>lstat\<close> sees them, and
  which calls to the file system fail is an argument.  The texts of a session are UTF-8, as the
  bus delivers them, so a record is decoded to what was encoded.
\<close>

section \<open>Sessions\<close>

record Session =
  ss_ID :: string
  ss_Origin :: string
  ss_Name :: string
  ss_Description :: string
  ss_Kind :: string

datatype session_error =
  Invalid_session_identifier | Session_origin | Invalid_session_name | Invalid_session_description | Invalid_session_kind
| Paths_not_absolute | Belongs_to_another_package | Used_by_the_system | Session_files path_error
| Session_unreadable | Identifier_mismatch

definition sessionIDPattern :: rx where
  "sessionIDPattern = Cat (plus (Cls az09)) (Star (Cat (Cls [(CHR ''.'', CHR ''.''), (CHR ''-'', CHR ''-'')]) (plus (Cls az09))))"

definition valid_session_id :: "string \<Rightarrow> bool" where
  "valid_session_id i \<longleftrightarrow> \<not> (length i = 0 \<or> length i > 96 \<or> \<not> matches sessionIDPattern i)"

definition valid_text :: "string \<Rightarrow> nat \<Rightarrow> bool \<Rightarrow> bool" where
  "valid_text text limit may_be_empty \<longleftrightarrow>
     \<not> ((\<not> may_be_empty \<and> text = []) \<or> length text > limit \<or> list_ex (\<lambda>c. c \<in> {CHR 0x00, CHR 0x0D, CHR 0x0A}) text) \<and>
     \<not> list_ex (\<lambda>c. c < CHR 0x20 \<or> c = CHR 0x7F) text"

definition Session_Validate :: "Session \<Rightarrow> session_error err" where
  "Session_Validate s =
     (if \<not> valid_session_id (ss_ID s) then Some Invalid_session_identifier
      else if validatePackageOrigin (ss_Origin s) \<noteq> None then Some Session_origin
      else if \<not> valid_text (ss_Name s) 80 False then Some Invalid_session_name
      else if \<not> valid_text (ss_Description s) 160 True then Some Invalid_session_description
      else if ss_Kind s \<noteq> ''desktop'' \<and> ss_Kind s \<noteq> ''kiosk'' then Some Invalid_session_kind
      else None)"

section \<open>The registry\<close>

record Registry =
  rg_RegistryDirectory :: string
  rg_SessionDirectory :: string
  rg_SystemSessions :: string
  rg_LauncherPath :: string

datatype session_file = No_session | Foreign_session | Unreadable_session | Session_file Session

text \<open>An entry of the display manager: a regular file only root may write, or anything else.\<close>

datatype desktop_slot = Free_slot | Regular_entry string | Other_entry

record system_session =
  sy_Name :: string
  sy_IsDir :: bool
  sy_trusted :: bool

record session_state =
  st_registry :: directory
  st_sessions :: directory
  st_system :: directory
  st_system_entries :: "system_session list"
  st_records :: "string \<Rightarrow> session_file"
  st_entries :: "string \<Rightarrow> desktop_slot"

record session_faults =
  sf_mkdir :: bool
  sf_link :: bool
  sf_record :: bool
  sf_entry :: bool
  sf_cleanup :: bool

definition registry_validate :: "Registry \<Rightarrow> session_error err" where
  "registry_validate r =
     (if \<not> IsAbs (rg_RegistryDirectory r) \<or> \<not> IsAbs (rg_SessionDirectory r) \<or> \<not> IsAbs (rg_LauncherPath r) \<or>
         rg_SystemSessions r \<noteq> [] \<and> \<not> IsAbs (rg_SystemSessions r)
      then Some Paths_not_absolute else None)"

definition validateWritable :: "Registry \<Rightarrow> session_faults \<Rightarrow> session_state \<Rightarrow> session_error err \<times> session_state" where
  "validateWritable r io s =
     (case registry_validate r of Some e \<Rightarrow> (Some e, s)
      | None \<Rightarrow>
          (case ensureDirectory (sf_mkdir io) (st_registry s) of
             (Some e, d) \<Rightarrow> (Some (Session_files e), s\<lparr>st_registry := d\<rparr>)
           | (None, d) \<Rightarrow>
               let s = s\<lparr>st_registry := d\<rparr> in
               (case ensureDirectory (sf_mkdir io) (st_sessions s) of
                  (Some e, d) \<Rightarrow> (Some (Session_files e), s\<lparr>st_sessions := d\<rparr>)
                | (None, d) \<Rightarrow> (None, s\<lparr>st_sessions := d\<rparr>))))"

fun link_sessions :: "session_faults \<Rightarrow> system_session list \<Rightarrow> (string \<Rightarrow> desktop_slot) \<Rightarrow> path_error err \<times> (string \<Rightarrow> desktop_slot)" where
  "link_sessions io [] entries = (None, entries)"
| "link_sessions io (entry # rest) entries =
     (let name = sy_Name entry in
      if sy_IsDir entry \<or> Base name \<noteq> name \<or> \<not> HasSuffix name ''.desktop'' then link_sessions io rest entries
      else if \<not> sy_trusted entry then link_sessions io rest entries
      else if entries name = Free_slot then
        (if sf_link io then (Some Not_linked, entries) else link_sessions io rest (entries(name := Other_entry)))
      else link_sessions io rest entries)"

definition syncSystemSessions :: "Registry \<Rightarrow> session_faults \<Rightarrow> session_state \<Rightarrow> session_error err \<times> session_state" where
  "syncSystemSessions r io s =
     (if rg_SystemSessions r = [] then (None, s)
      else case validateExistingDirectory (st_system s) of
        Some e \<Rightarrow> (if e = Not_exist then None else Some (Session_files e), s)
      | None \<Rightarrow>
          (case link_sessions io (st_system_entries s) (st_entries s) of
             (e, entries) \<Rightarrow> (map_option Session_files e, s\<lparr>st_entries := entries\<rparr>)))"

definition Prepare :: "Registry \<Rightarrow> session_faults \<Rightarrow> session_state \<Rightarrow> session_error err \<times> session_state" where
  "Prepare r io s =
     (case validateWritable r io s of (Some e, s) \<Rightarrow> (Some e, s) | (None, s) \<Rightarrow> syncSystemSessions r io s)"

definition record_name :: "string \<Rightarrow> string" where "record_name i = i @ ''.json''"
definition entry_name :: "string \<Rightarrow> string" where "entry_name i = i @ ''.desktop''"

definition Session_Load :: "Registry \<Rightarrow> session_state \<Rightarrow> string \<Rightarrow> session_error + Session" where
  "Session_Load r s i =
     (if \<not> valid_session_id i then Inl Invalid_session_identifier
      else if \<not> IsAbs (rg_RegistryDirectory r) then Inl Paths_not_absolute
      else case validateExistingDirectory (st_registry s) of Some e \<Rightarrow> Inl (Session_files e)
      | None \<Rightarrow>
          (case st_records s (record_name i) of
             No_session \<Rightarrow> Inl (Session_files Not_exist)
           | Foreign_session \<Rightarrow> Inl (Session_files Path_foreign)
           | Unreadable_session \<Rightarrow> Inl Session_unreadable
           | Session_file session \<Rightarrow>
               if ss_ID session \<noteq> i then Inl Identifier_mismatch
               else case Session_Validate session of Some e \<Rightarrow> Inl e | None \<Rightarrow> Inr session))"

text \<open>\<open>existing\<close> is the session the registry had under the identifier, if it had one.\<close>

definition ensureSessionSlot :: "session_state \<Rightarrow> string \<Rightarrow> Session option \<Rightarrow> session_error err" where
  "ensureSessionSlot s i existing =
     (case st_entries s (entry_name i) of
        Free_slot \<Rightarrow> None
      | Regular_entry _ \<Rightarrow> (case existing of Some old \<Rightarrow> if ss_ID old = i then None else Some Used_by_the_system
                          | None \<Rightarrow> Some Used_by_the_system)
      | Other_entry \<Rightarrow> Some Used_by_the_system)"

definition line_end :: string where "line_end = [CHR 0x0A]"

definition desktopEntry :: "Registry \<Rightarrow> Session \<Rightarrow> string" where
  "desktopEntry r session =
     ''[Desktop Entry]'' @ line_end @
     ''Name='' @ ss_Name session @ line_end @
     ''Comment='' @ ss_Description session @ line_end @
     ''Exec='' @ rg_LauncherPath r @ '' session launch '' @ ss_ID session @ line_end @
     ''TryExec='' @ rg_LauncherPath r @ line_end @
     ''Type=Application'' @ line_end @
     ''DesktopNames='' @ ss_ID session @ line_end @
     ''X-cpak-Origin='' @ ss_Origin session @ line_end @
     ''X-cpak-SessionKind='' @ ss_Kind session @ line_end"

definition write_session :: "Registry \<Rightarrow> session_faults \<Rightarrow> Session \<Rightarrow> session_state \<Rightarrow> session_error err \<times> session_state" where
  "write_session r io session s =
     (let i = ss_ID session in
      if sf_record io then (Some (Session_files Not_written), s)
      else let s = s\<lparr>st_records := (st_records s)(record_name i := Session_file session)\<rparr> in
        if sf_entry io then
          (Some (Session_files Not_written),
           if sf_cleanup io then s else s\<lparr>st_records := (st_records s)(record_name i := No_session)\<rparr>)
        else (None, s\<lparr>st_entries := (st_entries s)(entry_name i := Regular_entry (desktopEntry r session))\<rparr>))"

definition Register :: "Registry \<Rightarrow> session_faults \<Rightarrow> Session \<Rightarrow> session_state \<Rightarrow> session_error err \<times> session_state" where
  "Register r io session s =
     (case Session_Validate session of Some e \<Rightarrow> (Some e, s)
      | None \<Rightarrow>
          (case Prepare r io s of (Some e, s) \<Rightarrow> (Some e, s)
           | (None, s) \<Rightarrow>
               (case Session_Load r s (ss_ID session) of
                  Inr existing \<Rightarrow>
                    if ss_Origin existing \<noteq> ss_Origin session then (Some Belongs_to_another_package, s)
                    else (case ensureSessionSlot s (ss_ID session) (Some existing) of
                        Some e \<Rightarrow> (Some e, s) | None \<Rightarrow> write_session r io session s)
                | Inl e \<Rightarrow>
                    if e \<noteq> Session_files Not_exist then (Some e, s)
                    else (case ensureSessionSlot s (ss_ID session) None of
                        Some e \<Rightarrow> (Some e, s) | None \<Rightarrow> write_session r io session s))))"

definition remove_files :: "session_faults \<Rightarrow> string \<Rightarrow> session_state \<Rightarrow> session_error err \<times> session_state" where
  "remove_files io i s =
     (if sf_record io then (Some (Session_files Not_removed), s)
      else let s = s\<lparr>st_records := (st_records s)(record_name i := No_session)\<rparr> in
        if sf_entry io \<and> st_entries s (entry_name i) \<noteq> Free_slot then (Some (Session_files Not_removed), s)
        else (None, s\<lparr>st_entries := (st_entries s)(entry_name i := Free_slot)\<rparr>))"

definition Session_Remove ::
  "Registry \<Rightarrow> session_faults \<Rightarrow> string \<Rightarrow> string \<Rightarrow> session_state \<Rightarrow> session_error err \<times> session_state" where
  "Session_Remove r io i origin s =
     (if \<not> valid_session_id i then (Some Invalid_session_identifier, s)
      else if validatePackageOrigin origin \<noteq> None then (Some Session_origin, s)
      else case validateWritable r io s of (Some e, s) \<Rightarrow> (Some e, s)
      | (None, s) \<Rightarrow>
          (case Session_Load r s i of
             Inl e \<Rightarrow> (if e = Session_files Not_exist then None else Some e, s)
           | Inr existing \<Rightarrow>
               if ss_Origin existing \<noteq> origin then (Some Belongs_to_another_package, s)
               else remove_files io i s))"

text \<open>\<^verbatim>\<open>Purge\<close> goes through the identifiers of the records that \<^verbatim>\<open>ReadDir\<close> listed.\<close>

fun purge_records :: "Registry \<Rightarrow> session_faults \<Rightarrow> string list \<Rightarrow> session_state \<Rightarrow> session_error err \<times> session_state" where
  "purge_records r io [] s = (None, s)"
| "purge_records r io (i # rest) s =
     (case Session_Load r s i of Inl e \<Rightarrow> (Some e, s)
      | Inr session \<Rightarrow>
          (case Session_Remove r io i (ss_Origin session) s of
             (Some e, s) \<Rightarrow> (Some e, s) | (None, s) \<Rightarrow> purge_records r io rest s))"

definition Purge :: "Registry \<Rightarrow> session_faults \<Rightarrow> string list \<Rightarrow> session_state \<Rightarrow> session_error err \<times> session_state" where
  "Purge r io listing s =
     (case registry_validate r of Some e \<Rightarrow> (Some e, s)
      | None \<Rightarrow> if st_registry s = Missing_directory then (None, s) else purge_records r io listing s)"


section \<open>Whose session it is\<close>

definition registered :: "Registry \<Rightarrow> string \<Rightarrow> string \<Rightarrow> session_state \<Rightarrow> bool" where
  "registered r i origin s \<longleftrightarrow> (\<exists>session. Session_Load r s i = Inr session \<and> ss_Origin session = origin)"

datatype session_event =
  Registered session_faults Session | Removed session_faults string string | Purged session_faults "string list" | Prepared session_faults

fun session_op :: "Registry \<Rightarrow> session_event \<Rightarrow> session_state \<Rightarrow> session_state" where
  "session_op r (Registered io session) s = snd (Register r io session s)"
| "session_op r (Removed io i origin) s = snd (Session_Remove r io i origin s)"
| "session_op r (Purged io listing) s = snd (Purge r io listing s)"
| "session_op r (Prepared io) s = snd (Prepare r io s)"

definition session_step :: "Registry \<Rightarrow> session_state \<Rightarrow> session_event \<Rightarrow> session_state \<Rightarrow> bool" where
  "session_step r s ev s' \<longleftrightarrow> s' = session_op r ev s"

text \<open>What may end a registration: its own package's removal, a purge, and an update whose second write fails.\<close>

fun unregisters :: "string \<Rightarrow> string \<Rightarrow> session_event \<Rightarrow> bool" where
  "unregisters i origin (Registered io session) \<longleftrightarrow> ss_ID session = i \<and> sf_entry io"
| "unregisters i origin (Removed io i' origin') \<longleftrightarrow> i' = i \<and> origin' = origin"
| "unregisters i origin (Purged io listing) \<longleftrightarrow> True"
| "unregisters i origin (Prepared io) \<longleftrightarrow> False"

lemma names_inj [simp]: "record_name i = record_name j \<longleftrightarrow> i = j" "entry_name i = entry_name j \<longleftrightarrow> i = j"
  by (simp_all add: record_name_def entry_name_def)

lemma Session_Load_cong:
  "st_registry s = st_registry t \<Longrightarrow> st_records s (record_name i) = st_records t (record_name i) \<Longrightarrow>
     Session_Load r s i = Session_Load r t i"
  by (simp add: Session_Load_def split: option.split)

lemma registered_owned: "registered r i origin s \<Longrightarrow> st_registry s = Owned_directory"
  by (auto simp: registered_def Session_Load_def split: option.splits if_splits)

lemma validateWritable_frame:
  "validateWritable r io s = (e, s') \<Longrightarrow> st_records s' = st_records s \<and> st_entries s' = st_entries s \<and>
     (st_registry s = Owned_directory \<longrightarrow> st_registry s' = Owned_directory) \<and> (e = None \<longrightarrow> st_registry s' = Owned_directory)"
  by (auto simp: validateWritable_def Let_def ensureDirectory_def split: option.splits prod.splits if_splits)

lemma syncSystemSessions_frame:
  "syncSystemSessions r io s = (e, s') \<Longrightarrow> st_records s' = st_records s \<and> st_registry s' = st_registry s"
  by (auto simp: syncSystemSessions_def split: option.splits prod.splits if_splits)

lemma Prepare_frame:
  "Prepare r io s = (e, s') \<Longrightarrow> st_records s' = st_records s \<and>
     (st_registry s = Owned_directory \<longrightarrow> st_registry s' = Owned_directory) \<and> (e = None \<longrightarrow> st_registry s' = Owned_directory)"
  by (auto simp: Prepare_def dest!: validateWritable_frame syncSystemSessions_frame split: prod.splits option.splits)

lemma Prepare_Load:
  assumes "Prepare r io s = (e, s')" "st_registry s = Owned_directory"
  shows "Session_Load r s' i = Session_Load r s i"
  using Prepare_frame [OF assms(1)] assms(2) by (intro Session_Load_cong) auto

lemma validateWritable_Load:
  assumes "validateWritable r io s = (e, s')" "st_registry s = Owned_directory"
  shows "Session_Load r s' i = Session_Load r s i"
  using validateWritable_frame [OF assms(1)] assms(2) by (intro Session_Load_cong) auto

text \<open>A registration either fails before it writes, or writes the session, keeping the identifier's owner.\<close>

lemma Register_cases:
  obtains (refused) e s0 where "Register r io session s = (Some e, s0)" "Prepare r io s = (None, s0) \<or> Prepare r io s = (Some e, s0) \<or> s0 = s"
  | (written) s0 where "Session_Validate session = None" "Prepare r io s = (None, s0)"
      "\<And>existing. Session_Load r s0 (ss_ID session) = Inr existing \<Longrightarrow> ss_Origin existing = ss_Origin session"
      "Register r io session s = write_session r io session s0"
proof (cases "Session_Validate session")
  case (Some e)
  then show thesis using refused [of e s] by (simp add: Register_def)
next
  case valid: None
  obtain e s0 where p: "Prepare r io s = (e, s0)" by (cases "Prepare r io s") auto
  show thesis
  proof (cases e)
    case (Some x)
    then show thesis using refused [of x s0] valid p by (simp add: Register_def)
  next
    case None
    note p = p [unfolded None]
    show thesis
    proof (cases "\<exists>x. Register r io session s = (Some x, s0)")
      case True
      then show thesis using refused p by blast
    next
      case False
      show thesis
      proof (rule written [OF valid p])
        show "ss_Origin existing = ss_Origin session" if "Session_Load r s0 (ss_ID session) = Inr existing" for existing
          using that False valid p by (simp add: Register_def split: if_splits)
        show "Register r io session s = write_session r io session s0"
          using False valid p by (auto simp: Register_def split: sum.splits option.splits if_splits)
      qed
    qed
  qed
qed

lemma written_Load:
  assumes "Session_Validate session = None" "st_registry s = Owned_directory" "IsAbs (rg_RegistryDirectory r)"
    and "st_records s (record_name (ss_ID session)) = Session_file session"
  shows "Session_Load r s (ss_ID session) = Inr session"
  using assms by (auto simp: Session_Load_def Session_Validate_def split: if_splits)

lemma registered_abs: "registered r i origin s \<Longrightarrow> IsAbs (rg_RegistryDirectory r)"
  by (auto simp: registered_def Session_Load_def split: if_splits)

lemma Register_keeps:
  assumes "registered r i origin s" "\<not> unregisters i origin (Registered io session)"
  shows "registered r i origin (snd (Register r io session s))"
proof -
  note owned = registered_owned [OF assms(1)]
  have prepared: "registered r i origin s0" if "Prepare r io s = (e, s0)" for e s0
    using assms(1) Prepare_Load [OF that owned] by (simp add: registered_def)
  show ?thesis
  proof (cases rule: Register_cases [of r io session s])
    case (refused e s0)
    with prepared assms(1) show ?thesis by auto
  next
    case (written s0)
    from prepared [OF written(2)] obtain old where old: "Session_Load r s0 i = Inr old" "ss_Origin old = origin"
      by (auto simp: registered_def)
    have dir: "st_registry s0 = Owned_directory" using Prepare_frame [OF written(2)] owned by simp
    show ?thesis
    proof (cases "ss_ID session = i")
      case False
      then have "Session_Load r (snd (write_session r io session s0)) i = Session_Load r s0 i"
        by (intro Session_Load_cong) (auto simp: write_session_def Let_def)
      with old written(4) show ?thesis by (simp add: registered_def)
    next
      case True
      then have "ss_Origin session = origin" using written(3) old by auto
      moreover have "sf_record io \<or> Session_Load r (snd (write_session r io session s0)) i = Inr session"
        using True assms(2) written(1) dir registered_abs [OF assms(1)] written_Load [of session]
        by (auto simp: write_session_def Let_def)
      ultimately show ?thesis using old written(4) by (auto simp: registered_def write_session_def)
    qed
  qed
qed

lemma Remove_keeps:
  assumes "registered r i origin s" "\<not> unregisters i origin (Removed io i' origin')"
  shows "registered r i origin (snd (Session_Remove r io i' origin' s))"
proof -
  obtain e s0 where w: "validateWritable r io s = (e, s0)" by (cases "validateWritable r io s") auto
  have kept: "Session_Load r s0 j = Session_Load r s j" for j
    using validateWritable_Load [OF w registered_owned [OF assms(1)]] .
  then have here: "registered r i origin s0" using assms(1) by (simp add: registered_def)
  have "Session_Load r (snd (remove_files io i' s0)) i = Session_Load r s0 i" if "i' \<noteq> i"
    using that by (intro Session_Load_cong) (auto simp: remove_files_def Let_def)
  with here assms w kept show ?thesis
    by (cases "i' = i") (auto simp: Session_Remove_def registered_def split: option.splits sum.splits)
qed

lemma session_level_step:
  assumes "session_step r s ev s'" "\<not> unregisters i origin ev"
  shows "registered r i origin s \<le> registered r i origin s'"
proof (cases ev)
  case (Prepared io)
  obtain e s0 where p: "Prepare r io s = (e, s0)" by (cases "Prepare r io s") auto
  with Prepared assms(1) have "s' = s0" by (simp add: session_step_def)
  moreover have "registered r i origin s0" if "registered r i origin s"
    using that Prepare_Load [OF p registered_owned [OF that]] by (simp add: registered_def)
  ultimately show ?thesis by (simp add: le_bool_def)
qed (use assms Register_keeps Remove_keeps in \<open>auto simp: session_step_def\<close>)

interpretation sessions: ratchet "session_step r" "registered r i origin" "unregisters i origin" for r i origin
  by unfold_locales (rule session_level_step)

section \<open>Properties\<close>

text \<open>C28: A session identifier stays with the package that registered it: along every history of
  registrations, removals and preparations, whoever asks for them and whichever file operations
  fail, until that package removes it, the registry is purged or an update of the session fails
  half way, the identifier is registered to its package, and every other package's registration or
  removal of it is refused.\<close>

theorem session_stays_with_its_package:
  assumes "run (session_step r) s evs s'" and "registered r i origin s" and "\<forall>ev\<in>set evs. \<not> unregisters i origin ev"
  shows "registered r i origin s' \<and>
    (\<forall>io session. ss_ID session = i \<longrightarrow> ss_Origin session \<noteq> origin \<longrightarrow> fst (Register r io session s') \<noteq> None) \<and>
    (\<forall>io other. other \<noteq> origin \<longrightarrow> fst (Session_Remove r io i other s') \<noteq> None)"
proof -
  have here: "registered r i origin s'" using sessions.level_run [OF assms(1)] assms(2,3) by (auto simp: le_bool_def)
  note owned = registered_owned [OF here]
  have "fst (Register r io session s') \<noteq> None" if "ss_ID session = i" "ss_Origin session \<noteq> origin" for io session
  proof (cases rule: Register_cases [of r io session s'])
    case (written s0)
    with here Prepare_Load [OF written(2) owned] that show ?thesis by (auto simp: registered_def)
  qed simp
  moreover have "fst (Session_Remove r io i other s') \<noteq> None" if "other \<noteq> origin" for io other
  proof -
    obtain e s0 where w: "validateWritable r io s' = (e, s0)" by (cases "validateWritable r io s'") auto
    with here validateWritable_Load [OF w owned] that show ?thesis
      by (cases e) (auto simp: Session_Remove_def registered_def)
  qed
  ultimately show ?thesis using here by blast
qed

text \<open>An update of a session that fails half way cannot be repaired through the registry: when the
  entry for the display manager cannot be written the record is deleted and the old entry stays;
  from then on every registration of the identifier is refused as used by the system, and removing
  the session reports success and leaves the entry where it is.\<close>

theorem failed_update_strands_the_session:
  assumes "registered r (ss_ID session) (ss_Origin session) s" and "Session_Validate session = None"
    and "registry_validate r = None" and "rg_SystemSessions r = []" and "st_sessions s = Owned_directory"
    and "st_entries s (entry_name (ss_ID session)) = Regular_entry text"
    and "io = \<lparr>sf_mkdir = False, sf_link = False, sf_record = False, sf_entry = True, sf_cleanup = False\<rparr>"
    and "ok = \<lparr>sf_mkdir = False, sf_link = False, sf_record = False, sf_entry = False, sf_cleanup = False\<rparr>"
  shows "\<exists>s'. Register r io session s = (Some (Session_files Not_written), s') \<and>
    (\<forall>again. ss_ID again = ss_ID session \<longrightarrow> Session_Validate again = None \<longrightarrow> Register r ok again s' = (Some Used_by_the_system, s')) \<and>
    (\<forall>origin. validatePackageOrigin origin = None \<longrightarrow> Session_Remove r ok (ss_ID session) origin s' = (None, s')) \<and>
    st_entries s' (entry_name (ss_ID session)) = Regular_entry text"
proof -
  let ?i = "ss_ID session"
  define s' where "s' = s\<lparr>st_records := (st_records s)(record_name ?i := No_session)\<rparr>"
  note owned = registered_owned [OF assms(1)] assms(5)
  have writable: "validateWritable r io t = (None, t)" if "st_registry t = Owned_directory" "st_sessions t = Owned_directory"
    "\<not> sf_mkdir io" for t io
    using that assms(3) by (cases t) (simp add: validateWritable_def ensureDirectory_def)
  have prepared: "Prepare r io t = (None, t)" if "st_registry t = Owned_directory" "st_sessions t = Owned_directory"
    "\<not> sf_mkdir io" for t io
    using writable [OF that] assms(4) by (simp add: Prepare_def syncSystemSessions_def)
  obtain old where old: "Session_Load r s ?i = Inr old" "ss_Origin old = ss_Origin session" "ss_ID old = ?i"
    using assms(1) by (auto simp: registered_def Session_Load_def split: if_splits option.splits session_file.splits)
  have id: "valid_session_id ?i" using assms(2) by (auto simp: Session_Validate_def split: if_splits)
  have "Register r io session s = (Some (Session_files Not_written), s')"
    using assms(2,6,7) prepared [OF owned] old by (simp add: Register_def ensureSessionSlot_def write_session_def s'_def Let_def)
  moreover have gone: "Session_Load r s' ?i = Inl (Session_files Not_exist)"
    using id owned registered_abs [OF assms(1)] by (simp add: Session_Load_def s'_def)
  moreover have "Register r ok again s' = (Some Used_by_the_system, s')"
    if "ss_ID again = ?i" "Session_Validate again = None" for again
    using that gone assms(6,8) prepared [of s' ok] owned by (simp add: Register_def ensureSessionSlot_def s'_def)
  moreover have "Session_Remove r ok ?i origin s' = (None, s')" if "validatePackageOrigin origin = None" for origin
    using that gone id assms(8) writable [of s' ok] owned by (simp add: Session_Remove_def s'_def)
  ultimately show ?thesis using assms(6) by (auto simp: s'_def)
qed


text \<open>The nine lines of an entry, whatever texts a package chooses.\<close>

definition entry_lines :: "Registry \<Rightarrow> Session \<Rightarrow> string list" where
  "entry_lines r session =
     [''[Desktop Entry]'', ''Name='' @ ss_Name session, ''Comment='' @ ss_Description session,
      ''Exec='' @ rg_LauncherPath r @ '' session launch '' @ ss_ID session, ''TryExec='' @ rg_LauncherPath r,
      ''Type=Application'', ''DesktopNames='' @ ss_ID session, ''X-cpak-Origin='' @ ss_Origin session,
      ''X-cpak-SessionKind='' @ ss_Kind session]"

lemma join_with_member: "x \<in> set (join_with c ps) \<Longrightarrow> x = c \<or> (\<exists>p\<in>set ps. x \<in> set p)"
  by (induction c ps rule: join_with.induct) auto

lemma valid_text_line: "valid_text text limit b \<Longrightarrow> CHR 0x0A \<notin> set text"
  by (auto simp: valid_text_def list_ex_iff)

lemma session_id_line: "valid_session_id i \<Longrightarrow> CHR 0x0A \<notin> set i"
  using matches_bytes [of sessionIDPattern i "CHR 0x0A"]
  by (auto simp: valid_session_id_def sessionIDPattern_def plus_def in_cls_def less_eq_char_def)

lemma package_origin_line:
  assumes "validatePackageOrigin origin = None"
  shows "CHR 0x0A \<notin> set origin"
proof
  assume "CHR 0x0A \<in> set origin"
  then have "CHR 0x0A \<in> set (join_with slash (split_on slash origin))" by simp
  from join_with_member [OF this] obtain part where "part \<in> set (split_on slash origin)" "CHR 0x0A \<in> set part"
    by auto
  with assms matches_bytes [of segmentPattern part "CHR 0x0A"] show False
    by (auto simp: validatePackageOrigin_def Let_def list_ex_iff originPartPattern_def segmentPattern_def in_cls_def less_eq_char_def
        split: if_splits)
qed

text \<open>A package's texts stay texts: the entry written for the display manager is the nine lines of
  its form, so no name, description or origin a package chooses adds a line to it, and the only
  program it starts is the launcher, with the session's own identifier.\<close>

theorem desktop_entry_is_nine_lines:
  assumes "Session_Validate session = None" and "CHR 0x0A \<notin> set (rg_LauncherPath r)"
  shows "split_on (CHR 0x0A) (desktopEntry r session) = entry_lines r session @ [[]] \<and>
    filter (\<lambda>line. HasPrefix line ''Exec='') (entry_lines r session) =
      [''Exec='' @ rg_LauncherPath r @ '' session launch '' @ ss_ID session]"
proof
  have parts: "CHR 0x0A \<notin> set (ss_Name session)" "CHR 0x0A \<notin> set (ss_Description session)" "CHR 0x0A \<notin> set (ss_ID session)"
    "CHR 0x0A \<notin> set (ss_Origin session)" "CHR 0x0A \<notin> set (ss_Kind session)"
    using assms(1) valid_text_line session_id_line package_origin_line by (auto simp: Session_Validate_def split: if_splits)
  let ?ls = "entry_lines r session @ [[]]"
  have "\<forall>line\<in>set ?ls. CHR 0x0A \<notin> set line" using parts assms(2) by (simp add: entry_lines_def)
  then have "split_on (CHR 0x0A) (join_with (CHR 0x0A) ?ls) = ?ls" by (intro split_join) simp_all
  moreover have "join_with (CHR 0x0A) ?ls = desktopEntry r session" by (simp add: entry_lines_def desktopEntry_def line_end_def)
  ultimately show "split_on (CHR 0x0A) (desktopEntry r session) = ?ls" by simp
  show "filter (\<lambda>line. HasPrefix line ''Exec='') (entry_lines r session) =
      [''Exec='' @ rg_LauncherPath r @ '' session launch '' @ ss_ID session]"
    by (simp add: entry_lines_def)
qed

end
