(* ===== verification/File_Grants.thy ===== *)
theory File_Grants
  imports Go_Path
begin

text \<open>
  \<^verbatim>\<open>pkg/filegrant\<close> and \<^verbatim>\<open>pkg/grantproto\<close>: what a user lets a confined application see of the host, one
  file or folder at a time.  A grant is resolved from a selection, kept in a store with one document
  per package, and sent to the sandbox together with the open descriptor.  The file system, the
  hash and the JSON codec are arguments; a file name is a string of bytes.
\<close>

section \<open>Grants\<close>

definition GuestRoot :: string where "GuestRoot = ''/run/cpak/grants''"

abbreviation KindFile :: string where "KindFile \<equiv> ''file''"
abbreviation KindDirectory :: string where "KindDirectory \<equiv> ''directory''"
abbreviation AccessReadOnly :: string where "AccessReadOnly \<equiv> ''read-only''"
abbreviation AccessReadWrite :: string where "AccessReadWrite \<equiv> ''read-write''"
abbreviation LifetimeSession :: string where "LifetimeSession \<equiv> ''session''"
abbreviation LifetimePersistent :: string where "LifetimePersistent \<equiv> ''persistent''"

record Grant =
  gr_ID :: string
  gr_Origin :: string
  gr_Selection :: string
  gr_Source :: string
  gr_Target :: string
  gr_MountTarget :: string
  gr_Kind :: string
  gr_Access :: string
  gr_Lifetime :: string

datatype file_kind = Directory_file | Regular_file | Special_file

record file_system =
  fs_cwd :: "string option"
  fs_EvalSymlinks :: "string \<Rightarrow> string option"
  fs_Stat :: "string \<Rightarrow> (nat \<times> file_kind) option"
  fs_Open :: "string \<Rightarrow> (nat \<times> file_kind) option"

datatype grant_error =
  Origin_required | Unsupported_access string | Unsupported_lifetime string | Selection_unresolved | Selection_uninspected
| Selection_kind | Save_name_invalid | Save_directory_unresolved | Grant_ID_invalid | Grant_source_invalid
| Grant_target_invalid | Grant_kind_invalid | Grant_access_invalid | Grant_scope_mismatch | Grant_lifetime_invalid
| Only_persistent | Store_not_absolute | Store_unlocked | Store_undecodable | Store_version int | Store_origin_mismatch
| Store_not_written | Store_not_removed | No_such_grant
| Source_unresolved | Source_changed | Source_unopened | Source_uninspected | Source_changed_while_opening | Source_type_changed
| Request_unread | Request_truncated | Request_undecodable | Request_control | Request_descriptor_count

definition Abs :: "file_system \<Rightarrow> string \<Rightarrow> string option" where
  "Abs fs p = (if IsAbs p then Some (Clean p) else map_option (\<lambda>cwd. Join [cwd, p]) (fs_cwd fs))"

definition grantID :: "(string \<Rightarrow> string) \<Rightarrow> string \<Rightarrow> string \<Rightarrow> string \<Rightarrow> string \<Rightarrow> string \<Rightarrow> string" where
  "grantID sha256 origin selection source kind access =
     sha256 (origin @ [CHR 0x00] @ selection @ [CHR 0x00] @ source @ [CHR 0x00] @ kind @ [CHR 0x00] @ access)"

definition build :: "(string \<Rightarrow> string) \<Rightarrow> string \<Rightarrow> string \<Rightarrow> string \<Rightarrow> string \<Rightarrow> string \<Rightarrow> string \<Rightarrow> Grant" where
  "build sha256 origin selection source kind access lifetime =
     (let i = grantID sha256 origin selection source kind access;
          name = Base source;
          name = (if name = ''.'' \<or> name = ''/'' \<or> name = [] then ''selection'' else name);
          mountTarget = Join [GuestRoot, i, name];
          target = (if selection \<noteq> source then Join [mountTarget, Base selection] else mountTarget)
      in \<lparr>gr_ID = i, gr_Origin = origin, gr_Selection = selection, gr_Source = source, gr_Target = target,
          gr_MountTarget = mountTarget, gr_Kind = kind, gr_Access = access, gr_Lifetime = lifetime\<rparr>)"

definition valid_lifetime :: "string \<Rightarrow> bool" where
  "valid_lifetime lifetime \<longleftrightarrow> lifetime = LifetimeSession \<or> lifetime = LifetimePersistent"

definition Resolve ::
  "(string \<Rightarrow> string) \<Rightarrow> file_system \<Rightarrow> string \<Rightarrow> string \<Rightarrow> string \<Rightarrow> string \<Rightarrow> bool \<Rightarrow> grant_error + Grant" where
  "Resolve sha256 fs origin selected access lifetime containingFolder =
     (if TrimSpace origin = [] then Inl Origin_required
      else if access \<noteq> AccessReadOnly \<and> access \<noteq> AccessReadWrite then Inl (Unsupported_access access)
      else if \<not> valid_lifetime lifetime then Inl (Unsupported_lifetime lifetime)
      else case Abs fs selected of None \<Rightarrow> Inl Selection_unresolved
      | Some absolute \<Rightarrow>
          (case fs_EvalSymlinks fs (Clean absolute) of None \<Rightarrow> Inl Selection_unresolved
           | Some selection \<Rightarrow>
               (case fs_Stat fs selection of None \<Rightarrow> Inl Selection_uninspected
                | Some (_, Special_file) \<Rightarrow> Inl Selection_kind
                | Some (_, Directory_file) \<Rightarrow> Inr (build sha256 origin selection selection KindDirectory access lifetime)
                | Some (_, Regular_file) \<Rightarrow>
                    if containingFolder then Inr (build sha256 origin selection (Dir selection) KindDirectory access lifetime)
                    else Inr (build sha256 origin selection selection KindFile access lifetime))))"

definition ResolveSave :: "(string \<Rightarrow> string) \<Rightarrow> file_system \<Rightarrow> string \<Rightarrow> string \<Rightarrow> string \<Rightarrow> grant_error + Grant" where
  "ResolveSave sha256 fs origin selected lifetime =
     (if TrimSpace origin = [] then Inl Origin_required
      else if \<not> valid_lifetime lifetime then Inl (Unsupported_lifetime lifetime)
      else case Abs fs selected of None \<Rightarrow> Inl Selection_unresolved
      | Some absolute \<Rightarrow>
          (let absolute = Clean absolute in
           if Base absolute = ''.'' \<or> Base absolute = ''/'' then Inl Save_name_invalid
           else (case fs_EvalSymlinks fs (Dir absolute) of None \<Rightarrow> Inl Save_directory_unresolved
             | Some parent \<Rightarrow>
                 Inr (build sha256 origin (Join [parent, Base absolute]) parent KindDirectory AccessReadWrite lifetime))))"

section \<open>Containment\<close>

text \<open>\<^verbatim>\<open>filepath.Rel\<close>: both paths cleaned, the common elements dropped, up for what is left of the base.\<close>

definition path_elements :: "string \<Rightarrow> string list" where
  "path_elements p = (if IsAbs p then components p else if p = ''.'' then [] else split_on slash p)"

fun strip_common :: "'a list \<Rightarrow> 'a list \<Rightarrow> 'a list \<times> 'a list" where
  "strip_common (x # xs) (y # ys) = (if x = y then strip_common xs ys else (x # xs, y # ys))"
| "strip_common xs ys = (xs, ys)"

definition Rel :: "string \<Rightarrow> string \<Rightarrow> string option" where
  "Rel basepath targpath =
     (let base = Clean basepath; targ = Clean targpath in
      if targ = base then Some ''.''
      else if IsAbs base \<noteq> IsAbs targ then None
      else case strip_common (path_elements base) (path_elements targ) of
        (up, down) \<Rightarrow>
          if up \<noteq> [] \<and> hd up = ''..'' then None
          else Some (join_with slash (replicate (length up) ''..'' @ down)))"

definition pathContains :: "string \<Rightarrow> string \<Rightarrow> bool" where
  "pathContains parent child \<longleftrightarrow>
     (case Rel parent child of None \<Rightarrow> False | Some relative \<Rightarrow> relative \<noteq> ''..'' \<and> \<not> HasPrefix relative ''../'')"

definition hex_char :: "char \<Rightarrow> bool" where
  "hex_char c \<longleftrightarrow> CHR ''0'' \<le> c \<and> c \<le> CHR ''9'' \<or> CHR ''a'' \<le> c \<and> c \<le> CHR ''f'' \<or> CHR ''A'' \<le> c \<and> c \<le> CHR ''F''"

definition Grant_Validate :: "(string \<Rightarrow> string) \<Rightarrow> Grant \<Rightarrow> grant_error err" where
  "Grant_Validate sha256 g =
     (if length (gr_ID g) \<noteq> 64 then Some Grant_ID_invalid
      else if \<not> list_all hex_char (gr_ID g) then Some Grant_ID_invalid
      else if gr_Origin g = [] \<or> \<not> IsAbs (gr_Selection g) \<or> Clean (gr_Selection g) \<noteq> gr_Selection g \<or>
              \<not> IsAbs (gr_Source g) \<or> Clean (gr_Source g) \<noteq> gr_Source g then Some Grant_source_invalid
      else
        let root = Join [GuestRoot, gr_ID g];
            expectedMount = Join [root, Base (gr_Source g)];
            expectedTarget = (if gr_Selection g \<noteq> gr_Source g then Join [expectedMount, Base (gr_Selection g)] else expectedMount)
        in if gr_MountTarget g \<noteq> expectedMount \<or> gr_Target g \<noteq> expectedTarget \<or> \<not> pathContains root (gr_Target g)
             then Some Grant_target_invalid
           else if gr_Kind g \<noteq> KindFile \<and> gr_Kind g \<noteq> KindDirectory then Some Grant_kind_invalid
           else if gr_Access g \<noteq> AccessReadOnly \<and> gr_Access g \<noteq> AccessReadWrite then Some Grant_access_invalid
           else if gr_ID g \<noteq> grantID sha256 (gr_Origin g) (gr_Selection g) (gr_Source g) (gr_Kind g) (gr_Access g)
             then Some Grant_scope_mismatch
           else if \<not> valid_lifetime (gr_Lifetime g) then Some Grant_lifetime_invalid
           else None)"

section \<open>The store\<close>

definition storeVersion :: int where "storeVersion = 1"

record grant_codec =
  gc_sha256 :: "string \<Rightarrow> string"
  gc_encode :: "int \<Rightarrow> Grant list \<Rightarrow> string"
  gc_decode :: "string \<Rightarrow> (int \<times> Grant list) option"

record Store =
  gs_Directory :: string
  gs_files :: "string \<Rightarrow> string option"

text \<open>Locking can fail; so can writing, which then leaves some text behind in the truncated file.\<close>

record store_faults =
  gf_lock :: bool
  gf_write :: "string option"

definition grants_path :: "grant_codec \<Rightarrow> Store \<Rightarrow> string \<Rightarrow> grant_error + string" where
  "grants_path codec s origin =
     (if origin = [] then Inl Origin_required
      else if \<not> IsAbs (gs_Directory s) then Inl Store_not_absolute
      else Inr (Join [gs_Directory s, gc_sha256 codec origin @ ''.json'']))"

text \<open>The path of the document, which exists from then on, empty at first.\<close>

definition lock_store :: "grant_codec \<Rightarrow> store_faults \<Rightarrow> Store \<Rightarrow> string \<Rightarrow> grant_error + string \<times> Store" where
  "lock_store codec io s origin =
     bind_result (grants_path codec s origin) (\<lambda>path.
       if gf_lock io then Inl Store_unlocked
       else Inr (path, s\<lparr>gs_files := (gs_files s)(path \<mapsto> case gs_files s path of None \<Rightarrow> [] | Some data \<Rightarrow> data)\<rparr>))"

definition check_stored :: "grant_codec \<Rightarrow> string \<Rightarrow> Grant \<Rightarrow> grant_error err" where
  "check_stored codec origin g =
     (if gr_Origin g \<noteq> origin then Some Store_origin_mismatch else Grant_Validate (gc_sha256 codec) g)"

definition readDocument :: "grant_codec \<Rightarrow> string \<Rightarrow> string \<Rightarrow> grant_error + Grant list" where
  "readDocument codec origin data =
     (if data = [] then Inr []
      else case gc_decode codec (take 1048576 data) of None \<Rightarrow> Inl Store_undecodable
      | Some (version, grants) \<Rightarrow>
          if version \<noteq> storeVersion then Inl (Store_version version)
          else (case first_error (check_stored codec origin) grants of Some e \<Rightarrow> Inl e
            | None \<Rightarrow> Inr (sort_key gr_Target grants)))"

definition writeDocument :: "grant_codec \<Rightarrow> store_faults \<Rightarrow> string \<Rightarrow> Grant list \<Rightarrow> Store \<Rightarrow> grant_error err \<times> Store" where
  "writeDocument codec io path grants s =
     (case gf_write io of
        Some left_behind \<Rightarrow> (Some Store_not_written, s\<lparr>gs_files := (gs_files s)(path \<mapsto> left_behind)\<rparr>)
      | None \<Rightarrow> (None, s\<lparr>gs_files := (gs_files s)(path \<mapsto> gc_encode codec storeVersion (sort_key gr_Target grants))\<rparr>))"

definition read_locked :: "grant_codec \<Rightarrow> Store \<Rightarrow> string \<Rightarrow> string \<Rightarrow> grant_error + Grant list" where
  "read_locked codec s origin path = readDocument codec origin (case gs_files s path of None \<Rightarrow> [] | Some data \<Rightarrow> data)"

definition Store_Load :: "grant_codec \<Rightarrow> store_faults \<Rightarrow> string \<Rightarrow> Store \<Rightarrow> (grant_error + Grant list) \<times> Store" where
  "Store_Load codec io origin s =
     (case lock_store codec io s origin of Inl e \<Rightarrow> (Inl e, s)
      | Inr (path, s) \<Rightarrow> (read_locked codec s origin path, s))"

fun put_grant :: "Grant \<Rightarrow> Grant list \<Rightarrow> Grant list" where
  "put_grant g [] = [g]"
| "put_grant g (h # rest) = (if gr_ID h = gr_ID g then g # rest else h # put_grant g rest)"

definition Store_Add :: "grant_codec \<Rightarrow> store_faults \<Rightarrow> Grant \<Rightarrow> Store \<Rightarrow> grant_error err \<times> Store" where
  "Store_Add codec io g s =
     (case Grant_Validate (gc_sha256 codec) g of Some e \<Rightarrow> (Some e, s)
      | None \<Rightarrow>
          if gr_Lifetime g \<noteq> LifetimePersistent then (Some Only_persistent, s)
          else case lock_store codec io s (gr_Origin g) of Inl e \<Rightarrow> (Some e, s)
          | Inr (path, s) \<Rightarrow>
              (case read_locked codec s (gr_Origin g) path of Inl e \<Rightarrow> (Some e, s)
               | Inr grants \<Rightarrow> writeDocument codec io path (put_grant g grants) s))"

definition Store_Remove :: "grant_codec \<Rightarrow> store_faults \<Rightarrow> string \<Rightarrow> string \<Rightarrow> Store \<Rightarrow> grant_error err \<times> Store" where
  "Store_Remove codec io origin i s =
     (case lock_store codec io s origin of Inl e \<Rightarrow> (Some e, s)
      | Inr (path, s) \<Rightarrow>
          (case read_locked codec s origin path of Inl e \<Rightarrow> (Some e, s)
           | Inr grants \<Rightarrow>
               let kept = filter (\<lambda>g. gr_ID g \<noteq> i) grants in
               if length kept = length grants then (Some No_such_grant, s) else writeDocument codec io path kept s))"

definition Store_Clear :: "grant_codec \<Rightarrow> bool \<Rightarrow> string \<Rightarrow> Store \<Rightarrow> grant_error err \<times> Store" where
  "Store_Clear codec fails origin s =
     (case grants_path codec s origin of Inl e \<Rightarrow> (Some e, s)
      | Inr path \<Rightarrow>
          if fails \<and> gs_files s path \<noteq> None then (Some Store_not_removed, s)
          else (None, s\<lparr>gs_files := (gs_files s)(path := None)\<rparr>))"

section \<open>Opening and sending\<close>

definition OpenSource :: "(string \<Rightarrow> string) \<Rightarrow> file_system \<Rightarrow> Grant \<Rightarrow> grant_error + nat" where
  "OpenSource sha256 fs g =
     (case Grant_Validate sha256 g of Some e \<Rightarrow> Inl e
      | None \<Rightarrow>
          (case fs_EvalSymlinks fs (gr_Source g) of None \<Rightarrow> Inl Source_unresolved
           | Some resolved \<Rightarrow>
               if resolved \<noteq> gr_Source g then Inl Source_changed
               else case fs_Open fs (gr_Source g) of None \<Rightarrow> Inl Source_unopened
               | Some (opened, kind) \<Rightarrow>
                   if gr_Kind g = KindDirectory \<and> kind \<noteq> Directory_file then Inl Source_unopened
                   else case fs_Stat fs (gr_Source g) of None \<Rightarrow> Inl Source_uninspected
                   | Some (current, _) \<Rightarrow>
                       if opened \<noteq> current then Inl Source_changed_while_opening
                       else if gr_Kind g = KindDirectory \<and> kind \<noteq> Directory_file \<or> gr_Kind g = KindFile \<and> kind \<noteq> Regular_file
                         then Inl Source_type_changed
                       else Inr opened))"

text \<open>
  \<^verbatim>\<open>Receive\<close>: a datagram with its control messages.  The answer is the grant and the descriptors it
  came with, the descriptors that were closed, and the ones left open with nothing referring to them.
\<close>

record datagram =
  dg_data :: string
  dg_truncated :: bool
  dg_control :: "nat list list option"

record received_grant =
  rg_result :: "grant_error + Grant \<times> nat list"
  rg_closed :: "nat list"
  rg_leaked :: "nat list"

definition descriptors_of :: "datagram \<Rightarrow> nat list" where
  "descriptors_of d = (case dg_control d of None \<Rightarrow> [] | Some rights \<Rightarrow> concat rights)"

definition refuse_grant :: "grant_error \<Rightarrow> nat list \<Rightarrow> nat list \<Rightarrow> received_grant" where
  "refuse_grant e closed leaked = \<lparr>rg_result = Inl e, rg_closed = closed, rg_leaked = leaked\<rparr>"

definition Receive :: "(string \<Rightarrow> string) \<Rightarrow> (string \<Rightarrow> Grant option) \<Rightarrow> datagram option \<Rightarrow> received_grant" where
  "Receive sha256 decode message =
     (case message of None \<Rightarrow> refuse_grant Request_unread [] []
      | Some d \<Rightarrow>
          if dg_truncated d then refuse_grant Request_truncated [] (descriptors_of d)
          else case decode (dg_data d) of None \<Rightarrow> refuse_grant Request_undecodable [] (descriptors_of d)
          | Some g \<Rightarrow>
              (case Grant_Validate sha256 g of Some e \<Rightarrow> refuse_grant e [] (descriptors_of d)
               | None \<Rightarrow>
                   (case dg_control d of None \<Rightarrow> refuse_grant Request_control [] []
                    | Some rights \<Rightarrow>
                        let fds = concat rights; expected = (if gr_Kind g = KindFile then 2 else 1) in
                        if length fds \<noteq> expected then refuse_grant Request_descriptor_count fds []
                        else \<lparr>rg_result = Inr (g, fds), rg_closed = [], rg_leaked = []\<rparr>)))"


section \<open>Rooted paths\<close>

definition rooted :: "string list \<Rightarrow> string" where
  "rooted cs = slash # join_with slash cs"

definition names :: "string list \<Rightarrow> bool" where
  "names cs \<longleftrightarrow> cs \<noteq> [] \<and> (\<forall>c\<in>set cs. proper c)"

lemma names_split: "names cs \<Longrightarrow> split_on slash (join_with slash cs) = cs"
  by (auto simp: names_def proper_def intro!: split_join)

lemma rooted_abs [simp]: "IsAbs (rooted cs)"
  by (simp add: rooted_def IsAbs_def)

lemma components_rooted: "names cs \<Longrightarrow> components (rooted cs) = cs"
  using foldl_proper [of cs True "[]"] names_split [of cs]
  by (simp add: components_def clean_stack_def IsAbs_def rooted_def names_def)

lemma rooted_eq: "names cs \<Longrightarrow> names ds \<Longrightarrow> rooted cs = rooted ds \<longleftrightarrow> cs = ds"
  using components_rooted [of cs] components_rooted [of ds] by metis

lemma Clean_rooted: "names cs \<Longrightarrow> Clean (rooted cs) = rooted cs"
  using Clean_components [of "rooted cs"] by (simp add: components_rooted) (simp add: rooted_def)

lemma rooted_not_root: "names cs \<Longrightarrow> rooted cs \<noteq> ''/''"
  using components_rooted [of cs] by (auto simp: names_def components_def clean_stack_def IsAbs_def)

lemma clean_rooted:
  assumes "IsAbs p" "Clean p = p" "p \<noteq> ''/''"
  shows "names (components p)" "p = rooted (components p)"
  using clean_abs_components [OF assms] components_proper [OF assms(1)] by (auto simp: names_def rooted_def)

lemma Base_rooted:
  assumes "names cs"
  shows "Base (rooted cs) = last cs"
proof -
  note clean = rooted_abs Clean_rooted [OF assms] rooted_not_root [OF assms]
  have "\<not> HasSuffix (rooted cs) ''/''"
  proof
    assume "HasSuffix (rooted cs) ''/''"
    then obtain e where "rooted cs = e @ ''/''" by (auto simp: suffix_def)
    with clean_abs_no_trailing [OF clean] show False using TrimSuffix_append [of e "''/''"] by simp
  qed
  then have "dropWhile (\<lambda>c. c = slash) (rev (rooted cs)) = rev (rooted cs)"
    by (cases "rev (rooted cs)") (auto simp: suffix_def rev_eq_Cons_iff)
  moreover have "split_on slash (rooted cs) = [] # cs" using names_split [OF assms] by (simp add: rooted_def)
  ultimately show ?thesis using assms by (simp add: Base_def rooted_def names_def)
qed

lemma Join_rooted:
  assumes "names cs" "names ds"
  shows "Join (rooted cs # ds) = rooted (cs @ ds)"
proof -
  have "Clean (join_with slash (rooted cs # ds)) = rooted (components (rooted cs) @ ds)"
    unfolding rooted_def [of "_ @ _"] using assms(2) by (intro Clean_under) (auto simp: names_def)
  with assms show ?thesis by (simp add: components_rooted) (simp add: rooted_def)
qed

lemma strip_common_prefix [simp]: "strip_common cs (cs @ ds) = ([], ds)"
  by (induction cs) (cases ds, simp_all)

lemma pathContains_rooted:
  assumes "names cs" "names ds"
  shows "pathContains (rooted cs) (rooted (cs @ ds))"
proof -
  have both: "names (cs @ ds)" using assms by (auto simp: names_def)
  have "rooted (cs @ ds) \<noteq> rooted cs" using rooted_eq [OF both assms(1)] assms(2) by (simp add: names_def)
  then have rel: "Rel (rooted cs) (rooted (cs @ ds)) = Some (join_with slash ds)"
    using assms by (simp add: Rel_def Clean_rooted [OF both] Clean_rooted [OF assms(1)] path_elements_def
        components_rooted [OF both] components_rooted [OF assms(1)])
  have first: "hd ds \<noteq> ''..''" using assms(2) by (cases ds) (auto simp: names_def proper_def)
  have "join_with slash ds \<noteq> ''..''" using names_split [OF assms(2)] first by (auto simp: names_def)
  moreover have "\<not> HasPrefix (join_with slash ds) ''../''"
  proof
    assume "HasPrefix (join_with slash ds) ''../''"
    then obtain r where "join_with slash ds = ''..'' @ slash # r" by (auto simp: prefix_def)
    then have "ds = ''..'' # split_on slash r" using names_split [OF assms(2)] by (simp add: split_append_sep)
    with first show False by simp
  qed
  ultimately show ?thesis by (simp add: pathContains_def rel)
qed

text \<open>A root is no name: joining it adds nothing.\<close>

lemma Join_root: "names cs \<Longrightarrow> Join [rooted cs, ''/''] = rooted cs"
proof -
  assume cs: "names cs"
  have "split_on slash (rooted cs @ ''//'') = ([] # cs) @ [[], []]"
    using names_split [OF cs] split_append [of slash "rooted cs" "''/''"] by (simp add: rooted_def)
  then have "clean_stack True (split_on slash (rooted cs @ ''//'')) = rev cs"
    using cs foldl_proper [of cs True "[]"] by (simp add: clean_stack_def names_def)
  then have "Clean (rooted cs @ ''//'') = rooted cs"
    by (simp add: Clean_def render_def) (auto simp: rooted_def IsAbs_def)
  then show ?thesis by (simp add: rooted_def)
qed

lemma hex_name: "length i = 64 \<Longrightarrow> list_all hex_char i \<Longrightarrow> proper i"
  by (auto simp: proper_def list_all_iff hex_char_def less_eq_char_def)

lemma GuestRoot_rooted: "GuestRoot = rooted [''run'', ''cpak'', ''grants'']" "names [''run'', ''cpak'', ''grants'']"
  by (simp_all add: GuestRoot_def rooted_def names_def proper_def)

lemma guest_names: "names (''run'' # ''cpak'' # ''grants'' # cs) \<longleftrightarrow> (\<forall>c\<in>set cs. proper c)"
  by (auto simp: names_def proper_def)

lemma Join_guest: "names cs \<Longrightarrow> Join (GuestRoot # cs) = rooted ([''run'', ''cpak'', ''grants''] @ cs)"
  unfolding GuestRoot_rooted(1) by (rule Join_rooted [OF GuestRoot_rooted(2)])

section \<open>What resolving gives\<close>

text \<open>
  A grant \<open>build\<close> makes, with a clean selection that is the source or lies directly in it, passes
  every check but one: where the source is the root, it has no name and the two sides disagree.
\<close>

lemma build_valid:
  assumes hash: "length (grantID sha256 origin selection source kind access) = 64"
      "list_all hex_char (grantID sha256 origin selection source kind access)"
    and selection: "IsAbs selection" "Clean selection = selection" "selection = source \<or> selection \<noteq> ''/''"
    and source: "IsAbs source" "Clean source = source"
    and fields: "origin \<noteq> []" "kind = KindFile \<or> kind = KindDirectory"
      "access = AccessReadOnly \<or> access = AccessReadWrite" "valid_lifetime lifetime"
  shows "Grant_Validate sha256 (build sha256 origin selection source kind access lifetime) = None \<longleftrightarrow> source \<noteq> ''/''"
proof -
  define i where "i = grantID sha256 origin selection source kind access"
  define base where "base = [''run'', ''cpak'', ''grants'', i]"
  have i: "proper i" using hash hex_name by (simp add: i_def)
  then have root: "Join [GuestRoot, i] = rooted base" "names base" using Join_guest [of "[i]"] by (auto simp: base_def names_def proper_def simp del: Join.simps)
  have mount: "Join [GuestRoot, i, n] = rooted (base @ [n])" "Join [rooted base, n] = rooted (base @ [n])" if "proper n" for n
    using that i Join_guest [of "[i, n]"] Join_rooted [OF root(2), of "[n]"] by (auto simp: base_def names_def simp del: Join.simps)
  show ?thesis
  proof (cases "source = ''/''")
    case True
    have "proper ''selection''" by (simp add: proper_def)
    from mount(1) [OF this] have "gr_MountTarget (build sha256 origin selection source kind access lifetime) = rooted (base @ [''selection''])"
      using True by (simp add: build_def Let_def Base_def i_def del: Join.simps)
    moreover have "Join [rooted base, Base ''/''] = rooted base" using Join_root [OF root(2)] by (simp add: Base_def del: Join.simps)
    moreover have "rooted (base @ [''selection'']) \<noteq> rooted base"
    proof -
      have "names (base @ [''selection''])" using root(2) \<open>proper ''selection''\<close> by (simp add: names_def)
      from rooted_eq [OF this root(2)] show ?thesis by simp
    qed
    ultimately show ?thesis
      using True root(1) hash selection source fields by (simp add: Grant_Validate_def Let_def i_def build_def del: Join.simps)
  next
    case False
    note src = clean_rooted [OF source False]
    have base_src: "Base source = last (components source)" "proper (Base source)"
      using Base_rooted [OF src(1)] src by (auto simp: names_def)
    have plain: "Base source \<noteq> ''.''" "Base source \<noteq> ''/''" "Base source \<noteq> []" using base_src(2) by (auto simp: proper_def)
    have sel: "proper (Base selection)" if "selection \<noteq> source"
    proof -
      have "selection \<noteq> ''/''" using that selection(3) by blast
      from clean_rooted [OF selection(1,2) this] show ?thesis using Base_rooted [of "components selection"] by (auto simp: names_def)
    qed
    let ?target = "if selection \<noteq> source then rooted (base @ [Base source, Base selection]) else rooted (base @ [Base source])"
    have "names (base @ [Base source])" using root(2) base_src(2) by (auto simp: names_def)
    then have target: "Join [rooted (base @ [Base source]), Base selection] = rooted (base @ [Base source, Base selection])"
      if "selection \<noteq> source"
      using sel [OF that] Join_rooted [of "base @ [Base source]" "[Base selection]"] by (simp add: names_def del: Join.simps)
    have "pathContains (rooted base) ?target"
      using pathContains_rooted [OF root(2), of "[Base source]"] pathContains_rooted [OF root(2), of "[Base source, Base selection]"]
        base_src(2) sel by (auto simp: names_def)
    note contained = this
    have "build sha256 origin selection source kind access lifetime =
        \<lparr>gr_ID = i, gr_Origin = origin, gr_Selection = selection, gr_Source = source, gr_Target = ?target,
         gr_MountTarget = rooted (base @ [Base source]), gr_Kind = kind, gr_Access = access, gr_Lifetime = lifetime\<rparr>"
      using target plain mount(1) [OF base_src(2)] by (simp add: build_def i_def [symmetric] Let_def del: Join.simps)
    moreover have "length i = 64" "list_all hex_char i" using hash by (simp_all add: i_def)
    ultimately show ?thesis
      using False target contained mount(2) [OF base_src(2)] root(1) selection(1,2) source fields
      by (simp add: Grant_Validate_def Let_def i_def [symmetric] del: Join.simps) (auto simp: i_def)
  qed
qed


lemma Dir_abs: "IsAbs p \<Longrightarrow> IsAbs (Dir p)"
proof -
  assume "IsAbs p"
  then obtain r where p: "p = slash # r" by (auto simp: IsAbs_def prefix_def)
  define d where "d = rev (dropWhile (\<lambda>c. c \<noteq> slash) (rev p))"
  have "p = d @ rev (takeWhile (\<lambda>c. c \<noteq> slash) (rev p))"
    unfolding d_def by (metis rev_append rev_rev_ident takeWhile_dropWhile_id)
  moreover have "d \<noteq> []" by (auto simp: d_def p dropWhile_append)
  ultimately have "IsAbs d" using p by (cases d) (auto simp: IsAbs_def)
  then show ?thesis by (simp add: Dir_def d_def)
qed

lemma Dir_clean [simp]: "Clean (Dir p) = Dir p"
  by (simp add: Dir_def)

lemma Abs_abs:
  assumes "Abs fs p = Some q" "\<And>d. fs_cwd fs = Some d \<Longrightarrow> IsAbs d"
  shows "IsAbs q"
proof (cases "IsAbs p")
  case True
  with assms(1) show ?thesis by (auto simp: Abs_def)
next
  case False
  then obtain d where d: "fs_cwd fs = Some d" "q = Join [d, p]" using assms(1) by (auto simp: Abs_def)
  from assms(2) [OF d(1)] have "IsAbs (join_with slash [d, p])" "d \<noteq> []" by (auto simp: IsAbs_def prefix_def)
  with d(2) show ?thesis by simp
qed

lemma Dir_root: "Dir ''/'' = ''/''"
  by code_simp

lemma TrimSpace_Nil: "TrimSpace [] = []"
  by code_simp

text \<open>What the user selects becomes a grant the sandbox accepts, with one exception: a grant that is
  resolved, for opening, for a containing folder or for saving, passes every check made on it later
  exactly when its source is not the root directory, provided the links of the file system resolve
  to clean absolute paths and the hash is 64 hexadecimal digits.\<close>

theorem resolved_grant_validates:
  assumes "\<And>text. length (sha256 text) = 64 \<and> list_all hex_char (sha256 text)"
    and "\<And>p q. fs_EvalSymlinks fs p = Some q \<Longrightarrow> IsAbs p \<Longrightarrow> IsAbs q \<and> Clean q = q"
    and "\<And>d. fs_cwd fs = Some d \<Longrightarrow> IsAbs d"
    and "Resolve sha256 fs origin selected access lifetime folder = Inr g \<or> ResolveSave sha256 fs origin selected lifetime = Inr g"
  shows "Grant_Validate sha256 g = None \<longleftrightarrow> gr_Source g \<noteq> ''/''"
proof -
  have hash: "length (grantID sha256 a b c d e) = 64" "list_all hex_char (grantID sha256 a b c d e)" for a b c d e
    using assms(1) by (simp_all add: grantID_def)
  have source: "gr_Source (build sha256 a b c d e f) = c" for a b c d e f by (simp add: build_def Let_def)
  note valid = build_valid [OF hash]
  from assms(4) show ?thesis
  proof
    assume r: "Resolve sha256 fs origin selected access lifetime folder = Inr g"
    then obtain p selection where p: "Abs fs selected = Some p" "fs_EvalSymlinks fs (Clean p) = Some selection"
      and ok: "TrimSpace origin \<noteq> []" "access = AccessReadOnly \<or> access = AccessReadWrite" "valid_lifetime lifetime"
      and g: "g = build sha256 origin selection selection KindDirectory access lifetime \<or>
          g = build sha256 origin selection (Dir selection) KindDirectory access lifetime \<or>
          g = build sha256 origin selection selection KindFile access lifetime"
      by (auto simp: Resolve_def split: if_splits option.splits file_kind.splits)
    have clean: "IsAbs selection" "Clean selection = selection" using assms(2) [OF p(2)] Abs_abs [OF p(1) assms(3)] by simp_all
    have "selection = Dir selection \<or> selection \<noteq> ''/''" using Dir_root by metis
    moreover have "origin \<noteq> []" using ok(1) TrimSpace_Nil by auto
    ultimately show ?thesis using g clean ok Dir_abs [OF clean(1)] valid by (auto simp: source)
  next
    assume "ResolveSave sha256 fs origin selected lifetime = Inr g"
    then obtain p parent where p: "Abs fs selected = Some p" "fs_EvalSymlinks fs (Dir (Clean p)) = Some parent"
      "Base (Clean p) \<noteq> ''/''" and ok: "TrimSpace origin \<noteq> []" "valid_lifetime lifetime"
      and g: "g = build sha256 origin (Join [parent, Base (Clean p)]) parent KindDirectory AccessReadWrite lifetime"
      by (auto simp: ResolveSave_def Let_def split: if_splits option.splits)
    have abs: "IsAbs (Clean p)" using Abs_abs [OF p(1) assms(3)] by simp
    have parent: "IsAbs parent" "Clean parent = parent" using assms(2) [OF p(2) Dir_abs [OF abs]] by simp_all
    have "Clean p \<noteq> ''/''" using p(3) by (auto simp: Base_def)
    from clean_rooted [OF abs _ this] have "proper (Base (Clean p))" using Base_rooted [of "components (Clean p)"] by (auto simp: names_def)
    then have "names (components parent @ [Base (Clean p)])" "Join [parent, Base (Clean p)] = rooted (components parent @ [Base (Clean p)])"
      using Clean_under [OF parent(1), of "[Base (Clean p)]"] components_proper [OF parent(1)] parent(1)
      by (auto simp: names_def rooted_def IsAbs_def)
    then have "IsAbs (Join [parent, Base (Clean p)])" "Clean (Join [parent, Base (Clean p)]) = Join [parent, Base (Clean p)]"
      "Join [parent, Base (Clean p)] \<noteq> ''/''"
      using Clean_rooted rooted_not_root by (simp_all del: Join.simps)
    moreover have "origin \<noteq> []" using ok(1) TrimSpace_Nil by auto
    ultimately show ?thesis using g parent ok valid by (simp add: source del: Join.simps)
  qed
qed


section \<open>The store as a map\<close>

text \<open>What a package holds, seen from outside: a map from identifiers to grants.\<close>

definition grant_map :: "Grant list \<Rightarrow> string \<Rightarrow> Grant option" where
  "grant_map gs i = List.find (\<lambda>g. gr_ID g = i) gs"

definition holds :: "grant_codec \<Rightarrow> Store \<Rightarrow> string \<Rightarrow> Grant list \<Rightarrow> bool" where
  "holds codec s origin gs \<longleftrightarrow>
     (\<exists>path. grants_path codec s origin = Inr path \<and> read_locked codec s origin path = Inr gs) \<and> distinct (map gr_ID gs)"

definition no_fault :: store_faults where
  "no_fault = \<lparr>gf_lock = False, gf_write = None\<rparr>"

definition faithful_for :: "grant_codec \<Rightarrow> Grant set \<Rightarrow> bool" where
  "faithful_for codec G \<longleftrightarrow>
     (\<forall>gs. set gs \<subseteq> G \<longrightarrow> distinct (map gr_ID gs) \<longrightarrow> gc_encode codec storeVersion gs \<noteq> [] \<and>
        gc_decode codec (take 1048576 (gc_encode codec storeVersion gs)) = Some (storeVersion, gs))"

lemma grant_map_iff:
  "distinct (map gr_ID gs) \<Longrightarrow> grant_map gs i = Some g \<longleftrightarrow> g \<in> set gs \<and> gr_ID g = i"
  unfolding grant_map_def by (induction gs) (auto intro: imageI)

lemma grant_map_eqI:
  assumes "distinct (map gr_ID gs)" "\<And>i g. m i = Some g \<longleftrightarrow> g \<in> set gs \<and> gr_ID g = i"
  shows "grant_map gs = m"
proof
  fix i
  have "grant_map gs i = Some g \<longleftrightarrow> m i = Some g" for g using grant_map_iff [OF assms(1)] assms(2) by simp
  then show "grant_map gs i = m i" by (metis not_None_eq)
qed

lemma put_grant_ids: "set (map gr_ID (put_grant g gs)) = insert (gr_ID g) (set (map gr_ID gs))"
  by (induction gs) auto

lemma put_grant_distinct: "distinct (map gr_ID gs) \<Longrightarrow> distinct (map gr_ID (put_grant g gs))"
  using put_grant_ids [of g] by (induction gs) (auto simp del: set_map)

lemma put_grant_set:
  "distinct (map gr_ID gs) \<Longrightarrow> set (put_grant g gs) = insert g {h \<in> set gs. gr_ID h \<noteq> gr_ID g}"
proof (induction gs)
  case (Cons h gs)
  show ?case
  proof (cases "gr_ID h = gr_ID g")
    case True
    then have "gr_ID k \<noteq> gr_ID g" if "k \<in> set gs" for k using Cons.prems that by (metis distinct.simps(2) image_eqI list.set_map list.simps(9))
    with True show ?thesis by auto
  next
    case False
    with Cons show ?thesis by auto
  qed
qed simp

lemma sort_ids: "distinct (map gr_ID (sort_key f gs)) \<longleftrightarrow> distinct (map gr_ID gs)"
  by (metis distinct_map distinct_sort set_sort)

lemma readDocument_checked:
  "readDocument codec origin data = Inr gs \<Longrightarrow> g \<in> set gs \<Longrightarrow> check_stored codec origin g = None"
  by (auto simp: readDocument_def validation split: if_splits option.splits)

lemma locked:
  assumes "grants_path codec s origin = Inr path"
  shows "\<exists>s'. lock_store codec no_fault s origin = Inr (path, s') \<and> gs_Directory s' = gs_Directory s \<and>
    read_locked codec s' origin path = read_locked codec s origin path \<and>
    (\<forall>p. p \<noteq> path \<longrightarrow> gs_files s' p = gs_files s p)"
  using assms by (auto simp: lock_store_def bind_result_def no_fault_def read_locked_def split: option.splits)

text \<open>Writing a list of checked grants is how the store comes to hold it, sorted by target.\<close>

lemma written_holds:
  assumes "grants_path codec s origin = Inr path" "distinct (map gr_ID gs)" "\<forall>g\<in>set gs. check_stored codec origin g = None"
    and "faithful_for codec G" "set gs \<subseteq> G"
  shows "\<exists>s'. writeDocument codec no_fault path gs s = (None, s') \<and> holds codec s' origin (sort_key gr_Target gs) \<and>
    gs_Directory s' = gs_Directory s \<and> (\<forall>p. p \<noteq> path \<longrightarrow> gs_files s' p = gs_files s p)"
proof -
  let ?text = "gc_encode codec storeVersion (sort_key gr_Target gs)"
  let ?s' = "s\<lparr>gs_files := (gs_files s)(path \<mapsto> ?text)\<rparr>"
  have "?text \<noteq> []" "gc_decode codec (take 1048576 ?text) = Some (storeVersion, sort_key gr_Target gs)"
    using assms(2,4,5) by (auto simp: faithful_for_def sort_ids)
  moreover have checked: "first_error (check_stored codec origin) (sort_key gr_Target gs) = None"
    using assms(3) by (simp add: first_error_None)
  ultimately have "read_locked codec ?s' origin path = Inr (sort_key gr_Target gs)"
    using checked by (simp add: read_locked_def readDocument_def sort_key_id_if_sorted)
  moreover have "grants_path codec ?s' origin = Inr path" using assms(1) by (simp add: grants_path_def split: if_splits)
  ultimately show ?thesis using assms(2) by (simp add: writeDocument_def no_fault_def holds_def sort_ids)
qed

lemma holds_frame:
  assumes "holds codec s other gs" "gs_Directory s' = gs_Directory s" "\<forall>p. p \<noteq> path \<longrightarrow> gs_files s' p = gs_files s p"
    and "grants_path codec s other \<noteq> Inr path"
  shows "holds codec s' other gs"
  using assms by (auto simp: holds_def grants_path_def read_locked_def split: if_splits)

definition unchanged_elsewhere :: "grant_codec \<Rightarrow> string \<Rightarrow> Store \<Rightarrow> Store \<Rightarrow> bool" where
  "unchanged_elsewhere codec origin s s' \<longleftrightarrow>
     (\<forall>other gs. grants_path codec s other \<noteq> grants_path codec s origin \<longrightarrow> holds codec s other gs \<longrightarrow> holds codec s' other gs)"

lemma length_filter_conv_all: "length (filter P xs) = length xs \<longleftrightarrow> (\<forall>x\<in>set xs. P x)"
  by (metis filter_id_conv length_filter_less less_irrefl)

text \<open>C29: The store of persistent file grants is a map: adding a valid grant to a package's grants maps
  its identifier to it and changes nothing else, removing an identifier unmaps it, or reports that
  there is none, and neither touches what any other package holds, provided the JSON text of the
  grants is faithful and below the limit it is read back with.\<close>

theorem grant_store_refines_map:
  assumes "holds codec s origin gs" and "faithful_for codec (insert g (set gs))"
    and "Grant_Validate (gc_sha256 codec) g = None" "gr_Lifetime g = LifetimePersistent" "gr_Origin g = origin"
  shows "(\<exists>s' gs'. Store_Add codec no_fault g s = (None, s') \<and> holds codec s' origin gs' \<and>
      grant_map gs' = (grant_map gs)(gr_ID g \<mapsto> g) \<and> unchanged_elsewhere codec origin s s') \<and>
    (if grant_map gs i = None then fst (Store_Remove codec no_fault origin i s) = Some No_such_grant
     else \<exists>s' gs'. Store_Remove codec no_fault origin i s = (None, s') \<and> holds codec s' origin gs' \<and>
       grant_map gs' = (grant_map gs)(i := None) \<and> unchanged_elsewhere codec origin s s')"
proof -
  obtain path where path: "grants_path codec s origin = Inr path" "read_locked codec s origin path = Inr gs"
    and ids: "distinct (map gr_ID gs)" using assms(1) by (auto simp: holds_def)
  obtain s0 where s0: "lock_store codec no_fault s origin = Inr (path, s0)" "gs_Directory s0 = gs_Directory s"
    "read_locked codec s0 origin path = Inr gs" "\<forall>p. p \<noteq> path \<longrightarrow> gs_files s0 p = gs_files s p"
    using locked [OF path(1)] path(2) by auto
  have path0: "grants_path codec s0 origin = Inr path" using path(1) s0(2) by (simp add: grants_path_def split: if_splits del: Join.simps)
  have checked: "\<forall>h\<in>set gs. check_stored codec origin h = None" using path(2) readDocument_checked by (auto simp: read_locked_def)
  have elsewhere: "unchanged_elsewhere codec origin s s'"
    if "gs_Directory s' = gs_Directory s0" "\<forall>p. p \<noteq> path \<longrightarrow> gs_files s' p = gs_files s0 p" for s'
    unfolding unchanged_elsewhere_def using holds_frame [of codec s _ _ s' path] that s0(2,4) path(1) by auto
  have put: "distinct (map gr_ID (put_grant g gs))" "set (put_grant g gs) \<subseteq> insert g (set gs)"
    "\<forall>h\<in>set (put_grant g gs). check_stored codec origin h = None"
    using put_grant_distinct [OF ids] put_grant_set [OF ids] checked assms(3,5) by (auto simp: check_stored_def)
  from written_holds [OF path0 put(1,3) assms(2) put(2)] obtain s' where
    added: "writeDocument codec no_fault path (put_grant g gs) s0 = (None, s')" "holds codec s' origin (sort_key gr_Target (put_grant g gs))"
    "gs_Directory s' = gs_Directory s0" "\<forall>p. p \<noteq> path \<longrightarrow> gs_files s' p = gs_files s0 p" by blast
  have "grant_map (sort_key gr_Target (put_grant g gs)) = (grant_map gs)(gr_ID g \<mapsto> g)"
    using put(1) by (intro grant_map_eqI) (auto simp: sort_ids put_grant_set [OF ids] grant_map_iff [OF ids])
  with added assms(3-5) s0 elsewhere [OF added(3,4)] have add: "\<exists>s' gs'. Store_Add codec no_fault g s = (None, s') \<and>
      holds codec s' origin gs' \<and> grant_map gs' = (grant_map gs)(gr_ID g \<mapsto> g) \<and> unchanged_elsewhere codec origin s s'"
    by (auto simp: Store_Add_def)
  let ?kept = "filter (\<lambda>h. gr_ID h \<noteq> i) gs"
  have kept: "distinct (map gr_ID ?kept)" "\<forall>h\<in>set ?kept. check_stored codec origin h = None" "set ?kept \<subseteq> insert g (set gs)"
    using ids checked by (auto simp: distinct_map_filter)
  from written_holds [OF path0 kept(1,2) assms(2) kept(3)] obtain s'' where
    removed: "writeDocument codec no_fault path ?kept s0 = (None, s'')" "holds codec s'' origin (sort_key gr_Target ?kept)"
    "gs_Directory s'' = gs_Directory s0" "\<forall>p. p \<noteq> path \<longrightarrow> gs_files s'' p = gs_files s0 p" by blast
  have "grant_map (sort_key gr_Target ?kept) = (grant_map gs)(i := None)"
    using kept(1) by (intro grant_map_eqI) (auto simp: sort_ids grant_map_iff [OF ids])
  moreover have "length ?kept = length gs \<longleftrightarrow> grant_map gs i = None"
    by (auto simp: grant_map_def find_None_iff length_filter_conv_all)
  ultimately show ?thesis
    using add s0(1,3) removed elsewhere [OF removed(3,4)] by (auto simp: Store_Remove_def Let_def)
qed


lemma Grant_Validate_scope:
  "Grant_Validate sha256 g = None \<Longrightarrow>
     gr_ID g = grantID sha256 (gr_Origin g) (gr_Selection g) (gr_Source g) (gr_Kind g) (gr_Access g)"
  unfolding Grant_Validate_def Let_def by (simp split: if_splits del: Join.simps)

text \<open>A name that JSON cannot carry blocks a package's grants: where the text of a grant comes back as
  another scope than the one its identifier was computed from, as it does for a file name that is
  not UTF-8, the grant is stored without complaint, and from then on the package's grants can be
  neither loaded nor added to nor removed from.\<close>

theorem unfaithful_name_blocks_the_store:
  assumes "holds codec s (gr_Origin g) []" and "Grant_Validate (gc_sha256 codec) g = None" and "gr_Lifetime g = LifetimePersistent"
    and "gc_encode codec storeVersion [g] \<noteq> []"
    and "gc_decode codec (take 1048576 (gc_encode codec storeVersion [g])) = Some (storeVersion, [g'])"
    and "gr_ID g' \<noteq> grantID (gc_sha256 codec) (gr_Origin g') (gr_Selection g') (gr_Source g') (gr_Kind g') (gr_Access g')"
  shows "\<exists>s'. Store_Add codec no_fault g s = (None, s') \<and>
    (\<forall>io. isl (fst (Store_Load codec io (gr_Origin g) s')) \<and>
       (\<forall>h. gr_Origin h = gr_Origin g \<longrightarrow> fst (Store_Add codec io h s') \<noteq> None) \<and>
       (\<forall>i. fst (Store_Remove codec io (gr_Origin g) i s') \<noteq> None))"
proof -
  let ?text = "gc_encode codec storeVersion [g]"
  obtain path where path: "grants_path codec s (gr_Origin g) = Inr path" "read_locked codec s (gr_Origin g) path = Inr []"
    using assms(1) by (auto simp: holds_def)
  obtain s0 where s0: "lock_store codec no_fault s (gr_Origin g) = Inr (path, s0)" "gs_Directory s0 = gs_Directory s"
    "read_locked codec s0 (gr_Origin g) path = Inr []"
    using locked [OF path(1)] path(2) by auto
  define s' where "s' = s0\<lparr>gs_files := (gs_files s0)(path \<mapsto> ?text)\<rparr>"
  have "Store_Add codec no_fault g s = (None, s')"
    using assms(2,3) s0 by (simp add: Store_Add_def writeDocument_def no_fault_def s'_def)
  note added = this
  have "Grant_Validate (gc_sha256 codec) g' \<noteq> None"
    using assms(6) Grant_Validate_scope by blast
  then have "check_stored codec (gr_Origin g) g' \<noteq> None" by (simp add: check_stored_def)
  then obtain e where "readDocument codec (gr_Origin g) ?text = Inl e"
  proof -
    obtain e where "first_error (check_stored codec (gr_Origin g)) [g'] = Some e"
      using \<open>check_stored codec (gr_Origin g) g' \<noteq> None\<close> by auto
    then have "readDocument codec (gr_Origin g) ?text = Inl e" unfolding readDocument_def using assms(4,5) by simp
    then show ?thesis using that by blast
  qed
  then have unread: "readDocument codec (gr_Origin g) ?text = Inl e" .
  have path': "grants_path codec s' (gr_Origin g) = Inr path"
    using path(1) s0(2) by (simp add: grants_path_def s'_def split: if_splits del: Join.simps)
  have "gs_files s' path = Some ?text" by (simp add: s'_def)
  then have unreadable: "lock_store codec io s' (gr_Origin g) = Inl Store_unlocked \<or>
      (\<exists>t. lock_store codec io s' (gr_Origin g) = Inr (path, t) \<and> read_locked codec t (gr_Origin g) path = Inl e)" for io
    using unread by (simp add: lock_store_def bind_result_def path' read_locked_def)
  have "isl (fst (Store_Load codec io (gr_Origin g) s'))" for io
    using unreadable [of io] by (auto simp: Store_Load_def)
  moreover have "fst (Store_Add codec io h s') \<noteq> None" if "gr_Origin h = gr_Origin g" for io h
    using unreadable [of io] that by (auto simp: Store_Add_def split: option.splits)
  moreover have "fst (Store_Remove codec io (gr_Origin g) i s') \<noteq> None" for io i
    using unreadable [of io] by (auto simp: Store_Remove_def)
  ultimately show ?thesis using added by blast
qed

section \<open>Descriptors of a request\<close>

text \<open>An accepted request owns its descriptors, one for a folder and two for a file; a refused one has
  closed some of them and leaked the others.\<close>

lemma Receive_descriptors:
  assumes "Receive sha256 decode (Some d) = r"
  shows "(case rg_result r of
      Inr (g, fds) \<Rightarrow> fds = descriptors_of d \<and> length fds = (if gr_Kind g = KindFile then 2 else 1) \<and>
        Grant_Validate sha256 g = None \<and> rg_closed r = [] \<and> rg_leaked r = []
    | Inl e \<Rightarrow> rg_closed r @ rg_leaked r = descriptors_of d)"
  using assms by (auto simp: Receive_def refuse_grant_def descriptors_of_def Let_def split: option.splits if_splits)

end
