(* ===== verification/Store_Instances.thy ===== *)
theory Store_Instances
  imports Reputation_Store Layer_Bindings Session_Registry File_Grants
begin

text \<open>
  The properties of the stores at concrete inputs: two reputation providers and short snapshots, a
  layer, a session and a selected file.
\<close>

section \<open>Reputation providers\<close>

text \<open>A library for documents that spell themselves out: a snapshot's sequence is its length.\<close>

definition some_snapshots :: snapshot_lib where
  "some_snapshots = \<lparr>json_tree = (\<lambda>_. Some JScalar),
     decode_envelope = (\<lambda>d. Some \<lparr>ev_ABI = 1, ev_ProviderID = (if hd d = CHR ''h'' then ''host'' else ''other''),
        ev_KeyID = ''ed25519-sha256:'', ev_Signed = d, ev_Signature = replicate 64 CHR ''s''\<rparr>),
     decode_signed = (\<lambda>d. Some \<lparr>sg_Sequence = of_nat (length d), sg_IssuedAt = ''2026-01-01T00:00:00Z'',
        sg_ExpiresAt = ''2026-02-01T00:00:00Z'', sg_Entries = []\<rparr>),
     canonicalize = Some, sha256_sum = (\<lambda>_. []), ed25519_verify = (\<lambda>_ _ _. True)\<rparr>"

definition some_store_lib :: store_lib where
  "some_store_lib = \<lparr>sl_snapshots = some_snapshots,
     sl_decode_authority = (\<lambda>d. Some (1, \<lparr>au_ProviderID = drop 32 d, au_KeyID = ''ed25519-sha256:'', au_PublicKey = take 32 d\<rparr>)),
     sl_encode_authority = (\<lambda>a. au_PublicKey a @ au_ProviderID a)\<rparr>"

definition some_authority :: "string \<Rightarrow> Authority" where
  "some_authority provider =
     \<lparr>au_ProviderID = provider, au_KeyID = ''ed25519-sha256:'', au_PublicKey = replicate 32 CHR ''k''\<rparr>"

definition authority_text :: "string \<Rightarrow> string" where
  "authority_text provider = replicate 32 CHR ''k'' @ provider"

definition some_store :: "trusted_file \<Rightarrow> ReputationStore" where
  "some_store snapshot = \<lparr>rs_Directory = ''/var/lib/cpak/reputation/v1'', rs_directory = Owned_directory,
     rs_provider = Trusted_file (authority_text ''host''), rs_snapshot = snapshot\<rparr>"

definition some_snapshot :: "string \<Rightarrow> Snapshot" where
  "some_snapshot d = \<lparr>sn_ProviderID = ''host'', sn_KeyID = ''ed25519-sha256:'', sn_Sequence = of_nat (length d),
     sn_IssuedAt = 1767225600000000000, sn_ExpiresAt = 1769904000000000000, sn_entries = []\<rparr>"

abbreviation in_january :: instant where "in_january \<equiv> 1768000000000000000"

lemma some_store_put: "(some_store f)\<lparr>rs_snapshot := g\<rparr> = some_store g"
  by (simp add: some_store_def)

lemma authority_valid: "Authority_Validate some_snapshots (some_authority ''host'') = None"
  "Authority_Validate some_snapshots (some_authority ''other'') = None"
  by code_simp+

lemma authority_codec:
  assumes "Authority_Validate (sl_snapshots some_store_lib) a = None"
  shows "ParseAuthority some_store_lib (sl_encode_authority some_store_lib a) = Inr a"
proof -
  have "length (au_PublicKey a) = 32" "au_KeyID a = ''ed25519-sha256:''" "length (au_ProviderID a) \<le> 64"
    using assms namePattern_length
    by (auto simp: some_store_lib_def some_snapshots_def Authority_Validate_def KeyID_def hex_encode_def PublicKeySize_def split: if_splits)
  moreover from this have "au_PublicKey a \<noteq> []" by auto
  ultimately show ?thesis
    using assms by (cases a) (simp add: ParseAuthority_def MaxAuthoritySize_def some_store_lib_def some_snapshots_def
        rejectDuplicateKeys_def SnapshotABIVersion_def)
qed

lemma authority_read: "Store_Authority some_store_lib (some_store f) = Inr (Some (some_authority ''host''))"
  using authority_valid(1)
  by (simp add: Store_Authority_def some_store_def store_path_def IsAbs_def readTrusted_def MaxAuthoritySize_def
      authority_text_def bind_result_def ParseAuthority_def some_store_lib_def rejectDuplicateKeys_def SnapshotABIVersion_def
      some_snapshots_def some_authority_def)

lemma snapshot_times:
  "canonical_time ''2026-01-01T00:00:00Z'' = Some 1767225600000000000"
  "canonical_time ''2026-02-01T00:00:00Z'' = Some 1769904000000000000"
  by code_simp+

lemma snapshot_read:
  assumes "d = ''h'' \<or> d = ''hh''"
  shows "Authenticate some_snapshots d (some_authority ''host'') = Inr (some_snapshot d)"
proof -
  have "length d \<in> {1, 2}" "d \<noteq> []" "hd d = CHR ''h''" "d \<noteq> ''null''" using assms by auto
  then have "of_nat (length d) \<noteq> (0::u64)" "\<not> of_nat (length d) > MaxSequence" by (auto simp: MaxSequence_def)
  then have signed: "validateSigned \<lparr>sg_Sequence = of_nat (length d), sg_IssuedAt = ''2026-01-01T00:00:00Z'',
        sg_ExpiresAt = ''2026-02-01T00:00:00Z'', sg_Entries = []\<rparr> = Inr (1767225600000000000, 1769904000000000000)"
    by (simp add: validateSigned_def parseTimestamp_def snapshot_times bind_result_def MaxEntries_def result_of_def)
  have size: "\<not> length d > MaxSnapshotSize" using assms by (auto simp: MaxSnapshotSize_def)
  show ?thesis
    unfolding Authenticate_def authority_valid(1)
    using size signed \<open>d \<noteq> []\<close> \<open>hd d = CHR ''h''\<close> \<open>d \<noteq> ''null''\<close>
    by (simp add: parseEnvelope_def ParseSigned_def rejectDuplicateKeys_def bind_result_def some_snapshots_def SnapshotABIVersion_def
        SignatureSize_def some_authority_def some_snapshot_def)
qed

lemma snapshot_verified:
  "d = ''h'' \<or> d = ''hh'' \<Longrightarrow> Verify some_snapshots d (some_authority ''host'') in_january = Inr (some_snapshot d)"
  by (simp add: Verify_def snapshot_read bind_result_def) (simp add: some_snapshot_def)

theorem newer_snapshot_is_served_witness:
  "\<exists>s'. Import some_store_lib working ''hh'' in_january (some_store (Trusted_file ''h'')) = (Inr (some_snapshot ''hh''), s') \<and>
     Current some_store_lib in_january s' = Inr (Some (some_snapshot ''hh''))"
proof -
  have lib: "sl_snapshots some_store_lib = some_snapshots" by (simp add: some_store_lib_def)
  have "sn_Sequence (some_snapshot ''h'') < sn_Sequence (some_snapshot ''hh'')" by (simp add: some_snapshot_def)
  then show ?thesis
    using newer_snapshot_is_served [OF authority_read, of "''hh''" in_january "some_snapshot ''hh''" "Trusted_file ''h''"]
      snapshot_verified [of "''hh''"] snapshot_read [of "''h''"]
    by (auto simp: lib some_store_def some_snapshot_def)
qed

theorem imported_snapshot_is_newer_witness:
  "sequence_under some_store_lib (some_authority ''host'') (some_store (Trusted_file ''h'')) < 2"
proof -
  have lib: "sl_snapshots some_store_lib = some_snapshots" by (simp add: some_store_lib_def)
  let ?s = "some_store (Trusted_file ''h'')"
  have "readTrusted MaxSnapshotSize (rs_snapshot ?s) = Inr (Some ''h'')" by (simp add: some_store_def readTrusted_def MaxSnapshotSize_def)
  moreover have "newer_than_active some_store_lib (some_authority ''host'') (some_snapshot ''hh'') (Some ''h'') = None"
    by (simp add: newer_than_active_def lib snapshot_read) (simp add: some_snapshot_def word_le_nat_alt)
  moreover have "store_path ?s = None" by (simp add: store_path_def some_store_def IsAbs_def)
  ultimately have import: "Import some_store_lib working ''hh'' in_january ?s = (Inr (some_snapshot ''hh''), some_store (Trusted_file ''hh''))"
    by (simp add: Import_def authority_read lib snapshot_verified working_def some_store_put)
  from imported_snapshot_is_newer [OF no_events _ authority_read _ import, where provider = "some_authority ''host''"]
  show ?thesis by (auto simp: same_provider_def some_snapshot_def)
qed

theorem verdicts_are_authentic_witness:
  "rr_Status (fst (Store_Lookup some_store_lib ''p'' in_january (some_store (Trusted_file ''h'')))) \<noteq> Unavailable"
proof -
  have lib: "sl_snapshots some_store_lib = some_snapshots" by (simp add: some_store_lib_def)
  let ?s = "some_store (Trusted_file ''h'')"
  have read: "readTrusted MaxSnapshotSize (rs_snapshot ?s) = Inr (Some ''h'')" by (simp add: some_store_def readTrusted_def MaxSnapshotSize_def)
  moreover have "store_path ?s = None" by (simp add: store_path_def some_store_def IsAbs_def)
  ultimately have l: "Store_Lookup some_store_lib ''p'' in_january ?s = (Lookup (some_snapshot ''h'') ''p'', None)"
    by (simp add: Store_Lookup_def Current_def authority_read bind_result_def lib snapshot_verified)
  have "listed (sn_entries (some_snapshot ''h'')) ''p'' = None" by (simp add: some_snapshot_def listed_def)
  with verdicts_are_authentic [OF l] authority_read [of "Trusted_file ''h''"] read snapshot_read [of "''h''"]
  show ?thesis by (simp add: l lib) (simp add: some_snapshot_def some_authority_def Lookup_def sort_Search_def search_between.simps)
qed

theorem interrupted_change_blocks_imports_witness:
  "\<exists>s'. SetAuthority some_store_lib working (authority_text ''other'') ''ed25519-sha256:'' s' = (Inr (some_authority ''other''), s') \<and>
     isl (fst (Import some_store_lib working ''hh'' in_january s'))"
proof -
  have lib: "sl_snapshots some_store_lib = some_snapshots" by (simp add: some_store_lib_def)
  have "ParseAuthority some_store_lib (authority_text ''other'') = Inr (some_authority ''other'')"
    using authority_codec [of "some_authority ''other''"] authority_valid(2)
    by (simp add: lib) (simp add: some_store_lib_def some_authority_def authority_text_def)
  moreover have "\<not> same_provider (some_authority ''host'') (some_authority ''other'')" by (simp add: same_provider_def some_authority_def)
  ultimately show ?thesis
    using interrupted_change_blocks_imports [of some_store_lib "some_store (Trusted_file ''h'')" "some_authority ''host''"
        "authority_text ''other''" "some_authority ''other''" "''h''" "some_snapshot ''h''"]
      authority_codec authority_read snapshot_read [of "''h''"]
    by (auto simp: lib some_store_def some_authority_def)
qed


section \<open>Layers\<close>

definition some_digest :: string where "some_digest = replicate 64 CHR ''a''"

definition some_binding :: LayerBinding where
  "some_binding = \<lparr>OCIDigest = some_digest, StateID = ''s1'', StateRoot = ''r1''\<rparr>"

text \<open>A codec that spells the three fields out, the digest first, as it has a fixed length.\<close>

definition some_codec :: binding_codec where
  "some_codec = \<lparr>bc_encode = (\<lambda>b. show_nat (length (OCIDigest b)) @ ''|'' @ OCIDigest b @ StateID b @ ''|'' @ StateRoot b),
     bc_decode = (\<lambda>d. case cut_on CHR ''|'' d of (n, rest, _) \<Rightarrow>
        (case cut_on CHR ''|'' (drop (decimal n) rest) of (state, root, _) \<Rightarrow>
           Some \<lparr>OCIDigest = take (decimal n) rest, StateID = state, StateRoot = root\<rparr>))\<rparr>"

definition no_bindings :: DirectoryBindings where
  "no_bindings = \<lparr>db_directory = ''/b'', db_files = (\<lambda>_. None)\<rparr>"

definition some_bindings :: DirectoryBindings where
  "some_bindings = snd (Bind some_codec True True some_binding no_bindings)"

lemma some_digest_canonical: "canonicalLayerDigest some_digest = Inr some_digest"
  by code_simp

lemma some_binding_found: "Binding_Lookup some_codec some_bindings some_digest = Inr (Some some_binding)"
  by code_simp

theorem bound_layer_keeps_its_state_witness:
  "Binding_Lookup some_codec (snd (Bind some_codec True True (some_binding\<lparr>StateID := ''s2''\<rparr>) some_bindings))
     (''sha256:'' @ some_digest) = Inr (Some some_binding)"
proof -
  let ?later = "Bound True True (some_binding\<lparr>StateID := ''s2''\<rparr>)"
  have "run (binding_step some_codec) some_bindings [?later] (snd (Bind some_codec True True (some_binding\<lparr>StateID := ''s2''\<rparr>) some_bindings))"
    by (simp add: run_Cons)
  from bound_layer_keeps_its_state [OF this some_binding_found some_digest_canonical] show ?thesis by blast
qed

definition some_package :: Package where
  "some_package = \<lparr>pk_Origin = ''github.com/acme/editor'', pk_Selector = [], pk_Version = ''1'', pk_ManifestDigest = [], pk_ImageDigest = ''i'',
     pk_ConfigDigest = [], pk_Layers = [some_binding], pk_Dependencies = [''b'', ''a''], pk_Addons = [], pk_Binaries = [],
     pk_DesktopEntries = [], pk_Sessions = []\<rparr>"

theorem package_root_names_the_package_witness:
  "PackageRoot (\<lambda>_ p. concat (pk_Dependencies p)) some_package =
     PackageRoot (\<lambda>_ p. concat (pk_Dependencies p)) (some_package\<lparr>pk_Dependencies := [''a'', ''b'']\<rparr>)"
proof -
  let ?digest = "\<lambda>kind p. concat (pk_Dependencies p)" and ?q = "some_package\<lparr>pk_Dependencies := [''a'', ''b'']\<rparr>"
  have roots: "PackageRoot ?digest some_package = Inr ''ab''" "PackageRoot ?digest ?q = Inr ''ab''"
    by code_simp+
  have "canonicalPackage some_package = canonicalPackage ?q" by code_simp
  then have "inj_on (?digest ''package'') {canonicalPackage some_package, canonicalPackage ?q}" by simp
  from package_root_names_the_package [OF roots this] roots show ?thesis by (simp add: some_package_def)
qed

section \<open>Sessions\<close>

definition some_session :: Session where
  "some_session = \<lparr>ss_ID = ''kiosk'', ss_Origin = ''github.com/acme/kiosk'', ss_Name = ''Kiosk'', ss_Description = [], ss_Kind = ''kiosk''\<rparr>"

definition some_registry :: Registry where
  "some_registry = \<lparr>rg_RegistryDirectory = ''/r'', rg_SessionDirectory = ''/s'', rg_SystemSessions = [], rg_LauncherPath = ''/usr/bin/cpak''\<rparr>"

definition some_sessions :: session_state where
  "some_sessions = \<lparr>st_registry = Owned_directory, st_sessions = Owned_directory, st_system = Missing_directory, st_system_entries = [],
     st_records = (\<lambda>_. No_session)(record_name ''kiosk'' := Session_file some_session),
     st_entries = (\<lambda>_. Free_slot)(entry_name ''kiosk'' := Regular_entry (desktopEntry some_registry some_session))\<rparr>"

lemma some_session_valid: "Session_Validate some_session = None"
  by code_simp

lemma some_session_registered: "registered some_registry ''kiosk'' ''github.com/acme/kiosk'' some_sessions"
proof -
  have "Session_Load some_registry some_sessions ''kiosk'' = Inr some_session" by code_simp
  then show ?thesis by (simp add: registered_def some_session_def)
qed

definition session_io :: session_faults where
  "session_io = \<lparr>sf_mkdir = False, sf_link = False, sf_record = False, sf_entry = False, sf_cleanup = False\<rparr>"

theorem session_stays_with_its_package_witness:
  "fst (Session_Remove some_registry session_io ''kiosk'' ''github.com/other/kiosk''
     (snd (Prepare some_registry session_io some_sessions))) \<noteq> None"
proof -
  have "run (session_step some_registry) some_sessions [Prepared session_io] (snd (Prepare some_registry session_io some_sessions))"
    by (simp add: run_Cons session_step_def)
  from session_stays_with_its_package [OF this some_session_registered] show ?thesis by simp
qed

theorem failed_update_strands_the_session_witness:
  "\<exists>s'. Register some_registry (session_io\<lparr>sf_entry := True\<rparr>) some_session some_sessions = (Some (Session_files Not_written), s') \<and>
     Register some_registry session_io some_session s' = (Some Used_by_the_system, s')"
proof -
  have r: "registered some_registry (ss_ID some_session) (ss_Origin some_session) some_sessions"
    using some_session_registered by (simp add: some_session_def)
  have v: "registry_validate some_registry = None" by code_simp
  have dirs: "rg_SystemSessions some_registry = []" "st_sessions some_sessions = Owned_directory"
    by (simp_all add: some_registry_def some_sessions_def)
  have entry: "st_entries some_sessions (entry_name (ss_ID some_session)) = Regular_entry (desktopEntry some_registry some_session)"
    by (simp add: some_sessions_def some_session_def)
  have "session_io\<lparr>sf_entry := True\<rparr> = \<lparr>sf_mkdir = False, sf_link = False, sf_record = False, sf_entry = True, sf_cleanup = False\<rparr>"
    by (simp add: session_io_def)
  from failed_update_strands_the_session [OF r some_session_valid v dirs entry this session_io_def] some_session_valid
  show ?thesis by blast
qed

theorem desktop_entry_is_nine_lines_witness:
  "length (split_on (CHR 0x0A) (desktopEntry some_registry some_session)) = 10"
proof -
  have "CHR 0x0A \<notin> set (rg_LauncherPath some_registry)" by (simp add: some_registry_def)
  from desktop_entry_is_nine_lines [OF some_session_valid this] show ?thesis by (simp add: entry_lines_def)
qed

section \<open>File grants\<close>

definition grant_digest :: "string \<Rightarrow> string" where "grant_digest text = replicate 64 CHR ''a''"

definition some_files :: file_system where
  "some_files = \<lparr>fs_cwd = Some ''/home/ada'', fs_EvalSymlinks = (\<lambda>p. Some (Clean p)), fs_Stat = (\<lambda>_. Some (1, Regular_file)),
     fs_Open = (\<lambda>_. Some (1, Regular_file))\<rparr>"

definition some_grant :: Grant where
  "some_grant = build grant_digest ''github.com/acme/editor'' ''/home/ada/a'' ''/home/ada/a'' KindFile AccessReadOnly LifetimePersistent"

lemma grant_digest_hex: "length (grant_digest text) = 64 \<and> list_all hex_char (grant_digest text)"
proof -
  have "hex_char CHR ''a''" by code_simp
  then show ?thesis by (simp add: grant_digest_def list_all_iff)
qed

lemma some_files_clean: "fs_EvalSymlinks some_files p = Some q \<Longrightarrow> IsAbs p \<Longrightarrow> IsAbs q \<and> Clean q = q"
  by (auto simp: some_files_def)

lemma some_grant_resolved:
  "Resolve grant_digest some_files ''github.com/acme/editor'' ''a'' AccessReadOnly LifetimePersistent False = Inr some_grant"
  by code_simp

theorem resolved_grant_validates_witness:
  "Grant_Validate grant_digest some_grant = None"
proof -
  have "IsAbs d" if "fs_cwd some_files = Some d" for d using that by (auto simp: some_files_def IsAbs_def)
  from resolved_grant_validates [OF grant_digest_hex some_files_clean this disjI1 [OF some_grant_resolved]]
  show ?thesis by (simp add: some_grant_def build_def Let_def)
qed

text \<open>A codec that is faithful for this one grant.\<close>

definition some_grant_codec :: "Grant \<Rightarrow> grant_codec" where
  "some_grant_codec back = \<lparr>gc_sha256 = grant_digest, gc_encode = (\<lambda>_ gs. if gs = [] then ''0'' else ''1''),
     gc_decode = (\<lambda>d. Some (1, if d = ''0'' then [] else [back]))\<rparr>"

definition some_grant_store :: Store where
  "some_grant_store = \<lparr>gs_Directory = ''/grants'', gs_files = (\<lambda>_. None)\<rparr>"

lemma nothing_held: "holds (some_grant_codec back) some_grant_store ''github.com/acme/editor'' []"
  by (simp add: holds_def grants_path_def some_grant_store_def IsAbs_def read_locked_def readDocument_def)

theorem grant_store_refines_map_witness:
  "\<exists>s' gs'. Store_Add (some_grant_codec some_grant) no_fault some_grant some_grant_store = (None, s') \<and>
     holds (some_grant_codec some_grant) s' ''github.com/acme/editor'' gs' \<and> grant_map gs' (gr_ID some_grant) = Some some_grant"
proof -
  have single: "gs = [] \<or> gs = [some_grant]" if "set gs \<subseteq> {some_grant}" "distinct (map gr_ID gs)" for gs
    using that by (cases gs; cases "tl gs") auto
  have faithful: "faithful_for (some_grant_codec some_grant) (insert some_grant (set []))"
    unfolding faithful_for_def by (auto simp: some_grant_codec_def storeVersion_def dest!: single)
  have valid: "Grant_Validate (gc_sha256 (some_grant_codec some_grant)) some_grant = None"
  proof -
    have "Grant_Validate grant_digest some_grant = None" by code_simp
    then show ?thesis by (simp add: some_grant_codec_def)
  qed
  have "gr_Lifetime some_grant = LifetimePersistent" "gr_Origin some_grant = ''github.com/acme/editor''"
    by (simp_all add: some_grant_def build_def Let_def)
  from grant_store_refines_map [OF nothing_held faithful valid this, of "[]"] obtain s' gs' where
    "Store_Add (some_grant_codec some_grant) no_fault some_grant some_grant_store = (None, s')"
    "holds (some_grant_codec some_grant) s' ''github.com/acme/editor'' gs'" "grant_map gs' = (grant_map [])(gr_ID some_grant \<mapsto> some_grant)"
    by blast
  moreover from this(3) have "grant_map gs' (gr_ID some_grant) = Some some_grant" by simp
  ultimately show ?thesis by blast
qed

definition mangled_grant :: Grant where
  "mangled_grant = some_grant\<lparr>gr_ID := ''x''\<rparr>"

theorem unfaithful_name_blocks_the_store_witness:
  "\<exists>s'. Store_Add (some_grant_codec mangled_grant) no_fault some_grant some_grant_store = (None, s') \<and>
     isl (fst (Store_Load (some_grant_codec mangled_grant) no_fault ''github.com/acme/editor'' s'))"
proof -
  let ?codec = "some_grant_codec mangled_grant"
  have valid: "Grant_Validate (gc_sha256 ?codec) some_grant = None"
  proof -
    have "Grant_Validate grant_digest some_grant = None" by code_simp
    then show ?thesis by (simp add: some_grant_codec_def)
  qed
  have fields: "gr_Lifetime some_grant = LifetimePersistent" "gr_Origin some_grant = ''github.com/acme/editor''"
    by (simp_all add: some_grant_def build_def Let_def)
  have codec_text: "gc_encode ?codec storeVersion [some_grant] \<noteq> []"
    "gc_decode ?codec (take 1048576 (gc_encode ?codec storeVersion [some_grant])) = Some (storeVersion, [mangled_grant])"
    by (simp_all add: some_grant_codec_def storeVersion_def)
  have "gr_ID mangled_grant \<noteq> grantID (gc_sha256 ?codec) (gr_Origin mangled_grant) (gr_Selection mangled_grant)
      (gr_Source mangled_grant) (gr_Kind mangled_grant) (gr_Access mangled_grant)"
    by (auto simp: mangled_grant_def some_grant_codec_def grantID_def grant_digest_def dest: arg_cong [of _ _ length])
  from unfaithful_name_blocks_the_store [OF _ valid fields(1) codec_text this, unfolded fields(2), OF nothing_held]
  show ?thesis by blast
qed

end
