(* ===== verification/Composition.thy ===== *)
theory Composition
  imports Application_Store
begin

text \<open>
  \<^verbatim>\<open>pkg/cpak/composition.go\<close>: the applications a launch is composed of and the layers it stacks.  The
  store is the list of installed applications.  \<open>visit\<close> is the recursive closure of
  \<^verbatim>\<open>resolveLayerDependenciesFromStore\<close>; its first argument bounds the depth of the recursion, which
  nothing in the code does, and \<open>Too_deep\<close> stands for a recursion that went past it.
\<close>

section \<open>Layer dependencies\<close>

datatype composition_error =
  Cannot_load_layer string
| Layer_does_not_match string
| Layer_cycle string
| Too_deep

text \<open>The map from identifiers to 1 while an application is being walked and 2 behind it.\<close>

datatype marks = Marks (mark_of: "string \<Rightarrow> nat")

definition unmarked :: marks where "unmarked = Marks (\<lambda>_. 0)"

definition mark :: "marks \<Rightarrow> string \<Rightarrow> nat \<Rightarrow> marks" where
  "mark states i v = Marks ((mark_of states)(i := v))"

lemma mark_of_mark [simp]:
  "mark_of unmarked j = 0" "mark_of (mark states i v) j = (if j = i then v else mark_of states j)"
  by (simp_all add: mark_def unmarked_def)

fun visit :: "nat \<Rightarrow> Application list \<Rightarrow> Dependency list \<Rightarrow> marks \<Rightarrow> Application list \<Rightarrow>
    composition_error + marks \<times> Application list" where
  "visit depth store [] states found = Inr (states, found)"
| "visit depth store (dependency # rest) states found =
     (if \<not> IsLayer dependency then visit depth store rest states found
      else case GetApplicationByCpakId store (dp_Id dependency) of
        None \<Rightarrow> Inl (Cannot_load_layer (dp_Origin dependency))
      | Some component \<Rightarrow>
          if ap_Origin component \<noteq> dp_Origin dependency then Inl (Layer_does_not_match (dp_Origin dependency))
          else if mark_of states (ap_CpakId component) = 1 then Inl (Layer_cycle (ap_Origin component))
          else if mark_of states (ap_CpakId component) = 2 then visit depth store rest states found
          else case depth of
            0 \<Rightarrow> Inl Too_deep
          | Suc depth' \<Rightarrow>
              (case visit depth' store (ap_ParsedDependencies component) (mark states (ap_CpakId component) 1) found of
                 Inl e \<Rightarrow> Inl e
               | Inr (states', found') \<Rightarrow>
                   visit depth store rest (mark states' (ap_CpakId component) 2) (found' @ [component])))"

definition resolveLayerDependenciesFromStore ::
    "Application list \<Rightarrow> Application \<Rightarrow> composition_error + Application list" where
  "resolveLayerDependenciesFromStore store app =
     (if ap_ParsedDependencies app = [] then Inr []
      else case visit (length store) store (ap_ParsedDependencies app) (mark unmarked (ap_CpakId app) 1) [] of
        Inl e \<Rightarrow> Inl e
      | Inr (_, found) \<Rightarrow> Inr found)"

section \<open>Layers\<close>

fun append_layers :: "string list \<Rightarrow> string list \<Rightarrow> string list" where
  "append_layers layers [] = layers"
| "append_layers layers (layer # rest) =
     append_layers (if layer = [] \<or> layer \<in> set layers then layers else layers @ [layer]) rest"

definition composedLayers :: "Application \<Rightarrow> Application list \<Rightarrow> Application list \<Rightarrow> string list" where
  "composedLayers app found addons =
     foldl append_layers [] (map ap_ParsedLayers found @ [ap_ParsedLayers app] @ map ap_ParsedLayers addons)"

definition combinedLayers :: "Application \<Rightarrow> Application list \<Rightarrow> string list" where
  "combinedLayers app addons = foldl append_layers [] (ap_ParsedLayers app # map ap_ParsedLayers addons)"

section \<open>The walk ends\<close>

definition supplied :: "Application list \<Rightarrow> Dependency \<Rightarrow> Application \<Rightarrow> bool" where
  "supplied store d c \<longleftrightarrow> GetApplicationByCpakId store (dp_Id d) = Some c \<and> ap_Origin c = dp_Origin d"

lemma GetApplication_id: "GetApplicationByCpakId store i = Some a \<Longrightarrow> ap_CpakId a = i \<and> a \<in> set store"
  by (auto simp: GetApplicationByCpakId_def get_keyed_def find_Some_iff)

lemma supplied_id: "supplied store d c \<Longrightarrow> ap_CpakId c = dp_Id d \<and> c \<in> set store"
  using GetApplication_id by (auto simp: supplied_def)

text \<open>A walk that succeeds, as a relation: the dependencies it is given, the marks and the applications
  found before and behind it.\<close>

inductive walked :: "Application list \<Rightarrow> Dependency list \<Rightarrow> marks \<Rightarrow> Application list \<Rightarrow>
    marks \<Rightarrow> Application list \<Rightarrow> bool" for store where
  finished: "walked store [] states found states found"
| nested: "\<not> IsLayer d \<Longrightarrow> walked store ds states found states' found' \<Longrightarrow>
    walked store (d # ds) states found states' found'"
| again: "IsLayer d \<Longrightarrow> supplied store d c \<Longrightarrow> mark_of states (ap_CpakId c) = 2 \<Longrightarrow>
    walked store ds states found states' found' \<Longrightarrow> walked store (d # ds) states found states' found'"
| first: "IsLayer d \<Longrightarrow> supplied store d c \<Longrightarrow> mark_of states (ap_CpakId c) \<noteq> 1 \<Longrightarrow> mark_of states (ap_CpakId c) \<noteq> 2 \<Longrightarrow>
    walked store (ap_ParsedDependencies c) (mark states (ap_CpakId c) 1) found states\<^sub>1 found\<^sub>1 \<Longrightarrow>
    walked store ds (mark states\<^sub>1 (ap_CpakId c) 2) (found\<^sub>1 @ [c]) states' found' \<Longrightarrow>
    walked store (d # ds) states found states' found'"

lemma visit_walked:
  "visit depth store ds states found = Inr (states', found') \<Longrightarrow> walked store ds states found states' found'"
proof (induction depth store ds states found arbitrary: states' found' rule: visit.induct)
  case (2 depth store d ds states found)
  show ?case
  proof (cases "IsLayer d")
    case False
    then show ?thesis using 2(1) 2(5) by (simp add: walked.nested)
  next
    case True
    then obtain c where c: "GetApplicationByCpakId store (dp_Id d) = Some c" "ap_Origin c = dp_Origin d"
        "mark_of states (ap_CpakId c) \<noteq> 1"
      using 2(5) by (auto split: option.splits if_splits)
    then have sup: "supplied store d c" by (simp add: supplied_def)
    show ?thesis
    proof (cases "mark_of states (ap_CpakId c) = 2")
      case True
      have "visit depth store ds states found = Inr (states', found')" using 2(5) \<open>IsLayer d\<close> c True by simp
      then show ?thesis using 2(2) \<open>IsLayer d\<close> c True sup by (intro walked.again [of d store c]) simp_all
    next
      case False
      then obtain depth' s1 f1 where sub: "depth = Suc depth'"
          "visit depth' store (ap_ParsedDependencies c) (mark states (ap_CpakId c) 1) found = Inr (s1, f1)"
          "visit depth store ds (mark s1 (ap_CpakId c) 2) (f1 @ [c]) = Inr (states', found')"
        using 2(5) \<open>IsLayer d\<close> c by (auto split: sum.splits nat.splits)
      have "walked store (ap_ParsedDependencies c) (mark states (ap_CpakId c) 1) found s1 f1"
        using 2(3) [of c depth' s1 f1] \<open>IsLayer d\<close> c False sub(1,2) by simp
      moreover have "walked store ds (mark s1 (ap_CpakId c) 2) (f1 @ [c]) states' found'"
        using 2(4) [of c depth' "(s1, f1)" s1 f1 states' found'] \<open>IsLayer d\<close> c False sub by simp
      ultimately show ?thesis using \<open>IsLayer d\<close> sup c False by (intro walked.first [of d store c])
    qed
  qed
qed (simp add: walked.finished)

text \<open>The marks of a walk: what is being walked stays so, what is finished stays so.\<close>

lemma walked_marks:
  "walked store ds states found states' found' \<Longrightarrow>
   (mark_of states' i = 1 \<longleftrightarrow> mark_of states i = 1) \<and> (mark_of states i = 2 \<longrightarrow> mark_of states' i = 2) \<and> (mark_of states i \<noteq> 0 \<longrightarrow> mark_of states' i \<noteq> 0)"
  by (induction rule: walked.induct) (auto split: if_splits)

definition unvisited :: "Application list \<Rightarrow> marks \<Rightarrow> string set" where
  "unvisited store states = {i \<in> ap_CpakId ` set store. mark_of states i \<noteq> 1 \<and> mark_of states i \<noteq> 2}"

lemma finite_unvisited [simp]: "finite (unvisited store states)"
  by (simp add: unvisited_def)

lemma unvisited_less:
  "c \<in> set store \<Longrightarrow> mark_of states (ap_CpakId c) \<noteq> 1 \<Longrightarrow> mark_of states (ap_CpakId c) \<noteq> 2 \<Longrightarrow>
   card (unvisited store (mark states (ap_CpakId c) 1)) < card (unvisited store states)"
  by (rule psubset_card_mono) (auto simp: unvisited_def)

lemma visit_deep_enough:
  "card (unvisited store states) \<le> depth \<Longrightarrow> visit depth store ds states found \<noteq> Inl Too_deep"
proof (induction depth store ds states found rule: visit.induct)
  case (2 depth store d ds states found)
  show ?case
  proof (cases "IsLayer d")
    case False
    then show ?thesis using 2(1,5) by simp
  next
    case True
    note layer = this
    show ?thesis
    proof (cases "GetApplicationByCpakId store (dp_Id d)")
      case None
      then show ?thesis using layer by simp
    next
      case (Some c)
      note c = this
      show ?thesis
      proof (cases "ap_Origin c \<noteq> dp_Origin d \<or> mark_of states (ap_CpakId c) = 1 \<or> mark_of states (ap_CpakId c) = 2")
        case True
        then show ?thesis using 2(2,5) layer c by auto
      next
        case False
        then have "card (unvisited store (mark states (ap_CpakId c) 1)) < card (unvisited store states)"
          using unvisited_less GetApplication_id [OF c] by blast
        then obtain depth' where d: "depth = Suc depth'" "card (unvisited store (mark states (ap_CpakId c) 1)) \<le> depth'"
          using 2(5) by (cases depth) auto
        have sub: "visit depth' store (ap_ParsedDependencies c) (mark states (ap_CpakId c) 1) found \<noteq> Inl Too_deep"
          using 2(3) [of c depth'] layer c False d by simp
        show ?thesis
        proof (cases "visit depth' store (ap_ParsedDependencies c) (mark states (ap_CpakId c) 1) found")
          case (Inl e)
          then show ?thesis using sub layer c False d by auto
        next
          case (Inr r)
          obtain s1 f1 where r: "r = (s1, f1)" by (cases r)
          have "unvisited store (mark s1 (ap_CpakId c) 2) \<subseteq> unvisited store states"
            using walked_marks [OF visit_walked [OF Inr [unfolded r]]] by (auto simp: unvisited_def split: if_splits)
          then have "card (unvisited store (mark s1 (ap_CpakId c) 2)) \<le> depth"
            using 2(5) card_mono [OF finite_unvisited] by (meson order_trans)
          then have "visit depth store ds (mark s1 (ap_CpakId c) 2) (f1 @ [c]) \<noteq> Inl Too_deep"
            using 2(4) [of c depth' "(s1, f1)" s1 f1] layer c False d Inr [unfolded r] by simp
          then show ?thesis using layer c False d Inr r by simp
        qed
      qed
    qed
  qed
qed simp

lemma unvisited_bound: "card (unvisited store states) \<le> length store"
proof -
  have "card (unvisited store states) \<le> card (ap_CpakId ` set store)"
    by (rule card_mono) (auto simp: unvisited_def)
  also have "\<dots> \<le> card (set store)" by (rule card_image_le) simp
  also have "\<dots> \<le> length store" by (rule card_length)
  finally show ?thesis .
qed

section \<open>What it finds\<close>

text \<open>Every application stands behind the layers it is built on.\<close>

fun in_order :: "Application list \<Rightarrow> Application list \<Rightarrow> Application list \<Rightarrow> bool" where
  "in_order store below [] = True"
| "in_order store below (c # cs) \<longleftrightarrow>
     list_all (\<lambda>d. IsLayer d \<longrightarrow> list_ex (supplied store d) below) (ap_ParsedDependencies c) \<and>
     in_order store (below @ [c]) cs"

lemma in_order_snoc:
  "in_order store below (cs @ [c]) \<longleftrightarrow>
   in_order store below cs \<and>
   list_all (\<lambda>d. IsLayer d \<longrightarrow> list_ex (supplied store d) (below @ cs)) (ap_ParsedDependencies c)"
  by (induction cs arbitrary: below) auto

definition consistent :: "Application list \<Rightarrow> marks \<Rightarrow> Application list \<Rightarrow> bool" where
  "consistent store states found \<longleftrightarrow>
     {i. mark_of states i = 2} = ap_CpakId ` set found \<and> distinct (map ap_CpakId found) \<and>
     in_order store [] found \<and> (\<forall>c \<in> set found. GetApplicationByCpakId store (ap_CpakId c) = Some c)"

lemma walked_consistent:
  "walked store ds states found states' found' \<Longrightarrow> consistent store states found \<Longrightarrow>
   consistent store states' found' \<and> set found \<subseteq> set found' \<and>
   list_all (\<lambda>d. IsLayer d \<longrightarrow> list_ex (supplied store d) found') ds"
proof (induction rule: walked.induct)
  case (again d c states ds found states' found')
  then have "ap_CpakId c \<in> ap_CpakId ` set found" by (auto simp: consistent_def)
  then have "c \<in> set found"
    using again.hyps(2) again.prems supplied_id [OF again.hyps(2)] by (auto simp: consistent_def supplied_def)
  then show ?case using again by (auto simp: list_ex_iff)
next
  case (first d c states found s1 f1 ds states' found')
  have c: "ap_CpakId c = dp_Id d" "GetApplicationByCpakId store (ap_CpakId c) = Some c"
    using first.hyps(2) supplied_id [OF first.hyps(2)] by (auto simp: supplied_def)
  have "{i. mark_of (mark states (ap_CpakId c) 1) i = 2} = {i. mark_of states i = 2}" using first.hyps(4) by auto
  then have "consistent store (mark states (ap_CpakId c) 1) found"
    using first.prems unfolding consistent_def by simp
  from first.IH(1) [OF this] have sub: "consistent store s1 f1" "set found \<subseteq> set f1"
      "list_all (\<lambda>d. IsLayer d \<longrightarrow> list_ex (supplied store d) f1) (ap_ParsedDependencies c)"
    by auto
  have "mark_of s1 (ap_CpakId c) = 1" using walked_marks [OF first.hyps(5), of "ap_CpakId c"] by simp
  then have "ap_CpakId c \<notin> {i. mark_of s1 i = 2}" by simp
  then have "ap_CpakId c \<notin> ap_CpakId ` set f1" using sub(1) unfolding consistent_def by blast
  then have "consistent store (mark s1 (ap_CpakId c) 2) (f1 @ [c])"
    using sub c(2) by (auto simp: consistent_def in_order_snoc)
  from first.IH(2) [OF this] show ?case using sub(2) first.hyps(1,2) by (auto simp: list_ex_iff)
qed auto

text \<open>The layer dependencies between the installed applications, by their identifiers.\<close>

definition depends :: "Application list \<Rightarrow> (string \<times> string) set" where
  "depends apps = {(ap_CpakId a, dp_Id d) | a d. a \<in> set apps \<and> d \<in> set (ap_ParsedDependencies a) \<and> IsLayer d}"

lemma visit_cycle:
  "visit depth store ds states found = Inl (Layer_cycle origin) \<Longrightarrow>
   depends store \<subseteq> E \<Longrightarrow> (\<forall>g. mark_of states g = 1 \<longrightarrow> (g, u) \<in> E\<^sup>*) \<Longrightarrow>
   (\<forall>d \<in> set ds. IsLayer d \<longrightarrow> (u, dp_Id d) \<in> E) \<Longrightarrow> \<exists>x. (x, x) \<in> E\<^sup>+"
proof (induction depth store ds states found arbitrary: u rule: visit.induct)
  case (2 depth store d ds states found)
  show ?case
  proof (cases "IsLayer d")
    case False
    then show ?thesis using 2(1) [of u] 2(5-) by simp
  next
    case True
    note layer = this
    obtain c where c: "GetApplicationByCpakId store (dp_Id d) = Some c" "ap_Origin c = dp_Origin d"
      using 2(5) layer by (auto split: option.splits if_splits)
    have id: "ap_CpakId c = dp_Id d" "c \<in> set store" using GetApplication_id [OF c(1)] by auto
    have edge: "(u, ap_CpakId c) \<in> E" using 2(8) layer id by simp
    consider (grey) "mark_of states (ap_CpakId c) = 1" | (black) "mark_of states (ap_CpakId c) = 2"
      | (white) "mark_of states (ap_CpakId c) \<noteq> 1" "mark_of states (ap_CpakId c) \<noteq> 2" by blast
    then show ?thesis
    proof cases
      case grey
      then have "(ap_CpakId c, u) \<in> E\<^sup>*" using 2(7) by blast
      then show ?thesis using edge by (meson rtrancl_into_trancl1)
    next
      case black
      then show ?thesis using 2(2) [of c u] 2(5-) layer c by simp
    next
      case white
      obtain depth' where d: "depth = Suc depth'" using 2(5) layer c white by (cases depth) auto
      have below: "\<exists>x. (x, x) \<in> E\<^sup>+" if "visit depth' store (ap_ParsedDependencies c) (mark states (ap_CpakId c) 1) found = Inl (Layer_cycle origin)"
      proof (rule 2(3) [of c depth' "ap_CpakId c"])
        show "\<forall>g. mark_of (mark states (ap_CpakId c) 1) g = 1 \<longrightarrow> (g, ap_CpakId c) \<in> E\<^sup>*"
          using 2(7) edge by (auto intro: rtrancl_into_rtrancl)
        show "\<forall>d \<in> set (ap_ParsedDependencies c). IsLayer d \<longrightarrow> (ap_CpakId c, dp_Id d) \<in> E"
          using 2(6) id(2) unfolding depends_def by blast
      qed (use layer c white d that 2(6) in auto)
      show ?thesis
      proof (cases "visit depth' store (ap_ParsedDependencies c) (mark states (ap_CpakId c) 1) found")
        case (Inl e)
        then show ?thesis using below 2(5) layer c white d by auto
      next
        case (Inr r)
        obtain s1 f1 where r: "r = (s1, f1)" by (cases r)
        have marks: "\<forall>g. mark_of (mark s1 (ap_CpakId c) 2) g = 1 \<longrightarrow> (g, u) \<in> E\<^sup>*"
          using walked_marks [OF visit_walked [OF Inr [unfolded r]]] 2(7) by (auto split: if_splits)
        show ?thesis
          by (rule 2(4) [of c depth' r s1 f1 u]) (use layer c white d Inr r marks 2(5-) in auto)
      qed
    qed
  qed
qed simp

text \<open>C31: Working out what an application is built on always ends, however the installed applications
  refer to one another: the recursion is never deeper than there are installed applications.\<close>

theorem layer_resolution_ends:
  "resolveLayerDependenciesFromStore store app \<noteq> Inl Too_deep"
  using visit_deep_enough [OF unvisited_bound, of store]
  by (auto simp: resolveLayerDependenciesFromStore_def split: sum.splits)

text \<open>C32: The layers an application is built on come out in an order they can be stacked in: each of them
  once and none of them the application itself, every layer dependency of the application among
  them and every layer dependency of one of them before it; and a cycle is only reported where the
  layer dependencies have one.\<close>

theorem layers_come_in_order:
  assumes "resolveLayerDependenciesFromStore store app = r"
  shows "(\<forall>cs. r = Inr cs \<longrightarrow>
      distinct (map ap_CpakId cs) \<and> ap_CpakId app \<notin> ap_CpakId ` set cs \<and> in_order store [] cs \<and> set cs \<subseteq> set store \<and>
      list_all (\<lambda>d. IsLayer d \<longrightarrow> list_ex (supplied store d) cs) (ap_ParsedDependencies app)) \<and>
    (\<forall>origin. r = Inl (Layer_cycle origin) \<longrightarrow> (\<exists>x. (x, x) \<in> (depends (app # store))\<^sup>+))"
proof (intro conjI allI impI)
  fix cs assume cs: "r = Inr cs"
  let ?start = "mark unmarked (ap_CpakId app) 1"
  have start: "consistent store ?start []" by (auto simp: consistent_def)
  have "\<exists>s. walked store (ap_ParsedDependencies app) ?start [] s cs"
    using assms cs visit_walked walked.finished
    by (fastforce simp: resolveLayerDependenciesFromStore_def split: if_split_asm sum.split_asm)
  then obtain s where w: "walked store (ap_ParsedDependencies app) ?start [] s cs" ..
  note found = conjunct1 [OF walked_consistent [OF w start], unfolded consistent_def]
  show "distinct (map ap_CpakId cs)" "in_order store [] cs" using found by blast+
  show "set cs \<subseteq> set store" using found GetApplication_id by blast
  show "list_all (\<lambda>d. IsLayer d \<longrightarrow> list_ex (supplied store d) cs) (ap_ParsedDependencies app)"
    using walked_consistent [OF w start] by blast
  have "mark_of s (ap_CpakId app) = 1" using walked_marks [OF w, of "ap_CpakId app"] by simp
  then have "ap_CpakId app \<notin> {i. mark_of s i = 2}" by simp
  then show "ap_CpakId app \<notin> ap_CpakId ` set cs" using found by blast
next
  fix origin assume "r = Inl (Layer_cycle origin)"
  then have cyc: "visit (length store) store (ap_ParsedDependencies app) (mark unmarked (ap_CpakId app) 1) [] = Inl (Layer_cycle origin)"
    using assms by (auto simp: resolveLayerDependenciesFromStore_def split: if_splits sum.splits)
  show "\<exists>x. (x, x) \<in> (depends (app # store))\<^sup>+"
    by (rule visit_cycle [OF cyc, where u = "ap_CpakId app"]) (auto simp: depends_def)
qed

end
