(* ===== verification/Checkout.thy ===== *)
theory Checkout
  imports Layer_Bindings Signed_State "HOL-Library.AList"
begin

unbundle bit_operations_syntax

text \<open>
  \<^verbatim>\<open>pkg/cpak/checkout.go\<close>: what the prepared checkout of a layer must look like on disk, derived from the
  state the layer is bound to, and the walk of the directory it is compared with.  A map from names
  is an association list; the directory of a checkout is a tree of what \<^verbatim>\<open>fstatat\<close> answers, in which
  an object that cannot be examined is \<open>Unreadable\<close>.  The entries of a state are read by package
  \<^verbatim>\<open>fvs2/repo\<close>: their list, and the words it has for the kinds of an entry, are arguments.
\<close>

section \<open>Entries\<close>

record FileEntry =
  fe_Path :: string
  fe_Kind :: string
  fe_Mode :: u32
  fe_Size :: int
  fe_Link :: string
  fe_ContentDigest :: string

record entry_kinds =
  ek_Dir :: string
  ek_File :: string
  ek_Symlink :: string
  ek_FIFO :: string

record checkoutEntry =
  ce_path :: string
  ce_kind :: string
  ce_mode :: u32
  ce_fixed :: bool
  ce_size :: int
  ce_link :: string

type_synonym checkout_map = "(string \<times> checkoutEntry) list"

datatype checkout_error =
  Underivable | State_unreadable | Not_materializable string string | Binding_unreadable binding_error
| Object_unreadable | Checkout_is_a string | Layer_name_invalid | Checkout_not_opened

definition checkoutMode :: "u32 \<Rightarrow> u32" where
  "checkoutMode mode = (mode AND 0xFFF) AND NOT 0xC00"

definition plain_entry :: "string \<Rightarrow> string \<Rightarrow> u32 \<Rightarrow> bool \<Rightarrow> checkoutEntry" where
  "plain_entry path kind mode fixed =
     \<lparr>ce_path = path, ce_kind = kind, ce_mode = mode, ce_fixed = fixed, ce_size = 0, ce_link = []\<rparr>"

definition checkoutWhiteoutPrefix :: string where "checkoutWhiteoutPrefix = ''.wh.''"
definition checkoutOpaqueMarker :: string where "checkoutOpaqueMarker = ''.wh..wh..opq''"

definition isCheckoutWhiteout :: "string \<Rightarrow> bool" where
  "isCheckoutWhiteout name \<longleftrightarrow> HasPrefix (Base name) checkoutWhiteoutPrefix"

definition checkoutWhiteoutTarget :: "string \<Rightarrow> string option" where
  "checkoutWhiteoutTarget name =
     (let base = Base name in
      if \<not> HasPrefix base checkoutWhiteoutPrefix \<or> base = checkoutOpaqueMarker then None
      else let deleted = TrimPrefix base checkoutWhiteoutPrefix in
        if deleted = [] then None
        else let parent = Dir name in
          if parent = ''.'' then Some deleted else Some (parent @ slash # deleted))"

definition deriveCheckoutEntry :: "entry_kinds \<Rightarrow> FileEntry \<Rightarrow> checkout_error + checkoutEntry" where
  "deriveCheckoutEntry kinds entry =
     (let derived = plain_entry (fe_Path entry) [] (checkoutMode (fe_Mode entry)) True in
      if fe_Kind entry = [] \<or> fe_Kind entry = ek_File kinds then
        Inr (derived\<lparr>ce_kind := ''file'', ce_size := fe_Size entry\<rparr>)
      else if fe_Kind entry = ek_Symlink kinds then
        Inr (derived\<lparr>ce_kind := ''symlink'', ce_mode := 0x1FF, ce_size := int (length (fe_Link entry)),
          ce_link := fe_Link entry\<rparr>)
      else if fe_Kind entry = ek_FIFO kinds then Inr (derived\<lparr>ce_kind := ''fifo'', ce_fixed := False\<rparr>)
      else Inl (Not_materializable (fe_Path entry) (fe_Kind entry)))"

section \<open>The shape a state describes\<close>

definition whiteout_pass :: "checkout_map \<Rightarrow> FileEntry \<Rightarrow> checkout_map" where
  "whiteout_pass expected entry =
     (case checkoutWhiteoutTarget (fe_Path entry) of None \<Rightarrow> expected
      | Some target \<Rightarrow> AList.update target (plain_entry target ''file'' 0x180 True) expected)"

definition directory_pass :: "entry_kinds \<Rightarrow> checkout_map \<Rightarrow> FileEntry \<Rightarrow> checkout_map" where
  "directory_pass kinds expected entry =
     (if fe_Kind entry \<noteq> ek_Dir kinds then expected
      else AList.update (fe_Path entry) (plain_entry (fe_Path entry) ''dir'' (checkoutMode (fe_Mode entry)) True) expected)"

fun file_pass :: "entry_kinds \<Rightarrow> checkout_map \<Rightarrow> (string \<times> string) list \<Rightarrow> FileEntry list \<Rightarrow>
    checkout_error + checkout_map \<times> (string \<times> string) list" where
  "file_pass kinds expected contents [] = Inr (expected, contents)"
| "file_pass kinds expected contents (entry # entries) =
     (if fe_Kind entry = ek_Dir kinds \<or> isCheckoutWhiteout (fe_Path entry) then file_pass kinds expected contents entries
      else case deriveCheckoutEntry kinds entry of Inl e \<Rightarrow> Inl e
      | Inr derived \<Rightarrow>
          file_pass kinds (AList.update (fe_Path entry) derived expected)
            (if ce_kind derived = ''file'' then AList.update (fe_Path entry) (fe_ContentDigest entry) contents else contents)
            entries)"

definition is_directory :: "checkout_map \<Rightarrow> string \<Rightarrow> bool" where
  "is_directory expected name \<longleftrightarrow> (case map_of expected name of None \<Rightarrow> False | Some e \<Rightarrow> ce_kind e = ''dir'')"

definition add_directory :: "checkout_map \<Rightarrow> string \<Rightarrow> checkout_map" where
  "add_directory expected name = AList.update name (plain_entry name ''dir'' 0 False) expected"

definition opaque_pass :: "checkout_map \<Rightarrow> FileEntry \<Rightarrow> checkout_map" where
  "opaque_pass expected entry =
     (if Base (fe_Path entry) \<noteq> checkoutOpaqueMarker then expected
      else let parent = Dir (fe_Path entry) in
        if parent = ''.'' \<or> parent = ''/'' \<or> is_directory expected parent then expected
        else add_directory expected parent)"

text \<open>The loop over the parents of a name ends at the root of the tree; a name has fewer parents than
  bytes, which bounds it.\<close>

fun add_parents :: "nat \<Rightarrow> checkout_map \<Rightarrow> string \<Rightarrow> checkout_map" where
  "add_parents 0 expected parent = expected"
| "add_parents (Suc n) expected parent =
     (if parent = ''.'' \<or> parent = ''/'' \<or> is_directory expected parent then expected
      else add_parents n (add_directory expected parent) (Dir parent))"

definition implicit_pass :: "checkout_map \<Rightarrow> string \<Rightarrow> checkout_map" where
  "implicit_pass expected name = add_parents (length name) expected (Dir name)"

definition expectedCheckoutEntries :: "entry_kinds \<Rightarrow> FileEntry list \<Rightarrow>
    checkout_error + checkout_map \<times> (string \<times> string) list" where
  "expectedCheckoutEntries kinds entries =
     bind_result (file_pass kinds (foldl (directory_pass kinds) (foldl whiteout_pass [] entries) entries) [] entries)
       (\<lambda>(expected, contents).
          let expected = foldl opaque_pass expected entries
          in Inr (foldl implicit_pass expected (map fst expected), contents))"

lemma cut_on_shorter: "cut_on c s = (before, rest, True) \<Longrightarrow> length rest < length s"
proof (induction s arbitrary: before)
  case (Cons a s)
  then show ?case by (cases "a = c") (auto split: prod.splits simp: less_SucI)
qed simp

text \<open>\<^verbatim>\<open>beforeCheckoutPath\<close> and the names in the order it sorts them in.\<close>

function beforeCheckoutPath :: "string \<Rightarrow> string \<Rightarrow> bool" where
  "beforeCheckoutPath first second =
     (let (firstHead, firstRest, firstDeeper) = cut_on slash first;
          (secondHead, secondRest, secondDeeper) = cut_on slash second
      in if firstHead \<noteq> secondHead then firstHead < secondHead
         else if \<not> firstDeeper \<or> \<not> secondDeeper then \<not> firstDeeper \<and> secondDeeper
         else beforeCheckoutPath firstRest secondRest)"
  by pat_completeness auto

termination
  by (relation "measure (\<lambda>(first, _). length first)") (auto dest: cut_on_shorter [OF sym])

declare beforeCheckoutPath.simps [simp del]

definition checkout_order :: "checkout_map \<Rightarrow> checkoutEntry list" where
  "checkout_order expected = map snd (sort_key (\<lambda>(name, _). split_on slash name) expected)"

definition octal4 :: "nat \<Rightarrow> string" where
  "octal4 n = map (\<lambda>k. char_of (48 + n div 8 ^ k mod 8 :: nat)) [3, 2, 1, 0]"

definition nul :: string where "nul = [CHR 0x00]"

definition writeCheckoutEntry :: "checkoutEntry \<Rightarrow> string" where
  "writeCheckoutEntry e =
     ce_path e @ nul @ ce_kind e @ nul @ (if ce_fixed e then octal4 (unat (ce_mode e AND 0xFFF)) else ''-'') @ nul @
     show_int (ce_size e) @ nul @ ce_link e @ [CHR 0x0A]"

definition checkout_message :: "checkoutEntry list \<Rightarrow> string" where
  "checkout_message es = ''cpak.checkout.v1.2'' @ [CHR 0x0A] @ concat (map writeCheckoutEntry es)"

definition checkout_root :: checkoutEntry where
  "checkout_root = plain_entry ''.'' ''dir'' 0 False"

record checkoutShape =
  sh_state :: string
  sh_digest :: string
  sh_loose :: "string list"
  sh_contents :: "(string \<times> string) list"

datatype state_files = No_state | Files_unreadable | Files "FileEntry list"

definition deriveCheckoutShape :: "(string \<Rightarrow> string) \<Rightarrow> entry_kinds \<Rightarrow> state_files \<Rightarrow> string \<Rightarrow>
    checkout_error + checkoutShape" where
  "deriveCheckoutShape sha256 kinds files state =
     (case files of No_state \<Rightarrow> Inl Underivable | Files_unreadable \<Rightarrow> Inl State_unreadable
      | Files entries \<Rightarrow>
          bind_result (expectedCheckoutEntries kinds entries) (\<lambda>(expected, contents).
            Inr \<lparr>sh_state = state, sh_digest = sha256 (checkout_message (checkout_root # checkout_order expected)),
                 sh_loose = ''.'' # map fst (filter (\<lambda>(_, e). \<not> ce_fixed e) expected), sh_contents = contents\<rparr>))"

section \<open>The walk of a directory\<close>

datatype tree = Unreadable | Object (ob_mode: u32) (ob_size: int) (ob_link: string) (ob_children: "(string \<times> tree) list")

definition checkoutKind :: "u32 \<Rightarrow> string" where
  "checkoutKind mode =
     (let m = mode AND 0xF000 in
      if m = 0x4000 then ''dir'' else if m = 0x8000 then ''file'' else if m = 0xA000 then ''symlink''
      else if m = 0x1000 then ''fifo'' else if m = 0xC000 then ''socket'' else if m = 0x2000 then ''char''
      else if m = 0x6000 then ''block'' else ''unknown'')"

definition walkedCheckoutEntry :: "(string \<Rightarrow> bool) \<Rightarrow> string \<Rightarrow> u32 \<Rightarrow> int \<Rightarrow> string \<Rightarrow> checkoutEntry" where
  "walkedCheckoutEntry loose relative mode bytes target =
     \<lparr>ce_path = relative, ce_kind = checkoutKind mode, ce_mode = mode AND 0xFFF, ce_fixed = (\<not> loose relative),
      ce_size = (if checkoutKind mode = ''dir'' then 0 else bytes), ce_link = target\<rparr>"

text \<open>A link target that fills the buffer made for it is refused: the buffer has one byte more than the
  size reported and never fewer than 128.\<close>

definition checkoutLinkTarget :: "string \<Rightarrow> int \<Rightarrow> string option" where
  "checkoutLinkTarget target bytes = (if max (bytes + 1) 128 \<le> int (length target) then None else Some target)"

fun measure_object :: "(string \<Rightarrow> bool) \<Rightarrow> string \<Rightarrow> tree \<Rightarrow> checkoutEntry list option" where
  "measure_object loose relative Unreadable = None"
| "measure_object loose relative (Object mode bytes link children) =
     Option.bind (if checkoutKind mode = ''symlink'' then checkoutLinkTarget link bytes else Some []) (\<lambda>target.
     Option.bind
       (if checkoutKind mode \<noteq> ''dir'' then Some []
        else those (map snd (sort_key fst
          (map (\<lambda>(name, child). (name, measure_object loose (relative @ slash # name) child)) children)))) (\<lambda>below.
     Some (walkedCheckoutEntry loose relative mode bytes target # concat below)))"

definition measureCheckoutEntries :: "(string \<Rightarrow> bool) \<Rightarrow> string \<Rightarrow> (string \<times> tree) list \<Rightarrow> checkoutEntry list option" where
  "measureCheckoutEntries loose stem children =
     map_option concat (those (map snd (sort_key fst
       (map (\<lambda>(name, child). (name, measure_object loose (stem @ name) child)) children))))"

definition measureCheckoutTree :: "(string \<Rightarrow> string) \<Rightarrow> (string \<Rightarrow> bool) \<Rightarrow> tree \<Rightarrow> checkout_error + string" where
  "measureCheckoutTree sha256 loose root =
     (case root of Unreadable \<Rightarrow> Inl Object_unreadable
      | Object mode bytes link children \<Rightarrow>
          (case measureCheckoutEntries loose [] children of None \<Rightarrow> Inl Object_unreadable
           | Some es \<Rightarrow> Inr (sha256 (checkout_message (walkedCheckoutEntry loose ''.'' mode bytes [] # es)))))"

text \<open>
  \<^verbatim>\<open>measurePreparedCheckout\<close> and \<^verbatim>\<open>verifyPreparedCheckout\<close>, as far as the comparison reads them.
  \<open>valid_layer\<close> is \<^verbatim>\<open>storage.ValidateLayerID\<close>; \<open>opened\<close> is the directory the kernel opened beneath the
  root of the storage driver.
\<close>

definition measurePreparedCheckout :: "(string \<Rightarrow> string) \<Rightarrow> (string \<Rightarrow> bool) \<Rightarrow> string \<Rightarrow> tree option \<Rightarrow>
    checkoutShape \<Rightarrow> checkout_error + string" where
  "measurePreparedCheckout sha256 valid_layer layer opened shape =
     (if \<not> valid_layer layer then Inl Layer_name_invalid
      else case opened of None \<Rightarrow> Inl Checkout_not_opened
      | Some root \<Rightarrow>
          (case root of Unreadable \<Rightarrow> Inl Object_unreadable
           | Object mode bytes link children \<Rightarrow>
               if checkoutKind mode \<noteq> ''dir'' then Inl (Checkout_is_a (checkoutKind mode))
               else measureCheckoutTree sha256 (\<lambda>name. name \<in> set (sh_loose shape)) root))"

definition bindableLayerDigest :: "string \<Rightarrow> bool" where
  "bindableLayerDigest layer \<longleftrightarrow>
     (let digest = TrimPrefix layer ''sha256:'' in length digest = 64 \<and> list_all lower_hex digest)"

record checkout_env =
  cv_sha256 :: "string \<Rightarrow> string"
  cv_kinds :: entry_kinds
  cv_codec :: binding_codec
  cv_bindings :: DirectoryBindings
  cv_files :: "string \<Rightarrow> string \<Rightarrow> state_files"
  cv_valid_layer :: "string \<Rightarrow> bool"
  cv_open :: "string \<Rightarrow> tree option"

definition boundCheckoutShape :: "checkout_env \<Rightarrow> string \<Rightarrow> checkout_error + checkoutShape" where
  "boundCheckoutShape env layer =
     (if \<not> bindableLayerDigest layer then Inl Underivable
      else case Binding_Lookup (cv_codec env) (cv_bindings env) layer of
        Inl e \<Rightarrow> Inl (Binding_unreadable e)
      | Inr None \<Rightarrow> Inl Underivable
      | Inr (Some binding) \<Rightarrow>
          deriveCheckoutShape (cv_sha256 env) (cv_kinds env) (cv_files env layer (StateID binding)) (StateID binding))"

definition verifyPreparedCheckout :: "checkout_env \<Rightarrow> string \<Rightarrow> string \<Rightarrow> checkout_error + bool \<times> bool" where
  "verifyPreparedCheckout env layer directory =
     (case boundCheckoutShape env layer of
        Inl e \<Rightarrow> if e = Underivable then Inr (False, False) else Inl e
      | Inr shape \<Rightarrow>
          bind_result (measurePreparedCheckout (cv_sha256 env) (cv_valid_layer env) layer (cv_open env directory) shape)
            (\<lambda>measurement. Inr (True, measurement = sh_digest shape)))"

section \<open>The comparison is by component\<close>

lemma cut_on_split:
  "cut_on c s = (before, rest, deeper) \<Longrightarrow> split_on c s = (if deeper then before # split_on c rest else [before])"
  by (induction s arbitrary: before rest deeper) (auto split: if_splits prod.splits list.splits)

lemma beforeCheckoutPath_iff: "beforeCheckoutPath p q \<longleftrightarrow> split_on slash p < split_on slash q"
proof (induction p q rule: beforeCheckoutPath.induct)
  case (1 p q)
  obtain h r d where p: "cut_on slash p = (h, r, d)" by (cases "cut_on slash p") auto
  obtain h' r' d' where q: "cut_on slash q = (h', r', d')" by (cases "cut_on slash q") auto
  note sp = cut_on_split [OF p] and sq = cut_on_split [OF q]
  show ?case
  proof (cases "h = h' \<and> d \<and> d'")
    case True
    then have "beforeCheckoutPath r r' \<longleftrightarrow> split_on slash r < split_on slash r'" using 1 p q by simp
    then show ?thesis using True p q sp sq by (subst beforeCheckoutPath.simps) simp
  next
    case False
    have "[] < split_on slash r'" by (cases "split_on slash r'") auto
    then show ?thesis using False p q sp sq by (subst beforeCheckoutPath.simps) auto
  qed
qed

section \<open>The digest names the entries\<close>

text \<open>What a measurement states of an entry: the permission bits only where the state decides them.\<close>

definition stated :: "checkoutEntry \<Rightarrow> string \<times> string \<times> u32 option \<times> int \<times> string" where
  "stated e = (ce_path e, ce_kind e, if ce_fixed e then Some (ce_mode e AND 0xFFF) else None, ce_size e, ce_link e)"

text \<open>A name holds no NUL, and the size of a link is the length of its target.\<close>

definition measurable :: "checkoutEntry \<Rightarrow> bool" where
  "measurable e \<longleftrightarrow> CHR 0x00 \<notin> set (ce_path e) \<and> CHR 0x00 \<notin> set (ce_kind e) \<and>
     (if ce_kind e = ''symlink'' then ce_size e = int (length (ce_link e)) else ce_link e = [])"

lemma octal4_inj:
  assumes "m < 4096" "n < 4096" and "octal4 m = octal4 n"
  shows "m = n"
proof -
  have digit: "a mod 8 = b mod 8" if "char_of (48 + a mod 8) = (char_of (48 + b mod 8) :: char)" for a b :: nat
  proof -
    have "(of_char (char_of (48 + a mod 8) :: char) :: nat) = of_char (char_of (48 + b mod 8) :: char)" using that by simp
    then show ?thesis by (simp add: of_char_of take_bit_nat_eq_self)
  qed
  have "m div 8 ^ 3 mod 8 = n div 8 ^ 3 mod 8" "m div 8 ^ 2 mod 8 = n div 8 ^ 2 mod 8"
      "m div 8 ^ 1 mod 8 = n div 8 ^ 1 mod 8" "m div 8 ^ 0 mod 8 = n div 8 ^ 0 mod 8"
    using assms(3) digit unfolding octal4_def list.map list.inject by blast+
  moreover have powers: "(8::nat) ^ 3 = 512" "(8::nat) ^ 2 = 64" "(8::nat) ^ 1 = 8" "(8::nat) ^ 0 = 1" by simp_all
  ultimately have d: "m div 512 mod 8 = n div 512 mod 8" "m div 64 mod 8 = n div 64 mod 8" "m div 8 mod 8 = n div 8 mod 8" "m mod 8 = n mod 8"
    unfolding powers div_by_1 by blast+
  have eq: "k = 512 * (k div 512 mod 8) + 64 * (k div 64 mod 8) + 8 * (k div 8 mod 8) + k mod 8" if "k < 4096" for k :: nat
  proof -
    have "k = k div 8 * 8 + k mod 8" "k div 8 = k div 64 * 8 + k div 8 mod 8" "k div 64 = k div 512 * 8 + k div 64 mod 8"
      using div_mult_mod_eq [of "k div 8" 8] div_mult_mod_eq [of "k div 64" 8] by (simp_all add: div_mult2_eq [symmetric])
    moreover have "k div 512 mod 8 = k div 512" using that by simp
    ultimately show ?thesis by linarith
  qed
  show ?thesis using eq [OF assms(1)] eq [OF assms(2)] d by linarith
qed

lemma show_int_inj: "show_int i = show_int j \<longleftrightarrow> i = j"
proof -
  have "hd (show_nat n) \<noteq> CHR ''-''" for n
    using show_nat_digits [of "hd (show_nat n)" n] is_decimal_show_nat [of n] by (auto simp: is_decimal_def is_digit_def)
  then show ?thesis by (auto simp: show_int_def show_nat_inj split: if_splits) (metis list.sel(1))+
qed

lemma show_int_nul: "CHR 0x00 \<notin> set (show_int i)"
  using show_nat_digits [of "CHR 0x00"] by (auto simp: show_int_def is_digit_def less_eq_char_def)

lemma octal_digit_nul: "(char_of (48 + d mod 8 :: nat) :: char) \<noteq> CHR 0x00"
proof
  assume "(char_of (48 + d mod 8 :: nat) :: char) = CHR 0x00"
  then have "(of_char (char_of (48 + d mod 8 :: nat) :: char) :: nat) = of_char (CHR 0x00)" by simp
  then show False by (simp add: take_bit_nat_eq_self)
qed

lemma octal4_nul: "CHR 0x00 \<notin> set (octal4 n)"
  unfolding octal4_def list.map list.set using octal_digit_nul by (metis empty_iff insert_iff)

lemma up_to_nul:
  "CHR 0x00 \<notin> set xs \<Longrightarrow> CHR 0x00 \<notin> set ys \<Longrightarrow> xs @ nul @ as = ys @ nul @ bs \<Longrightarrow> xs = ys \<and> as = bs"
proof (induction xs arbitrary: ys)
  case Nil
  then show ?case by (cases ys) (auto simp: nul_def)
next
  case (Cons x xs)
  then show ?case by (cases ys) (auto simp: nul_def)
qed

lemma mode_text_nul: "CHR 0x00 \<notin> set (if fixed then octal4 n else ''-'')"
  using octal4_nul by simp

lemma mode_text_inj:
  "(if f then octal4 (unat (m AND 0xFFF :: u32)) else ''-'') = (if g then octal4 (unat (n AND 0xFFF :: u32)) else ''-'') \<Longrightarrow>
   (if f then Some (m AND 0xFFF) else None) = (if g then Some (n AND 0xFFF) else None)"
proof -
  have "unat (w AND 0xFFF :: u32) < 4096" for w
  proof -
    have "w AND 0xFFF \<le> (0xFFF :: u32)" by (rule word_and_le1)
    then show ?thesis by (simp add: word_le_nat_alt)
  qed
  note bound = this
  have len: "octal4 k \<noteq> ''-''" for k by (simp add: octal4_def)
  assume eq: "(if f then octal4 (unat (m AND 0xFFF :: u32)) else ''-'') = (if g then octal4 (unat (n AND 0xFFF :: u32)) else ''-'')"
  show "(if f then Some (m AND 0xFFF) else None) = (if g then Some (n AND 0xFFF) else None)"
  proof (cases "f \<and> g")
    case True
    then have "unat (m AND 0xFFF) = unat (n AND 0xFFF)" using eq octal4_inj [OF bound bound] by simp
    then have "m AND 0xFFF = n AND 0xFFF" by (rule unsigned_word_eqI)
    then show ?thesis using True by simp
  next
    case False
    then show ?thesis using eq len len [symmetric] by (auto split: if_splits)
  qed
qed

text \<open>The separator between two entries is a line break, which a name may hold: what keeps a link target
  and the next name apart is the size of the link.\<close>

lemma written_entry_inj:
  assumes "measurable e" "measurable e'" and "writeCheckoutEntry e @ rest = writeCheckoutEntry e' @ rest'"
  shows "stated e = stated e' \<and> rest = rest'"
proof -
  let ?m = "\<lambda>e. if ce_fixed e then octal4 (unat (ce_mode e AND 0xFFF)) else ''-''"
  have "ce_path e @ nul @ (ce_kind e @ nul @ ?m e @ nul @ show_int (ce_size e) @ nul @ ce_link e @ [CHR 0x0A] @ rest) =
      ce_path e' @ nul @ (ce_kind e' @ nul @ ?m e' @ nul @ show_int (ce_size e') @ nul @ ce_link e' @ [CHR 0x0A] @ rest')"
    using assms(3) by (simp add: writeCheckoutEntry_def)
  from up_to_nul [OF _ _ this] assms(1,2) have path: "ce_path e = ce_path e'"
    and "ce_kind e @ nul @ (?m e @ nul @ show_int (ce_size e) @ nul @ ce_link e @ [CHR 0x0A] @ rest) =
      ce_kind e' @ nul @ (?m e' @ nul @ show_int (ce_size e') @ nul @ ce_link e' @ [CHR 0x0A] @ rest')"
    by (auto simp: measurable_def)
  from up_to_nul [OF _ _ this(2)] assms(1,2) have kind: "ce_kind e = ce_kind e'"
    and "?m e @ nul @ (show_int (ce_size e) @ nul @ ce_link e @ [CHR 0x0A] @ rest) =
      ?m e' @ nul @ (show_int (ce_size e') @ nul @ ce_link e' @ [CHR 0x0A] @ rest')"
    by (auto simp: measurable_def)
  from up_to_nul [OF mode_text_nul mode_text_nul this(2)] have mode: "?m e = ?m e'"
    and "show_int (ce_size e) @ nul @ (ce_link e @ [CHR 0x0A] @ rest) = show_int (ce_size e') @ nul @ (ce_link e' @ [CHR 0x0A] @ rest')"
    by auto
  from up_to_nul [OF show_int_nul show_int_nul this(2)] have size: "ce_size e = ce_size e'"
    and link: "ce_link e @ [CHR 0x0A] @ rest = ce_link e' @ [CHR 0x0A] @ rest'"
    by (auto simp: show_int_inj)
  have "length (ce_link e) = length (ce_link e')"
    using assms(1,2) kind size by (auto simp: measurable_def split: if_splits)
  with link have "ce_link e = ce_link e' \<and> rest = rest'" by simp
  with path kind size mode_text_inj [OF mode] show ?thesis by (simp add: stated_def)
qed

lemma written_entries_inj:
  "list_all measurable es \<Longrightarrow> list_all measurable es' \<Longrightarrow>
   concat (map writeCheckoutEntry es) = concat (map writeCheckoutEntry es') \<Longrightarrow> map stated es = map stated es'"
proof (induction es arbitrary: es')
  case Nil
  then show ?case by (cases es') (auto simp: writeCheckoutEntry_def nul_def)
next
  case (Cons e es)
  then obtain e' es'' where es': "es' = e' # es''" by (cases es') (auto simp: writeCheckoutEntry_def nul_def)
  then show ?case using Cons written_entry_inj [of e e' "concat (map writeCheckoutEntry es)"] by auto
qed

lemma written_stated: "stated e = stated e' \<Longrightarrow> writeCheckoutEntry e = writeCheckoutEntry e'"
  by (auto simp: stated_def writeCheckoutEntry_def split: if_splits)

lemma message_stated: "map stated es = map stated es' \<Longrightarrow> checkout_message es = checkout_message es'"
proof -
  assume eq: "map stated es = map stated es'"
  then have "list_all2 (\<lambda>e e'. stated e = stated e') es es'" by (simp add: list_eq_iff_nth_eq list_all2_conv_all_nth)
  then have "map writeCheckoutEntry es = map writeCheckoutEntry es'"
    by (induction rule: list_all2_induct) (auto dest: written_stated)
  then show ?thesis by (simp only: checkout_message_def)
qed

section \<open>What a state describes is measurable\<close>

lemma join_with_set: "c \<in> set (join_with k ps) \<Longrightarrow> c = k \<or> (\<exists>p \<in> set ps. c \<in> set p)"
  by (induction k ps rule: join_with.induct) auto

lemma clean_stack_parts: "c \<in> set (foldl (clean_step r) st cs) \<Longrightarrow> c \<in> set st \<or> c \<in> set cs \<or> c = ''..''"
  by (induction cs arbitrary: st) (auto split: if_splits list.splits, fastforce+)

lemma Clean_bytes: "c \<in> set (Clean p) \<Longrightarrow> c \<in> set p \<or> c = CHR ''.'' \<or> c = slash"
proof -
  have part: "c \<in> set p \<or> c = CHR ''.''" if "q \<in> set (clean_stack r (split_on slash p))" "c \<in> set q" for r q
    using clean_stack_parts [of q r "[]" "split_on slash p"] that split_on_set [of q slash p] by (auto simp: clean_stack_def)
  assume "c \<in> set (Clean p)"
  then show ?thesis
    using join_with_set [of c slash] part by (auto simp: Clean_def render_def split: if_splits) fastforce+
qed

lemma Dir_bytes: "c \<in> set (Dir p) \<Longrightarrow> c \<in> set p \<or> c = CHR ''.'' \<or> c = slash"
  using Clean_bytes [of c "rev (dropWhile (\<lambda>c. c \<noteq> slash) (rev p))"] set_dropWhileD by (fastforce simp: Dir_def)

lemma Base_bytes: "c \<in> set (Base p) \<Longrightarrow> c \<in> set p \<or> c = CHR ''.'' \<or> c = slash"
proof -
  let ?q = "rev (dropWhile (\<lambda>c. c = slash) (rev p))"
  assume c: "c \<in> set (Base p)"
  have "c \<in> set ?q" if "c \<in> set (last (split_on slash ?q))"
    using split_on_set [of "last (split_on slash ?q)" slash ?q] that by auto
  moreover have "set ?q \<subseteq> set p" using set_dropWhileD by fastforce
  ultimately show ?thesis using c by (auto simp: Base_def Let_def split: if_splits)
qed

definition kept :: "checkout_map \<Rightarrow> bool" where
  "kept m \<longleftrightarrow> distinct (map fst m) \<and> (\<forall>(name, e) \<in> set m. ce_path e = name \<and> measurable e)"

definition plain_name :: "string \<Rightarrow> bool" where "plain_name s \<longleftrightarrow> CHR 0x00 \<notin> set s"

lemma update_members: "(n, e) \<in> set (AList.update k v m) \<Longrightarrow> (n, e) = (k, v) \<or> (n, e) \<in> set m"
  by (induction m) (auto split: if_splits)

lemma kept_update: "kept m \<Longrightarrow> ce_path v = k \<Longrightarrow> measurable v \<Longrightarrow> kept (AList.update k v m)"
  using update_members by (fastforce simp: kept_def distinct_update)

lemma kept_plain:
  "kept m \<Longrightarrow> plain_name k \<Longrightarrow> kind \<in> {''file'', ''dir''} \<Longrightarrow> kept (AList.update k (plain_entry k kind mode fixed) m)"
  by (rule kept_update) (auto simp: plain_entry_def measurable_def plain_name_def)

lemma plain_Dir: "plain_name p \<Longrightarrow> plain_name (Dir p)"
  using Dir_bytes by (fastforce simp: plain_name_def)

lemma plain_Base: "plain_name p \<Longrightarrow> plain_name (Base p)"
  using Base_bytes by (fastforce simp: plain_name_def)

lemma whiteout_plain: "plain_name p \<Longrightarrow> checkoutWhiteoutTarget p = Some t \<Longrightarrow> plain_name t"
  using plain_Dir [of p] plain_Base [of p]
  by (auto simp: checkoutWhiteoutTarget_def Let_def plain_name_def TrimPrefix_def split: if_splits dest: in_set_dropD)

lemma kept_whiteout: "kept m \<Longrightarrow> plain_name (fe_Path e) \<Longrightarrow> kept (whiteout_pass m e)"
  by (auto simp: whiteout_pass_def intro: kept_plain whiteout_plain split: option.splits)

lemma kept_directory: "kept m \<Longrightarrow> plain_name (fe_Path e) \<Longrightarrow> kept (directory_pass kinds m e)"
  by (auto simp: directory_pass_def intro: kept_plain)

lemma kept_opaque: "kept m \<Longrightarrow> plain_name (fe_Path e) \<Longrightarrow> kept (opaque_pass m e)"
  by (auto simp: opaque_pass_def add_directory_def Let_def intro: kept_plain plain_Dir)

lemma kept_parents: "kept m \<Longrightarrow> plain_name p \<Longrightarrow> kept (add_parents n m p)"
  by (induction n m p rule: add_parents.induct) (auto simp: add_directory_def intro: kept_plain plain_Dir)

lemma derived_measurable:
  "deriveCheckoutEntry kinds e = Inr d \<Longrightarrow> plain_name (fe_Path e) \<Longrightarrow> ce_path d = fe_Path e \<and> measurable d"
  by (auto simp: deriveCheckoutEntry_def plain_entry_def measurable_def plain_name_def Let_def split: if_splits)

lemma kept_file_pass:
  "file_pass kinds m contents es = Inr (m', contents') \<Longrightarrow> kept m \<Longrightarrow> \<forall>e \<in> set es. plain_name (fe_Path e) \<Longrightarrow> kept m'"
proof (induction kinds m contents es rule: file_pass.induct)
  case (2 kinds m contents e es)
  then show ?case
    using kept_update [of m] derived_measurable [of kinds e] by (auto split: if_splits sum.splits)
qed simp

lemma kept_foldl:
  "(\<And>m x. kept m \<Longrightarrow> x \<in> set xs \<Longrightarrow> kept (f m x)) \<Longrightarrow> kept m \<Longrightarrow> kept (foldl f m xs)"
  by (induction xs arbitrary: m) auto

lemma kept_names: "kept m \<Longrightarrow> (name, e) \<in> set m \<Longrightarrow> plain_name name"
  by (auto simp: kept_def measurable_def plain_name_def)

lemma kept_expected:
  assumes "expectedCheckoutEntries kinds es = Inr (m, contents)" and "\<forall>e \<in> set es. plain_name (fe_Path e)"
  shows "kept m"
proof -
  have "kept []" by (simp add: kept_def)
  then have k: "kept (foldl (directory_pass kinds) (foldl whiteout_pass [] es) es)"
    using assms(2) by (intro kept_foldl kept_directory kept_whiteout) auto
  obtain m1 where m1: "file_pass kinds (foldl (directory_pass kinds) (foldl whiteout_pass [] es) es) [] es = Inr (m1, contents)"
      "m = foldl implicit_pass (foldl opaque_pass m1 es) (map fst (foldl opaque_pass m1 es))"
    using assms(1) by (auto simp: expectedCheckoutEntries_def bind_result_def Let_def split: sum.splits)
  have m2: "kept (foldl opaque_pass m1 es)"
    using kept_file_pass [OF m1(1) k assms(2)] assms(2) by (intro kept_foldl kept_opaque) auto
  show ?thesis unfolding m1(2)
    by (rule kept_foldl [OF _ m2]) (auto simp: implicit_pass_def intro!: kept_parents plain_Dir dest: kept_names [OF m2])
qed

lemma join_snoc: "cs \<noteq> [] \<Longrightarrow> join_with k (cs @ [c]) = join_with k cs @ k # c"
  by (induction k cs rule: join_with.induct) auto

lemma Dir_proper:
  assumes "\<forall>c \<in> set (cs @ [c]). proper c"
  shows "Dir (join_with slash (cs @ [c])) = (if cs = [] then ''.'' else join_with slash cs)"
proof (cases "cs = []")
  case True
  have "slash \<notin> set c" using assms by (simp add: proper_def)
  then have "dropWhile (\<lambda>x. x \<noteq> slash) (rev c) = []" by (auto simp: dropWhile_eq_Nil_conv)
  then show ?thesis using True by (simp add: Dir_def Clean_def)
next
  case False
  have slashless: "slash \<notin> set c" using assms by (simp add: proper_def)
  have "rev (join_with slash (cs @ [c])) = rev c @ slash # rev (join_with slash cs)" using False by (simp add: join_snoc)
  then have "dropWhile (\<lambda>x. x \<noteq> slash) (rev (join_with slash (cs @ [c]))) = slash # rev (join_with slash cs)"
    using slashless by (simp, subst dropWhile_append2) auto
  then have "Dir (join_with slash (cs @ [c])) = Clean (join_with slash cs @ slash # [])" by (simp add: Dir_def)
  moreover have "Clean (join_with slash cs @ slash # []) = join_with slash cs"
  proof -
    have parts: "\<forall>c \<in> set cs. proper c" using assms by simp
    then have "\<forall>c \<in> set cs. slash \<notin> set c" by (auto simp: proper_def)
    then have split: "split_on slash (join_with slash cs @ slash # []) = cs @ [[]]"
      using False by (simp add: split_append split_join)
    have "hd cs \<noteq> [] \<and> hd (hd cs) \<noteq> slash" using parts False by (cases cs; cases "hd cs") (auto simp: proper_def)
    then have "\<not> IsAbs (join_with slash cs @ slash # [])"
      using join_head [of cs slash] False by (cases "join_with slash cs") (auto simp: IsAbs_def)
    moreover have "clean_stack False (cs @ [[]]) = rev cs"
      using foldl_proper [OF parts, of False "[]"] by (simp add: clean_stack_def)
    ultimately show ?thesis using split False by (simp add: Clean_def render_def)
  qed
  ultimately show ?thesis using False by simp
qed

text \<open>The bound on the loop over the parents is enough for every clean relative name.\<close>

lemma parents_loop_ends:
  "\<forall>c \<in> set cs. proper c \<Longrightarrow> add_parents (length cs + k) m (if cs = [] then ''.'' else join_with slash cs) =
     add_parents (length cs) m (if cs = [] then ''.'' else join_with slash cs)"
proof (induction cs arbitrary: m rule: rev_induct)
  case Nil
  then show ?case by (cases k) auto
next
  case (snoc c cs)
  then show ?case by (simp add: Dir_proper)
qed

lemma length_join: "length cs \<le> Suc (length (join_with k cs))"
  by (induction k cs rule: join_with.induct) auto

lemma implicit_pass_ends:
  assumes "\<forall>c \<in> set (cs @ [c]). proper c"
  shows "implicit_pass m (join_with slash (cs @ [c])) =
    add_parents (length cs + k) m (if cs = [] then ''.'' else join_with slash cs)"
proof -
  have "length cs \<le> length (join_with slash (cs @ [c]))" using length_join [of "cs @ [c]" slash] by simp
  then obtain j where "length (join_with slash (cs @ [c])) = length cs + j" using le_Suc_ex by blast
  then show ?thesis using parents_loop_ends [of cs] assms by (simp add: implicit_pass_def Dir_proper)
qed

section \<open>The walk\<close>

text \<open>What the kernel answers about a directory: distinct names without separators, and links whose size
  is the length of their target.\<close>

fun sound_tree :: "tree \<Rightarrow> bool" where
  "sound_tree Unreadable = True"
| "sound_tree (Object mode bytes link children) \<longleftrightarrow>
     (checkoutKind mode = ''symlink'' \<longrightarrow> bytes = int (length link)) \<and> distinct (map fst children) \<and>
     (\<forall>(name, child) \<in> set children. slash \<notin> set name \<and> CHR 0x00 \<notin> set name \<and> sound_tree child)"

abbreviation path_key :: "checkoutEntry \<Rightarrow> string list" where
  "path_key e \<equiv> split_on slash (ce_path e)"

text \<open>A list of entries below a name, in the order of a walk, each of them measurable.\<close>

definition walk_below :: "string list \<Rightarrow> checkoutEntry list \<Rightarrow> bool" where
  "walk_below base es \<longleftrightarrow>
     list_all measurable es \<and> sorted_wrt (<) (map path_key es) \<and> (\<forall>e \<in> set es. \<exists>r. path_key e = base @ r)"

lemma those_Some: "those xs = Some ys \<longleftrightarrow> xs = map Some ys"
  by (induction xs arbitrary: ys) (auto split: option.splits)

lemma append_less: "n < n' \<Longrightarrow> base @ n # r < base @ n' # (r' :: 'a::order list)"
  by (induction base) auto

lemma prefix_less: "base < base @ n # (r :: 'a::order list)"
  by (induction base) auto

lemma blocks_sorted:
  assumes "sorted_wrt (<) (map fst ps)" and "\<forall>(name, es) \<in> set ps. walk_below (base @ [name]) es"
  shows "walk_below base (concat (map snd ps))"
  using assms
proof (induction ps)
  case (Cons p ps)
  obtain n es where p: "p = (n, es)" by (cases p)
  have es: "walk_below (base @ [n]) es" and rest: "walk_below base (concat (map snd ps))" using Cons p by auto
  have "path_key e < path_key e'" if e: "e \<in> set es" and e': "e' \<in> set (concat (map snd ps))" for e e'
  proof -
    obtain n' es' where n': "(n', es') \<in> set ps" "e' \<in> set es'" using e' by auto
    then have "n < n'" using Cons.prems(1) p by fastforce
    moreover obtain r where "path_key e = base @ n # r" using es e by (auto simp: walk_below_def)
    moreover obtain r' where "path_key e' = base @ n' # r'" using Cons.prems(2) n' by (fastforce simp: walk_below_def)
    ultimately show ?thesis by (simp add: append_less)
  qed
  with es rest show ?case by (auto simp: p walk_below_def sorted_wrt_append)
qed (simp add: walk_below_def)

lemma children_blocks:
  assumes "those (map snd (sort_key fst (map (\<lambda>(name, child). (name, f name child)) children))) = Some ls"
    and "distinct (map fst children)"
    and "\<And>name child es. (name, child) \<in> set children \<Longrightarrow> f name child = Some es \<Longrightarrow> walk_below (base @ [name]) es"
  shows "walk_below base (concat ls)"
proof -
  let ?sorted = "sort_key fst (map (\<lambda>(name, child). (name, f name child)) children)"
  let ?ps = "zip (map fst ?sorted) ls"
  have snd: "map snd ?sorted = map Some ls" using assms(1) by (simp add: those_Some)
  have len: "length ?sorted = length ls" using arg_cong [OF snd, of length] unfolding length_map .
  have names: "map fst ?ps = map fst ?sorted" using len by simp
  have "sorted (map fst ?sorted)" by simp
  moreover have "distinct (map fst ?sorted)"
  proof -
    have a: "map fst (map (\<lambda>(name, child). (name, f name child)) children) = map fst children" by (induction children) auto
    have b: "mset (map fst ?sorted) = mset (map fst (map (\<lambda>(name, child). (name, f name child)) children))"
      unfolding mset_map [where f = fst] by simp
    have "mset (map fst ?sorted) = mset (map fst children)" by (simp only: a b)
    then show ?thesis using assms(2) mset_eq_imp_distinct_iff by blast
  qed
  ultimately have strict: "sorted_wrt (<) (map fst ?ps)" unfolding names by (simp add: strict_sorted_iff)
  have blocks: "\<forall>(name, es) \<in> set ?ps. walk_below (base @ [name]) es"
  proof clarify
    fix name es assume "(name, es) \<in> set ?ps"
    then obtain i where i: "i < length ls" "name = fst (?sorted ! i)" "es = ls ! i"
      using len by (auto simp: set_zip)
    have "?sorted ! i \<in> set ?sorted" using i(1) len by (intro nth_mem) simp
    moreover have "snd (?sorted ! i) = Some es"
      using i len arg_cong [OF snd, of "\<lambda>xs. xs ! i"] nth_map [of i ?sorted snd] by simp
    ultimately have "?sorted ! i \<in> set (map (\<lambda>(name, child). (name, f name child)) children)" "snd (?sorted ! i) = Some es"
      unfolding set_sort by simp_all
    then obtain child where "(name, child) \<in> set children" "f name child = Some es"
      using i(2) by auto
    then show "walk_below (base @ [name]) es" by (rule assms(3))
  qed
  have "map snd ?ps = ls" using len by simp
  with blocks_sorted [OF strict blocks] show ?thesis by simp
qed

lemma walked_measurable:
  "checkoutKind mode = ''symlink'' \<longrightarrow> bytes = int (length target) \<Longrightarrow> checkoutKind mode \<noteq> ''symlink'' \<longrightarrow> target = [] \<Longrightarrow>
   CHR 0x00 \<notin> set relative \<Longrightarrow> measurable (walkedCheckoutEntry loose relative mode bytes target)"
  by (auto simp: walkedCheckoutEntry_def measurable_def checkoutKind_def Let_def)

lemma object_walk:
  "measure_object loose relative t = Some es \<Longrightarrow> sound_tree t \<Longrightarrow> CHR 0x00 \<notin> set relative \<Longrightarrow>
   walk_below (split_on slash relative) es"
proof (induction loose relative t arbitrary: es rule: measure_object.induct)
  case (2 loose relative mode bytes link children)
  obtain target ls where target: "(if checkoutKind mode = ''symlink'' then checkoutLinkTarget link bytes else Some []) = Some target"
    and ls: "(if checkoutKind mode \<noteq> ''dir'' then Some [] else those (map snd (sort_key fst
        (map (\<lambda>(name, child). (name, measure_object loose (relative @ slash # name) child)) children)))) = Some ls"
    and es: "es = walkedCheckoutEntry loose relative mode bytes target # concat ls"
    using "2.prems"(1) unfolding measure_object.simps by (auto simp: Option.bind_eq_Some_conv)
  let ?base = "split_on slash relative"
  have below: "walk_below ?base (concat ls) \<and> (\<forall>e \<in> set (concat ls). ?base < path_key e)"
  proof (cases "checkoutKind mode = ''dir''")
    case True
    have child: "walk_below (?base @ [name]) l"
      if "(name, child) \<in> set children" "measure_object loose (relative @ slash # name) child = Some l" for name child l
    proof -
      have n: "slash \<notin> set name" "CHR 0x00 \<notin> set name" "sound_tree child" using "2.prems"(2) that(1) by auto
      have "walk_below (split_on slash (relative @ slash # name)) l"
        by (rule "2.IH" [OF target _ that(1) refl that(2)]) (use n "2.prems"(3) True in auto)
      then show ?thesis using n(1) by (simp add: split_append)
    qed
    have eq: "those (map snd (sort_key fst (map (\<lambda>(name, child). (name, measure_object loose (relative @ slash # name) child)) children))) = Some ls"
      using ls True by simp
    have w: "walk_below ?base (concat ls)"
      by (rule children_blocks [OF eq]) (use "2.prems"(2) child in auto)
    moreover have "?base < path_key e" if e: "e \<in> set (concat ls)" for e
    proof -
      obtain l where l: "l \<in> set ls" "e \<in> set l" using e by auto
      then have "Some l \<in> set (map snd (sort_key fst (map (\<lambda>(name, child). (name, measure_object loose (relative @ slash # name) child)) children)))"
        using eq unfolding those_Some by (metis image_eqI list.set_map)
      then obtain name c where "(name, c) \<in> set children" "measure_object loose (relative @ slash # name) c = Some l"
        by auto
      from child [OF this] l(2) obtain r where "path_key e = ?base @ name # r" by (auto simp: walk_below_def)
      then show ?thesis by (simp add: prefix_less)
    qed
    ultimately show ?thesis by blast
  next
    case False
    then show ?thesis using ls by (simp add: walk_below_def)
  qed
  have "measurable (walkedCheckoutEntry loose relative mode bytes target)"
    by (rule walked_measurable) (use "2.prems" target in \<open>auto simp: checkoutLinkTarget_def split: if_splits\<close>)
  then show ?case using below by (auto simp: es walk_below_def walkedCheckoutEntry_def)
qed simp

lemma entries_walk:
  assumes "measureCheckoutEntries loose [] children = Some es" and "sound_tree (Object mode bytes link children)"
  shows "walk_below [] es"
proof -
  obtain ls where ls: "those (map snd (sort_key fst (map (\<lambda>(name, child). (name, measure_object loose name child)) children))) = Some ls"
    "es = concat ls" using assms(1) by (auto simp: measureCheckoutEntries_def)
  have "walk_below ([] @ [name]) l" if "(name, child) \<in> set children" "measure_object loose name child = Some l" for name child l
  proof -
    have "slash \<notin> set name" "CHR 0x00 \<notin> set name" "sound_tree child" using assms(2) that(1) by auto
    then show ?thesis using object_walk [OF that(2)] by simp
  qed
  then show ?thesis unfolding ls(2) by (intro children_blocks [OF ls(1)]) (use assms(2) in auto)
qed

section \<open>Comparing\<close>

lemma sorted_sets_equal:
  fixes k :: "'a \<Rightarrow> 'b::linorder"
  assumes "sorted_wrt (<) (map k xs)" "sorted_wrt (<) (map k ys)" and "set xs = set ys"
  shows "xs = ys"
proof -
  have "inj_on k (set xs)" using assms(1) by (simp add: strict_sorted_iff distinct_map)
  moreover have "map k xs = map k ys"
    using assms by (intro sorted_distinct_set_unique) (simp_all add: strict_sorted_iff)
  ultimately show ?thesis using assms(3) map_inj_on [of k xs ys] by simp
qed

definition stated_key :: "string \<times> string \<times> u32 option \<times> int \<times> string \<Rightarrow> string list" where
  "stated_key t = split_on slash (fst t)"

lemma stated_key_stated [simp]: "stated_key (stated e) = path_key e"
  by (simp add: stated_key_def stated_def)

lemma checkout_order_set: "set (checkout_order m) = snd ` set m"
  by (simp add: checkout_order_def)

lemma path_split_inj: "split_on slash p = split_on slash q \<Longrightarrow> p = q"
  by (metis join_split)

lemma checkout_order_sorted:
  assumes "kept m"
  shows "sorted_wrt (<) (map path_key (checkout_order m))"
proof -
  let ?s = "sort_key (\<lambda>(name, _). split_on slash name) m"
  have keys: "map path_key (checkout_order m) = map (\<lambda>(name, _). split_on slash name) ?s"
    using assms by (auto simp: checkout_order_def kept_def)
  have "distinct (map (\<lambda>(name, _). split_on slash name) m)"
  proof -
    have "distinct (map (split_on slash) (map fst m))"
      using assms path_split_inj by (auto simp: kept_def distinct_map inj_on_def)
    then show ?thesis by (simp add: case_prod_unfold comp_def)
  qed
  moreover have "mset (map (\<lambda>(name, _). split_on slash name) ?s) = mset (map (\<lambda>(name, _). split_on slash name) m)"
    unfolding mset_map by simp
  ultimately have "distinct (map (\<lambda>(name, _). split_on slash name) ?s)" using mset_eq_imp_distinct_iff by blast
  then show ?thesis unfolding keys by (simp add: strict_sorted_iff)
qed

text \<open>C30: A prepared checkout passes exactly when it is the tree its state describes: the walk of the
  directory and the derivation agree in every path, kind, size, link target and, where the state
  decides them, permission bits, with nothing missing and nothing added, for a directory whose
  links report the length of their target and a hash that tells the two descriptions apart.\<close>

theorem checkout_is_what_its_state_describes:
  assumes bound: "bindableLayerDigest layer" "Binding_Lookup (cv_codec env) (cv_bindings env) layer = Inr (Some binding)"
      "cv_files env layer (StateID binding) = Files entries"
    and expected: "expectedCheckoutEntries (cv_kinds env) entries = Inr (expected, contents)"
    and opened: "cv_valid_layer env layer" "cv_open env directory = Some (Object mode bytes link children)"
      "checkoutKind mode = ''dir''"
    and walk: "measureCheckoutEntries (\<lambda>name. name = ''.'' \<or> (\<exists>e. (name, e) \<in> set expected \<and> \<not> ce_fixed e)) [] children = Some es"
    and sound: "sound_tree (Object mode bytes link children)" and names: "\<forall>e \<in> set entries. plain_name (fe_Path e)"
    and hash: "inj_on (cv_sha256 env) {checkout_message (checkout_root # es), checkout_message (checkout_root # checkout_order expected)}"
  shows "verifyPreparedCheckout env layer directory = Inr (True, set (map stated es) = stated ` snd ` set expected)"
proof -
  let ?loose = "\<lambda>name. name = ''.'' \<or> (\<exists>e. (name, e) \<in> set expected \<and> \<not> ce_fixed e)"
  let ?root = "walkedCheckoutEntry ?loose ''.'' mode bytes []"
  obtain shape where shape: "boundCheckoutShape env layer = Inr shape"
      "sh_digest shape = cv_sha256 env (checkout_message (checkout_root # checkout_order expected))"
      "sh_loose shape = ''.'' # map fst (filter (\<lambda>(_, e). \<not> ce_fixed e) expected)"
    using bound expected by (auto simp: boundCheckoutShape_def deriveCheckoutShape_def bind_result_def)
  have loose: "(\<lambda>name. name \<in> set (sh_loose shape)) = ?loose" by (rule ext) (auto simp: shape(3) image_iff)
  have "stated ?root = stated checkout_root"
    using opened(3) by (simp add: walkedCheckoutEntry_def checkout_root_def plain_entry_def stated_def)
  then have root: "checkout_message (?root # es) = checkout_message (checkout_root # es)"
    by (intro message_stated) simp
  have v: "verifyPreparedCheckout env layer directory =
      Inr (True, cv_sha256 env (checkout_message (checkout_root # es)) = sh_digest shape)"
    using shape(1) opened walk root
    by (simp add: verifyPreparedCheckout_def measurePreparedCheckout_def measureCheckoutTree_def loose bind_result_def)
  have w: "walk_below [] es" by (rule entries_walk [OF walk sound])
  have k: "kept expected" by (rule kept_expected [OF expected names])
  have m: "list_all measurable es" "list_all measurable (checkout_order expected)" "measurable checkout_root"
    using w k by (auto simp: walk_below_def kept_def list_all_iff checkout_order_set measurable_def checkout_root_def plain_entry_def)
  have "cv_sha256 env (checkout_message (checkout_root # es)) = sh_digest shape \<longleftrightarrow>
      checkout_message (checkout_root # es) = checkout_message (checkout_root # checkout_order expected)"
    unfolding shape(2) by (rule inj_on_eq_iff [OF hash]) auto
  also have "\<dots> \<longleftrightarrow> map stated es = map stated (checkout_order expected)"
    using written_entries_inj [OF m(1,2)] message_stated [of "checkout_root # es" "checkout_root # checkout_order expected"]
    by (auto simp: checkout_message_def)
  also have "\<dots> \<longleftrightarrow> set (map stated es) = set (map stated (checkout_order expected))"
  proof
    assume "set (map stated es) = set (map stated (checkout_order expected))"
    then show "map stated es = map stated (checkout_order expected)"
      using w checkout_order_sorted [OF k]
      by (intro sorted_sets_equal [of stated_key]) (simp_all add: walk_below_def comp_def)
  qed (rule arg_cong)
  finally show ?thesis using v by (simp add: checkout_order_set)
qed

end
