(* ===== verification/Enforcement_Store.thy ===== *)
theory Enforcement_Store
  imports Trusted_Files Go_Path
begin

text \<open>
  \<^verbatim>\<open>pkg/systemauthority/enforcement.go\<close>: the two settings the administrator keeps beside the anchor
  ledger, what a launch does with software nobody enrolled and whether unsigned software is
  enrolled, how they are written and what is read where a file is missing, foreign or holds
  something else.
\<close>

abbreviation EnforcementOff :: string where "EnforcementOff \<equiv> ''off''"
abbreviation EnforcementWarn :: string where "EnforcementWarn \<equiv> ''warn''"
abbreviation EnforcementRefuse :: string where "EnforcementRefuse \<equiv> ''refuse''"

definition valid_level :: "string \<Rightarrow> bool" where
  "valid_level l \<longleftrightarrow> l = EnforcementOff \<or> l = EnforcementWarn \<or> l = EnforcementRefuse"

definition valid_signatures :: "string \<Rightarrow> bool" where
  "valid_signatures p \<longleftrightarrow> p = ''optional'' \<or> p = ''required''"

definition settingSizeLimit :: nat where "settingSizeLimit = 64"

record EnforcementStore =
  es_Directory :: string
  es_directory :: directory
  es_files :: "string \<Rightarrow> trusted_file"

datatype setting_error =
  Setting_path_not_absolute | Setting_untrusted path_error | Not_a_level | Not_a_policy | Setting_not_written

definition setting_path :: "EnforcementStore \<Rightarrow> string \<Rightarrow> setting_error + string" where
  "setting_path s name =
     (if \<not> IsAbs (es_Directory s) then Inl Setting_path_not_absolute else Inr (Join [es_Directory s, name]))"

definition read_setting :: "EnforcementStore \<Rightarrow> string \<Rightarrow> setting_error + string option" where
  "read_setting s name =
     bind_result (setting_path s name) (\<lambda>path.
       case validateExistingDirectory (es_directory s) of
         Some Not_exist \<Rightarrow> Inr None
       | Some e \<Rightarrow> Inl (Setting_untrusted e)
       | None \<Rightarrow>
           (case readTrusted settingSizeLimit (es_files s path) of
              Inl e \<Rightarrow> Inl (Setting_untrusted e)
            | Inr None \<Rightarrow> Inr None
            | Inr (Some data) \<Rightarrow> Inr (Some (TrimSpace data))))"

definition write_setting :: "bool \<Rightarrow> bool \<Rightarrow> string \<Rightarrow> string \<Rightarrow> EnforcementStore \<Rightarrow> setting_error err \<times> EnforcementStore" where
  "write_setting unmade unwritten name v s =
     (case setting_path s name of Inl e \<Rightarrow> (Some e, s)
      | Inr path \<Rightarrow>
          (case ensureDirectory unmade (es_directory s) of (e, directory) \<Rightarrow>
             let s = s\<lparr>es_directory := directory\<rparr> in
             case e of Some x \<Rightarrow> (Some (Setting_untrusted x), s)
             | None \<Rightarrow>
                 if unwritten then (Some Setting_not_written, s)
                 else (None, s\<lparr>es_files := (es_files s)(path := Trusted_file (v @ [CHR 0x0A]))\<rparr>)))"

definition Level :: "EnforcementStore \<Rightarrow> setting_error + string" where
  "Level s =
     bind_result (read_setting s ''enforcement'') (\<lambda>found.
       case found of None \<Rightarrow> Inr EnforcementOff
       | Some level \<Rightarrow> if valid_level level then Inr level else Inl Not_a_level)"

definition Set_level :: "bool \<Rightarrow> bool \<Rightarrow> string \<Rightarrow> EnforcementStore \<Rightarrow> setting_error err \<times> EnforcementStore" where
  "Set_level unmade unwritten level s =
     (if \<not> valid_level level then (Some Not_a_level, s) else write_setting unmade unwritten ''enforcement'' level s)"

definition Store_SignaturePolicy :: "EnforcementStore \<Rightarrow> setting_error + string" where
  "Store_SignaturePolicy s =
     bind_result (read_setting s ''signatures'') (\<lambda>found.
       case found of None \<Rightarrow> Inr ''optional''
       | Some policy \<Rightarrow> if valid_signatures policy then Inr policy else Inl Not_a_policy)"

definition SetSignaturePolicy :: "bool \<Rightarrow> bool \<Rightarrow> string \<Rightarrow> EnforcementStore \<Rightarrow> setting_error err \<times> EnforcementStore" where
  "SetSignaturePolicy unmade unwritten policy s =
     (if \<not> valid_signatures policy then (Some Not_a_policy, s) else write_setting unmade unwritten ''signatures'' policy s)"

definition Enforcement :: "EnforcementStore \<Rightarrow> string" where
  "Enforcement s = (case Level s of Inl _ \<Rightarrow> EnforcementOff | Inr level \<Rightarrow> level)"

definition Signatures :: "EnforcementStore \<Rightarrow> string" where
  "Signatures s = (case Store_SignaturePolicy s of Inl _ \<Rightarrow> ''required'' | Inr policy \<Rightarrow> policy)"

section \<open>What is set is what is read\<close>

lemma setting_texts:
  "valid_level v \<or> valid_signatures v \<Longrightarrow> TrimSpace (v @ [CHR 0x0A]) = v \<and> length (v @ [CHR 0x0A]) \<le> settingSizeLimit"
proof -
  have all: "list_all (\<lambda>v. TrimSpace (v @ [CHR 0x0A]) = v \<and> length (v @ [CHR 0x0A]) \<le> settingSizeLimit)
    [''off'', ''warn'', ''refuse'', ''optional'', ''required'']" by code_simp
  assume "valid_level v \<or> valid_signatures v"
  then have "v \<in> set [''off'', ''warn'', ''refuse'', ''optional'', ''required'']"
    unfolding valid_level_def valid_signatures_def by auto
  then show ?thesis using all unfolding list_all_iff by blast
qed

lemma written_setting:
  assumes "write_setting unmade unwritten name v s = (None, s')" and "TrimSpace (v @ [CHR 0x0A]) = v"
    and "length (v @ [CHR 0x0A]) \<le> settingSizeLimit"
  shows "read_setting s' name = Inr (Some v)"
proof -
  obtain path where path: "setting_path s name = Inr path" using assms(1) by (cases "setting_path s name") (auto simp: write_setting_def)
  obtain e d where d: "ensureDirectory unmade (es_directory s) = (e, d)" by fastforce
  then have e: "e = None" and s': "s' = s\<lparr>es_directory := d, es_files := (es_files s)(path := Trusted_file (v @ [CHR 0x0A]))\<rparr>"
    using assms(1) path by (auto simp: write_setting_def Let_def split: option.splits if_splits)
  have "d = Owned_directory" using ensureDirectory_None d e by blast
  moreover have "setting_path s' name = Inr path" using path by (simp add: s' setting_path_def del: Join.simps split: if_splits)
  ultimately show ?thesis using assms(2,3) by (simp add: read_setting_def s' readTrusted_def bind_result_def)
qed

lemma read_setting_trusted:
  "read_setting s name = Inr (Some v) \<Longrightarrow>
   \<exists>data. es_directory s = Owned_directory \<and> es_files s (Join [es_Directory s, name]) = Trusted_file data \<and> v = TrimSpace data"
  by (cases "es_directory s")
    (auto simp: read_setting_def setting_path_def readTrusted_def bind_result_def simp del: Join.simps split: if_splits trusted_file.splits)


end
