(* ===== verification/Launch_Gate.thy ===== *)
theory Launch_Gate
  imports Anchor_Ledger Composition Checkout Enforcement_Store
begin

text \<open>
  \<^verbatim>\<open>pkg/cpak/verify.go\<close>, \<^verbatim>\<open>measure.go\<close> and \<^verbatim>\<open>binding.go\<close>: what a launch is, described from what the store
  recorded and measured again from the store as it stands, put beside the anchor the ledger holds,
  and the answer the gate gives.  The repositories of the layers (package \<^verbatim>\<open>fvs2/repo\<close>) and the
  prepared index (package \<^verbatim>\<open>storage/pkg/index\<close>) are arguments, with the encoding of a list of entries
  as JSON; what the gate prints is left out.
\<close>

section \<open>What a launch is\<close>

datatype layer_states = States_missing | States_unreadable | States "string list"

datatype prepared_index = Index_missing | Index_unreadable | Index string "string \<Rightarrow> string option"

datatype storage_backend = Backend_invalid | Backend_fuse | Backend_driver

record launch_store =
  ln_checkout :: checkout_env
  ln_states :: "string \<Rightarrow> layer_states"
  ln_encode :: "FileEntry list \<Rightarrow> string"
  ln_digest :: "string \<Rightarrow> Package \<Rightarrow> string"
  ln_backend :: storage_backend
  ln_driver :: "string option"
  ln_index :: prepared_index

datatype launch_error =
  Launch_layer_unbound string
| Launch_binding_unread binding_error
| Launch_package_underived package_error
| Launch_policy_underived schema_error
| Launch_state_unread string
| Launch_layer_not_stored string
| Launch_backend_invalid
| Launch_driver_unknown
| Launch_index_unread
| Launch_checkout checkout_error

definition layer_binding :: "launch_store \<Rightarrow> string \<Rightarrow> binding_error + LayerBinding option" where
  "layer_binding st digest = Binding_Lookup (cv_codec (ln_checkout st)) (cv_bindings (ln_checkout st)) digest"

definition applicationSelector :: "Application \<Rightarrow> string" where
  "applicationSelector app =
     (let source = SourceType app in
      if source = ''branch'' then source @ '':'' @ ap_Branch app
      else if source = ''release'' then source @ '':'' @ ap_Release app
      else if source = ''commit'' then source @ '':'' @ ap_Commit app else source)"

definition configurationDigest :: "(string \<Rightarrow> string) \<Rightarrow> string \<Rightarrow> string" where
  "configurationDigest sha256 configuration = ''sha256:'' @ sha256 configuration"

definition dependencyIdentities :: "Dependency list \<Rightarrow> string list" where
  "dependencyIdentities ds =
     map (\<lambda>d. (if IsLayer d then ''layer'' else ''nested'') @ '':'' @ dp_Origin d @ '':'' @ dp_Id d) ds"

definition addonIdentities :: "Application list \<Rightarrow> string list" where
  "addonIdentities addons = map (\<lambda>a. ap_Origin a @ '':'' @ ap_ImageDigest a) addons"

definition sessionIdentities :: "login_session list \<Rightarrow> string list" where
  "sessionIdentities sessions = map ls_ID sessions"

fun bound_layers :: "launch_store \<Rightarrow> string list \<Rightarrow> launch_error + LayerBinding list" where
  "bound_layers st [] = Inr []"
| "bound_layers st (digest # rest) =
     (case layer_binding st digest of
        Inl e \<Rightarrow> Inl (Launch_binding_unread e)
      | Inr None \<Rightarrow> Inl (Launch_layer_unbound digest)
      | Inr (Some binding) \<Rightarrow> bind_result (bound_layers st rest) (\<lambda>layers. Inr (binding # layers)))"

definition launchPackage :: "launch_store \<Rightarrow> Application \<Rightarrow> Application list \<Rightarrow> Application list \<Rightarrow> launch_error + Package" where
  "launchPackage st app found addons =
     bind_result (bound_layers st (composedLayers app found addons)) (\<lambda>layers.
       Inr \<lparr>pk_Origin = ap_Origin app, pk_Selector = applicationSelector app, pk_Version = ap_Version app,
         pk_ManifestDigest = [], pk_ImageDigest = ap_ImageDigest app,
         pk_ConfigDigest = configurationDigest (cv_sha256 (ln_checkout st)) (ap_Config app), pk_Layers = layers,
         pk_Dependencies = dependencyIdentities (ap_ParsedDependencies app), pk_Addons = addonIdentities addons,
         pk_Binaries = ap_ParsedBinaries app, pk_DesktopEntries = ap_ParsedDesktopEntries app,
         pk_Sessions = sessionIdentities (ap_ParsedSessions app)\<rparr>)"

definition launchPackageRoot :: "launch_store \<Rightarrow> Application \<Rightarrow> Application list \<Rightarrow> Application list \<Rightarrow> launch_error + string" where
  "launchPackageRoot st app found addons =
     bind_result (launchPackage st app found addons) (\<lambda>described.
       lift_error Launch_package_underived (PackageRoot (ln_digest st) described))"

section \<open>What the store holds now\<close>

datatype finding =
  Serves_another_state string string | State_digests_differently string | Not_held_as_repository
| No_state_describes | Not_the_shape string

record launchMeasurement =
  ms_Disagreements :: "(string \<times> finding) list"
  ms_Unrecorded :: "string list"
  ms_Unmeasured :: "(string \<times> finding) list"

definition layerStateRoot :: "launch_store \<Rightarrow> string \<Rightarrow> string \<Rightarrow> launch_error + string" where
  "layerStateRoot st digest state =
     (case cv_files (ln_checkout st) digest state of
        Files entries \<Rightarrow>
          Inr (cv_sha256 (ln_checkout st) (''cpak.layer-state.v1'' @ [CHR 0x0A] @ ln_encode st (sort_key fe_Path entries)))
      | _ \<Rightarrow> Inl (Launch_state_unread state))"

definition deriveLayerState :: "launch_store \<Rightarrow> string \<Rightarrow> launch_error + LayerBinding" where
  "deriveLayerState st digest =
     (case ln_states st digest of
        States_missing \<Rightarrow> Inl (Launch_layer_not_stored digest)
      | States_unreadable \<Rightarrow> Inl (Launch_state_unread digest)
      | States [] \<Rightarrow> Inl (Launch_layer_not_stored digest)
      | States (state # _) \<Rightarrow>
          bind_result (layerStateRoot st digest state) (\<lambda>root.
            Inr \<lparr>OCIDigest = digest, StateID = state, StateRoot = root\<rparr>))"

definition recordLayerBinding :: "launch_store \<Rightarrow> bool \<Rightarrow> bool \<Rightarrow> string \<Rightarrow> launch_error err \<times> launch_store" where
  "recordLayerBinding st staged linked digest =
     (case deriveLayerState st digest of Inl e \<Rightarrow> (Some e, st)
      | Inr binding \<Rightarrow>
          (case Bind (cv_codec (ln_checkout st)) staged linked binding (cv_bindings (ln_checkout st)) of
             (e, bindings) \<Rightarrow> (map_option Launch_binding_unread e, st\<lparr>ln_checkout := (ln_checkout st)\<lparr>cv_bindings := bindings\<rparr>\<rparr>)))"

definition compareLayerState :: "LayerBinding \<Rightarrow> LayerBinding \<Rightarrow> finding option" where
  "compareLayerState filed derived =
     (if StateID filed \<noteq> StateID derived then Some (Serves_another_state (StateID derived) (StateID filed))
      else if StateRoot filed \<noteq> StateRoot derived then Some (State_digests_differently (StateID filed))
      else None)"

definition not_stored :: "launch_error \<Rightarrow> bool" where
  "not_stored e \<longleftrightarrow> (case e of Launch_layer_not_stored _ \<Rightarrow> True | _ \<Rightarrow> False)"

fun measureLaunchStates :: "launch_store \<Rightarrow> launchMeasurement \<Rightarrow> string list \<Rightarrow> launch_error + launchMeasurement" where
  "measureLaunchStates st m [] = Inr m"
| "measureLaunchStates st m (layer # rest) =
     (case layer_binding st layer of
        Inl e \<Rightarrow> Inl (Launch_binding_unread e)
      | Inr None \<Rightarrow> measureLaunchStates st m rest
      | Inr (Some filed) \<Rightarrow>
          (case deriveLayerState st layer of
             Inl e \<Rightarrow>
               if not_stored e
               then measureLaunchStates st (m\<lparr>ms_Unmeasured := ms_Unmeasured m @ [(layer, Not_held_as_repository)]\<rparr>) rest
               else Inl e
           | Inr derived \<Rightarrow>
               (case compareLayerState filed derived of
                  None \<Rightarrow> measureLaunchStates st m rest
                | Some detail \<Rightarrow>
                    measureLaunchStates st (m\<lparr>ms_Disagreements := ms_Disagreements m @ [(layer, detail)]\<rparr>) rest)))"

definition launchCheckoutDirectories :: "launch_store \<Rightarrow> launch_error + (string \<Rightarrow> string option)" where
  "launchCheckoutDirectories st =
     (case ln_driver st of None \<Rightarrow> Inl Launch_driver_unknown
      | Some name \<Rightarrow>
          (case ln_index st of Index_missing \<Rightarrow> Inr (\<lambda>_. None)
           | Index_unreadable \<Rightarrow> Inl Launch_index_unread
           | Index driver resolve \<Rightarrow> if driver \<noteq> name then Inr (\<lambda>_. None) else Inr resolve))"

fun measure_checkouts :: "launch_store \<Rightarrow> (string \<Rightarrow> string option) \<Rightarrow> launchMeasurement \<Rightarrow> string list \<Rightarrow>
    launch_error + launchMeasurement" where
  "measure_checkouts st directories m [] = Inr m"
| "measure_checkouts st directories m (layer # rest) =
     (case directories layer of None \<Rightarrow> measure_checkouts st directories m rest
      | Some directory \<Rightarrow>
          (case verifyPreparedCheckout (ln_checkout st) layer directory of
             Inl e \<Rightarrow> Inl (Launch_checkout e)
           | Inr (found, agrees) \<Rightarrow>
               if \<not> found then
                 measure_checkouts st directories (m\<lparr>ms_Unrecorded := ms_Unrecorded m @ [layer],
                   ms_Unmeasured := ms_Unmeasured m @ [(layer, No_state_describes)]\<rparr>) rest
               else if agrees then measure_checkouts st directories m rest
               else measure_checkouts st directories
                 (m\<lparr>ms_Disagreements := ms_Disagreements m @ [(layer, Not_the_shape directory)]\<rparr>) rest))"

definition measureLaunchCheckouts :: "launch_store \<Rightarrow> launchMeasurement \<Rightarrow> string list \<Rightarrow> launch_error + launchMeasurement" where
  "measureLaunchCheckouts st m layers =
     (case ln_backend st of Backend_invalid \<Rightarrow> Inl Launch_backend_invalid
      | Backend_fuse \<Rightarrow> Inr m
      | Backend_driver \<Rightarrow>
          bind_result (launchCheckoutDirectories st) (\<lambda>directories. measure_checkouts st directories m layers))"

definition measureLaunch :: "launch_store \<Rightarrow> string list \<Rightarrow> launch_error + launchMeasurement" where
  "measureLaunch st layers =
     bind_result (measureLaunchStates st \<lparr>ms_Disagreements = [], ms_Unrecorded = [], ms_Unmeasured = []\<rparr> layers)
       (\<lambda>m. measureLaunchCheckouts st m layers)"

section \<open>The verdict and the gate\<close>

datatype LaunchVerdict =
  No_verdict | LaunchUnverifiable | LaunchUnenrolled | LaunchUnbound | LaunchRecognised | LaunchUnrecognised | LaunchTampered

record LaunchIdentity =
  li_Verdict :: LaunchVerdict
  li_UID :: u32
  li_Origin :: string
  li_PackageRoot :: string
  li_PolicyRoot :: string
  li_LaunchRoot :: string
  li_Anchor :: "Anchor option"
  li_Reason :: "ledger_error option"
  li_Disagreements :: "(string \<times> finding) list"
  li_Unmeasured :: "(string \<times> finding) list"

definition verifySessionLaunch ::
  "authority_env \<Rightarrow> ledger \<Rightarrow> launch_store \<Rightarrow> u32 \<Rightarrow> Application \<Rightarrow> Override \<Rightarrow> string \<Rightarrow> Application list \<Rightarrow>
   Application list \<Rightarrow> launch_error + LaunchIdentity" where
  "verifySessionLaunch env ledger st uid app override sessionID found addons =
     bind_result
       (case launchPackageRoot st app found addons of
          Inl (Launch_layer_unbound _) \<Rightarrow> Inr None | Inl e \<Rightarrow> Inl e | Inr root \<Rightarrow> Inr (Some root)) (\<lambda>packageRoot.
     bind_result (lift_error Launch_policy_underived (PolicyRoot (hx_policy (ae_hashes env)) override)) (\<lambda>policyRoot.
     bind_result (measureLaunch st (composedLayers app found addons)) (\<lambda>measurement.
       let identity = \<lparr>li_Verdict = No_verdict, li_UID = uid, li_Origin = ap_Origin app,
             li_PackageRoot = (case packageRoot of None \<Rightarrow> [] | Some root \<Rightarrow> root), li_PolicyRoot = policyRoot,
             li_LaunchRoot = (case packageRoot of None \<Rightarrow> []
               | Some root \<Rightarrow> LaunchRoot (hx_sha256 (ae_hashes env)) root policyRoot),
             li_Anchor = None, li_Reason = None, li_Disagreements = [], li_Unmeasured = ms_Unmeasured measurement\<rparr>
       in if ms_Disagreements measurement \<noteq> [] then
            Inr (identity\<lparr>li_Verdict := LaunchTampered, li_Disagreements := ms_Disagreements measurement\<rparr>)
          else case Load env ledger uid (ap_Origin app) of
            Inl e \<Rightarrow> Inr (identity\<lparr>li_Verdict := LaunchUnverifiable, li_Reason := Some e\<rparr>)
          | Inr anchor \<Rightarrow>
              (let identity = identity\<lparr>li_Anchor := anchor\<rparr>;
                   filed = (if sessionID = [] then map_option an_LaunchRoot anchor
                     else Option.bind anchor (\<lambda>a. map_of (an_SessionRoots a) sessionID))
               in Inr (identity\<lparr>li_Verdict :=
                    (if sessionID \<noteq> [] \<and> filed = None \<or> anchor = None then LaunchUnenrolled
                     else if packageRoot = None \<or> ms_Unrecorded measurement \<noteq> [] then LaunchUnbound
                     else if filed = Some (li_LaunchRoot identity) then LaunchRecognised
                     else LaunchUnrecognised)\<rparr>)))))"

definition verifyLaunch ::
  "authority_env \<Rightarrow> ledger \<Rightarrow> launch_store \<Rightarrow> u32 \<Rightarrow> Application \<Rightarrow> Override \<Rightarrow> Application list \<Rightarrow> Application list \<Rightarrow>
   launch_error + LaunchIdentity" where
  "verifyLaunch env ledger st uid app override found addons = verifySessionLaunch env ledger st uid app override [] found addons"

datatype refusal =
  Refused_tampered string "(string \<times> finding) list" | Refused_unbound string | Refused_unrecognised string
| Refused_unenrolled string LaunchVerdict "ledger_error option" | Refused_unverified string

definition unclaimedLaunchRefusal :: "string \<Rightarrow> string \<Rightarrow> LaunchIdentity \<Rightarrow> refusal err" where
  "unclaimedLaunchRefusal level origin identity =
     (if level \<noteq> EnforcementRefuse then None
      else Some (Refused_unenrolled origin (li_Verdict identity) (li_Reason identity)))"

definition launchRefusal :: "string \<Rightarrow> string \<Rightarrow> LaunchIdentity \<Rightarrow> refusal err" where
  "launchRefusal level origin identity =
     (case li_Verdict identity of
        LaunchRecognised \<Rightarrow> None
      | LaunchTampered \<Rightarrow> Some (Refused_tampered origin (li_Disagreements identity))
      | LaunchUnbound \<Rightarrow> Some (Refused_unbound origin)
      | LaunchUnrecognised \<Rightarrow> Some (Refused_unrecognised origin)
      | LaunchUnenrolled \<Rightarrow> unclaimedLaunchRefusal level origin identity
      | LaunchUnverifiable \<Rightarrow> unclaimedLaunchRefusal level origin identity
      | No_verdict \<Rightarrow> Some (Refused_unverified origin))"

definition gateSessionLaunch ::
  "authority_env \<Rightarrow> ledger \<Rightarrow> launch_store \<Rightarrow> EnforcementStore \<Rightarrow> u32 \<Rightarrow> Application \<Rightarrow> Override \<Rightarrow> string \<Rightarrow>
   Application list \<Rightarrow> Application list \<Rightarrow> launch_error + LaunchIdentity \<times> refusal option" where
  "gateSessionLaunch env ledger st settings uid app override sessionID found addons =
     bind_result (verifySessionLaunch env ledger st uid app override sessionID found addons) (\<lambda>identity.
       Inr (identity, launchRefusal (Enforcement settings) (ap_Origin app) identity))"

definition gateLaunch ::
  "authority_env \<Rightarrow> ledger \<Rightarrow> launch_store \<Rightarrow> EnforcementStore \<Rightarrow> u32 \<Rightarrow> Application \<Rightarrow> Override \<Rightarrow>
   Application list \<Rightarrow> Application list \<Rightarrow> launch_error + LaunchIdentity \<times> refusal option" where
  "gateLaunch env ledger st settings uid app override found addons =
     gateSessionLaunch env ledger st settings uid app override [] found addons"

section \<open>Reports\<close>

record AnchorState =
  as_Origin :: string
  as_Enrolled :: bool
  as_Generation :: u64
  as_AnchorRoot :: string
  as_DerivedRoot :: string
  as_Unreadable :: "ledger_error option"
  as_Underived :: "launch_error option"

definition Recognised :: "AnchorState \<Rightarrow> bool" where
  "Recognised s \<longleftrightarrow> as_Enrolled s \<and> as_AnchorRoot s \<noteq> [] \<and> as_AnchorRoot s = as_DerivedRoot s"

definition installedLaunchRoot ::
  "authority_env \<Rightarrow> launch_store \<Rightarrow> Application \<Rightarrow> Override \<Rightarrow> Application list \<Rightarrow> Application list \<Rightarrow> launch_error + string" where
  "installedLaunchRoot env st app resolvedOverride found addons =
     bind_result (launchPackageRoot st app found addons) (\<lambda>packageRoot.
     bind_result (lift_error Launch_policy_underived (PolicyRoot (hx_policy (ae_hashes env)) resolvedOverride)) (\<lambda>policyRoot.
       Inr (LaunchRoot (hx_sha256 (ae_hashes env)) packageRoot policyRoot)))"

definition anchorState ::
  "authority_env \<Rightarrow> ledger \<Rightarrow> launch_store \<Rightarrow> u32 \<Rightarrow> Application \<Rightarrow> Override \<Rightarrow> Application list \<Rightarrow> Application list \<Rightarrow>
   bool \<Rightarrow> AnchorState" where
  "anchorState env ledger st uid app resolvedOverride found addons filed =
     (let (enrolled, generation, root, unreadable) =
            (case Load env ledger uid (ap_Origin app) of
               Inl e \<Rightarrow> (False, 0, [], Some e)
             | Inr None \<Rightarrow> (False, 0, [], None)
             | Inr (Some a) \<Rightarrow> (True, an_Generation a, an_LaunchRoot a, None));
          derived = (if \<not> filed then Inl (Launch_layer_unbound []) else installedLaunchRoot env st app resolvedOverride found addons)
      in \<lparr>as_Origin = ap_Origin app, as_Enrolled = enrolled, as_Generation = generation, as_AnchorRoot = root,
          as_DerivedRoot = (case derived of Inl _ \<Rightarrow> [] | Inr r \<Rightarrow> r), as_Unreadable = unreadable,
          as_Underived = (case derived of Inl e \<Rightarrow> Some e | Inr _ \<Rightarrow> None)\<rparr>)"

section \<open>What the gate lets through\<close>

lemma bound_layers_Inr:
  "bound_layers st layers = Inr bs \<Longrightarrow> \<forall>layer \<in> set layers. \<exists>b \<in> set bs. layer_binding st layer = Inr (Some b)"
proof (induction st layers arbitrary: bs rule: bound_layers.induct)
  case (2 st digest rest)
  then show ?case by (fastforce simp: bind_result_def split: sum.splits option.splits)
qed simp

definition state_agrees :: "launch_store \<Rightarrow> string \<Rightarrow> bool" where
  "state_agrees st layer \<longleftrightarrow>
     (\<forall>b d. layer_binding st layer = Inr (Some b) \<longrightarrow> deriveLayerState st layer = Inr d \<longrightarrow> compareLayerState b d = None)"

definition checkout_agrees :: "launch_store \<Rightarrow> (string \<Rightarrow> string option) \<Rightarrow> string \<Rightarrow> bool" where
  "checkout_agrees st directories layer \<longleftrightarrow>
     (\<forall>directory. directories layer = Some directory \<longrightarrow>
        verifyPreparedCheckout (ln_checkout st) layer directory = Inr (True, True))"

text \<open>A measurement only grows, so one without a disagreement had none at any layer.\<close>

lemma measured_states:
  "measureLaunchStates st m layers = Inr m' \<Longrightarrow> ms_Disagreements m' = [] \<Longrightarrow>
   ms_Disagreements m = [] \<and>
   (\<forall>layer \<in> set layers. state_agrees st layer)"
proof (induction st m layers rule: measureLaunchStates.induct)
  case (2 st m layer rest)
  obtain bound where bound: "layer_binding st layer = Inr bound"
    using 2(5) by (cases "layer_binding st layer") simp_all
  show ?case
  proof (cases bound)
    case None
    then have "state_agrees st layer" using bound by (simp add: state_agrees_def)
    then show ?thesis using 2(1) [of bound] 2(5,6) bound None by simp
  next
    case (Some b)
    show ?thesis
    proof (cases "deriveLayerState st layer")
      case (Inl e)
      then have "not_stored e" using 2(5) bound Some by (simp split: if_split_asm)
      moreover have "state_agrees st layer" using Inl by (simp add: state_agrees_def)
      ultimately show ?thesis using 2(2) [of bound b e] 2(5,6) bound Some Inl by simp
    next
      case (Inr d)
      show ?thesis
      proof (cases "compareLayerState b d")
        case None
        then have "state_agrees st layer" using bound Some Inr by (simp add: state_agrees_def)
        then show ?thesis using 2(3) [of bound b d] 2(5,6) bound Some Inr None by simp
      next
        case (Some f)
        then show ?thesis using 2(4) [of bound b d f] 2(5,6) bound \<open>bound = Some b\<close> Inr by simp
      qed
    qed
  qed
qed simp

lemma measured_checkouts:
  "measure_checkouts st directories m layers = Inr m' \<Longrightarrow> ms_Disagreements m' = [] \<Longrightarrow>
   ms_Disagreements m = [] \<and> (ms_Unrecorded m' = [] \<longrightarrow> ms_Unrecorded m = [] \<and>
   (\<forall>layer \<in> set layers. checkout_agrees st directories layer))"
proof (induction st directories m layers rule: measure_checkouts.induct)
  case (2 st directories m layer rest)
  show ?case
  proof (cases "directories layer")
    case None
    then have "checkout_agrees st directories layer" by (simp add: checkout_agrees_def)
    then show ?thesis using 2(1,5,6) None by simp
  next
    case (Some directory)
    obtain found agrees where v: "verifyPreparedCheckout (ln_checkout st) layer directory = Inr (found, agrees)"
      using 2(5) Some by (cases "verifyPreparedCheckout (ln_checkout st) layer directory") auto
    have agrees: "checkout_agrees st directories layer" if "found" "agrees"
      using Some v that by (simp add: checkout_agrees_def)
    show ?thesis
    proof (cases "found \<and> agrees")
      case True
      then show ?thesis using 2(3) [of directory "(found, agrees)" found agrees] 2(5,6) Some v agrees by simp
    next
      case False
      then show ?thesis
        using 2(2) [of directory "(found, agrees)" found agrees] 2(4) [of directory "(found, agrees)" found agrees] 2(5,6) Some v
        by (cases found) simp_all
    qed
  qed
qed simp

definition measured_sound :: "launch_store \<Rightarrow> string \<Rightarrow> bool" where
  "measured_sound st layer \<longleftrightarrow>
     state_agrees st layer \<and>
     (ln_backend st = Backend_driver \<longrightarrow>
        (\<forall>directories. launchCheckoutDirectories st = Inr directories \<longrightarrow> checkout_agrees st directories layer))"

lemma measured_launch:
  assumes "measureLaunch st layers = Inr m" "ms_Disagreements m = []" "ms_Unrecorded m = []" and "layer \<in> set layers"
  shows "measured_sound st layer"
proof -
  obtain m1 where m1: "measureLaunchStates st \<lparr>ms_Disagreements = [], ms_Unrecorded = [], ms_Unmeasured = []\<rparr> layers = Inr m1"
      "measureLaunchCheckouts st m1 layers = Inr m"
    using assms(1) by (auto simp: measureLaunch_def bind_result_Inr)
  have c: "ms_Disagreements m1 = [] \<and> (ln_backend st = Backend_driver \<longrightarrow>
      (\<forall>directories. launchCheckoutDirectories st = Inr directories \<longrightarrow> checkout_agrees st directories layer))"
  proof (cases "ln_backend st")
    case Backend_driver
    then obtain directories where d: "launchCheckoutDirectories st = Inr directories" "measure_checkouts st directories m1 layers = Inr m"
      using m1(2) by (auto simp: measureLaunchCheckouts_def bind_result_Inr)
    then show ?thesis using measured_checkouts [OF d(2) assms(2)] assms(3,4) by auto
  qed (use m1(2) assms(2) in \<open>auto simp: measureLaunchCheckouts_def\<close>)
  then show ?thesis using measured_states [OF m1(1)] assms(4) by (simp add: measured_sound_def)
qed

lemma recognised_launch:
  assumes "verifySessionLaunch env ledger st uid app override sid found addons = Inr identity"
    and "li_Verdict identity = LaunchRecognised"
  shows "\<exists>anchor described packageRoot policyRoot.
      Load env ledger uid (ap_Origin app) = Inr (Some anchor) \<and>
      launchPackage st app found addons = Inr described \<and> PackageRoot (ln_digest st) described = Inr packageRoot \<and>
      PolicyRoot (hx_policy (ae_hashes env)) override = Inr policyRoot \<and>
      (if sid = [] then Some (an_LaunchRoot anchor) else map_of (an_SessionRoots anchor) sid) =
        Some (LaunchRoot (hx_sha256 (ae_hashes env)) packageRoot policyRoot) \<and>
      (\<forall>layer \<in> set (composedLayers app found addons). measured_sound st layer)"
proof -
  obtain root policyRoot m where
    p: "PolicyRoot (hx_policy (ae_hashes env)) override = Inr policyRoot"
    and m: "measureLaunch st (composedLayers app found addons) = Inr m"
    and r: "(case launchPackageRoot st app found addons of
          Inl (Launch_layer_unbound _) \<Rightarrow> Inr None | Inl e \<Rightarrow> Inl e | Inr root \<Rightarrow> Inr (Some root)) = Inr root"
    using assms(1) unfolding verifySessionLaunch_def bind_result_Inr lift_error_Inr by blast
  note v = assms(1) [unfolded verifySessionLaunch_def r p m bind_result_def sum.case lift_error_simps Let_def]
  have d: "ms_Disagreements m = []" using v assms(2) by (auto split: if_split_asm)
  obtain anchor where a: "Load env ledger uid (ap_Origin app) = Inr anchor"
    using v assms(2) d by (cases "Load env ledger uid (ap_Origin app)") auto
  obtain an where an: "anchor = Some an" using v assms(2) d a by (cases anchor) auto
  obtain pr where pr: "root = Some pr" using v assms(2) d a an by (cases root) (auto split: if_split_asm)
  have u: "ms_Unrecorded m = []" using v assms(2) d a an pr by (auto split: if_split_asm)
  have rec: "(if sid = [] then Some (an_LaunchRoot an) else map_of (an_SessionRoots an) sid) =
      Some (LaunchRoot (hx_sha256 (ae_hashes env)) pr policyRoot)"
    using v assms(2) d a an pr u by (auto split: if_split_asm)
  have "launchPackageRoot st app found addons = Inr pr"
    using r pr by (auto split: sum.split_asm launch_error.split_asm)
  then obtain described where "launchPackage st app found addons = Inr described" "PackageRoot (ln_digest st) described = Inr pr"
    by (auto simp: launchPackageRoot_def bind_result_Inr)
  then show ?thesis using a an p rec measured_launch [OF m d u] by blast
qed

lemma let_through:
  assumes "gateSessionLaunch env ledger st settings uid app override sid found addons = Inr (identity, None)"
    and "Enforcement settings = EnforcementRefuse \<or>
      (\<exists>a. Load env ledger uid (ap_Origin app) = Inr (Some a) \<and> (sid = [] \<or> map_of (an_SessionRoots a) sid \<noteq> None))"
  shows "verifySessionLaunch env ledger st uid app override sid found addons = Inr identity \<and> li_Verdict identity = LaunchRecognised"
proof -
  have v: "verifySessionLaunch env ledger st uid app override sid found addons = Inr identity"
    and no: "launchRefusal (Enforcement settings) (ap_Origin app) identity = None"
    using assms(1) by (auto simp: gateSessionLaunch_def bind_result_Inr)
  have "li_Verdict identity \<notin> {LaunchUnenrolled, LaunchUnverifiable}" if refuse: "Enforcement settings \<noteq> EnforcementRefuse"
  proof -
    obtain a where "Load env ledger uid (ap_Origin app) = Inr (Some a)" "sid = [] \<or> map_of (an_SessionRoots a) sid \<noteq> None"
      using assms(2) refuse by blast
    then show ?thesis
      using v by (auto simp: verifySessionLaunch_def bind_result_Inr Let_def split: if_split_asm)
  qed
  then show ?thesis using v no
    by (cases "li_Verdict identity") (auto simp: launchRefusal_def unclaimedLaunchRefusal_def split: if_split_asm)
qed

text \<open>C2: Nothing that is known to be wrong starts, and on a host that refuses nothing unknown does: a launch
  the gate lets through, on a host set to refuse or of an application or session the ledger holds an
  anchor for, is one whose package and policy derive exactly the launch root that anchor records,
  whose layers are all bound, and whose store still holds, layer by layer, the state it recorded
  and the checkout that state describes.\<close>

theorem gate_admits_only_what_is_enrolled:
  assumes "gateSessionLaunch env ledger st settings uid app override sid found addons = Inr (identity, None)"
    and "Enforcement settings = EnforcementRefuse \<or>
      (\<exists>a. Load env ledger uid (ap_Origin app) = Inr (Some a) \<and> (sid = [] \<or> map_of (an_SessionRoots a) sid \<noteq> None))"
  shows "\<exists>anchor described packageRoot policyRoot.
      Load env ledger uid (ap_Origin app) = Inr (Some anchor) \<and>
      launchPackage st app found addons = Inr described \<and> PackageRoot (ln_digest st) described = Inr packageRoot \<and>
      PolicyRoot (hx_policy (ae_hashes env)) override = Inr policyRoot \<and>
      (if sid = [] then Some (an_LaunchRoot anchor) else map_of (an_SessionRoots anchor) sid) =
        Some (LaunchRoot (hx_sha256 (ae_hashes env)) packageRoot policyRoot) \<and>
      (\<forall>layer \<in> set (composedLayers app found addons).
         measured_sound st layer \<and> (\<exists>b \<in> set (pk_Layers described). layer_binding st layer = Inr (Some b)))"
proof -
  from let_through [OF assms] recognised_launch obtain anchor described packageRoot policyRoot where
    l: "Load env ledger uid (ap_Origin app) = Inr (Some anchor)"
      "launchPackage st app found addons = Inr described" "PackageRoot (ln_digest st) described = Inr packageRoot"
      "PolicyRoot (hx_policy (ae_hashes env)) override = Inr policyRoot"
      "(if sid = [] then Some (an_LaunchRoot anchor) else map_of (an_SessionRoots anchor) sid) =
        Some (LaunchRoot (hx_sha256 (ae_hashes env)) packageRoot policyRoot)"
      "\<forall>layer \<in> set (composedLayers app found addons). measured_sound st layer"
    by blast
  have "bound_layers st (composedLayers app found addons) = Inr (pk_Layers described)"
    using l(2) by (auto simp: launchPackage_def bind_result_Inr)
  from bound_layers_Inr [OF this] l show ?thesis by blast
qed


end
