(* ===== verification/Authority_Service.thy ===== *)
theory Authority_Service
  imports Anchor_Ledger Session_Registry Enforcement_Store
begin

text \<open>
  \<^verbatim>\<open>pkg/systemauthority/service.go\<close>, \<^verbatim>\<open>socket.go\<close>, \<^verbatim>\<open>client.go\<close>, \<^verbatim>\<open>escalation.go\<close>, \<^verbatim>\<open>staleness.go\<close> and the
  part of \<^verbatim>\<open>anchor.go\<close> that carries requests: what the authority answers on the bus and on its socket,
  and how a client walks from one to the other.  The JSON codecs, what polkit answers, which account
  is behind a bus name and whether a transport can be reached are arguments.
\<close>

section \<open>What the authority keeps\<close>

record reputationConfirmationWire =
  rw_Result :: Result
  rw_Decision :: ReputationDecision
  rw_SignatureMode :: string
  rw_ReputationMode :: string

datatype authority_error =
  Au_ledger ledger_error | Au_session session_error | Au_setting setting_error
| Policy_too_large | Policy_undecodable | Signed_state_too_large | Signed_state_undecodable
| Payload_encoding_unsupported | Payload_not_base64 | Trust_document_too_large | Trust_document_undecodable
| Trust_policy_invalid | Trust_policy_not_written
| Authorizer_missing | Authorization_denied | Caller_unidentified | Request_undecodable | Another_action
| Confirmation_unusable

text \<open>
  An error of the bus, by its name; \<open>Bus_unreachable\<close> are the four names the bus itself answers with
  when it cannot produce the authority.
\<close>

datatype bus_error =
  Bus_stale | Bus_invalid authority_error | Bus_not_authorized authority_error | Bus_failed authority_error
| Bus_confirmation string reputationConfirmationWire | Bus_refused reputationConfirmationWire | Bus_unreachable

datatype state_document = Common_evidence State int string string string | Bare_state State

record wire_codec =
  wc_policy :: "Override \<Rightarrow> string"
  wc_decode_policy :: "string \<Rightarrow> Override option"
  wc_state :: "SignedState \<Rightarrow> string"
  wc_decode_state :: "string \<Rightarrow> state_document option"
  wc_base64 :: "string \<Rightarrow> string"
  wc_unbase64 :: "string \<Rightarrow> string option"
  wc_decode_trust :: "string \<Rightarrow> Policy option"
  wc_document :: "reputationConfirmationWire \<Rightarrow> string"
  wc_decode_document :: "string \<Rightarrow> reputationConfirmationWire option"

record authority =
  sv_sessions :: session_state
  sv_ledger :: ledger
  sv_settings :: EnforcementStore
  sv_local :: confirmations

text \<open>
  \<open>sv_local\<close> are the confirmations of the client's own process, which is the one that issues them
  when it runs as root; \<open>se_authorizer\<close> is the question put to polkit with its details, \<open>se_callerUID\<close> the bus naming the
  account behind a sender, and \<open>se_installed\<close> whether the running binary is the installed one.
\<close>

record service_env =
  se_env :: authority_env
  se_codec :: wire_codec
  se_registry :: Registry
  se_faults :: session_faults
  se_unmade :: bool
  se_unwritten :: bool
  se_now :: instant
  se_random :: "string option"
  se_installed :: bool
  se_authorizer :: "(string \<Rightarrow> string \<Rightarrow> (string \<times> string) list \<Rightarrow> bool) option"
  se_callerUID :: "(string \<Rightarrow> u32 option) option"

abbreviation se_hashes :: "service_env \<Rightarrow> hashes" where "se_hashes env \<equiv> ae_hashes (se_env env)"

definition ActionForgetAnchor :: string where "ActionForgetAnchor = ''it.cpak.system.forget-anchor''"
definition ActionForgetAnchorOther :: string where "ActionForgetAnchorOther = ''it.cpak.system.forget-anchor-other''"
definition ActionClearRemoval :: string where "ActionClearRemoval = ''it.cpak.system.clear-removal''"
definition ActionRegisterSession :: string where "ActionRegisterSession = ''it.cpak.system.register-session''"
definition ActionRemoveSession :: string where "ActionRemoveSession = ''it.cpak.system.remove-session''"
definition ActionSetEnforcement :: string where "ActionSetEnforcement = ''it.cpak.system.set-enforcement''"
definition ActionSetSignaturePolicy :: string where "ActionSetSignaturePolicy = ''it.cpak.system.set-signature-policy''"
definition ActionSetTrustPolicy :: string where "ActionSetTrustPolicy = ''it.cpak.system.set-trust-policy''"

section \<open>Values on the wire\<close>

definition policySizeLimit :: nat where "policySizeLimit = 32768"
definition encodedBundleLimit :: nat where "encodedBundleLimit = (signatureBundleLimit + 2) div 3 * 4"
definition trustPolicySizeLimit :: nat where "trustPolicySizeLimit = 65536"

definition encodePolicy :: "wire_codec \<Rightarrow> Override option \<Rightarrow> string" where
  "encodePolicy codec policy = (case policy of None \<Rightarrow> [] | Some p \<Rightarrow> wc_policy codec p)"

definition decodePolicy :: "wire_codec \<Rightarrow> string \<Rightarrow> authority_error + Override option" where
  "decodePolicy codec encoded =
     (if encoded = [] then Inr None
      else if length encoded > policySizeLimit then Inl Policy_too_large
      else case wc_decode_policy codec encoded of None \<Rightarrow> Inl Policy_undecodable | Some p \<Rightarrow> Inr (Some p))"

definition encodeSignedState :: "wire_codec \<Rightarrow> SignedState \<Rightarrow> string \<times> string" where
  "encodeSignedState codec s = (wc_state codec s, wc_base64 codec (ss_Bundle s))"

definition decodeSignedState :: "wire_codec \<Rightarrow> string \<Rightarrow> string \<Rightarrow> authority_error + SignedState option" where
  "decodeSignedState codec state bundle =
     (if state = [] \<and> bundle = [] then Inr None
      else if length state > signatureBundleLimit \<or> length bundle > encodedBundleLimit then Inl Signed_state_too_large
      else case wc_decode_state codec state of None \<Rightarrow> Inl Signed_state_undecodable
      | Some (Common_evidence s abi kind media encoding) \<Rightarrow>
          if encoding \<noteq> ''base64'' then Inl Payload_encoding_unsupported
          else (case wc_unbase64 codec bundle of None \<Rightarrow> Inl Payload_not_base64
            | Some payload \<Rightarrow>
                if length payload > signatureBundleLimit then Inl Signed_state_too_large
                else Inr (Some \<lparr>ss_State = s, ss_Bundle = payload, ss_ABI = abi, ss_Kind = kind, ss_MediaType = media\<rparr>))
      | Some (Bare_state s) \<Rightarrow>
          if length bundle > signatureBundleLimit then Inl Signed_state_too_large
          else Inr (Some \<lparr>ss_State = s, ss_Bundle = bundle, ss_ABI = 0, ss_Kind = [], ss_MediaType = []\<rparr>))"

text \<open>
  The bus takes an anchor apart into plain values and puts it together again: the arguments of
  \<^verbatim>\<open>EnrolAnchor\<close>, which are those of \<^verbatim>\<open>EnrolSignedAnchor\<close> as well.
\<close>

record bus_anchor =
  ba_ABI :: "32 word"
  ba_UID :: u32
  ba_Origin :: string
  ba_Generation :: u64
  ba_ImageDigest :: string
  ba_ManifestDigest :: string
  ba_PackageRoot :: string
  ba_PolicyRoot :: string
  ba_LaunchRoot :: string

definition bus_arguments :: "Anchor \<Rightarrow> bus_anchor" where
  "bus_arguments a = \<lparr>ba_ABI = word_of_int (an_ABI a), ba_UID = an_UID a, ba_Origin = an_Origin a, ba_Generation = an_Generation a,
     ba_ImageDigest = an_ImageDigest a, ba_ManifestDigest = an_ManifestDigest a, ba_PackageRoot = an_PackageRoot a,
     ba_PolicyRoot = an_PolicyRoot a, ba_LaunchRoot = an_LaunchRoot a\<rparr>"

definition anchor_from_bus :: "bus_anchor \<Rightarrow> Anchor" where
  "anchor_from_bus b = \<lparr>an_ABI = sint (ba_ABI b), an_UID = ba_UID b, an_Origin = ba_Origin b, an_Generation = ba_Generation b,
     an_ImageDigest = ba_ImageDigest b, an_ManifestDigest = ba_ManifestDigest b, an_PackageRoot = ba_PackageRoot b,
     an_PolicyRoot = ba_PolicyRoot b, an_LaunchRoot = ba_LaunchRoot b, an_SessionRoots = []\<rparr>"

text \<open>An enrolment as a caller states it: what the authority works out is left empty.\<close>

definition enrolment_of :: "Anchor \<Rightarrow> Override option \<Rightarrow> SignedState option \<Rightarrow> Enrolment" where
  "enrolment_of a policy s = \<lparr>er_Anchor = a, er_Policy = policy, er_PolicySchema = 0, er_Signature = s, er_Verification = None,
     er_Reputation = None, er_ReputationDecision = None, er_SignatureMode = [], er_ReputationMode = []\<rparr>"

section \<open>The bus\<close>

definition decimal_text :: "'a::len word \<Rightarrow> string" where "decimal_text w = show_nat (unat w)"

definition enrolmentAction :: "service_env \<Rightarrow> authority \<Rightarrow> string \<Rightarrow> Enrolment \<Rightarrow> ledger_error + string" where
  "enrolmentAction env s sender e =
     (case se_callerUID env of None \<Rightarrow> Inr ActionWidenAnchor
      | Some name \<Rightarrow> (case name sender of None \<Rightarrow> Inr ActionWidenAnchor
          | Some uid \<Rightarrow> if uid \<noteq> er_UID e then Inr ActionWidenAnchor else authorizationFor (se_env env) (sv_ledger s) e))"

definition forgetAction :: "service_env \<Rightarrow> string \<Rightarrow> u32 \<Rightarrow> string" where
  "forgetAction env sender uid =
     (case se_callerUID env of None \<Rightarrow> ActionForgetAnchorOther
      | Some name \<Rightarrow> if name sender = Some uid then ActionForgetAnchor else ActionForgetAnchorOther)"

definition asked :: "service_env \<Rightarrow> string \<Rightarrow> string \<Rightarrow> (string \<times> string) list \<Rightarrow> bus_error err" where
  "asked env sender action details =
     (case se_authorizer env of None \<Rightarrow> Some (Bus_not_authorized Authorizer_missing)
      | Some ask \<Rightarrow> if ask sender action details then None else Some (Bus_not_authorized Authorization_denied))"

definition confirmation_wire :: "service_env \<Rightarrow> ledger \<Rightarrow> Result \<Rightarrow> ReputationDecision \<Rightarrow> reputationConfirmationWire" where
  "confirmation_wire env l result decision =
     \<lparr>rw_Result = result, rw_Decision = decision, rw_SignatureMode = (case SignaturePolicy l of Inl _ \<Rightarrow> [] | Inr p \<Rightarrow> p),
      rw_ReputationMode = (case TrustPolicy (se_env env) l of Inl _ \<Rightarrow> [] | Inr p \<Rightarrow> reputation_mode p)\<rparr>"

definition enrolmentFailed :: "service_env \<Rightarrow> ledger \<Rightarrow> ledger_error \<Rightarrow> bus_error" where
  "enrolmentFailed env l e =
     (case e of Confirmation_required token result decision \<Rightarrow> Bus_confirmation token (confirmation_wire env l result decision)
      | Reputation_refused result decision \<Rightarrow> Bus_refused (confirmation_wire env l result decision)
      | _ \<Rightarrow> Bus_failed (Au_ledger e))"

text \<open>What \<^verbatim>\<open>EnrolAnchor\<close> and \<^verbatim>\<open>enrolThrough\<close> share once the request is validated: decide how hard to ask, ask, record.\<close>

definition ask_and_record ::
  "service_env \<Rightarrow> (ledger \<Rightarrow> ledger_error \<Rightarrow> bus_error) \<Rightarrow> string \<Rightarrow> Enrolment \<Rightarrow> string \<Rightarrow> authority \<Rightarrow> bus_error err \<times> authority" where
  "ask_and_record env failing sender e confirmation s =
     (if se_authorizer env = None then (Some (Bus_not_authorized Authorizer_missing), s)
      else case enrolmentAction env s sender e of Inl x \<Rightarrow> (Some (Bus_failed (Au_ledger x)), s)
      | Inr action \<Rightarrow>
          (case asked env sender action [(''package-origin'', er_Origin e), (''target-uid'', decimal_text (er_UID e)),
               (''generation'', decimal_text (er_Generation e))] of
             Some x \<Rightarrow> (Some x, s)
           | None \<Rightarrow>
               (case record_enrolment (se_env env) (sv_ledger s) e confirmation (se_now env) (se_random env) of
                  (x, l) \<Rightarrow> (map_option (failing (sv_ledger s)) x, s\<lparr>sv_ledger := l\<rparr>))))"

definition bus_EnrolAnchor :: "service_env \<Rightarrow> string \<Rightarrow> bus_anchor \<Rightarrow> string \<Rightarrow> authority \<Rightarrow> bus_error err \<times> authority" where
  "bus_EnrolAnchor env sender anchor policy s =
     (if \<not> se_installed env then (Some Bus_stale, s)
      else case decodePolicy (se_codec env) policy of Inl x \<Rightarrow> (Some (Bus_invalid x), s)
      | Inr decoded \<Rightarrow>
          (let e = enrolment_of (anchor_from_bus anchor) decoded None in
           case validateEnrolment (se_hashes env) e of Some x \<Rightarrow> (Some (Bus_invalid (Au_ledger x)), s)
           | None \<Rightarrow> ask_and_record env (\<lambda>_ x. Bus_failed (Au_ledger x)) sender e [] s))"

definition Signer :: "service_env \<Rightarrow> Enrolment \<Rightarrow> ledger_error err" where
  "Signer env e =
     (case er_Signature e of None \<Rightarrow> None
      | Some s \<Rightarrow> (case VerifyPublisher (se_env env) s (er_Origin e) (se_now env) of Inl x \<Rightarrow> Some x | Inr _ \<Rightarrow> None))"

definition enrolThrough :: "service_env \<Rightarrow> string \<Rightarrow> Enrolment \<Rightarrow> string \<Rightarrow> authority \<Rightarrow> bus_error err \<times> authority" where
  "enrolThrough env sender e confirmation s =
     (case validateEnrolment (se_hashes env) e of Some x \<Rightarrow> (Some (Bus_invalid (Au_ledger x)), s)
      | None \<Rightarrow>
          (case Signer env e of Some x \<Rightarrow> (Some (Bus_invalid (Au_ledger x)), s)
           | None \<Rightarrow> ask_and_record env (enrolmentFailed env) sender e confirmation s))"

definition enrol_signed :: "service_env \<Rightarrow> string \<Rightarrow> bus_anchor \<Rightarrow> string \<Rightarrow> string \<Rightarrow> string \<Rightarrow> string \<Rightarrow> authority \<Rightarrow>
    bus_error err \<times> authority" where
  "enrol_signed env sender anchor policy state bundle confirmation s =
     (case decodePolicy (se_codec env) policy of Inl x \<Rightarrow> (Some (Bus_invalid x), s)
      | Inr decoded \<Rightarrow>
          (case decodeSignedState (se_codec env) state bundle of Inl x \<Rightarrow> (Some (Bus_invalid x), s)
           | Inr attached \<Rightarrow> enrolThrough env sender (enrolment_of (anchor_from_bus anchor) decoded attached) confirmation s))"

definition EnrolSignedAnchor :: "service_env \<Rightarrow> string \<Rightarrow> bus_anchor \<Rightarrow> string \<Rightarrow> string \<Rightarrow> string \<Rightarrow> authority \<Rightarrow>
    bus_error err \<times> authority" where
  "EnrolSignedAnchor env sender anchor policy state bundle s =
     (if \<not> se_installed env then (Some Bus_stale, s) else enrol_signed env sender anchor policy state bundle [] s)"

definition EnrolSignedAnchorConfirmed :: "service_env \<Rightarrow> string \<Rightarrow> bus_anchor \<Rightarrow> string \<Rightarrow> string \<Rightarrow> string \<Rightarrow> string \<Rightarrow>
    authority \<Rightarrow> bus_error err \<times> authority" where
  "EnrolSignedAnchorConfirmed env sender anchor policy state bundle confirmation s =
     (if \<not> se_installed env then (Some Bus_stale, s)
      else if confirmation = [] \<or> length confirmation > 64 then (Some (Bus_invalid Confirmation_unusable), s)
      else enrol_signed env sender anchor policy state bundle confirmation s)"

text \<open>The other methods are alike: refuse when stale, validate, ask, do.\<close>

definition served ::
  "service_env \<Rightarrow> authority_error err \<Rightarrow> string \<Rightarrow> string \<Rightarrow> (string \<times> string) list \<Rightarrow>
   (authority \<Rightarrow> authority_error err \<times> authority) \<Rightarrow> authority \<Rightarrow> bus_error err \<times> authority" where
  "served env invalid sender action details act s =
     (if \<not> se_installed env then (Some Bus_stale, s)
      else case invalid of Some x \<Rightarrow> (Some (Bus_invalid x), s)
      | None \<Rightarrow>
          (case asked env sender action details of Some x \<Rightarrow> (Some x, s)
           | None \<Rightarrow> (case act s of (x, s') \<Rightarrow> (map_option Bus_failed x, s'))))"

definition do_register :: "service_env \<Rightarrow> Session \<Rightarrow> authority \<Rightarrow> authority_error err \<times> authority" where
  "do_register env session s =
     (case Register (se_registry env) (se_faults env) session (sv_sessions s) of
        (x, sessions) \<Rightarrow> (map_option Au_session x, s\<lparr>sv_sessions := sessions\<rparr>))"

definition do_remove :: "service_env \<Rightarrow> string \<Rightarrow> string \<Rightarrow> authority \<Rightarrow> authority_error err \<times> authority" where
  "do_remove env i origin s =
     (case Session_Remove (se_registry env) (se_faults env) i origin (sv_sessions s) of
        (x, sessions) \<Rightarrow> (map_option Au_session x, s\<lparr>sv_sessions := sessions\<rparr>))"

definition do_forget :: "service_env \<Rightarrow> u32 \<Rightarrow> string \<Rightarrow> authority \<Rightarrow> authority_error err \<times> authority" where
  "do_forget env uid origin s =
     (case Forget (se_env env) (sv_ledger s) uid origin of
        Inl x \<Rightarrow> (Some (Au_ledger x), s) | Inr l \<Rightarrow> (None, s\<lparr>sv_ledger := l\<rparr>))"

definition do_clear :: "service_env \<Rightarrow> u32 \<Rightarrow> string \<Rightarrow> authority \<Rightarrow> authority_error err \<times> authority" where
  "do_clear env uid origin s =
     (case ClearForgotten (se_env env) (sv_ledger s) uid origin of
        Inl x \<Rightarrow> (Some (Au_ledger x), s) | Inr l \<Rightarrow> (None, s\<lparr>sv_ledger := l\<rparr>))"

definition do_level :: "service_env \<Rightarrow> string \<Rightarrow> authority \<Rightarrow> authority_error err \<times> authority" where
  "do_level env level s =
     (case Set_level (se_unmade env) (se_unwritten env) level (sv_settings s) of
        (x, settings) \<Rightarrow> (map_option Au_setting x, s\<lparr>sv_settings := settings\<rparr>))"

definition session_request_error :: "string \<Rightarrow> string \<Rightarrow> authority_error err" where
  "session_request_error i origin =
     (if \<not> valid_session_id i then Some (Au_session Invalid_session_identifier)
      else map_option Au_ledger (validatePackageOrigin origin))"

definition bus_RegisterSession :: "service_env \<Rightarrow> string \<Rightarrow> Session \<Rightarrow> authority \<Rightarrow> bus_error err \<times> authority" where
  "bus_RegisterSession env sender session =
     served env (map_option Au_session (Session_Validate session)) sender ActionRegisterSession
       [(''session-id'', ss_ID session), (''package-origin'', ss_Origin session), (''session-kind'', ss_Kind session)]
       (do_register env session)"

definition bus_RemoveSession :: "service_env \<Rightarrow> string \<Rightarrow> string \<Rightarrow> string \<Rightarrow> authority \<Rightarrow> bus_error err \<times> authority" where
  "bus_RemoveSession env sender i origin =
     served env (session_request_error i origin) sender ActionRemoveSession
       [(''session-id'', i), (''package-origin'', origin)] (do_remove env i origin)"

definition bus_ForgetAnchor :: "service_env \<Rightarrow> string \<Rightarrow> u32 \<Rightarrow> string \<Rightarrow> authority \<Rightarrow> bus_error err \<times> authority" where
  "bus_ForgetAnchor env sender uid origin =
     served env (map_option Au_ledger (validatePackageOrigin origin)) sender (forgetAction env sender uid)
       [(''package-origin'', origin), (''target-uid'', decimal_text uid)] (do_forget env uid origin)"

definition bus_ClearForgottenAnchor :: "service_env \<Rightarrow> string \<Rightarrow> u32 \<Rightarrow> string \<Rightarrow> authority \<Rightarrow> bus_error err \<times> authority" where
  "bus_ClearForgottenAnchor env sender uid origin =
     served env (map_option Au_ledger (validatePackageOrigin origin)) sender ActionClearRemoval
       [(''package-origin'', origin), (''target-uid'', decimal_text uid)] (do_clear env uid origin)"

definition bus_SetEnforcement :: "service_env \<Rightarrow> string \<Rightarrow> string \<Rightarrow> authority \<Rightarrow> bus_error err \<times> authority" where
  "bus_SetEnforcement env sender level =
     served env (if valid_level level then None else Some (Au_setting Not_a_level)) sender ActionSetEnforcement
       [(''enforcement-level'', level)] (do_level env level)"

text \<open>
  The signature policy and the trust policy are files beside the ledger, which reads them too:
  a write to one of them is seen there.
\<close>

definition setting_seen :: "EnforcementStore \<Rightarrow> string setting" where
  "setting_seen settings =
     (case es_files settings (Join [es_Directory settings, ''signatures'']) of
        No_file \<Rightarrow> Absent | Foreign_file \<Rightarrow> Untrusted | Trusted_file data \<Rightarrow> Present data)"

definition do_signatures :: "service_env \<Rightarrow> string \<Rightarrow> authority \<Rightarrow> authority_error err \<times> authority" where
  "do_signatures env policy s =
     (case SetSignaturePolicy (se_unmade env) (se_unwritten env) policy (sv_settings s) of
        (x, settings) \<Rightarrow>
          (map_option Au_setting x,
           if x = None then s\<lparr>sv_settings := settings, sv_ledger := (sv_ledger s)\<lparr>lg_signatures := setting_seen settings\<rparr>\<rparr>
           else s\<lparr>sv_settings := settings\<rparr>))"

definition bus_SetSignaturePolicy :: "service_env \<Rightarrow> string \<Rightarrow> string \<Rightarrow> authority \<Rightarrow> bus_error err \<times> authority" where
  "bus_SetSignaturePolicy env sender policy =
     served env (if valid_signatures policy then None else Some (Au_setting Not_a_policy)) sender ActionSetSignaturePolicy
       [(''signature-policy'', policy)] (do_signatures env policy)"

definition decodeTrustPolicy :: "service_env \<Rightarrow> string \<Rightarrow> authority_error + Policy" where
  "decodeTrustPolicy env document =
     (if length document > trustPolicySizeLimit then Inl Trust_document_too_large
      else case wc_decode_trust (se_codec env) document of None \<Rightarrow> Inl Trust_document_undecodable
      | Some policy \<Rightarrow>
          if Policy_Validate (ae_parse_url (se_env env)) policy \<noteq> None then Inl Trust_policy_invalid else Inr policy)"

definition TrustStore_Set :: "service_env \<Rightarrow> Policy \<Rightarrow> authority \<Rightarrow> authority_error err \<times> authority" where
  "TrustStore_Set env policy s =
     (if Policy_Validate (ae_parse_url (se_env env)) policy \<noteq> None then (Some Trust_policy_invalid, s)
      else if \<not> IsAbs (lg_Directory (sv_ledger s)) then (Some (Au_ledger Anchor_path_not_absolute), s)
      else if \<not> lg_trusted (sv_ledger s) then (Some (Au_ledger Directory_untrusted), s)
      else if se_unmade env \<or> se_unwritten env then (Some Trust_policy_not_written, s)
      else (None, s\<lparr>sv_ledger := (sv_ledger s)\<lparr>lg_trust := Present policy\<rparr>\<rparr>))"

definition bus_SetTrustPolicy :: "service_env \<Rightarrow> string \<Rightarrow> string \<Rightarrow> authority \<Rightarrow> bus_error err \<times> authority" where
  "bus_SetTrustPolicy env sender document s =
     (case decodeTrustPolicy env document of
        Inl x \<Rightarrow> served env (Some x) sender ActionSetTrustPolicy [] (\<lambda>s. (None, s)) s
      | Inr policy \<Rightarrow>
          served env None sender ActionSetTrustPolicy
            [(''approved-origins'', show_nat (length (ApprovedOrigins policy))), (''approved-signers'', show_nat (length (ApprovedSigners policy))),
             (''revocations'', show_nat (length (Revoked policy)))] (TrustStore_Set env policy) s)"

section \<open>The socket\<close>

record socketRequest =
  sq_Action :: string
  sq_ID :: string
  sq_Origin :: string
  sq_Name :: string
  sq_Description :: string
  sq_Kind :: string
  sq_UID :: u32
  sq_Anchor :: "Anchor option"
  sq_Policy :: "Override option"
  sq_Signature :: "SignedState option"
  sq_Confirmation :: string
  sq_Level :: string

definition request_of :: "string \<Rightarrow> socketRequest" where
  "request_of action = \<lparr>sq_Action = action, sq_ID = [], sq_Origin = [], sq_Name = [], sq_Description = [], sq_Kind = [], sq_UID = 0,
     sq_Anchor = None, sq_Policy = None, sq_Signature = None, sq_Confirmation = [], sq_Level = []\<rparr>"

abbreviation anchorEnrolAction :: string where "anchorEnrolAction \<equiv> ''enrol''"
abbreviation anchorForgetAction :: string where "anchorForgetAction \<equiv> ''forget''"
abbreviation anchorClearAction :: string where "anchorClearAction \<equiv> ''clear-removal''"
abbreviation enforcementSetAction :: string where "enforcementSetAction \<equiv> ''set-enforcement''"

datatype request_error = Root_required | Request_refused authority_error

definition enrolmentFromSocket :: "hashes \<Rightarrow> socketRequest \<Rightarrow> ledger_error + Enrolment" where
  "enrolmentFromSocket hx m =
     (case sq_Anchor m of None \<Rightarrow> Inl Request_without_anchor
      | Some a \<Rightarrow>
          (let e = enrolment_of a (sq_Policy m) (sq_Signature m) in
           case validateEnrolment hx e of Some x \<Rightarrow> Inl x | None \<Rightarrow> Inr e))"

definition applyAnchor :: "service_env \<Rightarrow> socketRequest \<Rightarrow> authority \<Rightarrow> authority_error err \<times> authority" where
  "applyAnchor env m s =
     (if sq_Action m = anchorEnrolAction then
        (case enrolmentFromSocket (se_hashes env) m of Inl x \<Rightarrow> (Some (Au_ledger x), s)
         | Inr e \<Rightarrow>
             if sq_Confirmation m \<noteq> [] \<and> (er_Signature e = None \<or> length (sq_Confirmation m) > 64)
             then (Some Confirmation_unusable, s)
             else (case record_enrolment (se_env env) (sv_ledger s) e (sq_Confirmation m) (se_now env) (se_random env) of
                 (x, l) \<Rightarrow> (map_option Au_ledger x, s\<lparr>sv_ledger := l\<rparr>)))
      else if sq_Action m = anchorForgetAction \<or> sq_Action m = anchorClearAction then
        (if sq_Confirmation m \<noteq> [] then (Some (Au_ledger Confirmation_not_valid_here), s)
         else case validatePackageOrigin (sq_Origin m) of Some x \<Rightarrow> (Some (Au_ledger x), s)
         | None \<Rightarrow> if sq_Action m = anchorForgetAction then do_forget env (sq_UID m) (sq_Origin m) s
             else do_clear env (sq_UID m) (sq_Origin m) s)
      else (Some (Au_ledger Unsupported_authority_action), s))"

definition applyEnforcement :: "service_env \<Rightarrow> socketRequest \<Rightarrow> authority \<Rightarrow> authority_error err \<times> authority" where
  "applyEnforcement env m s =
     (if sq_Action m \<noteq> enforcementSetAction then (Some (Au_ledger Unsupported_authority_action), s) else do_level env (sq_Level m) s)"

definition authorizeSocketRequest :: "service_env \<Rightarrow> u32 \<Rightarrow> socketRequest \<Rightarrow> ledger \<Rightarrow> request_error err" where
  "authorizeSocketRequest env uid m l =
     (if uid = 0 then None
      else if sq_Action m = anchorEnrolAction then
        (if map_option an_UID (sq_Anchor m) \<noteq> Some uid then Some Root_required
         else case enrolmentFromSocket (se_hashes env) m of Inl x \<Rightarrow> Some (Request_refused (Au_ledger x))
         | Inr e \<Rightarrow>
             (case Signer env e of Some x \<Rightarrow> Some (Request_refused (Au_ledger x))
              | None \<Rightarrow>
                  (case authorizationFor (se_env env) l e of Inl x \<Rightarrow> Some (Request_refused (Au_ledger x))
                   | Inr action \<Rightarrow> if action = ActionEnrolAnchor then None else Some Root_required)))
      else if sq_Action m = anchorForgetAction \<and> sq_UID m = uid then None
      else Some Root_required)"

definition socket_session :: "socketRequest \<Rightarrow> Session" where
  "socket_session m = \<lparr>ss_ID = sq_ID m, ss_Origin = sq_Origin m, ss_Name = sq_Name m, ss_Description = sq_Description m, ss_Kind = sq_Kind m\<rparr>"

definition socket_apply :: "service_env \<Rightarrow> u32 option \<Rightarrow> socketRequest \<Rightarrow> authority \<Rightarrow> request_error err \<times> authority" where
  "socket_apply env credentials m s =
     (case credentials of None \<Rightarrow> (Some (Request_refused Caller_unidentified), s)
      | Some uid \<Rightarrow>
          (case authorizeSocketRequest env uid m (sv_ledger s) of Some x \<Rightarrow> (Some x, s)
           | None \<Rightarrow>
               (let (x, s) =
                  (if sq_Action m \<in> {anchorEnrolAction, anchorForgetAction, anchorClearAction} then applyAnchor env m s
                   else if sq_Action m = ''register'' then
                     (case Session_Validate (socket_session m) of Some x \<Rightarrow> (Some (Au_session x), s)
                      | None \<Rightarrow> do_register env (socket_session m) s)
                   else if sq_Action m = ''remove'' then
                     (case session_request_error (sq_ID m) (sq_Origin m) of Some x \<Rightarrow> (Some x, s)
                      | None \<Rightarrow> do_remove env (sq_ID m) (sq_Origin m) s)
                   else if sq_Action m = enforcementSetAction then applyEnforcement env m s
                   else (Some (Au_ledger Unsupported_authority_action), s))
                in (map_option Request_refused x, s))))"

record socketResponse =
  so_Error :: "authority_error option"
  so_Code :: string
  so_Token :: string
  so_Data :: string

definition socketCodeRootRequired :: string where "socketCodeRootRequired = ''root-required''"
definition socketCodeReputationConfirmationRequired :: string where
  "socketCodeReputationConfirmationRequired = ''reputation-confirmation-required''"
definition socketCodeReputationRefused :: string where "socketCodeReputationRefused = ''reputation-refused''"

text \<open>\<open>l\<close> is the ledger the request met: the modes of a warning are the ones it read there.\<close>

definition writeResponse :: "service_env \<Rightarrow> ledger \<Rightarrow> request_error err \<Rightarrow> socketResponse" where
  "writeResponse env l x =
     (case x of None \<Rightarrow> \<lparr>so_Error = None, so_Code = [], so_Token = [], so_Data = []\<rparr>
      | Some Root_required \<Rightarrow> \<lparr>so_Error = Some Authorization_denied, so_Code = socketCodeRootRequired, so_Token = [], so_Data = []\<rparr>
      | Some (Request_refused (Au_ledger (Confirmation_required token result decision))) \<Rightarrow>
          \<lparr>so_Error = Some (Au_ledger (Confirmation_required token result decision)),
           so_Code = socketCodeReputationConfirmationRequired, so_Token = token,
           so_Data = wc_document (se_codec env) (confirmation_wire env l result decision)\<rparr>
      | Some (Request_refused (Au_ledger (Reputation_refused result decision))) \<Rightarrow>
          \<lparr>so_Error = Some (Au_ledger (Reputation_refused result decision)), so_Code = socketCodeReputationRefused, so_Token = [],
           so_Data = wc_document (se_codec env) (confirmation_wire env l result decision)\<rparr>
      | Some (Request_refused e) \<Rightarrow> \<lparr>so_Error = Some e, so_Code = [], so_Token = [], so_Data = []\<rparr>)"

section \<open>The client\<close>

text \<open>
  An error of the bus reaches the client as a value or as a pointer, whichever the bus library makes of
  it.  The client asks for the one or the other with \<^verbatim>\<open>errors.As\<close>, which tells them apart.
\<close>

datatype go_error = By_value bus_error | By_pointer bus_error

datatype client_error =
  Transport_unavailable | No_authority | Client_root_required | Bus_call go_error | Local authority_error | Told authority_error
| Confirmation_needed string reputationConfirmationWire | Refused_for_reputation reputationConfirmationWire
| Answer_invalid | Escalation_failed | Refusal ledger_error

text \<open>The system bus: none, one that cannot produce the authority, one that loses its answer, one that answers.\<close>

datatype bus_status = Bus_absent | Bus_empty | Bus_silent | Bus_answers

record client =
  ct_service :: service_env
  ct_restarted :: bool
  ct_root :: bool
  ct_sender :: string
  ct_bus :: bus_status
  ct_delivered :: "bus_error \<Rightarrow> go_error"
  ct_socket :: bool
  ct_peer :: "u32 option"
  ct_encode_request :: "socketRequest \<Rightarrow> string"
  ct_decode_request :: "string \<Rightarrow> socketRequest option"
  ct_escalates :: bool

definition requestLimit :: nat where "requestLimit = 524288"

definition staleOnBus :: "client_error err \<Rightarrow> bool" where
  "staleOnBus x \<longleftrightarrow> (case x of Some (Bus_call (By_value Bus_stale)) \<Rightarrow> True | _ \<Rightarrow> False)"

definition unreachableOnBus :: "go_error \<Rightarrow> bool" where
  "unreachableOnBus g \<longleftrightarrow> (case g of By_value Bus_unreachable \<Rightarrow> True | _ \<Rightarrow> False)"

definition wire_valid :: "reputationConfirmationWire \<Rightarrow> bool" where
  "wire_valid w \<longleftrightarrow> Result_Validate (rw_Result w) = None \<and> ReputationDecision_Validate (rw_Decision w) = None \<and> valid_signatures (rw_SignatureMode w)"

definition decodeReputationConfirmationDocument :: "wire_codec \<Rightarrow> string \<Rightarrow> string \<Rightarrow> client_error" where
  "decodeReputationConfirmationDocument codec token document =
     (if token = [] \<or> length token > 64 \<or> length document > 4096 then Answer_invalid
      else case wc_decode_document codec document of None \<Rightarrow> Answer_invalid
      | Some w \<Rightarrow>
          if wire_valid w \<and> rd_Action (rw_Decision w) = ActionWarn \<and>
             rw_ReputationMode w \<in> {ReputationAudit, ReputationWarn, ReputationRequireEstablished}
          then Confirmation_needed token w else Answer_invalid)"

definition decodeReputationRefusalDocument :: "wire_codec \<Rightarrow> string \<Rightarrow> client_error" where
  "decodeReputationRefusalDocument codec document =
     (if length document > 4096 then Answer_invalid
      else case wc_decode_document codec document of None \<Rightarrow> Answer_invalid
      | Some w \<Rightarrow>
          if wire_valid w \<and> rd_Action (rw_Decision w) = ActionDeny \<and> \<not> rd_Allowed (rw_Decision w) \<and>
             (rw_ReputationMode w = ReputationWarn \<and> rr_Status (rw_Result w) = Blocked \<or>
              rw_ReputationMode w = ReputationRequireEstablished \<and> rr_Status (rw_Result w) \<noteq> Established)
          then Refused_for_reputation w else Answer_invalid)"

definition decodeReputationConfirmationError :: "wire_codec \<Rightarrow> go_error \<Rightarrow> client_error option" where
  "decodeReputationConfirmationError codec g =
     (case g of By_pointer (Bus_confirmation token w) \<Rightarrow>
          Some (decodeReputationConfirmationDocument codec token (wc_document codec w))
      | _ \<Rightarrow> None)"

definition decodeReputationRefusalError :: "wire_codec \<Rightarrow> go_error \<Rightarrow> client_error option" where
  "decodeReputationRefusalError codec g =
     (case g of By_pointer (Bus_refused w) \<Rightarrow> Some (decodeReputationRefusalDocument codec (wc_document codec w)) | _ \<Rightarrow> None)"

definition decoded_reply :: "wire_codec \<Rightarrow> go_error \<Rightarrow> client_error option" where
  "decoded_reply codec g =
     (case decodeReputationConfirmationError codec g of Some y \<Rightarrow> Some y | None \<Rightarrow> decodeReputationRefusalError codec g)"

definition called :: "client \<Rightarrow> (service_env \<Rightarrow> authority \<Rightarrow> bus_error err \<times> authority) \<Rightarrow> service_env \<Rightarrow> authority \<Rightarrow>
    go_error err \<times> authority" where
  "called c call env s =
     (if ct_bus c = Bus_empty then (Some (ct_delivered c Bus_unreachable), s)
      else case call env s of (x, s') \<Rightarrow>
        (if ct_bus c = Bus_silent then Some (ct_delivered c Bus_unreachable) else map_option (ct_delivered c) x, s'))"

definition over_bus :: "client \<Rightarrow> (go_error \<Rightarrow> client_error option) \<Rightarrow> (service_env \<Rightarrow> authority \<Rightarrow> bus_error err \<times> authority) \<Rightarrow>
    service_env \<Rightarrow> authority \<Rightarrow> client_error err \<times> authority" where
  "over_bus c decoded call env s =
     (if ct_bus c = Bus_absent then (Some Transport_unavailable, s)
      else case called c call env s of (x, s') \<Rightarrow>
        (map_option (\<lambda>g. case decoded g of Some y \<Rightarrow> y
           | None \<Rightarrow> if unreachableOnBus g then Transport_unavailable else Bus_call g) x, s'))"

definition retryPastStale :: "client \<Rightarrow> (service_env \<Rightarrow> authority \<Rightarrow> client_error err \<times> authority) \<Rightarrow> authority \<Rightarrow>
    client_error err \<times> authority" where
  "retryPastStale c call s =
     (case call (ct_service c) s of (x, s') \<Rightarrow>
        if staleOnBus x then call ((ct_service c)\<lparr>se_installed := ct_restarted c\<rparr>) s' else (x, s'))"

definition integrityCall :: "client \<Rightarrow> socketRequest \<Rightarrow> (service_env \<Rightarrow> authority \<Rightarrow> bus_error err \<times> authority) option" where
  "integrityCall c m =
     (if sq_Action m = anchorEnrolAction \<and> sq_Anchor m \<noteq> None then
        Some (\<lambda>env. bus_EnrolAnchor env (ct_sender c) (bus_arguments (the (sq_Anchor m))) (encodePolicy (se_codec env) (sq_Policy m)))
      else if sq_Action m = anchorForgetAction then Some (\<lambda>env. bus_ForgetAnchor env (ct_sender c) (sq_UID m) (sq_Origin m))
      else if sq_Action m = anchorClearAction then Some (\<lambda>env. bus_ClearForgottenAnchor env (ct_sender c) (sq_UID m) (sq_Origin m))
      else if sq_Action m = enforcementSetAction then Some (\<lambda>env. bus_SetEnforcement env (ct_sender c) (sq_Level m))
      else None)"

definition integrityOverBus :: "client \<Rightarrow> socketRequest \<Rightarrow> service_env \<Rightarrow> authority \<Rightarrow> client_error err \<times> authority" where
  "integrityOverBus c m env s =
     (if ct_bus c = Bus_absent then (Some Transport_unavailable, s)
      else case integrityCall c m of None \<Rightarrow> (Some (Local (Au_ledger Unsupported_authority_action)), s)
      | Some call \<Rightarrow> over_bus c (\<lambda>_. None) call env s)"

definition signedEnrolmentRequestOverBus :: "client \<Rightarrow> Anchor \<Rightarrow> Override option \<Rightarrow> SignedState \<Rightarrow> string \<Rightarrow> service_env \<Rightarrow> authority \<Rightarrow>
    client_error err \<times> authority" where
  "signedEnrolmentRequestOverBus c a policy attached confirmation env s =
     (let codec = se_codec env; (state, bundle) = encodeSignedState codec attached; encoded = encodePolicy codec policy in
      over_bus c
        (decoded_reply codec)
        (\<lambda>env. if confirmation = [] then EnrolSignedAnchor env (ct_sender c) (bus_arguments a) encoded state bundle
           else EnrolSignedAnchorConfirmed env (ct_sender c) (bus_arguments a) encoded state bundle confirmation) env s)"

definition decodeSocketRequest :: "client \<Rightarrow> string \<Rightarrow> socketRequest option" where
  "decodeSocketRequest c frame = (if length frame > requestLimit then None else ct_decode_request c frame)"

definition read_response :: "wire_codec \<Rightarrow> socketResponse \<Rightarrow> client_error err" where
  "read_response codec r =
     (if so_Code r = [] then map_option Told (so_Error r)
      else if so_Code r = socketCodeRootRequired then Some Client_root_required
      else if so_Code r = socketCodeReputationConfirmationRequired then
        Some (decodeReputationConfirmationDocument codec (so_Token r) (so_Data r))
      else if so_Code r = socketCodeReputationRefused then Some (decodeReputationRefusalDocument codec (so_Data r))
      else Some Answer_invalid)"

definition requestOverSocket :: "client \<Rightarrow> socketRequest \<Rightarrow> authority \<Rightarrow> client_error err \<times> authority" where
  "requestOverSocket c m s =
     (if \<not> ct_socket c then (Some Transport_unavailable, s)
      else case decodeSocketRequest c (ct_encode_request c m) of None \<Rightarrow> (Some (Told Request_undecodable), s)
      | Some m \<Rightarrow>
          (case socket_apply (ct_service c) (ct_peer c) m s of (x, s') \<Rightarrow>
             (read_response (se_codec (ct_service c)) (writeResponse (ct_service c) (sv_ledger s) x), s')))"

text \<open>
  What root does itself, and what the root role that \<^verbatim>\<open>runPrivilegedEnrolment\<close> starts does: the request
  applied by another process than the authority, with the confirmations that process holds.
\<close>

definition applied_apart :: "confirmations \<Rightarrow> (authority \<Rightarrow> authority_error err \<times> authority) \<Rightarrow> authority \<Rightarrow>
    authority_error err \<times> confirmations \<times> authority" where
  "applied_apart own act s =
     (case act (s\<lparr>sv_ledger := (sv_ledger s)\<lparr>lg_confirmations := own\<rparr>\<rparr>) of
        (x, s') \<Rightarrow> (x, lg_confirmations (sv_ledger s'),
          s'\<lparr>sv_ledger := (sv_ledger s')\<lparr>lg_confirmations := lg_confirmations (sv_ledger s)\<rparr>\<rparr>))"

definition runPrivilegedEnrolment :: "client \<Rightarrow> socketRequest \<Rightarrow> authority \<Rightarrow> client_error err \<times> authority" where
  "runPrivilegedEnrolment c m s =
     (if \<not> ct_escalates c then (Some Escalation_failed, s)
      else case decodeSocketRequest c (ct_encode_request c m) of None \<Rightarrow> (Some Escalation_failed, s)
      | Some m \<Rightarrow>
          if sq_Action m \<noteq> anchorEnrolAction then (Some Escalation_failed, s)
          else (case applied_apart [] (applyAnchor (ct_service c) m) s of
              (x, _, s') \<Rightarrow> (map_option (\<lambda>_. Escalation_failed) x, s')))"

definition local_error :: "service_env \<Rightarrow> ledger \<Rightarrow> authority_error \<Rightarrow> client_error" where
  "local_error env l x =
     (case x of Au_ledger (Confirmation_required token result decision) \<Rightarrow> Confirmation_needed token (confirmation_wire env l result decision)
      | Au_ledger (Reputation_refused result decision) \<Rightarrow> Refused_for_reputation (confirmation_wire env l result decision)
      | _ \<Rightarrow> Local x)"

definition applied_by_root :: "client \<Rightarrow> (authority \<Rightarrow> authority_error err \<times> authority) \<Rightarrow> authority \<Rightarrow> client_error err \<times> authority" where
  "applied_by_root c act s =
     (case applied_apart (sv_local s) act s of
        (x, own, s') \<Rightarrow> (map_option (local_error (ct_service c) (sv_ledger s)) x, s'\<lparr>sv_local := own\<rparr>))"

text \<open>
  \<^verbatim>\<open>asRefusal\<close> tells the four refusals a caller acts on by their text once they crossed a transport.
\<close>

definition refusal_sentinel :: "ledger_error \<Rightarrow> bool" where
  "refusal_sentinel x \<longleftrightarrow>
     (case x of Anchor_downgrade _ _ \<Rightarrow> True | Signature_downgrade _ _ \<Rightarrow> True | Signature_lost _ \<Rightarrow> True
      | Trust_refused _ \<Rightarrow> True | Trust_unsigned _ \<Rightarrow> True | Trust_no_approval_check _ \<Rightarrow> True | Trust_approval_fails _ \<Rightarrow> True
      | Reputation_needs_publisher \<Rightarrow> True | _ \<Rightarrow> False)"

definition told_ledger_error :: "client_error \<Rightarrow> ledger_error option" where
  "told_ledger_error x =
     (case x of Told (Au_ledger y) \<Rightarrow> Some y
      | Bus_call (By_value (Bus_failed (Au_ledger y))) \<Rightarrow> Some y | Bus_call (By_pointer (Bus_failed (Au_ledger y))) \<Rightarrow> Some y
      | Bus_call (By_value (Bus_invalid (Au_ledger y))) \<Rightarrow> Some y | Bus_call (By_pointer (Bus_invalid (Au_ledger y))) \<Rightarrow> Some y
      | _ \<Rightarrow> None)"

definition asRefusal :: "client_error \<Rightarrow> client_error" where
  "asRefusal x = (case told_ledger_error x of None \<Rightarrow> x | Some y \<Rightarrow> if refusal_sentinel y then Refusal y else x)"

text \<open>The error \<^verbatim>\<open>errors.Is\<close> finds in what a request came back with.\<close>

definition known_error :: "client_error \<Rightarrow> ledger_error option" where
  "known_error x = (case x of Local (Au_ledger y) \<Rightarrow> Some y | Refusal y \<Rightarrow> Some y | _ \<Rightarrow> None)"

definition past_the_bus :: "client \<Rightarrow> socketRequest \<Rightarrow> client_error err \<times> authority \<Rightarrow> client_error err \<times> authority" where
  "past_the_bus c m answer =
     (case answer of (x, s) \<Rightarrow>
        if x \<noteq> Some Transport_unavailable then (map_option asRefusal x, s)
        else (case requestOverSocket c m s of (x, s) \<Rightarrow>
          if x = Some Transport_unavailable then (Some No_authority, s)
          else if x = Some Client_root_required then
            (if sq_Action m = anchorEnrolAction
             then (case runPrivilegedEnrolment c m s of (x, s) \<Rightarrow> (map_option asRefusal x, s))
             else (Some No_authority, s))
          else (map_option asRefusal x, s)))"

definition dispatchIntegrity :: "client \<Rightarrow> socketRequest \<Rightarrow> authority \<Rightarrow> client_error err \<times> authority" where
  "dispatchIntegrity c m s =
     (if ct_root c then
        applied_by_root c (if sq_Action m = enforcementSetAction then applyEnforcement (ct_service c) m
          else applyAnchor (ct_service c) m) s
      else past_the_bus c m (retryPastStale c (integrityOverBus c m) s))"

definition signed_request :: "Anchor \<Rightarrow> Override option \<Rightarrow> SignedState option \<Rightarrow> string \<Rightarrow> socketRequest" where
  "signed_request a policy attached confirmation = (request_of anchorEnrolAction)
     \<lparr>sq_Anchor := Some a, sq_Policy := policy, sq_Signature := attached, sq_Confirmation := confirmation\<rparr>"

definition dispatchSignedEnrolment :: "client \<Rightarrow> Anchor \<Rightarrow> Override option \<Rightarrow> SignedState \<Rightarrow> string \<Rightarrow> authority \<Rightarrow>
    client_error err \<times> authority" where
  "dispatchSignedEnrolment c a policy attached confirmation s =
     (if ct_root c then
        applied_by_root c (\<lambda>s.
          case record_enrolment (se_env (ct_service c)) (sv_ledger s) (enrolment_of a policy (Some attached)) confirmation
              (se_now (ct_service c)) (se_random (ct_service c)) of
            (x, l) \<Rightarrow> (map_option Au_ledger x, s\<lparr>sv_ledger := l\<rparr>)) s
      else past_the_bus c (signed_request a policy (Some attached) confirmation)
        (retryPastStale c (signedEnrolmentRequestOverBus c a policy attached confirmation) s))"

definition EnrolAnchorWithSignature :: "client \<Rightarrow> Anchor \<Rightarrow> Override option \<Rightarrow> SignedState option \<Rightarrow> authority \<Rightarrow>
    client_error err \<times> authority" where
  "EnrolAnchorWithSignature c a policy attached s =
     (case validateEnrolment (se_hashes (ct_service c)) (enrolment_of a policy attached) of
        Some x \<Rightarrow> (Some (Local (Au_ledger x)), s)
      | None \<Rightarrow>
          (case attached of None \<Rightarrow> dispatchIntegrity c (signed_request a policy None []) s
           | Some evidence \<Rightarrow> dispatchSignedEnrolment c a policy evidence [] s))"

definition EnrolAnchorWithSignatureConfirmed :: "client \<Rightarrow> Anchor \<Rightarrow> Override option \<Rightarrow> SignedState option \<Rightarrow> string \<Rightarrow> authority \<Rightarrow>
    client_error err \<times> authority" where
  "EnrolAnchorWithSignatureConfirmed c a policy attached confirmation s =
     (case attached of None \<Rightarrow> (Some (Local Confirmation_unusable), s)
      | Some evidence \<Rightarrow>
          (case validateEnrolment (se_hashes (ct_service c)) (enrolment_of a policy attached) of
             Some x \<Rightarrow> (Some (Local (Au_ledger x)), s)
           | None \<Rightarrow>
               if confirmation = [] \<or> length confirmation > 64 then (Some (Local Confirmation_unusable), s)
               else dispatchSignedEnrolment c a policy evidence confirmation s))"

definition client_ForgetAnchor :: "client \<Rightarrow> u32 \<Rightarrow> string \<Rightarrow> authority \<Rightarrow> client_error err \<times> authority" where
  "client_ForgetAnchor c uid origin s =
     (case validatePackageOrigin origin of Some x \<Rightarrow> (Some (Local (Au_ledger x)), s)
      | None \<Rightarrow> dispatchIntegrity c ((request_of anchorForgetAction)\<lparr>sq_UID := uid, sq_Origin := origin\<rparr>) s)"

definition client_ClearForgottenAnchor :: "client \<Rightarrow> u32 \<Rightarrow> string \<Rightarrow> authority \<Rightarrow> client_error err \<times> authority" where
  "client_ClearForgottenAnchor c uid origin s =
     (case validatePackageOrigin origin of Some x \<Rightarrow> (Some (Local (Au_ledger x)), s)
      | None \<Rightarrow> dispatchIntegrity c ((request_of anchorClearAction)\<lparr>sq_UID := uid, sq_Origin := origin\<rparr>) s)"

definition client_SetEnforcement :: "client \<Rightarrow> string \<Rightarrow> authority \<Rightarrow> client_error err \<times> authority" where
  "client_SetEnforcement c level s =
     (if \<not> valid_level level then (Some (Local (Au_setting Not_a_level)), s)
      else dispatchIntegrity c ((request_of enforcementSetAction)\<lparr>sq_Level := level\<rparr>) s)"

definition RecordedAnchor :: "authority_env \<Rightarrow> ledger \<Rightarrow> u32 \<Rightarrow> string \<Rightarrow> ledger_error + Enrolment option" where
  "RecordedAnchor env l uid origin =
     (case validatePackageOrigin origin of Some x \<Rightarrow> Inl x | None \<Rightarrow> Recorded env l uid origin)"

definition ForgottenAnchor :: "authority_env \<Rightarrow> ledger \<Rightarrow> u32 \<Rightarrow> string \<Rightarrow> ledger_error + Tombstone option" where
  "ForgottenAnchor env l uid origin =
     (case validatePackageOrigin origin of Some x \<Rightarrow> Inl x | None \<Rightarrow> Forgotten env l uid origin)"

definition EnrolmentAsksTheOwner :: "authority_env \<Rightarrow> ledger \<Rightarrow> Anchor \<Rightarrow> Override option \<Rightarrow> ledger_error + bool" where
  "EnrolmentAsksTheOwner env l a policy =
     (case validatePackageOrigin (an_Origin a) of Some x \<Rightarrow> Inl x
      | None \<Rightarrow> AsksTheOwner env l (enrolment_of a policy None))"

end
