(* ===== verification/Authority_Requests.thy ===== *)
theory Authority_Requests
  imports Authority_Service
begin

text \<open>
  What requests to the authority can and cannot change: the methods of the bus as one function of the
  request, the requests an account makes without the administrator's permission as a step relation,
  and what crossing the bus does to an enrolment and to a warning.
\<close>

section \<open>Requests\<close>

datatype bus_request =
  Register_session Session | Remove_session string string | Enrol_anchor bus_anchor string
| Enrol_signed bus_anchor string string string | Enrol_confirmed bus_anchor string string string string
| Forget_recorded u32 string | Clear_forgotten u32 string | Set_enforcement string | Set_signatures string | Set_trust string

fun bus_answer :: "service_env \<Rightarrow> string \<Rightarrow> bus_request \<Rightarrow> authority \<Rightarrow> bus_error err \<times> authority" where
  "bus_answer env sender (Register_session session) = bus_RegisterSession env sender session"
| "bus_answer env sender (Remove_session i origin) = bus_RemoveSession env sender i origin"
| "bus_answer env sender (Enrol_anchor a policy) = bus_EnrolAnchor env sender a policy"
| "bus_answer env sender (Enrol_signed a policy state payload) = EnrolSignedAnchor env sender a policy state payload"
| "bus_answer env sender (Enrol_confirmed a policy state payload confirmation) =
     EnrolSignedAnchorConfirmed env sender a policy state payload confirmation"
| "bus_answer env sender (Forget_recorded uid origin) = bus_ForgetAnchor env sender uid origin"
| "bus_answer env sender (Clear_forgotten uid origin) = bus_ClearForgottenAnchor env sender uid origin"
| "bus_answer env sender (Set_enforcement level) = bus_SetEnforcement env sender level"
| "bus_answer env sender (Set_signatures policy) = bus_SetSignaturePolicy env sender policy"
| "bus_answer env sender (Set_trust document) = bus_SetTrustPolicy env sender document"

text \<open>
  The permissions nobody is asked about: polkit answers every account for itself with them, and an
  account without the administrator's password holds no other.
\<close>

definition ordinary :: "service_env \<Rightarrow> string \<Rightarrow> bool" where
  "ordinary env sender \<longleftrightarrow>
     (\<forall>ask action details. se_authorizer env = Some ask \<longrightarrow> ask sender action details \<longrightarrow>
        action \<in> {ActionEnrolAnchor, ActionForgetAnchor})"

definition named :: "service_env \<Rightarrow> string \<Rightarrow> u32 \<Rightarrow> bool" where
  "named env sender uid \<longleftrightarrow> (\<forall>name u. se_callerUID env = Some name \<longrightarrow> name sender = Some u \<longrightarrow> u = uid)"

inductive unprivileged :: "authority_env \<Rightarrow> u32 \<Rightarrow> authority \<Rightarrow> authority \<Rightarrow> bool" for auth uid where
  over_socket: "uid \<noteq> 0 \<Longrightarrow> se_env env = auth \<Longrightarrow> socket_apply env (Some uid) m s = (x, s') \<Longrightarrow> unprivileged auth uid s s'"
| over_bus: "se_env env = auth \<Longrightarrow> ordinary env sender \<Longrightarrow> named env sender uid \<Longrightarrow>
    bus_answer env sender request s = (y, s') \<Longrightarrow> unprivileged auth uid s s'"

inductive_cases unprivileged_cases [elim?]: "unprivileged auth uid s s'"

section \<open>What a request leaves alone\<close>

definition kept_to :: "authority_env \<Rightarrow> u32 \<Rightarrow> authority \<Rightarrow> authority \<Rightarrow> bool" where
  "kept_to env uid s s' \<longleftrightarrow>
     sv_sessions s' = sv_sessions s \<and> sv_settings s' = sv_settings s \<and>
     lg_signatures (sv_ledger s') = lg_signatures (sv_ledger s) \<and> lg_trust (sv_ledger s') = lg_trust (sv_ledger s) \<and>
     (\<forall>other origin. other \<noteq> uid \<longrightarrow>
        Recorded env (sv_ledger s') other origin = Recorded env (sv_ledger s) other origin \<and>
        Forgotten env (sv_ledger s') other origin = Forgotten env (sv_ledger s) other origin) \<and>
     (\<forall>origin. floor_of env uid origin (sv_ledger s) \<le> floor_of env uid origin (sv_ledger s'))"

definition unprompted :: "authority_env \<Rightarrow> u32 \<Rightarrow> ledger \<Rightarrow> ledger \<Rightarrow> bool" where
  "unprompted env uid l l' \<longleftrightarrow>
     (\<forall>origin r. Recorded env l' uid origin = Inr (Some r) \<longrightarrow> Recorded env l uid origin \<noteq> Inr (Some r) \<longrightarrow>
        (\<exists>e. er_Anchor e = er_Anchor r \<and> AsksTheOwner env l e = Inr False))"

lemma kept_to_refl [simp]: "kept_to env uid s s"
  by (simp add: kept_to_def)

lemma unprompted_refl [simp]: "unprompted env uid l l"
  by (simp add: unprompted_def)

lemma kept_to_trans: "kept_to env uid s t \<Longrightarrow> kept_to env uid t u \<Longrightarrow> kept_to env uid s u"
  unfolding kept_to_def by (auto intro: order_trans)

lemma record_enrolment_frame:
  assumes "record_enrolment env l e confirmation now random = (x, l')"
  shows "lg_signatures l' = lg_signatures l \<and> lg_trust l' = lg_trust l \<and>
    ((uid, origin) \<noteq> (er_UID e, er_Origin e) \<longrightarrow> Recorded env l' uid origin = Recorded env l uid origin) \<and>
    Forgotten env l' uid origin = Forgotten env l uid origin"
  using assms
proof (cases rule: record_enrolment_cases)
  case (recorded e0 e1 e2 c)
  then have a: "er_Anchor e2 = er_Anchor e" by (simp add: same_request_def)
  have "lg_signatures l' = lg_signatures l \<and> lg_trust l' = lg_trust l"
    using recorded(6) by (auto simp: write_record_Inr)
  then show ?thesis
    using write_record_other [OF recorded(6), of uid origin] write_record_Forgotten [OF recorded(6), of uid origin] a by auto
qed simp

lemma enrolled_anchor:
  assumes "record_enrolment env l e confirmation now random = (None, l')"
  shows "\<exists>r. Recorded env l' (er_UID e) (er_Origin e) = Inr (Some r) \<and> er_Anchor r = er_Anchor e \<and> er_Signature r = er_Signature e"
  using assms
proof (cases rule: record_enrolment_cases)
  case (recorded e0 e1 e2 c)
  then have "er_Anchor e2 = er_Anchor e" "er_Signature e2 = er_Signature e" by (auto simp: same_request_def)
  then show ?thesis using write_record_read_back [OF recorded(6)] by metis
qed simp

lemma Forget_frame:
  assumes "Forget env l uid origin = Inr l'"
  shows "lg_signatures l' = lg_signatures l \<and> lg_trust l' = lg_trust l \<and>
    ((uid', origin') \<noteq> (uid, origin) \<longrightarrow>
      Recorded env l' uid' origin' = Recorded env l uid' origin' \<and> Forgotten env l' uid' origin' = Forgotten env l uid' origin') \<and>
    Recorded env l' uid origin = Inr None"
proof -
  obtain l1 path where l1: "forget_entombed env l uid origin = Inr l1"
      "recordPath (lg_Directory l1) uid origin recordSuffix = Inr path" "l' = put l1 path Absent"
    using Forget_Inr [OF assms] .
  obtain found where found: "Recorded env l uid origin = Inr found" "lg_trusted l"
      "case found of None \<Rightarrow> l1 = l | Some r \<Rightarrow> entomb env l r = Inr l1"
    using l1(1) by (auto simp: forget_entombed_def bind_result_Inr split: if_splits option.splits)
  have entombed: "lg_signatures l1 = lg_signatures l \<and> lg_trust l1 = lg_trust l \<and> lg_trusted l1 = lg_trusted l \<and>
      Recorded env l1 u v = Recorded env l u v \<and>
      ((u, v) \<noteq> (uid, origin) \<longrightarrow> Forgotten env l1 u v = Forgotten env l u v)" for u v
  proof (cases found)
    case (Some r)
    then have en: "Recorded env l uid origin = Inr (Some r)" "entomb env l r = Inr l1" using found by auto
    have "lg_signatures l1 = lg_signatures l \<and> lg_trust l1 = lg_trust l" using en(2) by (auto simp: entomb_def bind_result_Inr Let_def)
    then show ?thesis using entomb_floor [OF en] by blast
  qed (use found in simp)
  have put: "(uid', origin') \<noteq> (uid, origin) \<longrightarrow> Recorded env l' uid' origin' = Recorded env l1 uid' origin'"
      "Forgotten env l' uid' origin' = Forgotten env l1 uid' origin'"
    unfolding l1(3) using Recorded_put_other Forgotten_put_other l1(2) by auto
  moreover have "Recorded env l' uid origin = Inr None"
    using l1(2,3) entombed [of uid origin] found(2) by (simp add: Recorded_Inr)
  ultimately show ?thesis using entombed by (simp add: l1(3))
qed

lemma enrolment_keeps_to:
  assumes "record_enrolment env (sv_ledger s) e confirmation now random = (x, l)" and "er_UID e = uid"
    and "authorizationFor env (sv_ledger s) e = Inr ActionEnrolAnchor"
  shows "kept_to env uid s (s\<lparr>sv_ledger := l\<rparr>) \<and> unprompted env uid (sv_ledger s) l"
proof -
  note frame = record_enrolment_frame [OF assms(1)]
  have "floor_of env uid origin (sv_ledger s) \<le> floor_of env uid origin l" for origin
    using step_floor [OF step.enrol [OF assms(1)]] by simp
  then have kept: "kept_to env uid s (s\<lparr>sv_ledger := l\<rparr>)"
    unfolding kept_to_def using frame assms(2) by (simp add: prod_eq_iff)
  have "\<exists>e. er_Anchor e = er_Anchor r \<and> AsksTheOwner env (sv_ledger s) e = Inr False"
    if r: "Recorded env l uid origin = Inr (Some r)" "Recorded env (sv_ledger s) uid origin \<noteq> Inr (Some r)" for origin r
  proof -
    have same: "(uid, origin) = (er_UID e, er_Origin e)" using frame [of uid origin] r by auto
    have "x = None"
    proof (rule ccontr)
      assume "x \<noteq> None"
      with assms(1) obtain c where "l = (sv_ledger s)\<lparr>lg_confirmations := c\<rparr>" by (cases rule: record_enrolment_cases) auto
      then show False using r by simp
    qed
    then have "er_Anchor r = er_Anchor e" using enrolled_anchor assms(1) r(1) same by fastforce
    moreover have "AsksTheOwner env (sv_ledger s) e = Inr False" using assms(3) by (simp add: AsksTheOwner_def bind_result_def)
    ultimately show ?thesis by metis
  qed
  then show ?thesis using kept unfolding unprompted_def by blast
qed

lemma forget_keeps_to:
  assumes "do_forget env uid origin s = (x, s')"
  shows "kept_to (se_env env) uid s s' \<and> unprompted (se_env env) uid (sv_ledger s) (sv_ledger s')"
proof (cases "Forget (se_env env) (sv_ledger s) uid origin")
  case (Inr l)
  then have s': "s' = s\<lparr>sv_ledger := l\<rparr>" using assms by (simp add: do_forget_def)
  note frame = Forget_frame [OF Inr]
  have "floor_of (se_env env) uid v (sv_ledger s) \<le> floor_of (se_env env) uid v l" for v by (rule Forget_floor [OF Inr])
  then have "kept_to (se_env env) uid s s'" unfolding kept_to_def s' using frame by (simp add: prod_eq_iff)
  moreover have "unprompted (se_env env) uid (sv_ledger s) (sv_ledger s')"
    unfolding unprompted_def s'
  proof (intro allI impI)
    fix v r assume r: "Recorded (se_env env) (sv_ledger (s\<lparr>sv_ledger := l\<rparr>)) uid v = Inr (Some r)" "Recorded (se_env env) (sv_ledger s) uid v \<noteq> Inr (Some r)"
    then have "v = origin" using frame [of uid v] by auto
    then show "\<exists>e. er_Anchor e = er_Anchor r \<and> AsksTheOwner (se_env env) (sv_ledger s) e = Inr False" using r(1) frame by simp
  qed
  ultimately show ?thesis ..
qed (use assms in \<open>simp add: do_forget_def\<close>)

lemma socket_keeps_to:
  assumes "socket_apply env (Some uid) m s = (x, s')" and "uid \<noteq> 0"
  shows "kept_to (se_env env) uid s s' \<and> unprompted (se_env env) uid (sv_ledger s) (sv_ledger s')"
proof (cases "authorizeSocketRequest env uid m (sv_ledger s)")
  case None
  from None assms(2) consider
      (enrol) e where "sq_Action m = anchorEnrolAction" "enrolmentFromSocket (se_hashes env) m = Inr e" "er_UID e = uid"
        "authorizationFor (se_env env) (sv_ledger s) e = Inr ActionEnrolAnchor"
    | (forget) "sq_Action m = anchorForgetAction" "sq_UID m = uid"
    by (fastforce simp: authorizeSocketRequest_def enrolmentFromSocket_def enrolment_of_def Let_def split: if_splits sum.splits option.splits)
  then show ?thesis
  proof cases
    case enrol
    show ?thesis
    proof (cases "sq_Confirmation m \<noteq> [] \<and> (er_Signature e = None \<or> length (sq_Confirmation m) > 64)")
      case False
      obtain y l where l: "record_enrolment (se_env env) (sv_ledger s) e (sq_Confirmation m) (se_now env) (se_random env) = (y, l)"
        by fastforce
      then have "s' = s\<lparr>sv_ledger := l\<rparr>"
        using assms(1) None enrol False by (auto simp: socket_apply_def applyAnchor_def)
      then show ?thesis using enrolment_keeps_to [OF l enrol(3,4)] by simp
    qed (use assms(1) None enrol in \<open>auto simp: socket_apply_def applyAnchor_def\<close>)
  next
    case forget
    show ?thesis
    proof (cases "sq_Confirmation m = [] \<and> validatePackageOrigin (sq_Origin m) = None")
      case True
      obtain y t where t: "do_forget env (sq_UID m) (sq_Origin m) s = (y, t)" by fastforce
      then have "s' = t" using assms(1) None forget True by (auto simp: socket_apply_def applyAnchor_def)
      then show ?thesis using forget_keeps_to [OF t] forget(2) by simp
    qed (use assms(1) None forget in \<open>auto simp: socket_apply_def applyAnchor_def split: option.splits if_splits\<close>)
  qed
qed (use assms in \<open>auto simp: socket_apply_def\<close>)

lemma actions_differ:
  "ActionRegisterSession \<notin> {ActionEnrolAnchor, ActionForgetAnchor}" "ActionRemoveSession \<notin> {ActionEnrolAnchor, ActionForgetAnchor}"
  "ActionClearRemoval \<notin> {ActionEnrolAnchor, ActionForgetAnchor}" "ActionSetEnforcement \<notin> {ActionEnrolAnchor, ActionForgetAnchor}"
  "ActionSetSignaturePolicy \<notin> {ActionEnrolAnchor, ActionForgetAnchor}" "ActionSetTrustPolicy \<notin> {ActionEnrolAnchor, ActionForgetAnchor}"
  "ActionForgetAnchorOther \<notin> {ActionEnrolAnchor, ActionForgetAnchor}" "ActionWidenAnchor \<notin> {ActionEnrolAnchor, ActionForgetAnchor}"
  by (simp_all add: ActionRegisterSession_def ActionRemoveSession_def ActionClearRemoval_def ActionSetEnforcement_def
      ActionSetSignaturePolicy_def ActionSetTrustPolicy_def ActionForgetAnchorOther_def ActionWidenAnchor_def
      ActionEnrolAnchor_def ActionForgetAnchor_def)

lemma asked_ordinary: "ordinary env sender \<Longrightarrow> asked env sender action details = None \<Longrightarrow> action \<in> {ActionEnrolAnchor, ActionForgetAnchor}"
  unfolding ordinary_def asked_def by (cases "se_authorizer env") (auto split: if_splits)

lemma served_ordinary:
  "ordinary env sender \<Longrightarrow> action \<notin> {ActionEnrolAnchor, ActionForgetAnchor} \<Longrightarrow> served env invalid sender action details act s = (x, s') \<Longrightarrow> s' = s"
  using asked_ordinary [of env sender action details] by (auto simp: served_def split: if_splits option.splits)

lemma authorizationFor_actions:
  "authorizationFor env l e = Inr action \<Longrightarrow> action \<in> {ActionEnrolAnchor, ActionWidenAnchor}"
  by (auto simp: authorizationFor_def authorizationAgainst_def bind_result_Inr split: option.splits if_splits)

lemma ask_and_record_keeps_to:
  assumes "ask_and_record env failing sender e confirmation s = (x, s')" and "ordinary env sender" and "named env sender uid"
  shows "kept_to (se_env env) uid s s' \<and> unprompted (se_env env) uid (sv_ledger s) (sv_ledger s')"
proof (cases "s' = s")
  case False
  then obtain action where action: "enrolmentAction env s sender e = Inr action" "action \<in> {ActionEnrolAnchor, ActionForgetAnchor}"
    using assms(1) asked_ordinary [OF assms(2)]
    by (fastforce simp: ask_and_record_def split: if_splits sum.splits option.splits)
  obtain y l where l: "record_enrolment (se_env env) (sv_ledger s) e confirmation (se_now env) (se_random env) = (y, l)" by fastforce
  then have s': "s' = s\<lparr>sv_ledger := l\<rparr>"
    using assms(1) False by (auto simp: ask_and_record_def split: if_splits sum.splits option.splits)
  have "er_UID e = uid \<and> authorizationFor (se_env env) (sv_ledger s) e = Inr ActionEnrolAnchor"
    using action assms(3) actions_differ(8)
    by (cases "se_callerUID env") (auto simp: enrolmentAction_def named_def split: option.splits if_splits dest: authorizationFor_actions)
  then show ?thesis using enrolment_keeps_to [OF l] s' by simp
qed simp

lemma bus_keeps_to:
  assumes "bus_answer env sender request s = (x, s')" and "ordinary env sender" and "named env sender uid"
  shows "kept_to (se_env env) uid s s' \<and> unprompted (se_env env) uid (sv_ledger s) (sv_ledger s')"
proof (cases request)
  case (Enrol_anchor a policy)
  then show ?thesis using assms ask_and_record_keeps_to [OF _ assms(2,3)]
    by (auto simp: bus_EnrolAnchor_def Let_def split: if_splits sum.splits option.splits)
next
  case (Enrol_signed a policy state payload)
  then show ?thesis using assms ask_and_record_keeps_to [OF _ assms(2,3)]
    by (auto simp: EnrolSignedAnchor_def enrol_signed_def enrolThrough_def split: if_splits sum.splits option.splits)
next
  case (Enrol_confirmed a policy state payload confirmation)
  then show ?thesis using assms ask_and_record_keeps_to [OF _ assms(2,3)]
    by (auto simp: EnrolSignedAnchorConfirmed_def enrol_signed_def enrolThrough_def split: if_splits sum.splits option.splits)
next
  case (Forget_recorded u origin)
  show ?thesis
  proof (cases "s' = s")
    case False
    have b: "served env (map_option Au_ledger (validatePackageOrigin origin)) sender (forgetAction env sender u)
        [(''package-origin'', origin), (''target-uid'', decimal_text u)] (do_forget env u origin) s = (x, s')"
      using assms(1) Forget_recorded by (simp add: bus_ForgetAnchor_def)
    have act: "forgetAction env sender u \<in> {ActionEnrolAnchor, ActionForgetAnchor}" using served_ordinary [OF assms(2) _ b] False by blast
    then have "u = uid" using assms(3) actions_differ(7)
      by (cases "se_callerUID env") (auto simp: forgetAction_def named_def split: if_splits)
    moreover obtain y where "do_forget env u origin s = (y, s')"
      using b False by (auto simp: served_def split: if_splits option.splits prod.splits)
    ultimately show ?thesis using forget_keeps_to by blast
  qed simp
next
  case (Set_trust document)
  then show ?thesis using assms(1)
    by (auto simp: bus_SetTrustPolicy_def split: sum.splits dest: served_ordinary [OF assms(2) actions_differ(6)])
qed (use assms(1) in \<open>auto simp: bus_RegisterSession_def bus_RemoveSession_def bus_ClearForgottenAnchor_def bus_SetEnforcement_def
      bus_SetSignaturePolicy_def dest: served_ordinary [OF assms(2) actions_differ(1)] served_ordinary [OF assms(2) actions_differ(2)]
      served_ordinary [OF assms(2) actions_differ(3)] served_ordinary [OF assms(2) actions_differ(4)]
      served_ordinary [OF assms(2) actions_differ(5)]\<close>)

lemma unprivileged_keeps_to:
  "unprivileged auth uid s s' \<Longrightarrow> kept_to auth uid s s' \<and> unprompted auth uid (sv_ledger s) (sv_ledger s')"
  by (induction rule: unprivileged.induct) (use socket_keeps_to bus_keeps_to in blast)+

section \<open>What the bus carries\<close>

lemma recorded_on_request:
  assumes "ask_and_record env failing sender e confirmation s = (None, s')"
  shows "Load (se_env env) (sv_ledger s') (er_UID e) (er_Origin e) = Inr (Some (er_Anchor e))"
proof -
  obtain l where l: "record_enrolment (se_env env) (sv_ledger s) e confirmation (se_now env) (se_random env) = (None, l)" "s' = s\<lparr>sv_ledger := l\<rparr>"
    using assms by (auto simp: ask_and_record_def split: if_splits sum.splits option.splits prod.splits)
  from enrolled_anchor [OF l(1)] show ?thesis by (auto simp: l(2) Load_def bind_result_def)
qed

lemma bus_enrolments:
  "bus_EnrolAnchor env sender b policy s = (None, s') \<Longrightarrow>
     Load (se_env env) (sv_ledger s') (ba_UID b) (ba_Origin b) = Inr (Some (anchor_from_bus b))"
  "enrol_signed env sender b policy state payload confirmation s = (None, s') \<Longrightarrow>
     Load (se_env env) (sv_ledger s') (ba_UID b) (ba_Origin b) = Inr (Some (anchor_from_bus b))"
  using recorded_on_request [of env _ sender "enrolment_of (anchor_from_bus b) _ _" _ s s']
  by (auto simp: bus_EnrolAnchor_def enrol_signed_def enrolThrough_def enrolment_of_def anchor_from_bus_def Let_def
      split: if_splits sum.splits option.splits)

lemma anchor_over_bus:
  assumes "validateEnrolment hx (enrolment_of a policy attached) = None"
  shows "anchor_from_bus (bus_arguments a) = a\<lparr>an_SessionRoots := []\<rparr>"
proof -
  have "validateAnchor hx a = None"
    using assms by (auto simp: validateEnrolment_def completeEnrolment_Inr enrolment_of_def split: sum.splits)
  then have "an_ABI a = 1" by (auto simp: validateAnchor_def split: if_splits)
  then show ?thesis by (cases a) (simp add: anchor_from_bus_def bus_arguments_def)
qed

definition uniform :: "client \<Rightarrow> bool" where
  "uniform c \<longleftrightarrow> ct_delivered c = By_value \<or> ct_delivered c = By_pointer"

text \<open>A bus that answers never sends the client on to the socket.\<close>

definition answers :: "(service_env \<Rightarrow> authority \<Rightarrow> bus_error err \<times> authority) \<Rightarrow> bool" where
  "answers call \<longleftrightarrow> (\<forall>env s. fst (call env s) \<noteq> Some Bus_unreachable)"

lemma over_bus_final:
  assumes "ct_bus c = Bus_answers" "uniform c" "answers call" "over_bus c decoded call env s = (x, s')"
    "\<And>g y. decoded g = Some y \<Longrightarrow> y \<noteq> Transport_unavailable"
  shows "x \<noteq> Some Transport_unavailable \<and> (x = None \<longrightarrow> call env s = (None, s'))"
proof -
  obtain y t where y: "call env s = (y, t)" by fastforce
  then have "y \<noteq> Some Bus_unreachable" using assms(3) unfolding answers_def by (metis fst_conv)
  then show ?thesis
    using assms(1,2,4,5) y
    by (auto simp: over_bus_def called_def uniform_def unreachableOnBus_def split: option.splits if_splits bus_error.splits)
qed

lemma served_answers: "answers (\<lambda>env. served env invalid sender action details act)"
  by (auto simp: answers_def served_def asked_def split: option.splits prod.splits)

lemma ask_and_record_answers:
  "(\<And>l x. failing l x \<noteq> Bus_unreachable) \<Longrightarrow> fst (ask_and_record env failing sender e confirmation s) \<noteq> Some Bus_unreachable"
  by (auto simp: ask_and_record_def asked_def split: option.splits prod.splits sum.splits)

lemma enrolmentFailed_answers: "enrolmentFailed env l x \<noteq> Bus_unreachable"
  by (simp add: enrolmentFailed_def split: ledger_error.split)

lemma enrolment_answers:
  "answers (\<lambda>env. bus_EnrolAnchor env sender b (policy env))"
  "answers (\<lambda>env. if confirmation = [] then EnrolSignedAnchor env sender b encoded state payload
     else EnrolSignedAnchorConfirmed env sender b encoded state payload confirmation)"
  using ask_and_record_answers enrolmentFailed_answers
  by (auto simp: answers_def bus_EnrolAnchor_def EnrolSignedAnchor_def EnrolSignedAnchorConfirmed_def enrol_signed_def enrolThrough_def Let_def
      split: option.splits sum.splits)

lemma reply_documents:
  "decodeReputationConfirmationDocument codec token document \<noteq> Transport_unavailable"
  "decodeReputationRefusalDocument codec document \<noteq> Transport_unavailable"
  by (auto simp: decodeReputationConfirmationDocument_def decodeReputationRefusalDocument_def split: option.splits)

lemma decoded_reply_final: "decoded_reply codec g = Some y \<Longrightarrow> y \<noteq> Transport_unavailable"
  using reply_documents
  by (auto simp: decoded_reply_def decodeReputationConfirmationError_def decodeReputationRefusalError_def
      split: option.splits go_error.splits bus_error.splits)

lemma retry_final:
  assumes "retryPastStale c call s = (x, s')"
  shows "\<exists>env s1. se_env env = se_env (ct_service c) \<and> se_codec env = se_codec (ct_service c) \<and> call env s1 = (x, s')"
proof -
  obtain y t where y: "call (ct_service c) s = (y, t)" by fastforce
  show ?thesis
  proof (cases "staleOnBus y")
    case True
    then have "call ((ct_service c)\<lparr>se_installed := ct_restarted c\<rparr>) t = (x, s')" using assms y by (simp add: retryPastStale_def)
    then show ?thesis by (intro exI [of _ "(ct_service c)\<lparr>se_installed := ct_restarted c\<rparr>"]) auto
  qed (use assms y in \<open>auto simp: retryPastStale_def\<close>)
qed

lemma past_the_bus_answered:
  "past_the_bus c m (x, s) = (None, s') \<Longrightarrow> x \<noteq> Some Transport_unavailable \<Longrightarrow> x = None \<and> s' = s"
  by (simp add: past_the_bus_def)

lemma client_enrolment_over_bus:
  assumes "EnrolAnchorWithSignature c a policy attached s = (None, s')" and "\<not> ct_root c" "ct_bus c = Bus_answers" "uniform c"
  shows "Load (se_env (ct_service c)) (sv_ledger s') (an_UID a) (an_Origin a) = Inr (Some (a\<lparr>an_SessionRoots := []\<rparr>))"
proof -
  have valid: "validateEnrolment (se_hashes (ct_service c)) (enrolment_of a policy attached) = None"
    using assms(1) by (auto simp: EnrolAnchorWithSignature_def split: option.splits)
  note wire = anchor_over_bus [OF valid]
  have names: "ba_UID (bus_arguments a) = an_UID a" "ba_Origin (bus_arguments a) = an_Origin a" by (simp_all add: bus_arguments_def)
  show ?thesis
  proof (cases attached)
    case None
    let ?m = "signed_request a policy None []"
    let ?call = "\<lambda>env. bus_EnrolAnchor env (ct_sender c) (bus_arguments a) (encodePolicy (se_codec env) policy)"
    have call: "integrityCall c ?m = Some ?call" by (simp add: integrityCall_def signed_request_def request_of_def)
    obtain x t where x: "retryPastStale c (integrityOverBus c ?m) s = (x, t)" by fastforce
    obtain env s1 where e: "se_env env = se_env (ct_service c)" "integrityOverBus c ?m env s1 = (x, t)" using retry_final [OF x] by blast
    then have o: "over_bus c (\<lambda>_. None) ?call env s1 = (x, t)" using assms(3) by (simp add: integrityOverBus_def call)
    note final = over_bus_final [OF assms(3,4) enrolment_answers(1) o]
    have "past_the_bus c ?m (x, t) = (None, s')"
      using assms(1,2) valid None x by (simp add: EnrolAnchorWithSignature_def dispatchIntegrity_def)
    then have "x = None" "s' = t" using past_the_bus_answered final by auto
    then show ?thesis using final bus_enrolments(1) [of env _ "bus_arguments a" _ s1 s'] by (simp add: wire names e)
  next
    case (Some evidence)
    let ?m = "signed_request a policy (Some evidence) []"
    obtain x t where x: "retryPastStale c (signedEnrolmentRequestOverBus c a policy evidence []) s = (x, t)" by fastforce
    obtain env s1 where e: "se_env env = se_env (ct_service c)" "signedEnrolmentRequestOverBus c a policy evidence [] env s1 = (x, t)"
      using retry_final [OF x] by blast
    note final = over_bus_final [OF assms(3,4) enrolment_answers(2) e(2) [unfolded signedEnrolmentRequestOverBus_def Let_def encodeSignedState_def prod.case]]
    have f: "x \<noteq> Some Transport_unavailable \<and> (x = None \<longrightarrow> EnrolSignedAnchor env (ct_sender c) (bus_arguments a)
        (encodePolicy (se_codec env) policy) (wc_state (se_codec env) evidence) (wc_base64 (se_codec env) (ss_Bundle evidence)) s1 = (None, t))"
      using final decoded_reply_final by auto
    have "past_the_bus c ?m (x, t) = (None, s')"
      using assms(1,2) valid Some x by (simp add: EnrolAnchorWithSignature_def dispatchSignedEnrolment_def)
    then have "x = None" "s' = t" using past_the_bus_answered f by auto
    then show ?thesis using f bus_enrolments(2) [of env _ "bus_arguments a" _ _ _ _ s1 s']
      by (auto simp: wire names e EnrolSignedAnchor_def split: if_splits)
  qed
qed

lemma Load_confirmations [simp]: "Load env (l\<lparr>lg_confirmations := c\<rparr>) uid origin = Load env l uid origin"
  by (simp add: Load_def)

lemma recorded_is_loaded:
  "record_enrolment env l e confirmation now random = (None, l') \<Longrightarrow> Load env l' (er_UID e) (er_Origin e) = Inr (Some (er_Anchor e))"
  using enrolled_anchor by (fastforce simp: Load_def bind_result_def)

lemma enrolment_of_anchor [simp]: "er_Anchor (enrolment_of a policy attached) = a"
  by (simp add: enrolment_of_def)

lemma applyAnchor_records:
  assumes "applyAnchor env (signed_request a policy attached []) s = (None, s')"
  shows "Load (se_env env) (sv_ledger s') (an_UID a) (an_Origin a) = Inr (Some a)"
proof -
  let ?e = "enrolment_of a policy attached"
  obtain y l where l: "record_enrolment (se_env env) (sv_ledger s) ?e [] (se_now env) (se_random env) = (y, l)" by fastforce
  have "y = None \<and> s' = s\<lparr>sv_ledger := l\<rparr>"
    using assms l by (auto simp: applyAnchor_def enrolmentFromSocket_def signed_request_def request_of_def Let_def split: option.splits)
  then show ?thesis using recorded_is_loaded [of _ _ ?e] l by fastforce
qed

lemma apart_records:
  assumes "applied_apart own act s = (None, own', s')"
    and "\<And>t t'. act t = (None, t') \<Longrightarrow> Load env (sv_ledger t') uid origin = Inr (Some a)"
  shows "Load env (sv_ledger s') uid origin = Inr (Some a)"
proof -
  obtain y t where t: "act (s\<lparr>sv_ledger := (sv_ledger s)\<lparr>lg_confirmations := own\<rparr>\<rparr>) = (y, t)" by fastforce
  then have "y = None" "s' = t\<lparr>sv_ledger := (sv_ledger t)\<lparr>lg_confirmations := lg_confirmations (sv_ledger s)\<rparr>\<rparr>"
    using assms(1) by (auto simp: applied_apart_def)
  then show ?thesis using assms(2) t by simp
qed

lemma root_records:
  assumes "applied_by_root c act s = (None, s')"
    and "\<And>t t'. act t = (None, t') \<Longrightarrow> Load env (sv_ledger t') uid origin = Inr (Some a)"
  shows "Load env (sv_ledger s') uid origin = Inr (Some a)"
proof -
  obtain y own t where t: "applied_apart (sv_local s) act s = (y, own, t)" by (metis prod_cases3)
  then have "y = None" "s' = t\<lparr>sv_local := own\<rparr>" using assms(1) by (auto simp: applied_by_root_def)
  then show ?thesis using apart_records [OF _ assms(2)] t by simp
qed

lemma client_enrolment_off_the_bus:
  assumes "EnrolAnchorWithSignature c a policy attached s = (None, s')" and "ct_root c \<or> ct_bus c = Bus_absent"
    and "ct_decode_request c (ct_encode_request c (signed_request a policy attached [])) = Some (signed_request a policy attached [])"
  shows "Load (se_env (ct_service c)) (sv_ledger s') (an_UID a) (an_Origin a) = Inr (Some a)"
proof (cases "ct_root c")
  case True
  show ?thesis
  proof (cases attached)
    case None
    then have "applied_by_root c (applyAnchor (ct_service c) (signed_request a policy None [])) s = (None, s')"
      using assms(1) True
      by (auto simp: EnrolAnchorWithSignature_def dispatchIntegrity_def signed_request_def request_of_def split: option.splits)
    then show ?thesis by (rule root_records) (rule applyAnchor_records)
  next
    case (Some evidence)
    let ?e = "enrolment_of a policy (Some evidence)"
    have "applied_by_root c (\<lambda>s. case record_enrolment (se_env (ct_service c)) (sv_ledger s) ?e []
        (se_now (ct_service c)) (se_random (ct_service c)) of (x, l) \<Rightarrow> (map_option Au_ledger x, s\<lparr>sv_ledger := l\<rparr>)) s = (None, s')"
      using assms(1) True Some by (auto simp: EnrolAnchorWithSignature_def dispatchSignedEnrolment_def split: option.splits)
    then show ?thesis
      by (rule root_records) (use recorded_is_loaded [of _ _ ?e] in \<open>auto split: prod.splits\<close>)
  qed
next
  case False
  let ?m = "signed_request a policy attached []"
  have action: "sq_Action ?m = anchorEnrolAction" by (simp add: signed_request_def request_of_def)
  have bus: "ct_bus c = Bus_absent" using assms(2) False by simp
  have "past_the_bus c ?m (Some Transport_unavailable, s) = (None, s')"
    using assms(1) False bus
    by (auto simp: EnrolAnchorWithSignature_def dispatchIntegrity_def dispatchSignedEnrolment_def retryPastStale_def integrityOverBus_def
        signedEnrolmentRequestOverBus_def over_bus_def staleOnBus_def encodeSignedState_def Let_def split: option.splits)
  then consider
      (socket) "requestOverSocket c ?m s = (None, s')"
    | (escalated) t where "requestOverSocket c ?m s = (Some Client_root_required, t)" "runPrivilegedEnrolment c ?m t = (None, s')"
    using action by (auto simp: past_the_bus_def split: prod.splits if_splits)
  then show ?thesis
  proof cases
    case socket
    then have "decodeSocketRequest c (ct_encode_request c ?m) = Some ?m"
      using assms(3) by (auto simp: requestOverSocket_def decodeSocketRequest_def split: if_splits)
    then obtain y where y: "socket_apply (ct_service c) (ct_peer c) ?m s = (y, s')"
        "read_response (se_codec (ct_service c)) (writeResponse (ct_service c) (sv_ledger s) y) = None"
      using socket by (auto simp: requestOverSocket_def split: prod.splits if_splits)
    have "y = None"
    proof (rule ccontr)
      assume "y \<noteq> None"
      then obtain x where "y = Some x" by blast
      then show False using y(2)
        by (auto simp: read_response_def writeResponse_def socketCodeRootRequired_def socketCodeReputationConfirmationRequired_def
            socketCodeReputationRefused_def split: request_error.splits authority_error.splits ledger_error.splits)
    qed
    then have "applyAnchor (ct_service c) ?m s = (None, s')"
      using y(1) action by (auto simp: socket_apply_def split: option.splits prod.splits)
    then show ?thesis by (rule applyAnchor_records)
  next
    case escalated
    then have "decodeSocketRequest c (ct_encode_request c ?m) = Some ?m"
      using assms(3) by (auto simp: runPrivilegedEnrolment_def decodeSocketRequest_def split: if_splits)
    then obtain own where "applied_apart [] (applyAnchor (ct_service c) ?m) t = (None, own, s')"
      using escalated(2) action by (auto simp: runPrivilegedEnrolment_def split: prod.splits if_splits)
    then show ?thesis by (rule apart_records) (rule applyAnchor_records)
  qed
qed

section \<open>Properties\<close>


text \<open>C34: The policies of sessions are not measured: the roots an enrolment records for an application's sessions
  decide neither whether it is valid nor whether the owner of the machine is asked, so the policy of a session
  can be widened without a question.\<close>

theorem session_policies_are_not_measured:
  "validateEnrolment hx (e\<lparr>er_Anchor := (er_Anchor e)\<lparr>an_SessionRoots := roots\<rparr>\<rparr>) = validateEnrolment hx e \<and>
   AsksTheOwner env l (e\<lparr>er_Anchor := (er_Anchor e)\<lparr>an_SessionRoots := roots\<rparr>\<rparr>) = AsksTheOwner env l e"
proof
  let ?e = "e\<lparr>er_Anchor := (er_Anchor e)\<lparr>an_SessionRoots := roots\<rparr>\<rparr>"
  have "validateSignedState ?e = validateSignedState e" "validateRecordedVerification hx ?e = validateRecordedVerification hx e"
    "validateReputationHalves ?e = validateReputationHalves e" "validateAnchor hx (er_Anchor ?e) = validateAnchor hx (er_Anchor e)"
    by (simp_all add: validateSignedState_def validateRecordedVerification_def validateReputationHalves_def validateAnchor_def
        ValidateDigests_def bindsTheAnchor_def cong: option.case_cong if_cong)
  then show "validateEnrolment hx ?e = validateEnrolment hx e"
    by (simp add: validateEnrolment_def completeEnrolmentPolicySchema_def bind_result_def split: option.split sum.split)
  have against: "authorizationAgainst g root policy ?e = authorizationAgainst g root policy e" for g root policy
    by (simp add: authorizationAgainst_def cong: if_cong)
  show "AsksTheOwner env l ?e = AsksTheOwner env l e"
    by (simp add: AsksTheOwner_def authorizationFor_def against cong: option.case_cong)
qed

text \<open>C35: The client reads an error of the bus two ways, and only one of them can be right: whether the bus
  library hands errors over as values or as pointers, either no reputation warning or refusal of the authority ever
  reaches the enrolment that is waiting for it, or no stale authority is ever asked again.\<close>

theorem bus_errors_are_read_one_way:
  assumes "ct_delivered c = By_value \<or> ct_delivered c = By_pointer"
  shows "(\<forall>a policy evidence confirmation env s token w.
      fst (signedEnrolmentRequestOverBus c a policy evidence confirmation env s) \<notin>
        {Some (Confirmation_needed token w), Some (Refused_for_reputation w)}) \<or>
    (\<forall>a policy evidence confirmation env s. \<not> staleOnBus (fst (signedEnrolmentRequestOverBus c a policy evidence confirmation env s)))"
  using assms
proof
  assume v: "ct_delivered c = By_value"
  have "decoded_reply codec (By_value x) = None" for codec x
    by (simp add: decoded_reply_def decodeReputationConfirmationError_def decodeReputationRefusalError_def)
  then have "fst (over_bus c (decoded_reply codec) call env s) \<notin> {Some (Confirmation_needed token w), Some (Refused_for_reputation w)}"
    for codec call env s token w
    using v by (auto simp: over_bus_def called_def split: prod.splits)
  then show ?thesis by (simp add: signedEnrolmentRequestOverBus_def encodeSignedState_def Let_def)
next
  assume v: "ct_delivered c = By_pointer"
  have "\<not> staleOnBus (Some y)" if "decoded_reply codec g = Some y" for codec g y
    using that by (auto simp: decoded_reply_def decodeReputationConfirmationError_def decodeReputationRefusalError_def staleOnBus_def
        decodeReputationConfirmationDocument_def decodeReputationRefusalDocument_def split: option.splits go_error.splits bus_error.splits if_splits)
  then have "\<not> staleOnBus (fst (over_bus c (decoded_reply codec) call env s))" for codec call env s
    using v by (auto simp: over_bus_def called_def staleOnBus_def split: prod.splits option.splits)
  then show ?thesis by (simp add: signedEnrolmentRequestOverBus_def encodeSignedState_def Let_def)
qed

end
