(* ===== verification/Launch_Instances.thy ===== *)
theory Launch_Instances
  imports Launch_Gate Authority_Requests Concrete_Instances Store_Instances
begin

text \<open>
  The properties of launches and of the authority at concrete inputs: an editor stacked on one layer, its
  checkout, the settings of a host that refuses, and requests of one account.
\<close>

section \<open>Texts and settings\<close>

theorem sanitized_text_is_safe_witness:
  "safeText (SanitizeText ''plain'' 8) 8 True = None \<and> SanitizeText ''plain'' 8 = ''plain''"
proof -
  have "safeText ''plain'' 8 True = None" by code_simp
  then show ?thesis using sanitized_text_is_safe [of "''plain''" 8] by blast
qed

definition some_settings :: EnforcementStore where
  "some_settings = \<lparr>es_Directory = ''/var/lib/cpak/anchors'', es_directory = Owned_directory, es_files = (\<lambda>_. No_file)\<rparr>"

definition refusing_settings :: EnforcementStore where
  "refusing_settings = snd (Set_level False False EnforcementRefuse some_settings)"


section \<open>Layers\<close>

definition layered :: "Dependency" where
  "layered = \<lparr>dp_Id = ''p'', dp_Origin = ''github.com/acme/platform'', dp_Branch = [], dp_Release = [], dp_Commit = [], dp_Mode = ''layer''\<rparr>"

definition platform :: Application where
  "platform = some_child\<lparr>ap_CpakId := ''p'', ap_Origin := ''github.com/acme/platform'', ap_ParsedDependencies := []\<rparr>"

definition layered_app :: Application where "layered_app = some_parent\<lparr>ap_ParsedDependencies := [layered]\<rparr>"

lemma layered_composition: "resolveLayerDependenciesFromStore [platform] layered_app = Inr [platform]"
  by (simp add: resolveLayerDependenciesFromStore_def layered_app_def layered_def platform_def some_parent_def some_child_def IsLayer_def
      GetApplicationByCpakId_def get_keyed_def)

theorem layers_come_in_order_witness: "list_ex (supplied [platform] layered) [platform] \<and> in_order [platform] [] [platform]"
  using layers_come_in_order [OF layered_composition] by (simp add: layered_app_def layered_def IsLayer_def)

section \<open>A checkout\<close>

definition some_kinds :: entry_kinds where
  "some_kinds = \<lparr>ek_Dir = ''dir'', ek_File = ''file'', ek_Symlink = ''symlink'', ek_FIFO = ''fifo''\<rparr>"

definition some_entry :: FileEntry where
  "some_entry = \<lparr>fe_Path = ''a'', fe_Kind = ''file'', fe_Mode = 0x1A4, fe_Size = 3, fe_Link = [], fe_ContentDigest = ''d''\<rparr>"

definition some_tree :: tree where
  "some_tree = Object 0x41ED 4096 [] [(''a'', Object 0x81A4 3 [] [])]"

definition some_checkout :: checkout_env where
  "some_checkout = \<lparr>cv_sha256 = (\<lambda>s. s), cv_kinds = some_kinds, cv_codec = some_codec, cv_bindings = some_bindings,
     cv_files = (\<lambda>_ _. Files [some_entry]), cv_valid_layer = (\<lambda>_. True), cv_open = (\<lambda>_. Some some_tree)\<rparr>"

definition some_expected :: checkout_map where
  "some_expected = [(''a'', \<lparr>ce_path = ''a'', ce_kind = ''file'', ce_mode = 0x1A4, ce_fixed = True, ce_size = 3, ce_link = []\<rparr>)]"

definition some_walk :: "checkoutEntry list" where
  "some_walk = [\<lparr>ce_path = ''a'', ce_kind = ''file'', ce_mode = 0x1A4, ce_fixed = True, ce_size = 3, ce_link = []\<rparr>]"

lemma some_expected_derived: "expectedCheckoutEntries some_kinds [some_entry] = Inr (some_expected, [(''a'', ''d'')])"
  by code_simp

lemma some_walk_measured:
  "measureCheckoutEntries (\<lambda>name. name = ''.'' \<or> (\<exists>e. (name, e) \<in> set some_expected \<and> \<not> ce_fixed e)) []
     [(''a'', Object 0x81A4 3 [] [])] = Some some_walk"
  by (simp add: measureCheckoutEntries_def some_expected_def some_walk_def walkedCheckoutEntry_def checkoutKind_def)

theorem checkout_is_what_its_state_describes_witness:
  "verifyPreparedCheckout some_checkout some_digest ''/checkout'' = Inr (True, True)"
proof -
  have "verifyPreparedCheckout some_checkout some_digest ''/checkout'' =
      Inr (True, set (map stated some_walk) = stated ` snd ` set some_expected)"
  proof (rule checkout_is_what_its_state_describes)
    show "bindableLayerDigest some_digest" by code_simp
    show "Binding_Lookup (cv_codec some_checkout) (cv_bindings some_checkout) some_digest = Inr (Some some_binding)"
      using some_binding_found by (simp add: some_checkout_def)
    show "cv_files some_checkout some_digest (StateID some_binding) = Files [some_entry]" by (simp add: some_checkout_def)
    show "expectedCheckoutEntries (cv_kinds some_checkout) [some_entry] = Inr (some_expected, [(''a'', ''d'')])"
      using some_expected_derived by (simp add: some_checkout_def)
    show "cv_open some_checkout ''/checkout'' = Some (Object 0x41ED 4096 [] [(''a'', Object 0x81A4 3 [] [])])"
      by (simp add: some_checkout_def some_tree_def)
    show "checkoutKind 0x41ED = ''dir''" by code_simp
    show "sound_tree (Object 0x41ED 4096 [] [(''a'', Object 0x81A4 3 [] [])])" by (simp add: checkoutKind_def)
    show "\<forall>e \<in> set [some_entry]. plain_name (fe_Path e)" by (simp add: some_entry_def plain_name_def)
  qed (simp_all add: some_walk_measured, simp_all add: some_checkout_def inj_on_def)
  moreover have "set (map stated some_walk) = stated ` snd ` set some_expected" by (simp add: some_walk_def some_expected_def)
  ultimately show ?thesis by simp
qed

section \<open>A launch\<close>

definition stacked_app :: Application where
  "stacked_app = some_parent\<lparr>ap_ParsedDependencies := [], ap_ImageDigest := ''i'', ap_ParsedLayers := [some_digest], ap_ParsedBinaries := [''/usr/bin/b'', ''/usr/bin/a'']\<rparr>"

definition enrolled_app :: Application where "enrolled_app = stacked_app\<lparr>ap_ParsedBinaries := [''/usr/bin/a'', ''/usr/bin/b'']\<rparr>"

definition some_launch_store :: launch_store where
  "some_launch_store = \<lparr>ln_checkout = some_checkout\<lparr>cv_sha256 := (\<lambda>_. ''r1'')\<rparr>, ln_states = (\<lambda>_. States [''s1'']), ln_encode = (\<lambda>_. []),
     ln_digest = (\<lambda>_ _. hex64), ln_backend = Backend_driver, ln_driver = Some ''overlay'',
     ln_index = Index ''overlay'' (\<lambda>_. Some ''/checkout'')\<rparr>"

lemma stacked_root: "launchPackageRoot some_launch_store stacked_app [] [] = Inr hex64"
  by code_simp

lemma default_policy_root: "PolicyRoot (hx_policy (ae_hashes some_env)) NewOverride = Inr hex64"
  by code_simp

lemma stacked_layers: "composedLayers stacked_app [] [] = [some_digest]"
  by code_simp

lemma stacked_state: "measureLaunchStates some_launch_store \<lparr>ms_Disagreements = [], ms_Unrecorded = [], ms_Unmeasured = []\<rparr> [some_digest] =
    Inr \<lparr>ms_Disagreements = [], ms_Unrecorded = [], ms_Unmeasured = []\<rparr>"
  by code_simp

lemma stacked_checkout: "verifyPreparedCheckout (ln_checkout some_launch_store) some_digest ''/checkout'' = Inr (True, True)"
  by code_simp

lemma stacked_measured: "measureLaunch some_launch_store [some_digest] = Inr \<lparr>ms_Disagreements = [], ms_Unrecorded = [], ms_Unmeasured = []\<rparr>"
proof -
  have "ln_backend some_launch_store = Backend_driver" "ln_driver some_launch_store = Some ''overlay''"
    "ln_index some_launch_store = Index ''overlay'' (\<lambda>_. Some ''/checkout'')" by (simp_all add: some_launch_store_def)
  then show ?thesis
    using stacked_checkout
    by (simp add: measureLaunch_def stacked_state measureLaunchCheckouts_def launchCheckoutDirectories_def bind_result_def
        del: measureLaunchStates.simps)
qed

lemma some_anchor_loaded: "Load some_env enrolled_ledger 1000 (ap_Origin stacked_app) = Inr (Some (er_Anchor (some_enrolment 3)))"
  by code_simp

lemma some_gate_passes:
  "\<exists>identity. gateSessionLaunch some_env enrolled_ledger some_launch_store refusing_settings 1000 stacked_app NewOverride [] [] [] =
     Inr (identity, None)"
proof -
  have "hx_sha256 (ae_hashes some_env) = (\<lambda>_. hex64)" by (simp add: some_env_def some_hashes_def)
  then show ?thesis
    by (simp add: gateSessionLaunch_def verifySessionLaunch_def stacked_root default_policy_root stacked_layers stacked_measured
        some_anchor_loaded bind_result_def Let_def launchRefusal_def LaunchRoot_def some_enrolment_def)
qed

theorem gate_admits_only_what_is_enrolled_witness:
  "\<exists>anchor described packageRoot policyRoot.
      Load some_env enrolled_ledger 1000 (ap_Origin stacked_app) = Inr (Some anchor) \<and>
      launchPackage some_launch_store stacked_app [] [] = Inr described \<and>
      PackageRoot (ln_digest some_launch_store) described = Inr packageRoot \<and>
      PolicyRoot (hx_policy (ae_hashes some_env)) NewOverride = Inr policyRoot \<and>
      (if [] = ([] :: string) then Some (an_LaunchRoot anchor) else map_of (an_SessionRoots anchor) []) =
        Some (LaunchRoot (hx_sha256 (ae_hashes some_env)) packageRoot policyRoot) \<and>
      (\<forall>layer \<in> set (composedLayers stacked_app [] []).
         measured_sound some_launch_store layer \<and>
         (\<exists>b \<in> set (pk_Layers described). layer_binding some_launch_store layer = Inr (Some b)))"
proof -
  obtain identity where "gateSessionLaunch some_env enrolled_ledger some_launch_store refusing_settings 1000 stacked_app NewOverride [] [] [] =
      Inr (identity, None)" using some_gate_passes ..
  moreover have "Enforcement refusing_settings = EnforcementRefuse" by code_simp
  ultimately show ?thesis by (intro gate_admits_only_what_is_enrolled disjI1)
qed

lemma stacked_packages:
  "\<exists>p. launchPackage some_launch_store stacked_app [] [] = Inr p \<and> pk_Binaries p = [''/usr/bin/b'', ''/usr/bin/a'']"
  "\<exists>p. launchPackage some_launch_store enrolled_app [] [] = Inr p \<and> pk_Binaries p = [''/usr/bin/a'', ''/usr/bin/b'']"
proof -
  let ?p = "launchPackage some_launch_store stacked_app [] []" and ?q = "launchPackage some_launch_store enrolled_app [] []"
  have "\<not> isl ?p" "pk_Binaries (projr ?p) = [''/usr/bin/b'', ''/usr/bin/a'']" by code_simp+
  then show "\<exists>p. ?p = Inr p \<and> pk_Binaries p = [''/usr/bin/b'', ''/usr/bin/a'']" by (cases ?p) auto
  have "\<not> isl ?q" "pk_Binaries (projr ?q) = [''/usr/bin/a'', ''/usr/bin/b'']" by code_simp+
  then show "\<exists>p. ?q = Inr p \<and> pk_Binaries p = [''/usr/bin/a'', ''/usr/bin/b'']" by (cases ?q) auto
qed

lemma same_canonical_package:
  "canonicalPackage (projr (launchPackage some_launch_store stacked_app [] [])) =
   canonicalPackage (projr (launchPackage some_launch_store enrolled_app [] []))"
  by code_simp


section \<open>Requests\<close>

definition bare_codec :: wire_codec where
  "bare_codec = \<lparr>wc_policy = (\<lambda>_. ''policy''), wc_decode_policy = (\<lambda>_. Some NewOverride), wc_state = (\<lambda>_. ''state''),
     wc_decode_state = (\<lambda>_. None), wc_base64 = (\<lambda>b. b), wc_unbase64 = Some, wc_decode_trust = (\<lambda>_. None),
     wc_document = (\<lambda>_. ''document''), wc_decode_document = (\<lambda>_. None)\<rparr>"

definition some_service :: service_env where
  "some_service = \<lparr>se_env = some_env, se_codec = bare_codec, se_registry = some_registry, se_faults = session_io, se_unmade = False,
     se_unwritten = False, se_now = 0, se_random = None, se_installed = True,
     se_authorizer = Some (\<lambda>_ action _. action = ActionEnrolAnchor), se_callerUID = Some (\<lambda>_. Some 1000)\<rparr>"

definition some_authority_state :: authority where
  "some_authority_state = \<lparr>sv_sessions = some_sessions, sv_ledger = enrolled_ledger, sv_settings = refusing_settings, sv_local = []\<rparr>"

definition forgetting :: socketRequest where
  "forgetting = (request_of anchorForgetAction)\<lparr>sq_UID := 1000, sq_Origin := ''github.com/acme/editor''\<rparr>"

definition after_forgetting :: authority where
  "after_forgetting = snd (socket_apply some_service (Some 1000) forgetting some_authority_state)"


definition some_client :: client where
  "some_client = \<lparr>ct_service = some_service, ct_restarted = True, ct_root = False, ct_sender = '':1.7'', ct_bus = Bus_answers,
     ct_delivered = By_value, ct_socket = True, ct_peer = Some 1000, ct_encode_request = (\<lambda>_. []),
     ct_decode_request = (\<lambda>_. None), ct_escalates = False\<rparr>"

theorem bus_errors_are_read_one_way_witness:
  "(\<forall>a policy evidence confirmation env s token w.
      fst (signedEnrolmentRequestOverBus some_client a policy evidence confirmation env s) \<notin>
        {Some (Confirmation_needed token w), Some (Refused_for_reputation w)}) \<or>
   (\<forall>a policy evidence confirmation env s.
      \<not> staleOnBus (fst (signedEnrolmentRequestOverBus some_client a policy evidence confirmation env s)))"
proof -
  have "ct_delivered some_client = By_value \<or> ct_delivered some_client = By_pointer" by (simp add: some_client_def)
  then show ?thesis by (rule bus_errors_are_read_one_way)
qed

end
