(* ===== verification/Addons.thy ===== *)
theory Addons
  imports Composition Go_Path "HOL-Library.AList" "HOL-Library.Sublist" "HOL-Library.Char_ord" "HOL-Library.List_Lexorder"
begin

text \<open>
  \<^verbatim>\<open>pkg/cpak/addon.go\<close>: which installed packages are composed on top of an application, from what its
  manifest offers, what the owner turned on, off or chose for a slot, and which of several providers of
  one slot is taken; and the operations that change that choice.  A configuration is a file, kept under the path
  of its application; \<open>No_configuration\<close> is a file that does not exist.  Maps are association lists in the order
  the code happens to walk them.  \<^verbatim>\<open>strings.ToLower\<close> is modelled on ASCII, which is all an origin, a slot or a
  provider may hold.
\<close>

section \<open>Configurations\<close>

record addonConfiguration =
  ac_Version :: int
  ac_Enabled :: "string list"
  ac_Chosen :: "string list"
  ac_Disabled :: "string list"
  ac_Slots :: "(string \<times> string) list"

datatype configuration_file = No_configuration | Unreadable_configuration | Configuration addonConfiguration

datatype addon_error =
  Configuration_path string | Configuration_unreadable | Configuration_unsupported int
| No_longer_supported string | Addon_not_installed string | Slot_mixes_modes string
| Provider_ambiguous string string | Provider_unavailable string string
| Addon_composition string composition_error | Not_supported string | Not_enabled string
| Slot_takes_several string | Install_failed string | Addon_not_stored | Configuration_not_saved
| Addon_not_prepared | Containers_not_stopped | Addons_of string addon_error

definition addonConfigurationVersion :: int where "addonConfigurationVersion = 3"

definition plain_origin :: "string \<Rightarrow> string" where "plain_origin origin = foldASCII (TrimSpace origin)"

fun ordered_from :: "string list \<Rightarrow> string list \<Rightarrow> string list" where
  "ordered_from seen [] = []"
| "ordered_from seen (origin # rest) =
     (let origin = plain_origin origin in
      if origin = [] \<or> origin \<in> set seen then ordered_from seen rest else origin # ordered_from (origin # seen) rest)"

definition orderedOrigins :: "string list \<Rightarrow> string list" where "orderedOrigins origins = ordered_from [] origins"

definition normalizedOrigins :: "string list \<Rightarrow> string list" where "normalizedOrigins origins = sort (orderedOrigins origins)"

definition withoutOrigin :: "string list \<Rightarrow> string \<Rightarrow> string list" where
  "withoutOrigin origins remove = filter (\<lambda>origin. origin \<noteq> remove) (normalizedOrigins origins)"

definition supportedAddon :: "Application \<Rightarrow> string \<Rightarrow> bool" where
  "supportedAddon app origin \<longleftrightarrow> list_ex (\<lambda>supported. foldASCII supported = foldASCII origin) (ap_ParsedAddons app)"

text \<open>\<^verbatim>\<open>originSet\<close> as membership.\<close>

definition originSet :: "string list \<Rightarrow> string \<Rightarrow> bool" where
  "originSet origins origin \<longleftrightarrow> origin \<in> set (normalizedOrigins origins)"

text \<open>\<^verbatim>\<open>url.PathEscape\<close> and the path of a configuration under the home directory.\<close>

definition path_safe :: "char \<Rightarrow> bool" where
  "path_safe c \<longleftrightarrow> in_cls [(CHR ''0'', CHR ''9''), (CHR ''A'', CHR ''Z''), (CHR ''a'', CHR ''z'')] c \<or> c \<in> set ''-_.~$&+=:@''"

definition hex_upper :: "nat \<Rightarrow> char" where "hex_upper n = ''0123456789ABCDEF'' ! n"

definition PathEscape :: "string \<Rightarrow> string" where
  "PathEscape s = concat (map (\<lambda>c. if path_safe c then [c]
     else [CHR ''%'', hex_upper (of_char c div 16), hex_upper (of_char c mod 16)]) s)"

definition getCpakLocalName :: "string \<Rightarrow> string option" where
  "getCpakLocalName origin =
     (case split_on (CHR ''/'') origin of [host, owner, repository] \<Rightarrow> Some (Join [host, owner, repository]) | _ \<Rightarrow> None)"

definition addonConfigurationKey :: "Application \<Rightarrow> string" where
  "addonConfigurationKey app =
     (if ap_Branch app \<noteq> [] then ''branch-'' @ ap_Branch app
      else if ap_Release app \<noteq> [] then ''release''
      else if ap_Commit app \<noteq> [] then ''commit-'' @ ap_Commit app
      else ap_Version app)"

definition addonConfigurationPath :: "string option \<Rightarrow> Application \<Rightarrow> string option" where
  "addonConfigurationPath home app =
     (case home of None \<Rightarrow> None
      | Some home \<Rightarrow>
          (case getCpakLocalName (ap_Origin app) of None \<Rightarrow> None
           | Some localName \<Rightarrow>
               (let version = PathEscape (addonConfigurationKey app) in
                Some (Join [home, ''.config'', ''cpak'', ''addons'', localName, if version = [] then ''default'' else version, ''addons.json'']))))"

text \<open>The installed applications, the home directory and the configurations below it.\<close>

record addon_state =
  ad_store :: app_store
  ad_home :: "string option"
  ad_files :: "string \<Rightarrow> configuration_file"

abbreviation ad_apps :: "addon_state \<Rightarrow> Application list" where "ad_apps s \<equiv> st_Apps (ad_store s)"

definition empty_configuration :: addonConfiguration where
  "empty_configuration = \<lparr>ac_Version = 0, ac_Enabled = [], ac_Chosen = [], ac_Disabled = [], ac_Slots = []\<rparr>"

definition loadAddonConfiguration :: "addon_state \<Rightarrow> Application \<Rightarrow> addon_error + addonConfiguration" where
  "loadAddonConfiguration s app =
     (case addonConfigurationPath (ad_home s) app of None \<Rightarrow> Inl (Configuration_path (ap_Origin app))
      | Some path \<Rightarrow>
          (case ad_files s path of
             No_configuration \<Rightarrow> Inr empty_configuration
           | Unreadable_configuration \<Rightarrow> Inl Configuration_unreadable
           | Configuration c \<Rightarrow>
               if ac_Version c \<noteq> 1 \<and> ac_Version c \<noteq> 2 \<and> ac_Version c \<noteq> addonConfigurationVersion
               then Inl (Configuration_unsupported (ac_Version c)) else Inr c))"

definition loadEnabledAddons :: "addon_state \<Rightarrow> Application \<Rightarrow> addon_error + string list" where
  "loadEnabledAddons s app =
     bind_result (loadAddonConfiguration s app) (\<lambda>c. Inr (normalizedOrigins (ac_Enabled c @ ac_Chosen c)))"

definition normalized_slots :: "(string \<times> string) list \<Rightarrow> (string \<times> string) list" where
  "normalized_slots slots =
     foldl (\<lambda>normalized (slot, provider).
        let slot = plain_origin slot; provider = plain_origin provider in
        if slot \<noteq> [] \<and> provider \<noteq> [] then AList.update slot provider normalized else normalized) [] slots"

definition saved :: "addonConfiguration \<Rightarrow> addonConfiguration" where
  "saved c = \<lparr>ac_Version = addonConfigurationVersion, ac_Enabled = normalizedOrigins (ac_Enabled c),
     ac_Chosen = normalizedOrigins (ac_Chosen c), ac_Disabled = normalizedOrigins (ac_Disabled c),
     ac_Slots = normalized_slots (ac_Slots c)\<rparr>"

text \<open>
  What can go wrong outside the model: \<open>wf_unwritten\<close>, the new configuration is not put in place; \<open>wf_unsynced\<close>, it
  is and its directory does not reach the disk; then storage that is not prepared and containers that do not stop.
\<close>

record write_faults =
  wf_unwritten :: bool
  wf_unsynced :: bool
  wf_unprepared :: bool
  wf_unstopped :: bool

definition saveAddonConfiguration :: "write_faults \<Rightarrow> Application \<Rightarrow> addonConfiguration \<Rightarrow> addon_state \<Rightarrow> addon_error err \<times> addon_state" where
  "saveAddonConfiguration faults app c s =
     (case addonConfigurationPath (ad_home s) app of None \<Rightarrow> (Some (Configuration_path (ap_Origin app)), s)
      | Some path \<Rightarrow>
          if wf_unwritten faults then (Some Configuration_not_saved, s)
          else (fail_if (wf_unsynced faults) Configuration_not_saved, s\<lparr>ad_files := (ad_files s)(path := Configuration (saved c))\<rparr>))"

definition removeAddonConfiguration :: "bool \<Rightarrow> Application \<Rightarrow> addon_state \<Rightarrow> addon_error err \<times> addon_state" where
  "removeAddonConfiguration unremoved app s =
     (case addonConfigurationPath (ad_home s) app of None \<Rightarrow> (Some (Configuration_path (ap_Origin app)), s)
      | Some path \<Rightarrow>
          if unremoved \<and> ad_files s path \<noteq> No_configuration then (Some Configuration_not_saved, s)
          else (None, s\<lparr>ad_files := (ad_files s)(path := No_configuration)\<rparr>))"

section \<open>Which addons are active\<close>

definition installedAddon :: "Application list \<Rightarrow> string \<Rightarrow> store_error + Application" where
  "installedAddon apps origin =
     (case GetApplicationByOrigin apps origin [] ''main'' [] [] of
        Inr addon \<Rightarrow> if ap_CpakId addon \<noteq> [] then Inr addon else GetApplicationByOrigin apps origin [] [] [] []
      | Inl _ \<Rightarrow> GetApplicationByOrigin apps origin [] [] [] [])"

record addonCandidate =
  cd_application :: Application
  cd_explicit :: bool

fun candidates_of :: "Application list \<Rightarrow> Application \<Rightarrow> addonConfiguration \<Rightarrow> string list \<Rightarrow> addon_error + addonCandidate list" where
  "candidates_of apps app c [] = Inr []"
| "candidates_of apps app c (origin # rest) =
     (let chosen = originSet (ac_Chosen c) origin; explicit = originSet (ac_Enabled c @ ac_Chosen c) origin in
      if originSet (ac_Disabled c) origin then candidates_of apps app c rest
      else case installedAddon apps origin of
        Inl _ \<Rightarrow> if explicit then Inl (Addon_not_installed origin) else candidates_of apps app c rest
      | Inr addon \<Rightarrow>
          if ap_CpakId addon = [] then
            (if explicit then Inl (Addon_not_installed origin) else candidates_of apps app c rest)
          else if ap_ParsedAddonProvider addon = None \<and> \<not> explicit then candidates_of apps app c rest
          else if \<not> supportedAddon app origin \<and> \<not> chosen then candidates_of apps app c rest
          else bind_result (candidates_of apps app c rest)
            (\<lambda>cs. Inr (\<lparr>cd_application = addon, cd_explicit = explicit\<rparr> # cs)))"

text \<open>The groups by slot: the slots in the order they are first seen, and the candidates of each.\<close>

definition slot_of :: "addonCandidate \<Rightarrow> string option" where
  "slot_of cd = map_option pr_Slot (ap_ParsedAddonProvider (cd_application cd))"

definition slots_of :: "addonCandidate list \<Rightarrow> string list" where
  "slots_of cs = remdups (List.map_filter slot_of cs)"

definition slot_group :: "addonCandidate list \<Rightarrow> string \<Rightarrow> addonCandidate list" where
  "slot_group cs slot = filter (\<lambda>cd. slot_of cd = Some slot) cs"

definition mode_of :: "addonCandidate \<Rightarrow> string" where
  "mode_of cd = (case ap_ParsedAddonProvider (cd_application cd) of None \<Rightarrow> [] | Some p \<Rightarrow> pr_Mode p)"

definition mixed :: "addonCandidate list \<Rightarrow> string \<Rightarrow> bool" where
  "mixed cs slot \<longleftrightarrow> (case slot_group cs slot of [] \<Rightarrow> False | first # rest \<Rightarrow> list_ex (\<lambda>cd. mode_of cd \<noteq> mode_of first) rest)"

definition answers_to :: "string \<Rightarrow> addonCandidate \<Rightarrow> bool" where
  "answers_to selection cd \<longleftrightarrow>
     ap_Origin (cd_application cd) = selection \<or>
     (case ap_ParsedAddonProvider (cd_application cd) of None \<Rightarrow> False | Some p \<Rightarrow> pr_ID p = selection)"

text \<open>The candidates of one slot that are active: all of them, or the one that was selected, that was asked for, or
  that comes first.\<close>

definition active_in :: "addonConfiguration \<Rightarrow> string \<Rightarrow> addonCandidate list \<Rightarrow> addon_error + addonCandidate list" where
  "active_in c slot providers =
     (case providers of [] \<Rightarrow> Inr []
      | first # _ \<Rightarrow>
          if mode_of first = AddonSlotMultiple then Inr providers
          else
            (let selection = (case map_of (ac_Slots c) slot of None \<Rightarrow> [] | Some s \<Rightarrow> foldASCII s) in
             if selection \<noteq> [] then
               (case filter (answers_to selection) providers of
                  [] \<Rightarrow> Inl (Provider_unavailable selection slot)
                | [cd] \<Rightarrow> Inr [cd]
                | _ \<Rightarrow> Inl (Provider_ambiguous selection slot))
             else (case List.find cd_explicit providers of Some cd \<Rightarrow> Inr [cd] | None \<Rightarrow> Inr [first])))"

fun active_origins :: "addonConfiguration \<Rightarrow> addonCandidate list \<Rightarrow> string list \<Rightarrow> addon_error + string list" where
  "active_origins c cs [] = Inr []"
| "active_origins c cs (slot # rest) =
     bind_result (active_in c slot (slot_group cs slot)) (\<lambda>selected.
     bind_result (active_origins c cs rest) (\<lambda>origins.
       Inr (map (\<lambda>cd. ap_Origin (cd_application cd)) selected @ origins)))"

definition active_among :: "addonConfiguration \<Rightarrow> addonCandidate list \<Rightarrow> addon_error + Application list" where
  "active_among c cs =
     (case List.find (mixed cs) (slots_of cs) of Some slot \<Rightarrow> Inl (Slot_mixes_modes slot)
      | None \<Rightarrow>
          bind_result (active_origins c cs (slots_of cs)) (\<lambda>origins.
            let active = map (\<lambda>cd. ap_Origin (cd_application cd)) (filter (\<lambda>cd. slot_of cd = None) cs) @ origins in
            Inr (map cd_application (filter (\<lambda>cd. ap_Origin (cd_application cd) \<in> set active) cs))))"

definition activeAddonCandidatesFromStore :: "addon_state \<Rightarrow> Application \<Rightarrow> addon_error + Application list" where
  "activeAddonCandidatesFromStore s app =
     bind_result (loadAddonConfiguration s app) (\<lambda>c.
     case List.find (\<lambda>origin. \<not> supportedAddon app origin) (ac_Enabled c) of
       Some origin \<Rightarrow> Inl (No_longer_supported origin)
     | None \<Rightarrow>
         bind_result (candidates_of (ad_apps s) app c (orderedOrigins (ap_ParsedAddons app @ ac_Chosen c))) (active_among c))"

fun with_layers :: "Application list \<Rightarrow> Application list \<Rightarrow> addon_error + Application list" where
  "with_layers apps [] = Inr []"
| "with_layers apps (addon # rest) =
     (case resolveLayerDependenciesFromStore apps addon of
        Inl e \<Rightarrow> Inl (Addon_composition (ap_Origin addon) e)
      | Inr below \<Rightarrow> bind_result (with_layers apps rest) (\<lambda>addons. Inr (below @ addon # addons)))"

definition resolveEnabledAddonsFromStore :: "addon_state \<Rightarrow> Application \<Rightarrow> addon_error + Application list" where
  "resolveEnabledAddonsFromStore s app = bind_result (activeAddonCandidatesFromStore s app) (with_layers (ad_apps s))"

section \<open>Statuses\<close>

record AddonStatus =
  as_Origin :: string
  as_Enabled :: bool
  as_Installed :: bool
  as_Provider :: string
  as_Slot :: string
  as_Mode :: string

definition addon_status :: "Application list \<Rightarrow> Application list \<Rightarrow> string \<Rightarrow> AddonStatus" where
  "addon_status apps active origin =
     (let status = \<lparr>as_Origin = origin, as_Enabled = origin \<in> ap_Origin ` set active, as_Installed = False,
            as_Provider = [], as_Slot = [], as_Mode = []\<rparr>
      in case installedAddon apps origin of Inl _ \<Rightarrow> status
         | Inr installed \<Rightarrow>
             if ap_CpakId installed = [] then status
             else case ap_ParsedAddonProvider installed of None \<Rightarrow> status\<lparr>as_Installed := True\<rparr>
             | Some p \<Rightarrow> status\<lparr>as_Installed := True, as_Provider := pr_ID p, as_Slot := pr_Slot p, as_Mode := pr_Mode p\<rparr>)"

definition AddonStatuses :: "addon_state \<Rightarrow> Application \<Rightarrow> addon_error + AddonStatus list" where
  "AddonStatuses s app =
     bind_result (activeAddonCandidatesFromStore s app) (\<lambda>active.
     bind_result (loadAddonConfiguration s app) (\<lambda>c.
       Inr (map (addon_status (ad_apps s) active) (orderedOrigins (ap_ParsedAddons app @ ac_Chosen c)))))"

record AddonSlotStatus =
  sl_Slot :: string
  sl_Mode :: string
  sl_Active :: "string list"
  sl_Available :: "string list"

fun slot_statuses :: "AddonSlotStatus list \<Rightarrow> AddonStatus list \<Rightarrow> addon_error + AddonSlotStatus list" where
  "slot_statuses slots [] = Inr slots"
| "slot_statuses slots (status # rest) =
     (if as_Slot status = [] then slot_statuses slots rest
      else
        (let slots = (if list_ex (\<lambda>sl. sl_Slot sl = as_Slot status) slots then slots
              else slots @ [\<lparr>sl_Slot = as_Slot status, sl_Mode = as_Mode status, sl_Active = [], sl_Available = []\<rparr>]) in
         if list_ex (\<lambda>sl. sl_Slot sl = as_Slot status \<and> sl_Mode sl \<noteq> as_Mode status) slots then Inl (Slot_mixes_modes (as_Slot status))
         else slot_statuses (map (\<lambda>sl. if sl_Slot sl \<noteq> as_Slot status then sl
             else sl\<lparr>sl_Available := sl_Available sl @ (if as_Installed status then [as_Origin status] else []),
               sl_Active := sl_Active sl @ (if as_Enabled status then [as_Origin status] else [])\<rparr>) slots) rest))"

definition AddonSlots :: "addon_state \<Rightarrow> Application \<Rightarrow> addon_error + AddonSlotStatus list" where
  "AddonSlots s app = bind_result (AddonStatuses s app) (slot_statuses [])"

section \<open>Changing the choice\<close>

definition then_prepared :: "write_faults \<Rightarrow> addon_error err \<times> addon_state \<Rightarrow> addon_error err \<times> addon_state" where
  "then_prepared faults r =
     (case r of (Some e, s) \<Rightarrow> (Some e, s)
      | (None, s) \<Rightarrow> (if wf_unprepared faults then Some Addon_not_prepared
          else fail_if (wf_unstopped faults) Containers_not_stopped, s))"

definition with_selected :: "Application \<Rightarrow> string \<Rightarrow> string \<Rightarrow> addonConfiguration \<Rightarrow> addonConfiguration" where
  "with_selected app slot origin c =
     (let c = c\<lparr>ac_Slots := AList.update slot origin (ac_Slots c), ac_Disabled := withoutOrigin (ac_Disabled c) origin\<rparr> in
      if supportedAddon app origin then c\<lparr>ac_Enabled := ac_Enabled c @ [origin]\<rparr> else c\<lparr>ac_Chosen := ac_Chosen c @ [origin]\<rparr>)"

definition SelectAddonProvider :: "write_faults \<Rightarrow> Application \<Rightarrow> string \<Rightarrow> string \<Rightarrow> addon_state \<Rightarrow> addon_error err \<times> addon_state" where
  "SelectAddonProvider faults app slot provider s =
     (let slot = plain_origin slot; provider = plain_origin provider in
      case AddonStatuses s app of Inl e \<Rightarrow> (Some e, s)
      | Inr statuses \<Rightarrow>
          (case filter (\<lambda>st. as_Slot st = slot \<and> as_Installed st \<and> (as_Origin st = provider \<or> as_Provider st = provider)) statuses of
             [] \<Rightarrow> (Some (Provider_unavailable provider slot), s)
           | [selected] \<Rightarrow>
               if as_Mode selected \<noteq> AddonSlotExclusive then (Some (Slot_takes_several slot), s)
               else (case loadAddonConfiguration s app of Inl e \<Rightarrow> (Some e, s)
                 | Inr c \<Rightarrow> then_prepared faults (saveAddonConfiguration faults app (with_selected app slot (as_Origin selected) c) s))
           | _ \<Rightarrow> (Some (Provider_ambiguous provider slot), s)))"

definition with_enabled :: "Application \<Rightarrow> string \<Rightarrow> bool \<Rightarrow> Application \<Rightarrow> addonConfiguration \<Rightarrow> addonConfiguration" where
  "with_enabled app origin chosen installed c =
     (let c = (if chosen \<and> \<not> supportedAddon app origin then c\<lparr>ac_Chosen := ac_Chosen c @ [origin]\<rparr>
               else c\<lparr>ac_Enabled := ac_Enabled c @ [origin]\<rparr>);
          c = c\<lparr>ac_Disabled := withoutOrigin (ac_Disabled c) origin\<rparr>
      in case ap_ParsedAddonProvider installed of None \<Rightarrow> c
         | Some p \<Rightarrow> if pr_Mode p = AddonSlotExclusive then c\<lparr>ac_Slots := AList.update (pr_Slot p) origin (ac_Slots c)\<rparr> else c)"

text \<open>\<open>install\<close> is \<^verbatim>\<open>Install\<close> of the main branch of an origin, which changes what is installed or fails.\<close>

definition enableAddon :: "(string \<Rightarrow> app_store \<Rightarrow> app_store option) \<Rightarrow> write_faults \<Rightarrow> Application \<Rightarrow> string \<Rightarrow> bool \<Rightarrow>
    addon_state \<Rightarrow> addon_error err \<times> addon_state" where
  "enableAddon install faults app origin chosen s =
     (let origin = plain_origin origin in
      if \<not> supportedAddon app origin \<and> \<not> chosen then (Some (Not_supported origin), s)
      else case install origin (ad_store s) of None \<Rightarrow> (Some (Install_failed origin), s)
      | Some store \<Rightarrow>
          (let s = s\<lparr>ad_store := store\<rparr> in
           case loadEnabledAddons s app of Inl e \<Rightarrow> (Some e, s)
           | Inr enabled \<Rightarrow>
               if origin \<in> set enabled then (None, s)
               else (case loadAddonConfiguration s app of Inl e \<Rightarrow> (Some e, s)
                 | Inr c \<Rightarrow>
                     (case installedAddon (ad_apps s) origin of Inl _ \<Rightarrow> (Some Addon_not_stored, s)
                      | Inr installed \<Rightarrow>
                          then_prepared faults (saveAddonConfiguration faults app (with_enabled app origin chosen installed c) s)))))"

definition EnableAddon :: "(string \<Rightarrow> app_store \<Rightarrow> app_store option) \<Rightarrow> write_faults \<Rightarrow> Application \<Rightarrow> string \<Rightarrow>
    addon_state \<Rightarrow> addon_error err \<times> addon_state" where
  "EnableAddon install faults app origin s = enableAddon install faults app origin False s"

definition EnableChosenAddon :: "(string \<Rightarrow> app_store \<Rightarrow> app_store option) \<Rightarrow> write_faults \<Rightarrow> Application \<Rightarrow> string \<Rightarrow>
    addon_state \<Rightarrow> addon_error err \<times> addon_state" where
  "EnableChosenAddon install faults app origin s = enableAddon install faults app origin True s"

definition with_disabled :: "string \<Rightarrow> Application \<Rightarrow> addonConfiguration \<Rightarrow> addonConfiguration" where
  "with_disabled origin installed c =
     (let c = c\<lparr>ac_Enabled := withoutOrigin (ac_Enabled c) origin, ac_Chosen := withoutOrigin (ac_Chosen c) origin\<rparr>
      in case ap_ParsedAddonProvider installed of None \<Rightarrow> c
         | Some p \<Rightarrow>
             (let c = c\<lparr>ac_Disabled := ac_Disabled c @ [origin]\<rparr>;
                  selected = (case map_of (ac_Slots c) (pr_Slot p) of None \<Rightarrow> [] | Some v \<Rightarrow> v)
              in if selected = origin \<or> selected = pr_ID p then c\<lparr>ac_Slots := AList.delete (pr_Slot p) (ac_Slots c)\<rparr> else c))"

definition DisableAddon :: "write_faults \<Rightarrow> Application \<Rightarrow> string \<Rightarrow> addon_state \<Rightarrow> addon_error err \<times> addon_state" where
  "DisableAddon faults app origin s =
     (let origin = plain_origin origin in
      case activeAddonCandidatesFromStore s app of Inl e \<Rightarrow> (Some e, s)
      | Inr active \<Rightarrow>
          if origin \<notin> ap_Origin ` set active then (Some (Not_enabled origin), s)
          else case installedAddon (ad_apps s) origin of Inl _ \<Rightarrow> (Some Addon_not_stored, s)
          | Inr installed \<Rightarrow>
              (case loadAddonConfiguration s app of Inl e \<Rightarrow> (Some e, s)
               | Inr c \<Rightarrow> then_prepared faults (saveAddonConfiguration faults app (with_disabled origin installed c) s)))"

fun addon_users :: "addon_state \<Rightarrow> string \<Rightarrow> Application list \<Rightarrow> addon_error + Application list" where
  "addon_users s origin [] = Inr []"
| "addon_users s origin (app # rest) =
     (case loadEnabledAddons s app of Inl e \<Rightarrow> Inl (Addons_of (ap_Origin app) e)
      | Inr configured \<Rightarrow>
          if originSet configured origin then bind_result (addon_users s origin rest) (\<lambda>users. Inr (app # users))
          else (case activeAddonCandidatesFromStore s app of Inl e \<Rightarrow> Inl (Addons_of (ap_Origin app) e)
            | Inr enabled \<Rightarrow>
                bind_result (addon_users s origin rest)
                  (\<lambda>users. Inr (if origin \<in> ap_Origin ` set enabled then app # users else users))))"

definition addonUsers :: "addon_state \<Rightarrow> string \<Rightarrow> addon_error + Application list" where
  "addonUsers s origin = addon_users s (foldASCII origin) (ad_apps s)"

section \<open>What is active\<close>

lemma ordered_from_set: "o' \<in> set (ordered_from seen xs) \<longleftrightarrow> o' \<noteq> [] \<and> o' \<notin> set seen \<and> (\<exists>x\<in>set xs. o' = plain_origin x)"
  by (induction seen xs rule: ordered_from.induct) (auto simp: Let_def)

lemma ordered_from_distinct: "distinct (ordered_from seen xs)"
  by (induction seen xs rule: ordered_from.induct) (auto simp: Let_def ordered_from_set)

lemma orderedOrigins_distinct: "distinct (orderedOrigins xs)"
  by (simp add: orderedOrigins_def ordered_from_distinct)

lemma originSet_iff: "originSet xs o' \<longleftrightarrow> o' \<noteq> [] \<and> (\<exists>x\<in>set xs. o' = plain_origin x)"
  by (simp add: originSet_def normalizedOrigins_def orderedOrigins_def ordered_from_set)

lemma GetApplicationByOrigin_Inr:
  assumes "GetApplicationByOrigin apps origin version branch commit release = Inr a"
  shows "a \<in> set apps \<and> ap_Origin a = origin"
proof -
  from assms have "a \<in> set (GetApplicationsByOrigin apps origin version branch commit release)"
    by (auto simp: GetApplicationByOrigin_def split: list.splits)
  then show ?thesis by (simp add: GetApplicationsByOrigin_def)
qed

lemma distinct_subseq: "subseq xs ys \<Longrightarrow> distinct ys \<Longrightarrow> distinct xs"
  by (induction rule: list_emb.induct) (auto dest: list_emb_set)

lemma installedAddon_Inr: "installedAddon apps origin = Inr a \<Longrightarrow> a \<in> set apps \<and> ap_Origin a = origin"
  by (auto simp: installedAddon_def split: sum.splits if_splits dest: GetApplicationByOrigin_Inr)

text \<open>What makes an installed addon a candidate.\<close>

definition candidate_for :: "Application list \<Rightarrow> Application \<Rightarrow> addonConfiguration \<Rightarrow> addonCandidate \<Rightarrow> bool" where
  "candidate_for apps app c cd \<longleftrightarrow>
     (let a = cd_application cd; origin = ap_Origin a in
      installedAddon apps origin = Inr a \<and> ap_CpakId a \<noteq> [] \<and> \<not> originSet (ac_Disabled c) origin \<and>
      cd_explicit cd = originSet (ac_Enabled c @ ac_Chosen c) origin \<and> (ap_ParsedAddonProvider a = None \<longrightarrow> cd_explicit cd) \<and>
      (supportedAddon app origin \<or> originSet (ac_Chosen c) origin))"

lemma candidates_sound:
  "candidates_of apps app c origins = Inr cs \<Longrightarrow>
   (\<forall>cd\<in>set cs. candidate_for apps app c cd) \<and> subseq (map (\<lambda>cd. ap_Origin (cd_application cd)) cs) origins"
proof (induction origins arbitrary: cs)
  case (Cons origin rest)
  have skip: ?case if "candidates_of apps app c rest = Inr cs"
    using Cons.IH [OF that] by (auto intro: list_emb_Cons)
  show ?case
  proof (cases "candidates_of apps app c rest = Inr cs")
    case False
    with Cons.prems obtain a cs' where a: "\<not> originSet (ac_Disabled c) origin" "installedAddon apps origin = Inr a" "ap_CpakId a \<noteq> []"
        "ap_ParsedAddonProvider a = None \<longrightarrow> originSet (ac_Enabled c @ ac_Chosen c) origin"
        "supportedAddon app origin \<or> originSet (ac_Chosen c) origin"
        "candidates_of apps app c rest = Inr cs'"
        "cs = \<lparr>cd_application = a, cd_explicit = originSet (ac_Enabled c @ ac_Chosen c) origin\<rparr> # cs'"
      by (auto simp: Let_def bind_result_Inr split: if_splits sum.splits)
    with Cons.IH [OF a(6)] installedAddon_Inr [OF a(2)] show ?thesis by (auto simp: candidate_for_def)
  qed (rule skip)
qed simp

lemma active_in_Inr:
  assumes "active_in c slot providers = Inr selected"
  shows "set selected \<subseteq> set providers"
    and "providers \<noteq> [] \<Longrightarrow> mode_of (hd providers) \<noteq> AddonSlotMultiple \<Longrightarrow> \<exists>cd. selected = [cd]"
proof -
  have one: "x \<in> set xs" if "filter P xs = [x]" for P x and xs :: "addonCandidate list"
    using arg_cong [OF that, of set] by auto
  show "set selected \<subseteq> set providers"
    using assms by (auto simp: active_in_def Let_def find_Some_iff split: list.splits if_splits option.splits dest: one [OF sym])
  show "\<exists>cd. selected = [cd]" if "providers \<noteq> []" "mode_of (hd providers) \<noteq> AddonSlotMultiple"
    using assms that unfolding active_in_def Let_def by (auto simp del: filter.simps split: list.splits if_splits option.splits)
qed

lemma active_origins_Inr:
  "active_origins c cs slots = Inr origins \<Longrightarrow> o' \<in> set origins \<Longrightarrow>
   \<exists>slot selected cd. active_in c slot (slot_group cs slot) = Inr selected \<and> cd \<in> set selected \<and> o' = ap_Origin (cd_application cd)"
  by (induction slots arbitrary: origins) (fastforce simp: bind_result_Inr)+

lemma slots_of_member: "cd \<in> set cs \<Longrightarrow> slot_of cd = Some slot \<Longrightarrow> slot \<in> set (slots_of cs)"
  by (force simp: slots_of_def List.map_filter_def)

lemma not_mixed:
  assumes "\<not> mixed cs slot" "cd \<in> set (slot_group cs slot)"
  shows "mode_of cd = mode_of (hd (slot_group cs slot))"
  using assms by (cases "slot_group cs slot") (auto simp: mixed_def list_ex_iff)

lemma active_among_Inr:
  assumes "active_among c cs = Inr active" and d: "distinct (map (\<lambda>cd. ap_Origin (cd_application cd)) cs)"
  shows "subseq active (map cd_application cs)"
    and "cd \<in> set cs \<Longrightarrow> cd' \<in> set cs \<Longrightarrow> cd_application cd \<in> set active \<Longrightarrow> cd_application cd' \<in> set active \<Longrightarrow>
      slot_of cd = Some slot \<Longrightarrow> slot_of cd' = Some slot \<Longrightarrow> mode_of cd \<noteq> AddonSlotMultiple \<Longrightarrow> cd = cd'"
proof -
  let ?o = "\<lambda>cd. ap_Origin (cd_application cd)"
  from assms(1) obtain origins where plain: "\<forall>slot\<in>set (slots_of cs). \<not> mixed cs slot"
    and or: "active_origins c cs (slots_of cs) = Inr origins"
    and active: "active = map cd_application (filter (\<lambda>cd. ?o cd \<in> set (map ?o (filter (\<lambda>cd. slot_of cd = None) cs) @ origins)) cs)"
    by (auto simp: active_among_def bind_result_Inr Let_def find_None_iff split: option.splits)
  show "subseq active (map cd_application cs)" unfolding active by (intro subseq_map) simp
  have one: "cd = cd'" if "cd \<in> set cs" "cd' \<in> set cs" "?o cd = ?o cd'" for cd cd'
    using d that by (auto simp: distinct_map dest: inj_onD)
  have chosen: "\<exists>selected. active_in c slot (slot_group cs slot) = Inr selected \<and> cd \<in> set selected"
    if "cd \<in> set cs" "cd_application cd \<in> set active" "slot_of cd = Some slot" for cd slot
  proof -
    from that(2) have "?o cd \<in> set (map ?o (filter (\<lambda>cd. slot_of cd = None) cs) @ origins)" unfolding active by auto
    moreover have "?o cd \<notin> set (map ?o (filter (\<lambda>cd. slot_of cd = None) cs))" using one that by fastforce
    ultimately have "?o cd \<in> set origins" by simp
    then obtain slot' selected cd'' where sel: "active_in c slot' (slot_group cs slot') = Inr selected" "cd'' \<in> set selected" "?o cd'' = ?o cd"
      using active_origins_Inr [OF or] by metis
    then have "cd'' \<in> set (slot_group cs slot')" using active_in_Inr(1) by blast
    then have "cd'' \<in> set cs" "slot_of cd'' = Some slot'" by (auto simp: slot_group_def)
    with one that sel show ?thesis by (metis option.inject)
  qed
  show "cd = cd'" if m: "cd \<in> set cs" "cd' \<in> set cs" "cd_application cd \<in> set active" "cd_application cd' \<in> set active"
      "slot_of cd = Some slot" "slot_of cd' = Some slot" "mode_of cd \<noteq> AddonSlotMultiple"
  proof -
    from chosen m obtain selected where sel: "active_in c slot (slot_group cs slot) = Inr selected" "cd \<in> set selected" "cd' \<in> set selected"
      by (metis sum.inject(2))
    have g: "cd \<in> set (slot_group cs slot)" using m by (simp add: slot_group_def)
    have "mode_of (hd (slot_group cs slot)) \<noteq> AddonSlotMultiple"
      using not_mixed [OF _ g] plain slots_of_member m by metis
    then obtain x where "selected = [x]" using active_in_Inr(2) [OF sel(1)] g by fastforce
    then show ?thesis using sel by simp
  qed
qed

text \<open>C37: An addon is composed only with somebody's word for it, and never against another: every active addon is
  installed, is one the application supports or the owner of the machine chose, was not turned off and, where it
  fills no slot, was turned on; no addon is taken twice, and of the providers of an exclusive slot one at most.\<close>

theorem active_addons_are_authorised:
  assumes "activeAddonCandidatesFromStore s app = Inr active" and "loadAddonConfiguration s app = Inr c"
  shows "distinct (map ap_Origin active) \<and>
    (\<forall>a\<in>set active. a \<in> set (ad_apps s) \<and> ap_CpakId a \<noteq> [] \<and> \<not> originSet (ac_Disabled c) (ap_Origin a) \<and>
       (supportedAddon app (ap_Origin a) \<or> originSet (ac_Chosen c) (ap_Origin a)) \<and>
       (ap_ParsedAddonProvider a = None \<longrightarrow> originSet (ac_Enabled c @ ac_Chosen c) (ap_Origin a))) \<and>
    (\<forall>a\<in>set active. \<forall>b\<in>set active. \<forall>p q. ap_ParsedAddonProvider a = Some p \<longrightarrow> ap_ParsedAddonProvider b = Some q \<longrightarrow>
       pr_Slot p = pr_Slot q \<longrightarrow> a \<noteq> b \<longrightarrow> pr_Mode p = AddonSlotMultiple)"
proof -
  from assms obtain cs where cs: "candidates_of (ad_apps s) app c (orderedOrigins (ap_ParsedAddons app @ ac_Chosen c)) = Inr cs"
    and act: "active_among c cs = Inr active"
    by (auto simp: activeAddonCandidatesFromStore_def bind_result_Inr split: option.splits)
  note sound = candidates_sound [OF cs]
  have d: "distinct (map (\<lambda>cd. ap_Origin (cd_application cd)) cs)"
    using sound orderedOrigins_distinct distinct_subseq by blast
  note sub = active_among_Inr(1) [OF act d]
  have "distinct (map ap_Origin active)"
    using subseq_map [OF sub, of ap_Origin] d distinct_subseq by (fastforce simp: comp_def)
  moreover have candidate: "\<exists>cd\<in>set cs. a = cd_application cd" if "a \<in> set active" for a
    using list_emb_set [OF sub that] by auto
  moreover have "pr_Mode p = AddonSlotMultiple"
    if "a \<in> set active" "b \<in> set active" "ap_ParsedAddonProvider a = Some p" "ap_ParsedAddonProvider b = Some q" "pr_Slot p = pr_Slot q" "a \<noteq> b"
    for a b p q
  proof -
    from candidate that obtain x y where "x \<in> set cs" "a = cd_application x" "y \<in> set cs" "b = cd_application y" by blast
    with active_among_Inr(2) [OF act d, of x y "pr_Slot p"] that show ?thesis by (auto simp: slot_of_def mode_of_def)
  qed
  moreover have "a \<in> set (ad_apps s) \<and> ap_CpakId a \<noteq> [] \<and> \<not> originSet (ac_Disabled c) (ap_Origin a) \<and>
       (supportedAddon app (ap_Origin a) \<or> originSet (ac_Chosen c) (ap_Origin a)) \<and>
       (ap_ParsedAddonProvider a = None \<longrightarrow> originSet (ac_Enabled c @ ac_Chosen c) (ap_Origin a))" if "a \<in> set active" for a
  proof -
    from candidate [OF that] obtain cd where cd: "candidate_for (ad_apps s) app c cd" "cd_application cd = a" using sound by blast
    note facts = cd(1) [unfolded candidate_for_def Let_def cd(2)]
    then have "a \<in> set (ad_apps s)" using installedAddon_Inr by blast
    with facts show ?thesis by metis
  qed
  ultimately show ?thesis by blast
qed

text \<open>C38: An addon a new version of the application no longer supports cannot be turned off: while it is among the
  enabled ones every question about the application's addons fails, turning an addon off or selecting a provider is
  refused and changes nothing, and so does asking whether anything else is in use as an addon, which is what
  the removal of every other package begins with.\<close>

theorem dropped_addon_cannot_be_disabled:
  assumes "loadAddonConfiguration s app = Inr c" and "origin \<in> set (ac_Enabled c)" and "\<not> supportedAddon app origin"
  shows "\<exists>dropped. \<not> supportedAddon app dropped \<and> AddonStatuses s app = Inl (No_longer_supported dropped) \<and>
    (\<forall>faults o'. DisableAddon faults app o' s = (Some (No_longer_supported dropped), s)) \<and>
    (\<forall>faults slot provider. SelectAddonProvider faults app slot provider s = (Some (No_longer_supported dropped), s)) \<and>
    (app \<in> set (ad_apps s) \<longrightarrow> (\<forall>other. \<not> originSet (normalizedOrigins (ac_Enabled c @ ac_Chosen c)) (foldASCII other) \<longrightarrow> isl (addonUsers s other)))"
proof -
  obtain dropped where f: "List.find (\<lambda>o'. \<not> supportedAddon app o') (ac_Enabled c) = Some dropped"
    using assms(2,3) by (cases "List.find (\<lambda>o'. \<not> supportedAddon app o') (ac_Enabled c)") (auto simp: find_None_iff)
  then have n: "\<not> supportedAddon app dropped" by (auto simp: find_Some_iff)
  have a: "activeAddonCandidatesFromStore s app = Inl (No_longer_supported dropped)"
    using assms(1) f by (simp add: activeAddonCandidatesFromStore_def bind_result_def)
  have "isl (addon_users s o' apps)" if "app \<in> set apps" "\<not> originSet (normalizedOrigins (ac_Enabled c @ ac_Chosen c)) o'" for o' apps
    using that
    by (induction apps) (auto simp: bind_result_def loadEnabledAddons_def assms(1) a split: sum.splits)
  then show ?thesis
    using n a by (auto simp: AddonStatuses_def DisableAddon_def SelectAddonProvider_def addonUsers_def bind_result_def Let_def)
qed

end
