(* ===== verification/Removal.thy ===== *)
theory Removal
  imports Addons
begin

text \<open>
  \<^verbatim>\<open>remove\<close> of \<^verbatim>\<open>pkg/cpak/installer.go\<close>: taking an installation out of the store.  What it does outside the store and
  the addon configurations, and may fail to do, is a list of effects: stopping the containers, giving up login
  sessions, removing exports, the rollback history, unshared layers and data, and giving up the integrity anchor.
\<close>

datatype removal_error =
  Nothing_installed string | Several_installed string | No_source_selector string | No_such_installation string
| Addons_unreadable addon_error | Used_as_addon "string list" | Required_by "string list" | Step_failed string

datatype removal_effect =
  Containers_stopped string | Sessions_disabled "login_session list" | Exports_removed string | History_cleared string
| Layers_removed string | Data_purged string bool | Enrolment_forgotten string

record removal_faults =
  rf_containers :: bool
  rf_sessions :: bool
  rf_configuration :: bool
  rf_history :: bool
  rf_layers :: bool
  rf_data :: bool

definition version_selected :: "string \<Rightarrow> string \<Rightarrow> string \<Rightarrow> Application \<Rightarrow> bool" where
  "version_selected branch commit release app \<longleftrightarrow>
     branch \<noteq> [] \<and> ap_Branch app = branch \<or> commit \<noteq> [] \<and> ap_Commit app = commit \<or> release \<noteq> [] \<and> ap_Release app = release"

definition sessionsRemovedByVersionSelection ::
  "Application list \<Rightarrow> string \<Rightarrow> string \<Rightarrow> string \<Rightarrow> login_session list \<times> nat" where
  "sessionsRemovedByVersionSelection apps branch commit release =
     (let remaining = filter (\<lambda>app. \<not> version_selected branch commit release app) apps;
          selected = concat (map ap_ParsedSessions (filter (version_selected branch commit release) apps))
      in (filter (\<lambda>session. ls_ID session \<notin> ls_ID ` set (concat (map ap_ParsedSessions remaining))) selected, length remaining))"

definition dependencyUsers :: "Application list \<Rightarrow> string \<Rightarrow> Application list" where
  "dependencyUsers apps i = filter (\<lambda>app. list_ex (\<lambda>dependency. dp_Id dependency = i) (ap_ParsedDependencies app)) apps"

text \<open>The selectors a removal goes on with, and the installation it is about.\<close>

definition removal_selectors ::
  "Application list \<Rightarrow> string \<Rightarrow> string \<Rightarrow> string \<Rightarrow> string \<Rightarrow> removal_error + string \<times> string \<times> string" where
  "removal_selectors apps origin branch commit release =
     (if branch = [] \<and> commit = [] \<and> release = [] then
        (case GetApplicationsByOrigin apps origin [] [] [] [] of
           [] \<Rightarrow> Inl (Nothing_installed origin)
         | [app] \<Rightarrow>
             if ap_Branch app = [] \<and> ap_Commit app = [] \<and> ap_Release app = [] then Inl (No_source_selector origin)
             else Inr (ap_Branch app, ap_Commit app, ap_Release app)
         | _ \<Rightarrow> Inl (Several_installed origin))
      else Inr (branch, commit, release))"

definition selected_by :: "Application list \<Rightarrow> string \<Rightarrow> string \<times> string \<times> string \<Rightarrow> removal_error + Application" where
  "selected_by apps origin selectors =
     (case selectors of (branch, commit, release) \<Rightarrow>
        case GetApplicationByOrigin apps origin [] branch commit release of
          Inl _ \<Rightarrow> Inl (No_such_installation origin)
        | Inr app \<Rightarrow> if ap_CpakId app = [] then Inl (No_such_installation origin) else Inr app)"

definition selected_for_removal ::
  "Application list \<Rightarrow> string \<Rightarrow> string \<Rightarrow> string \<Rightarrow> string \<Rightarrow> removal_error + (string \<times> string \<times> string) \<times> Application" where
  "selected_for_removal apps origin branch commit release =
     bind_result (removal_selectors apps origin branch commit release) (\<lambda>selectors.
     bind_result (selected_by apps origin selectors) (\<lambda>app. Inr (selectors, app)))"

definition removed_from_store :: "string \<Rightarrow> string \<Rightarrow> string \<Rightarrow> string \<Rightarrow> app_store \<Rightarrow> app_store" where
  "removed_from_store origin branch commit release store =
     (if branch \<noteq> [] then RemoveApplicationByOriginAndBranch origin branch store
      else if commit \<noteq> [] then RemoveApplicationByOriginAndCommit origin commit store
      else RemoveApplicationByOriginAndRelease origin release store)"

text \<open>What follows once the removal is agreed to.\<close>

definition carry_out :: "removal_faults \<Rightarrow> string \<Rightarrow> string \<Rightarrow> string \<Rightarrow> string \<Rightarrow> Application \<Rightarrow> bool \<Rightarrow> addon_state \<Rightarrow>
    removal_error err \<times> addon_state \<times> removal_effect list" where
  "carry_out faults origin branch commit release app purge s =
     (let (sessions, remaining) = sessionsRemovedByVersionSelection (GetApplicationsByOrigin (ad_apps s) origin [] [] [] []) branch commit release;
          stopped = [Containers_stopped (ap_CpakId app)]
      in if rf_containers faults then (Some (Step_failed ''containers''), s, [])
         else if sessions \<noteq> [] \<and> rf_sessions faults then (Some (Step_failed ''sessions''), s, stopped)
         else
           (let s = s\<lparr>ad_store := removed_from_store origin branch commit release (ad_store s)\<rparr>;
                effects = stopped @ (if sessions = [] then [] else [Sessions_disabled sessions]) @ [Exports_removed (ap_CpakId app)]
            in case removeAddonConfiguration (rf_configuration faults) app s of
                 (Some _, s) \<Rightarrow> (Some (Step_failed ''configuration''), s, effects)
               | (None, s) \<Rightarrow>
                   if rf_history faults then (Some (Step_failed ''history''), s, effects)
                   else if rf_layers faults then (Some (Step_failed ''layers''), s, effects @ [History_cleared origin])
                   else if purge \<and> rf_data faults
                   then (Some (Step_failed ''data''), s, effects @ [History_cleared origin, Layers_removed (ap_CpakId app)])
                   else (None, s, effects @ [History_cleared origin, Layers_removed (ap_CpakId app)] @
                     (if purge then [Data_purged (ap_CpakId app) (remaining = 0)] else []) @ [Enrolment_forgotten (ap_Origin app)])))"

definition remove :: "removal_faults \<Rightarrow> string \<Rightarrow> string \<Rightarrow> string \<Rightarrow> string \<Rightarrow> bool \<Rightarrow> addon_state \<Rightarrow>
    removal_error err \<times> addon_state \<times> removal_effect list" where
  "remove faults origin branch commit release purge s =
     (case selected_for_removal (ad_apps s) origin branch commit release of
        Inl e \<Rightarrow> (Some e, s, [])
      | Inr ((branch, commit, release), app) \<Rightarrow>
          (case addonUsers s (ap_Origin app) of
             Inl e \<Rightarrow> (Some (Addons_unreadable e), s, [])
           | Inr users \<Rightarrow>
               if users \<noteq> [] then (Some (Used_as_addon (map ap_Origin users)), s, [])
               else
                 (let users = dependencyUsers (ad_apps s) (ap_CpakId app) in
                  if users \<noteq> [] then (Some (Required_by (map ap_Origin users)), s, [])
                  else carry_out faults origin branch commit release app purge s)))"

section \<open>Properties\<close>

lemma addon_users_Nil:
  "addon_users s origin apps = Inr users \<Longrightarrow> app \<in> set apps \<Longrightarrow> app \<notin> set users \<Longrightarrow>
   \<exists>enabled. activeAddonCandidatesFromStore s app = Inr enabled \<and> origin \<notin> ap_Origin ` set enabled"
proof (induction apps arbitrary: users)
  case (Cons x xs)
  from Cons.prems(1) obtain users' where u: "addon_users s origin xs = Inr users'" "set users' \<subseteq> set users"
      "x \<in> set users \<or> (\<exists>enabled. activeAddonCandidatesFromStore s x = Inr enabled \<and> origin \<notin> ap_Origin ` set enabled)"
    by (auto simp: bind_result_Inr subset_insertI split: sum.splits if_splits)
  then show ?case using Cons.IH [OF u(1)] Cons.prems(2,3) by auto
qed simp

lemma selected_for_removal_Inr:
  assumes "selected_for_removal apps origin b c r = Inr ((branch, commit, release), app)"
  shows "app \<in> set apps \<and> ap_Origin app = origin \<and> ap_CpakId app \<noteq> [] \<and> (branch \<noteq> [] \<or> commit \<noteq> [] \<or> release \<noteq> []) \<and>
   (branch = [] \<or> ap_Branch app = branch) \<and> (commit = [] \<or> ap_Commit app = commit) \<and> (release = [] \<or> ap_Release app = release)"
proof -
  from assms have "removal_selectors apps origin b c r = Inr (branch, commit, release)" and picked: "selected_by apps origin (branch, commit, release) = Inr app"
    by (auto simp: selected_for_removal_def bind_result_Inr)
  then have sel: "branch \<noteq> [] \<or> commit \<noteq> [] \<or> release \<noteq> []"
    by (auto simp: removal_selectors_def split: list.splits if_split_asm)
  from picked have get: "GetApplicationByOrigin apps origin [] branch commit release = Inr app" and i: "ap_CpakId app \<noteq> []"
    by (auto simp: selected_by_def split: if_split_asm sum.splits)
  from get have "app \<in> set (GetApplicationsByOrigin apps origin [] branch commit release)"
    by (auto simp: GetApplicationByOrigin_def split: list.splits)
  then show ?thesis using i sel unfolding GetApplicationsByOrigin_def set_filter mem_Collect_eq by blast
qed

lemma removed_from_store_exact:
  assumes "stored_well store" and "branch \<noteq> [] \<or> commit \<noteq> [] \<or> release \<noteq> []"
  shows "st_Apps (removed_from_store origin branch commit release store) =
    filter (\<lambda>a. \<not> (ap_Origin a = origin \<and>
      (if branch \<noteq> [] then ap_Branch a = branch else if commit \<noteq> [] then ap_Commit a = commit else ap_Release a = release))) (st_Apps store)"
proof -
  have r: "st_Apps (remove_each (filter P (st_Apps store)) store) = filter (\<lambda>a. \<not> P a) (st_Apps store)" for P
    using assms(1) remove_each_filter by (simp add: stored_well_def)
  show ?thesis
    using assms(2) unfolding removed_from_store_def RemoveApplicationByOriginAndBranch_def RemoveApplicationByOriginAndCommit_def
      RemoveApplicationByOriginAndRelease_def GetApplicationsByOrigin_def filter_filter
    by (auto simp: r intro!: filter_cong)
qed

lemma carry_out_store:
  "carry_out faults origin branch commit release app purge s = (None, s', effects) \<Longrightarrow>
   ad_store s' = removed_from_store origin branch commit release (ad_store s) \<and> effects \<noteq> [] \<and>
   last effects = Enrolment_forgotten (ap_Origin app)"
  by (auto simp: carry_out_def removeAddonConfiguration_def Let_def split: prod.splits if_splits option.splits)

lemma carry_out_refused: "fst (carry_out faults origin branch commit release app purge s) = Some e \<Longrightarrow> \<exists>step. e = Step_failed step"
  by (auto simp: carry_out_def Let_def split: prod.splits if_splits option.splits)

lemma removal_carried_out:
  assumes "remove faults origin b c r purge s = (None, s', effects)"
  obtains branch commit release app where
    "selected_for_removal (ad_apps s) origin b c r = Inr ((branch, commit, release), app)" "addonUsers s (ap_Origin app) = Inr []"
    "dependencyUsers (ad_apps s) (ap_CpakId app) = []" "carry_out faults origin branch commit release app purge s = (None, s', effects)"
  using assms by (auto simp: remove_def Let_def split: sum.splits if_splits)


text \<open>C40: Removing one commit of a branch removes the branch: the selectors pick the installation that is checked, and
  where they name a branch every installation of the origin on that branch leaves the store, whatever its commit and
  whoever depends on it.\<close>

theorem branch_removal_takes_every_commit:
  assumes "stored_well (ad_store s)" and "remove faults origin branch commit release purge s = (None, s', effects)" and "branch \<noteq> []"
    and "other \<in> set (ad_apps s)" and "ap_Origin other = origin" and "ap_Branch other = branch"
  shows "other \<notin> set (ad_apps s')"
proof -
  from assms(2) obtain branch' commit' release' app where
    sel: "selected_for_removal (ad_apps s) origin branch commit release = Inr ((branch', commit', release'), app)"
    and out: "carry_out faults origin branch' commit' release' app purge s = (None, s', effects)"
    by (rule removal_carried_out)
  have "branch' = branch" using sel assms(3) by (auto simp: selected_for_removal_def removal_selectors_def bind_result_Inr)
  then show ?thesis
    using carry_out_store [OF out] removed_from_store_exact [OF assms(1), of branch' commit' release' origin] assms(3,5,6) by simp
qed

end
