(* ===== verification/Package_Instances.thy ===== *)
theory Package_Instances
  imports Removal Concrete_Instances
begin

text \<open>
  The properties of addons and removals at concrete inputs: an editor that supports two compilers, one of which can
  be active at a time.
\<close>

definition compiler :: "string \<Rightarrow> Application" where
  "compiler name = bare_application\<lparr>ap_CpakId := name, ap_Name := name, ap_Origin := ''github.com/acme/'' @ name, ap_Branch := ''main'',
     ap_ParsedAddonProvider := Some \<lparr>pr_ID = name, pr_Slot = ''compiler'', pr_Mode = AddonSlotExclusive,
       pr_Exports = \<lparr>ax_Path = [], ax_LibraryPath = [], ax_IncludePath = [], ax_PkgConfigPath = [], ax_CMakePrefixPath = [],
         ax_Environment = []\<rparr>\<rparr>\<rparr>"

definition extended_editor :: Application where
  "extended_editor = some_parent\<lparr>ap_Branch := ''main'', ap_ParsedDependencies := [],
     ap_ParsedAddons := [''github.com/acme/gcc'', ''github.com/acme/clang'']\<rparr>"

definition compilers :: addon_state where
  "compilers = \<lparr>ad_store = \<lparr>st_Apps = [extended_editor, compiler ''gcc'', compiler ''clang''], st_Containers = []\<rparr>,
     ad_home = Some ''/home/ada'', ad_files = (\<lambda>_. No_configuration)\<rparr>"

definition no_faults :: write_faults where
  "no_faults = \<lparr>wf_unwritten = False, wf_unsynced = False, wf_unprepared = False, wf_unstopped = False\<rparr>"

definition enabled_once :: "string \<Rightarrow> addon_state \<Rightarrow> addon_state" where
  "enabled_once name s = snd (EnableAddon (\<lambda>_ store. Some store) no_faults extended_editor (''github.com/acme/'' @ name) s)"

lemma gcc_is_active: "activeAddonCandidatesFromStore (enabled_once ''gcc'' compilers) extended_editor = Inr [compiler ''gcc'']"
  by code_simp

theorem active_addons_are_authorised_witness: "supportedAddon extended_editor (ap_Origin (compiler ''gcc'')) \<and> ap_CpakId (compiler ''gcc'') \<noteq> []"
proof -
  have "\<not> isl (loadAddonConfiguration (enabled_once ''gcc'' compilers) extended_editor)" by code_simp
  then obtain c where c: "loadAddonConfiguration (enabled_once ''gcc'' compilers) extended_editor = Inr c"
    by (cases "loadAddonConfiguration (enabled_once ''gcc'' compilers) extended_editor") auto
  then have chosen: "ac_Chosen c = ac_Chosen (projr (loadAddonConfiguration (enabled_once ''gcc'' compilers) extended_editor))" by simp
  have "ac_Chosen c = []" unfolding chosen by code_simp
  then have "\<not> originSet (ac_Chosen c) (ap_Origin (compiler ''gcc''))" by (simp add: originSet_iff)
  with active_addons_are_authorised [OF gcc_is_active c] show ?thesis by simp
qed

text \<open>Turning on a provider that is already among the enabled ones is reported as done and does not select it.\<close>

lemma enabling_again_does_not_select:
  "(let s = enabled_once ''clang'' (enabled_once ''gcc'' compilers) in
     fst (EnableAddon (\<lambda>_ store. Some store) no_faults extended_editor ''github.com/acme/gcc'' s) = None \<and>
     activeAddonCandidatesFromStore (enabled_once ''gcc'' s) extended_editor = Inr [compiler ''clang''])"
  by code_simp

definition narrowed_editor :: Application where
  "narrowed_editor = extended_editor\<lparr>ap_ParsedAddons := [''github.com/acme/clang'']\<rparr>"

theorem dropped_addon_cannot_be_disabled_witness:
  "\<exists>dropped. DisableAddon no_faults narrowed_editor ''github.com/acme/gcc'' (enabled_once ''gcc'' compilers) =
     (Some (No_longer_supported dropped), enabled_once ''gcc'' compilers)"
proof -
  let ?loaded = "loadAddonConfiguration (enabled_once ''gcc'' compilers) narrowed_editor"
  have "\<not> isl ?loaded" by code_simp
  then obtain c where c: "?loaded = Inr c" by (cases ?loaded) auto
  then have "ac_Enabled c = ac_Enabled (projr ?loaded)" by simp
  moreover have "''github.com/acme/gcc'' \<in> set (ac_Enabled (projr ?loaded))" by code_simp
  ultimately have "''github.com/acme/gcc'' \<in> set (ac_Enabled c)" by simp
  moreover have "\<not> supportedAddon narrowed_editor ''github.com/acme/gcc''" by code_simp
  ultimately show ?thesis using dropped_addon_cannot_be_disabled [OF c] by blast
qed

definition no_removal_faults :: removal_faults where
  "no_removal_faults = \<lparr>rf_containers = False, rf_sessions = False, rf_configuration = False, rf_history = False, rf_layers = False, rf_data = False\<rparr>"


definition two_commits :: addon_state where
  "two_commits = compilers\<lparr>ad_store := \<lparr>st_Apps = [compiler ''clang'', (compiler ''clang'')\<lparr>ap_CpakId := ''other'', ap_Commit := ''c0ffee''\<rparr>],
     st_Containers = []\<rparr>\<rparr>"

theorem branch_removal_takes_every_commit_witness:
  "compiler ''clang'' \<notin> set (ad_apps (fst (snd (remove no_removal_faults ''github.com/acme/clang'' ''main'' ''c0ffee'' [] False two_commits))))"
proof -
  let ?r = "remove no_removal_faults ''github.com/acme/clang'' ''main'' ''c0ffee'' [] False two_commits"
  have "stored_well (ad_store two_commits)" by code_simp
  moreover have "fst ?r = None" by code_simp
  then have "?r = (None, fst (snd ?r), snd (snd ?r))" by (metis prod.collapse)
  ultimately show ?thesis
    by (rule branch_removal_takes_every_commit) (simp_all add: two_commits_def compiler_def)
qed

end
