(* ===== verification/Spec2Isabelle.thy ===== *)
theory Spec2Isabelle
  imports Concrete_Instances Sandbox_Instances Store_Instances Launch_Instances Package_Instances Host_Actions
begin

text \<open>
  A verification library of \<^bold>\<open>cpak\<close>, a package manager that runs applications from OCI images in confinement
  and starts only what a ledger kept by a system service recognises.  The sources are Go, under \<^verbatim>\<open>src/\<close>.

  \<^bold>\<open>The program.\<close>  An installation unpacks the layers of an image into states of a repository and binds every
  layer to its state (\<^verbatim>\<open>pkg/integrity/bindings.go\<close>).  The client then derives what a launch of the application is
  (\<^verbatim>\<open>pkg/cpak/verify.go\<close>, \<^verbatim>\<open>composition.go\<close>, \<^verbatim>\<open>addon.go\<close>) and asks the system authority to record it, with the
  policy it runs under and, where there is one, the publisher's signature (\<^verbatim>\<open>pkg/systemauthority\<close>).  The authority
  decides what it records by the administrator's trust policy, signature setting and reputation snapshots
  (\<^verbatim>\<open>pkg/trustpolicy\<close>, \<^verbatim>\<open>pkg/reputation\<close>, \<^verbatim>\<open>pkg/signature\<close>), and what it puts to the owner of the machine by
  comparing policies (\<^verbatim>\<open>pkg/integrity/policy.go\<close>).  A launch is measured again and compared with the record by the gate.
  While an application runs, its requests go through a bus proxy (\<^verbatim>\<open>pkg/desktopbus\<close>), a broker
  (\<^verbatim>\<open>pkg/systembroker\<close>), file grants (\<^verbatim>\<open>pkg/filegrant\<close>) and nested runs (\<^verbatim>\<open>pkg/cpak/nested_auth.go\<close>).

  \<^bold>\<open>The theories\<close>, in the order they build on each other; each opens with what it holds.

  \<^item> \<^verbatim>\<open>Cpak_Prelude\<close>, \<^verbatim>\<open>Regex\<close>, \<^verbatim>\<open>Go_Path\<close>, \<^verbatim>\<open>Go_Time\<close>, \<^verbatim>\<open>Safe_Text\<close>, \<^verbatim>\<open>Restriction\<close>, \<^verbatim>\<open>Ratchet\<close>: errors as values, strings,
    regular expressions, paths and times as the sources use them, text that is safe to show, and the interfaces the
    components are interpretations of: \<open>restriction\<close>, a preorder of permissions, with its lower bounds and meets;
    \<open>ratchet\<close>, a level that no step of a history lowers; \<open>invariant\<close>, what every step of a history keeps.
  \<^item> \<^verbatim>\<open>Permissions\<close>, \<^verbatim>\<open>Dbus_Policy\<close>, \<^verbatim>\<open>Host_Actions\<close> (\<^verbatim>\<open>pkg/types\<close>), \<^verbatim>\<open>Policy_Order\<close> (\<^verbatim>\<open>pkg/integrity\<close>), \<^verbatim>\<open>Confinement\<close>
    (\<^verbatim>\<open>pkg/cpak/nested_auth.go\<close>, \<^verbatim>\<open>pkg/systemauthority/ceiling.go\<close>): the permission record with its 44 members, file
    system grants and what they resolve to, canonical policies and their roots, the order \<^verbatim>\<open>Restricts\<close>, and
    the meets that hold a nested run, a package nobody named and a host under its ceiling.
  \<^item> \<^verbatim>\<open>Origins\<close>, \<^verbatim>\<open>Trust_Policy\<close>, \<^verbatim>\<open>Reputation\<close>, \<^verbatim>\<open>Reputation_Policy\<close>, \<^verbatim>\<open>Signed_State\<close>, \<^verbatim>\<open>Evidence\<close>: the administrator's
    decisions about origins, publishers and reputation, snapshots, the signed state with its canonical bytes, and
    verification records.
  \<^item> \<^verbatim>\<open>Enrolment\<close>, \<^verbatim>\<open>Confirmations\<close>, \<^verbatim>\<open>Anchor_Ledger\<close>, \<^verbatim>\<open>Enforcement_Store\<close>, \<^verbatim>\<open>Reputation_Store\<close>, \<^verbatim>\<open>Session_Registry\<close>,
    \<^verbatim>\<open>Trusted_Files\<close> (\<^verbatim>\<open>pkg/systemauthority\<close>): what the authority keeps.  A ledger is a map from paths to records and
    tombstones; a store is a directory whose files can be missing, forged or unreadable.  Files that fail to be
    written are arguments, so that every prefix of an operation is a behaviour of the model.
  \<^item> \<^verbatim>\<open>Authority_Service\<close>, \<^verbatim>\<open>Authority_Requests\<close> (\<^verbatim>\<open>service.go\<close>, \<^verbatim>\<open>socket.go\<close>, \<^verbatim>\<open>client.go\<close>, \<^verbatim>\<open>anchor.go\<close>): the methods of
    the service over the bus and the socket with what each asks of polkit, and the client's way through them.
  \<^item> \<^verbatim>\<open>Applications\<close>, \<^verbatim>\<open>Application_Store\<close>, \<^verbatim>\<open>Composition\<close>, \<^verbatim>\<open>Addons\<close>, \<^verbatim>\<open>Removal\<close>, \<^verbatim>\<open>Layer_Bindings\<close>, \<^verbatim>\<open>Checkout\<close>,
    \<^verbatim>\<open>Launch_Gate\<close> (\<^verbatim>\<open>pkg/types\<close>, \<^verbatim>\<open>pkg/cpak\<close>): what is installed, what a launch is composed of, the measurement of
    layers and prepared checkouts, the verdict and the gate, and taking a package away.
  \<^item> \<^verbatim>\<open>Bus_Wire\<close>, \<^verbatim>\<open>Bus_Auth\<close>, \<^verbatim>\<open>Desktop_Bus\<close>, \<^verbatim>\<open>Image_Reference\<close>, \<^verbatim>\<open>Container_Broker\<close>, \<^verbatim>\<open>File_Grants\<close>: the proxies and
    services a running application reaches.
  \<^item> \<^verbatim>\<open>Concrete_Instances\<close>, \<^verbatim>\<open>Sandbox_Instances\<close>, \<^verbatim>\<open>Store_Instances\<close>, \<^verbatim>\<open>Launch_Instances\<close>, \<^verbatim>\<open>Package_Instances\<close>: every
    property with hypotheses at a concrete input.

  Definitions carry the names of the sources; fields of a record carry a prefix of two letters.  A definition in
  lower case with underscores is a loop or a part of the function it is used in.  A \<^verbatim>\<open>uint32\<close> or \<^verbatim>\<open>uint64\<close> is a word and
  wraps; an \<^verbatim>\<open>int\<close> that is a length or a mode is a number.  Errors are datatypes with one constructor per message.

  \<^bold>\<open>What is shown.\<close>  The ledger never goes back: along every history of enrolments, removals, interrupted removals and
  changed settings an accepted enrolment is at least what was held in generation and signature, what is recorded was
  admitted by the trust policy and, unprompted, never widens.  The gate starts only what was recorded, down to the
  layers, their states and the shape of their checkouts, for hashes that tell the compared descriptions apart.  An
  account without the administrator's password changes only its own records.  Policies are ordered by a transitive
  relation, meets are below their parts, and nested runs and pulled-in packages run under such meets.  Signed states,
  records and grants round-trip.  The proxies forward only granted calls, also along every sequence of messages.
  Walks over dependencies, authentication dialogues and searches end.  Several theorems state what the code does where
  that is not what it means to do; the findings name them.

  \<^bold>\<open>Bounds.\<close>  \<open>visit\<close> recurses as deep as the store has applications, which \<open>layer_resolution_ends\<close> shows to be enough;
  \<open>add_parents\<close> walks as many parents as a path has bytes, which \<open>implicit_pass_ends\<close> shows to be enough.  Every other
  loop is structural or has a termination proof.

  \<^bold>\<open>Parameters.\<close>  SHA-256 and the digests built on it, Ed25519, the verifiers of Sigstore and X.509, JSON documents, the
  storage index and the states of the repository, polkit, the peer of a socket and the random token are arguments of the
  definitions.  Hypotheses about them are injectivity on the compared values, that a digest is hexadecimal or holds no line
  break, and that a document decodes to what was encoded; each property that has one is applied to a concrete parameter.

  \<^bold>\<open>Not modelled.\<close>  Namespaces, mounts, seccomp, Landlock and cgroups, whose meaning is the kernel's; HTTP, the registry
  and the download half of an installation; the windows of the desktop; size limits on files read; case folding and
  quoting beyond ASCII; the words of error messages; concurrency of two processes on one directory, which the sources
  exclude by locks and atomic renames.
\<close>

end
